(* ===== verification/Prelude.thy ===== *)
theory Prelude
  imports "HOL-Library.Word"
begin

text \<open>
  Shared vocabulary of the development: the machine integers of the Rust sources, the two
  identifier newtypes, an executable model of \<^verbatim>\<open>alloc::collections::BTreeMap\<close> (an association
  list kept in key order), little-endian byte strings, and a generic run of a step function.
  The lemmas on maps are collected in \<open>bt_simps\<close> and used by every component.
\<close>

section \<open>Machine integers and identifiers\<close>

type_synonym u8 = "8 word"
type_synonym u32 = "32 word"
type_synonym u64 = "64 word"
type_synonym i32 = "32 word"
type_synonym i64 = "64 word"
type_synonym usize = nat

text \<open>
  \<^verbatim>\<open>u8\<close>, \<^verbatim>\<open>u32\<close> and \<^verbatim>\<open>u64\<close> are words: \<open>+\<close> wraps, which is what the release profile of the
  workspace does (it does not turn \<^verbatim>\<open>overflow-checks\<close> on). An \<^verbatim>\<open>i32\<close> or \<^verbatim>\<open>i64\<close> is the word of
  its two's complement. A \<^verbatim>\<open>usize\<close> is a natural number
  where it is the length of a collection in memory.
\<close>

datatype process_id = ProcessId (pid_raw: u64)
datatype endpoint_id = EndpointId (eid_raw: u64)

text \<open>Both newtypes derive \<^verbatim>\<open>PartialOrd\<close> and \<^verbatim>\<open>Ord\<close>: they are keys of ordered maps.\<close>

instantiation process_id :: linorder
begin

definition less_eq_process_id :: "process_id \<Rightarrow> process_id \<Rightarrow> bool" where
  "less_eq_process_id a b \<longleftrightarrow> pid_raw a \<le> pid_raw b"

definition less_process_id :: "process_id \<Rightarrow> process_id \<Rightarrow> bool" where
  "less_process_id a b \<longleftrightarrow> pid_raw a < pid_raw b"

instance
  by standard (auto simp: less_eq_process_id_def less_process_id_def process_id.expand)

end

instantiation endpoint_id :: linorder
begin

definition less_eq_endpoint_id :: "endpoint_id \<Rightarrow> endpoint_id \<Rightarrow> bool" where
  "less_eq_endpoint_id a b \<longleftrightarrow> eid_raw a \<le> eid_raw b"

definition less_endpoint_id :: "endpoint_id \<Rightarrow> endpoint_id \<Rightarrow> bool" where
  "less_endpoint_id a b \<longleftrightarrow> eid_raw a < eid_raw b"

instance
  by standard (auto simp: less_eq_endpoint_id_def less_endpoint_id_def endpoint_id.expand)

end

lemma process_id_order [simp]:
  "ProcessId a \<le> ProcessId b \<longleftrightarrow> a \<le> b" "ProcessId a < ProcessId b \<longleftrightarrow> a < b"
  by (simp_all add: less_eq_process_id_def less_process_id_def)

lemma endpoint_id_order [simp]:
  "EndpointId a \<le> EndpointId b \<longleftrightarrow> a \<le> b" "EndpointId a < EndpointId b \<longleftrightarrow> a < b"
  by (simp_all add: less_eq_endpoint_id_def less_endpoint_id_def)

text \<open>A counter that has not reached the top of its type steps to a strictly larger value.\<close>

lemma unat_succ:
  fixes w :: "'a::len word"
  assumes "w \<noteq> - 1"
  shows "unat (w + 1) = Suc (unat w)"
proof -
  have "1 + w \<noteq> 0"
    using assms by (metis add.commute add_eq_0_iff)
  then show ?thesis
    by (simp add: unatSuc add.commute [of w])
qed

lemma word_less_succ:
  fixes w :: "'a::len word"
  assumes "w \<noteq> - 1"
  shows "x < w + 1 \<longleftrightarrow> x \<le> w"
  using unat_succ [OF assms] by (simp add: word_less_nat_alt word_le_nat_alt less_Suc_eq_le)

section \<open>Ordered maps\<close>

type_synonym ('k, 'v) btree_map = "('k \<times> 'v) list"

named_theorems bt_simps \<open>lookups, domains and order of ordered maps after an operation\<close>

abbreviation bt_get :: "('k, 'v) btree_map \<Rightarrow> 'k \<Rightarrow> 'v option" where
  "bt_get m k \<equiv> map_of m k"

fun bt_insert :: "'k::linorder \<Rightarrow> 'v \<Rightarrow> ('k, 'v) btree_map \<Rightarrow> ('k, 'v) btree_map" where
  "bt_insert k v [] = [(k, v)]"
| "bt_insert k v (e # m) =
     (if fst e < k then e # bt_insert k v m
      else if fst e = k then (k, v) # m
      else (k, v) # e # m)"

definition bt_remove :: "'k \<Rightarrow> ('k, 'v) btree_map \<Rightarrow> ('k, 'v) btree_map" where
  "bt_remove k m = filter (\<lambda>e. fst e \<noteq> k) m"

text \<open>What a block under \<^verbatim>\<open>if let Some(x) = map.get_mut(k)\<close> does to the map.\<close>

definition bt_modify :: "'k \<Rightarrow> ('v \<Rightarrow> 'v) \<Rightarrow> ('k, 'v) btree_map \<Rightarrow> ('k, 'v) btree_map" where
  "bt_modify k f m = map (\<lambda>e. (fst e, if fst e = k then f (snd e) else snd e)) m"

definition bt_contains :: "('k, 'v) btree_map \<Rightarrow> 'k \<Rightarrow> bool" where
  "bt_contains m k \<longleftrightarrow> bt_get m k \<noteq> None"

definition bt_map :: "('v \<Rightarrow> 'w) \<Rightarrow> ('k, 'v) btree_map \<Rightarrow> ('k, 'w) btree_map" where
  "bt_map f m = map (\<lambda>e. (fst e, f (snd e))) m"

definition bt_wf :: "('k::linorder, 'v) btree_map \<Rightarrow> bool" where
  "bt_wf m \<longleftrightarrow> sorted_wrt (<) (map fst m)"

lemma bt_get_insert [simp, bt_simps]: "bt_get (bt_insert k v m) = (bt_get m)(k \<mapsto> v)"
  by (induction m) (auto simp: fun_eq_iff)

lemma bt_get_remove [simp, bt_simps]: "bt_get (bt_remove k m) = (bt_get m)(k := None)"
  by (induction m) (auto simp: bt_remove_def fun_eq_iff)

lemma bt_get_modify [simp, bt_simps]:
  "bt_get (bt_modify k f m) = (bt_get m)(k := map_option f (bt_get m k))"
  by (induction m) (auto simp: bt_modify_def fun_eq_iff)

lemma bt_get_map [simp, bt_simps]: "bt_get (bt_map f m) k = map_option f (bt_get m k)"
  by (induction m) (auto simp: bt_map_def)

lemma bt_contains_dom: "bt_contains m k \<longleftrightarrow> k \<in> dom (bt_get m)"
  by (auto simp: bt_contains_def)

lemma bt_modify_absent [bt_simps]: "bt_get m k = None \<Longrightarrow> bt_modify k f m = m"
  by (induction m) (auto simp: bt_modify_def split: if_splits)

lemma bt_set_insert: "set (bt_insert k v m) \<subseteq> insert (k, v) (set m)"
  by (induction m) auto

lemma bt_keys_insert [bt_simps]: "fst ` set (bt_insert k v m) = insert k (fst ` set m)"
  by (induction m) (auto simp: image_iff split: if_splits)

lemma bt_keys_remove [bt_simps]: "fst ` set (bt_remove k m) = fst ` set m - {k}"
  by (auto simp: bt_remove_def)

lemma bt_keys_modify [simp, bt_simps]: "map fst (bt_modify k f m) = map fst m"
  by (simp add: bt_modify_def)

lemma bt_keys_map [simp, bt_simps]: "map fst (bt_map f m) = map fst m"
  by (simp add: bt_map_def)

lemma bt_wf_empty [simp, intro]: "bt_wf []"
  by (simp add: bt_wf_def)

lemma bt_wf_insert [intro, bt_simps]: "bt_wf m \<Longrightarrow> bt_wf (bt_insert k v m)"
proof (induction m)
  case (Cons e m)
  then show ?case
    by (auto simp: bt_wf_def dest!: subsetD [OF bt_set_insert])
qed (simp add: bt_wf_def)

lemma bt_wf_remove [intro, bt_simps]: "bt_wf m \<Longrightarrow> bt_wf (bt_remove k m)"
  by (induction m) (auto simp: bt_wf_def bt_remove_def)

lemma bt_wf_modify [simp, bt_simps]: "bt_wf (bt_modify k f m) \<longleftrightarrow> bt_wf m"
  by (simp add: bt_wf_def)

lemma bt_wf_map [simp, bt_simps]: "bt_wf (bt_map f m) \<longleftrightarrow> bt_wf m"
  by (simp add: bt_wf_def)

lemma bt_wf_distinct: "bt_wf m \<Longrightarrow> distinct (map fst m)"
  by (simp add: bt_wf_def strict_sorted_iff)

lemma bt_in_set_iff: "bt_wf m \<Longrightarrow> (k, v) \<in> set m \<longleftrightarrow> bt_get m k = Some v"
  by (simp add: bt_wf_distinct)

text \<open>Two maps in key order that agree on every lookup are the same list.\<close>

lemma bt_ext:
  assumes "bt_wf m" "bt_wf m'" "bt_get m = bt_get m'"
  shows "m = m'"
proof -
  have "set m = set m'"
    using assms by (auto simp: bt_in_set_iff)
  with assms show ?thesis
    by (metis bt_wf_def bt_wf_distinct inj_on_Un distinct_map map_sorted_distinct_set_unique
        strict_sorted_iff sup.idem)
qed

lemma bt_map_insert [bt_simps]: "bt_map f (bt_insert k v m) = bt_insert k (f v) (bt_map f m)"
  by (induction m) (auto simp: bt_map_def)

lemma bt_map_remove [bt_simps]: "bt_map f (bt_remove k m) = bt_remove k (bt_map f m)"
  by (induction m) (auto simp: bt_map_def bt_remove_def)

lemma bt_map_modify:
  assumes "\<And>v. bt_get m k = Some v \<Longrightarrow> f (g v) = h (f v)" "distinct (map fst m)"
  shows "bt_map f (bt_modify k g m) = bt_modify k h (bt_map f m)"
  using assms by (auto simp: bt_map_def bt_modify_def)

lemma bt_map_modify_invisible:
  assumes "\<And>v. f (g v) = f v"
  shows "bt_map f (bt_modify k g m) = bt_map f m"
  using assms by (auto simp: bt_map_def bt_modify_def)

lemma bt_modify_id [bt_simps]: "(\<And>v. f v = v) \<Longrightarrow> bt_modify k f m = m"
  by (induction m) (auto simp: bt_modify_def)

lemma bt_modify_same:
  assumes "bt_wf m" "\<And>v. bt_get m k = Some v \<Longrightarrow> f v = v"
  shows "bt_modify k f m = m"
  unfolding bt_modify_def
  by (rule map_idI) (use assms in \<open>auto simp: bt_in_set_iff\<close>)

lemma bt_remove_absent: "bt_get m k = None \<Longrightarrow> bt_remove k m = m"
  by (induction m) (auto simp: bt_remove_def split: if_splits)

lemma bt_values_insert:
  "v \<in> snd ` set (bt_insert k w m) \<Longrightarrow> v = w \<or> v \<in> snd ` set m"
  using bt_set_insert [of k w m] by force

lemma bt_values_remove: "v \<in> snd ` set (bt_remove k m) \<Longrightarrow> v \<in> snd ` set m"
  by (auto simp: bt_remove_def)

section \<open>Little-endian byte strings\<close>

fun nat_le_bytes :: "nat \<Rightarrow> nat \<Rightarrow> u8 list" where
  "nat_le_bytes 0 v = []"
| "nat_le_bytes (Suc n) v = word_of_nat v # nat_le_bytes n (v div 256)"

definition u32_to_le_bytes :: "u32 \<Rightarrow> u8 list" where
  "u32_to_le_bytes w = nat_le_bytes 4 (unat w)"

definition u64_to_le_bytes :: "u64 \<Rightarrow> u8 list" where
  "u64_to_le_bytes w = nat_le_bytes 8 (unat w)"

fun le_bytes_nat :: "u8 list \<Rightarrow> nat" where
  "le_bytes_nat [] = 0"
| "le_bytes_nat (b # bs) = unat b + 256 * le_bytes_nat bs"

definition u32_from_le_bytes :: "u8 list \<Rightarrow> u32" where
  "u32_from_le_bytes bs = word_of_nat (le_bytes_nat bs)"

lemma length_nat_le_bytes [simp]: "length (nat_le_bytes n v) = n"
  by (induction n arbitrary: v) auto

lemma length_u32_to_le_bytes [simp]: "length (u32_to_le_bytes w) = 4"
  by (simp add: u32_to_le_bytes_def)

lemma length_u64_to_le_bytes [simp]: "length (u64_to_le_bytes w) = 8"
  by (simp add: u64_to_le_bytes_def)

lemma le_bytes_nat_inverse: "le_bytes_nat (nat_le_bytes n v) = v mod 256 ^ n"
proof (induction n arbitrary: v)
  case (Suc n)
  have "unat (word_of_nat v :: u8) = v mod 256"
    by (simp add: unat_of_nat)
  then show ?case
    using Suc by (simp add: mod_mult2_eq add.commute)
qed simp

lemma u32_le_bytes_inverse [simp]: "u32_from_le_bytes (u32_to_le_bytes w) = w"
proof -
  have "unat w < 256 ^ 4"
  proof -
    have "unat w < 2 ^ LENGTH(32)"
      by (rule unsigned_less)
    then show ?thesis by simp
  qed
  then show ?thesis
    by (simp add: u32_from_le_bytes_def u32_to_le_bytes_def le_bytes_nat_inverse)
qed

section \<open>Runs of a step function\<close>

fun run :: "('s \<Rightarrow> 'i \<Rightarrow> 's) \<Rightarrow> 's \<Rightarrow> 'i list \<Rightarrow> 's" where
  "run step s [] = s"
| "run step s (i # is) = run step (step s i) is"

text \<open>Every input of the run satisfies \<open>ok\<close> in the state it is executed in.\<close>

fun run_ok :: "('s \<Rightarrow> 'i \<Rightarrow> 's) \<Rightarrow> ('s \<Rightarrow> 'i \<Rightarrow> bool) \<Rightarrow> 's \<Rightarrow> 'i list \<Rightarrow> bool" where
  "run_ok step ok s [] = True"
| "run_ok step ok s (i # is) = (ok s i \<and> run_ok step ok (step s i) is)"

lemma run_append: "run step s (xs @ ys) = run step (run step s xs) ys"
  by (induction xs arbitrary: s) auto

lemma run_ok_append:
  "run_ok step ok s (xs @ ys) \<longleftrightarrow> run_ok step ok s xs \<and> run_ok step ok (run step s xs) ys"
  by (induction xs arbitrary: s) auto

text \<open>
  The contract between a step function and an invariant: each step that is allowed keeps
  the invariant and moves along a preorder. Clients get the same for whole runs.
\<close>

locale guarded_machine =
  fixes step :: "'s \<Rightarrow> 'i \<Rightarrow> 's"
    and ok :: "'s \<Rightarrow> 'i \<Rightarrow> bool"
    and inv :: "'s \<Rightarrow> bool"
    and le :: "'s \<Rightarrow> 's \<Rightarrow> bool"
  assumes step_inv: "inv s \<Longrightarrow> ok s i \<Longrightarrow> inv (step s i)"
    and step_le: "inv s \<Longrightarrow> ok s i \<Longrightarrow> le s (step s i)"
    and le_refl: "le s s"
    and le_trans: "le s t \<Longrightarrow> le t u \<Longrightarrow> le s u"
begin

lemma run_inv: "inv s \<Longrightarrow> run_ok step ok s is \<Longrightarrow> inv (run step s is)"
  by (induction "is" arbitrary: s) (auto intro: step_inv)

lemma run_le: "inv s \<Longrightarrow> run_ok step ok s is \<Longrightarrow> le s (run step s is)"
proof (induction "is" arbitrary: s)
  case (Cons i "is")
  then have "le (step s i) (run step (step s i) is)"
    by (auto intro: step_inv)
  with Cons.prems show ?case
    by (auto intro: le_trans step_le)
qed (simp add: le_refl)

end

end
