(* ===== verification/Capability.thy ===== *)
theory Capability
  imports Prelude
begin

unbundle bit_operations_syntax

text \<open>
  Capabilities: the permission byte, object types, capability tokens, the per-process
  capability space and the gatekeeper \<open>axiom_check\<close>, from
  \<^verbatim>\<open>zos-kernel-core/src/{types,capability}.rs\<close>. The crate \<^verbatim>\<open>zos-axiom\<close> declares the same structs
  and has its own copy of the check, \<open>axiom_check_ax\<close>. Both are gates in the sense of the
  locale \<open>capability_gate\<close>, whose lemmas the kernels use.
\<close>

section \<open>Permissions and object types\<close>

record permissions =
  perm_read :: bool
  perm_write :: bool
  perm_grant :: bool

definition perms_default :: permissions where
  "perms_default = \<lparr>perm_read = False, perm_write = False, perm_grant = False\<rparr>"

definition perms_full :: permissions where
  "perms_full = \<lparr>perm_read = True, perm_write = True, perm_grant = True\<rparr>"

definition perms_read_only :: permissions where
  "perms_read_only = \<lparr>perm_read = True, perm_write = False, perm_grant = False\<rparr>"

definition perms_write_only :: permissions where
  "perms_write_only = \<lparr>perm_read = False, perm_write = True, perm_grant = False\<rparr>"

definition perms_grant_only :: permissions where
  "perms_grant_only = \<lparr>perm_read = False, perm_write = False, perm_grant = True\<rparr>"

definition perms_to_byte :: "permissions \<Rightarrow> u8" where
  "perms_to_byte p =
     (let b = 0;
          b = (if perm_read p then b OR 1 else b);
          b = (if perm_write p then b OR 2 else b);
          b = (if perm_grant p then b OR 4 else b)
      in b)"

definition perms_from_byte :: "u8 \<Rightarrow> permissions" where
  "perms_from_byte b =
     \<lparr>perm_read = (b AND 1 \<noteq> 0), perm_write = (b AND 2 \<noteq> 0), perm_grant = (b AND 4 \<noteq> 0)\<rparr>"

definition is_subset_of :: "permissions \<Rightarrow> permissions \<Rightarrow> bool" where
  "is_subset_of p q \<longleftrightarrow>
     (\<not> perm_read p \<or> perm_read q) \<and> (\<not> perm_write p \<or> perm_write q)
     \<and> (\<not> perm_grant p \<or> perm_grant q)"

datatype object_type = ObjEndpoint | ObjProcess | ObjMemory | ObjIrq | ObjIoPort | ObjConsole

fun object_type_as_u8 :: "object_type \<Rightarrow> u8" where
  "object_type_as_u8 ObjEndpoint = 1"
| "object_type_as_u8 ObjProcess = 2"
| "object_type_as_u8 ObjMemory = 3"
| "object_type_as_u8 ObjIrq = 4"
| "object_type_as_u8 ObjIoPort = 5"
| "object_type_as_u8 ObjConsole = 6"

definition object_type_from_u8 :: "u8 \<Rightarrow> object_type option" where
  "object_type_from_u8 v =
     (if v = 1 then Some ObjEndpoint
      else if v = 2 then Some ObjProcess
      else if v = 3 then Some ObjMemory
      else if v = 4 then Some ObjIrq
      else if v = 5 then Some ObjIoPort
      else if v = 6 then Some ObjConsole
      else None)"

section \<open>Capabilities and capability spaces\<close>

record capability =
  cap_id :: u64
  cap_object_type :: object_type
  cap_object_id :: u64
  cap_permissions :: permissions
  cap_generation :: u32
  cap_expires_at :: u64

definition is_expired :: "capability \<Rightarrow> u64 \<Rightarrow> bool" where
  "is_expired c current_time \<longleftrightarrow> cap_expires_at c \<noteq> 0 \<and> current_time > cap_expires_at c"

definition has_permissions :: "capability \<Rightarrow> permissions \<Rightarrow> bool" where
  "has_permissions c required \<longleftrightarrow>
     (\<not> perm_read required \<or> perm_read (cap_permissions c))
     \<and> (\<not> perm_write required \<or> perm_write (cap_permissions c))
     \<and> (\<not> perm_grant required \<or> perm_grant (cap_permissions c))"

record capability_space =
  cs_slots :: "(u32, capability) btree_map"
  cs_next_slot :: u32

definition cs_new :: capability_space where
  "cs_new = \<lparr>cs_slots = [], cs_next_slot = 0\<rparr>"

definition cs_insert :: "capability_space \<Rightarrow> capability \<Rightarrow> u32 \<times> capability_space" where
  "cs_insert cs c =
     (let slot = cs_next_slot cs
      in (slot, cs\<lparr>cs_next_slot := slot + 1, cs_slots := bt_insert slot c (cs_slots cs)\<rparr>))"

definition cs_get :: "capability_space \<Rightarrow> u32 \<Rightarrow> capability option" where
  "cs_get cs slot = bt_get (cs_slots cs) slot"

definition cs_remove :: "capability_space \<Rightarrow> u32 \<Rightarrow> capability option \<times> capability_space" where
  "cs_remove cs slot =
     (bt_get (cs_slots cs) slot, cs\<lparr>cs_slots := bt_remove slot (cs_slots cs)\<rparr>)"

definition cs_list :: "capability_space \<Rightarrow> (u32 \<times> capability) list" where
  "cs_list cs = map (\<lambda>(s, c). (s, c)) (cs_slots cs)"

definition cs_len :: "capability_space \<Rightarrow> usize" where
  "cs_len cs = length (cs_slots cs)"

definition cs_is_empty :: "capability_space \<Rightarrow> bool" where
  "cs_is_empty cs \<longleftrightarrow> cs_slots cs = []"

definition cs_contains :: "capability_space \<Rightarrow> u32 \<Rightarrow> bool" where
  "cs_contains cs slot \<longleftrightarrow> bt_contains (cs_slots cs) slot"

section \<open>The gatekeeper\<close>

datatype axiom_error = InvalidSlot | WrongType | InsufficientRights | Expired | ObjectNotFound

definition axiom_check ::
  "capability_space \<Rightarrow> u32 \<Rightarrow> permissions \<Rightarrow> object_type option \<Rightarrow> u64 \<Rightarrow> axiom_error + capability"
where
  "axiom_check cspace slot required expected_type current_time =
     (case cs_get cspace slot of
        None \<Rightarrow> Inl InvalidSlot
      | Some c \<Rightarrow>
          if (case expected_type of
                Some expected \<Rightarrow> cap_object_type c \<noteq> expected
              | None \<Rightarrow> False)
          then Inl WrongType
          else if \<not> has_permissions c required then Inl InsufficientRights
          else if is_expired c current_time then Inl Expired
          else Inr c)"

text \<open>The copy of the check in \<^verbatim>\<open>zos-axiom\<close> spells the permission test out.\<close>

definition axiom_check_ax ::
  "capability_space \<Rightarrow> u32 \<Rightarrow> permissions \<Rightarrow> object_type option \<Rightarrow> u64 \<Rightarrow> axiom_error + capability"
where
  "axiom_check_ax cspace slot required expected_type current_time =
     (case cs_get cspace slot of
        None \<Rightarrow> Inl InvalidSlot
      | Some c \<Rightarrow>
          if (case expected_type of
                Some expected \<Rightarrow> cap_object_type c \<noteq> expected
              | None \<Rightarrow> False)
          then Inl WrongType
          else if (perm_read required \<and> \<not> perm_read (cap_permissions c))
                \<or> (perm_write required \<and> \<not> perm_write (cap_permissions c))
                \<or> (perm_grant required \<and> \<not> perm_grant (cap_permissions c))
          then Inl InsufficientRights
          else if is_expired c current_time then Inl Expired
          else Inr c)"

section \<open>Permissions form a lattice below \<open>perms_full\<close>\<close>

lemma has_permissions_subset: "has_permissions c p \<longleftrightarrow> is_subset_of p (cap_permissions c)"
  by (simp add: has_permissions_def is_subset_of_def)

lemma is_subset_of_refl [simp, intro]: "is_subset_of p p"
  by (simp add: is_subset_of_def)

lemma is_subset_of_trans [trans]: "is_subset_of p q \<Longrightarrow> is_subset_of q r \<Longrightarrow> is_subset_of p r"
  by (auto simp: is_subset_of_def)

lemma is_subset_of_antisym: "is_subset_of p q \<Longrightarrow> is_subset_of q p \<Longrightarrow> p = q"
  by (auto simp: is_subset_of_def intro: permissions.equality)

lemma is_subset_of_full [simp]: "is_subset_of p perms_full"
  by (simp add: is_subset_of_def perms_full_def)

lemma is_subset_of_single [simp]:
  "is_subset_of perms_read_only q \<longleftrightarrow> perm_read q"
  "is_subset_of perms_write_only q \<longleftrightarrow> perm_write q"
  "is_subset_of perms_grant_only q \<longleftrightarrow> perm_grant q"
  "is_subset_of perms_default q"
  by (simp_all add: is_subset_of_def perms_read_only_def perms_write_only_def
      perms_grant_only_def perms_default_def)

lemma perms_from_to_byte [simp]: "perms_from_byte (perms_to_byte p) = p"
  by (cases p) (simp add: perms_from_byte_def perms_to_byte_def Let_def)

lemma perms_to_byte_inject: "perms_to_byte p = perms_to_byte q \<longleftrightarrow> p = q"
  using perms_from_to_byte by metis

lemma object_type_u8_inverse [simp]: "object_type_from_u8 (object_type_as_u8 t) = Some t"
  by (cases t) (simp_all add: object_type_from_u8_def)

lemma object_type_from_u8_Some:
  "object_type_from_u8 v = Some t \<longleftrightarrow> v = object_type_as_u8 t"
  by (cases t) (auto simp: object_type_from_u8_def)

section \<open>Capability spaces\<close>

text \<open>Slots are handed out in order, so every occupied slot lies below the next one.\<close>

definition cs_wf :: "capability_space \<Rightarrow> bool" where
  "cs_wf cs \<longleftrightarrow> bt_wf (cs_slots cs) \<and> (\<forall>slot c. cs_get cs slot = Some c \<longrightarrow> slot < cs_next_slot cs)"

lemma cs_wf_new [simp, intro]: "cs_wf cs_new"
  by (simp add: cs_wf_def cs_new_def cs_get_def)

lemma cs_get_new [simp]: "cs_get cs_new slot = None"
  by (simp add: cs_get_def cs_new_def)

lemma cs_get_insert [simp]:
  "cs_get (snd (cs_insert cs c)) slot = (if slot = cs_next_slot cs then Some c else cs_get cs slot)"
  by (simp add: cs_get_def cs_insert_def Let_def)

lemma cs_get_remove [simp]:
  "cs_get (snd (cs_remove cs s)) slot = (if slot = s then None else cs_get cs slot)"
  by (simp add: cs_get_def cs_remove_def)

lemma fst_cs_insert [simp]: "fst (cs_insert cs c) = cs_next_slot cs"
  by (simp add: cs_insert_def Let_def)

lemma fst_cs_remove [simp]: "fst (cs_remove cs s) = cs_get cs s"
  by (simp add: cs_remove_def cs_get_def)

lemma cs_next_slot_simps [simp]:
  "cs_next_slot (snd (cs_insert cs c)) = cs_next_slot cs + 1"
  "cs_next_slot (snd (cs_remove cs s)) = cs_next_slot cs"
  by (simp_all add: cs_insert_def cs_remove_def Let_def)

lemma cs_wf_fresh: "cs_wf cs \<Longrightarrow> cs_get cs (cs_next_slot cs) = None"
  by (cases "cs_get cs (cs_next_slot cs)") (auto simp: cs_wf_def)

lemma cs_wf_insert [intro]:
  assumes "cs_wf cs" "cs_next_slot cs \<noteq> - 1"
  shows "cs_wf (snd (cs_insert cs c))"
  using assms
  by (auto simp: cs_wf_def word_less_succ cs_insert_def Let_def cs_get_def bt_wf_insert
      order_less_imp_le split: if_splits)

lemma cs_wf_remove [intro]: "cs_wf cs \<Longrightarrow> cs_wf (snd (cs_remove cs s))"
  by (auto simp: cs_wf_def cs_remove_def cs_get_def bt_wf_remove split: if_splits)

section \<open>The contract of a capability gate\<close>

text \<open>
  What both kernels rely on: a gate grants exactly the capability that sits in the slot, of
  the expected type, with at least the required rights, and not expired.
\<close>

locale capability_gate =
  fixes check ::
    "capability_space \<Rightarrow> u32 \<Rightarrow> permissions \<Rightarrow> object_type option \<Rightarrow> u64 \<Rightarrow> axiom_error + capability"
  assumes check_grants:
    "check cs slot req ty now = Inr c \<longleftrightarrow>
       cs_get cs slot = Some c \<and> (\<forall>t. ty = Some t \<longrightarrow> cap_object_type c = t)
       \<and> is_subset_of req (cap_permissions c) \<and> \<not> is_expired c now"
begin

lemma check_held: "check cs slot req ty now = Inr c \<Longrightarrow> cs_get cs slot = Some c"
  by (simp add: check_grants)

lemma check_rights: "check cs slot req ty now = Inr c \<Longrightarrow> is_subset_of req (cap_permissions c)"
  by (simp add: check_grants)

lemma check_type: "check cs slot req (Some t) now = Inr c \<Longrightarrow> cap_object_type c = t"
  by (simp add: check_grants)

lemma check_fail_closed:
  "(\<exists>e. check cs slot req ty now = Inl e) \<longleftrightarrow>
     (\<forall>c. cs_get cs slot = Some c \<longrightarrow>
        (\<exists>t. ty = Some t \<and> cap_object_type c \<noteq> t)
        \<or> \<not> is_subset_of req (cap_permissions c) \<or> is_expired c now)"
proof -
  have "(\<exists>e. check cs slot req ty now = Inl e) \<longleftrightarrow> (\<nexists>c. check cs slot req ty now = Inr c)"
    by (cases "check cs slot req ty now") auto
  then show ?thesis
    unfolding check_grants by auto
qed

text \<open>Asking for fewer rights, or at an earlier time, never turns a grant into a denial.\<close>

lemma check_antimono:
  assumes "check cs slot req ty now = Inr c" "is_subset_of req' req" "now' \<le> now"
  shows "check cs slot req' ty now' = Inr c"
  using assms by (auto simp: check_grants is_expired_def intro: is_subset_of_trans)

end

lemma axiom_check_Inr:
  "axiom_check cs slot req ty now = Inr c \<longleftrightarrow>
     cs_get cs slot = Some c \<and> (\<forall>t. ty = Some t \<longrightarrow> cap_object_type c = t)
     \<and> is_subset_of req (cap_permissions c) \<and> \<not> is_expired c now"
  by (auto simp: axiom_check_def has_permissions_subset split: option.splits if_splits)

lemma axiom_check_copies: "axiom_check_ax = axiom_check"
  by (simp add: fun_eq_iff axiom_check_def axiom_check_ax_def has_permissions_def
      split: option.split)

interpretation core_gate: capability_gate axiom_check
  by unfold_locales (rule axiom_check_Inr)

interpretation axiom_gate: capability_gate axiom_check_ax
  by unfold_locales (simp add: axiom_check_copies axiom_check_Inr)

section \<open>Properties\<close>


text \<open>
  C40. The permission byte is faithful: decoding gives back the permissions, and one set of
  permissions is a subset of another exactly when its byte has no bit the other lacks.
\<close>

theorem permission_byte_faithful:
  "perms_from_byte (perms_to_byte p) = p
   \<and> (is_subset_of p q \<longleftrightarrow> perms_to_byte p AND NOT (perms_to_byte q) = 0)"
  by (cases p; cases q) (simp add: perms_from_byte_def perms_to_byte_def is_subset_of_def Let_def)

end
