(* ===== verification/Kernel_State.thy ===== *)
theory Kernel_State
  imports Capability
begin

text \<open>
  Processes, endpoints, messages and the state of the pure kernel, from
  \<^verbatim>\<open>zos-kernel-core/src/types.rs\<close> and \<^verbatim>\<open>zos-kernel-core/src/state.rs\<close>. A method of
  \<^verbatim>\<open>KernelState\<close> is a function on \<open>kernel_state\<close> with the prefix \<open>ks_\<close>; a method that takes
  \<^verbatim>\<open>&mut self\<close> returns the new state beside its result. Endpoints are queues in the sense
  of the locale \<open>message_queue\<close>.
\<close>

section \<open>Processes\<close>

datatype process_state = Running | Blocked | Zombie

record process_metrics =
  pm_memory_size :: usize
  pm_ipc_sent :: u64
  pm_ipc_received :: u64
  pm_ipc_bytes_sent :: u64
  pm_ipc_bytes_received :: u64
  pm_syscall_count :: u64
  pm_last_active_ns :: u64
  pm_start_time_ns :: u64

definition process_metrics_default :: process_metrics where
  "process_metrics_default =
     \<lparr>pm_memory_size = 0, pm_ipc_sent = 0, pm_ipc_received = 0, pm_ipc_bytes_sent = 0,
      pm_ipc_bytes_received = 0, pm_syscall_count = 0, pm_last_active_ns = 0,
      pm_start_time_ns = 0\<rparr>"

record process =
  proc_pid :: process_id
  proc_name :: string
  proc_state :: process_state
  proc_metrics :: process_metrics

section \<open>Endpoints and messages\<close>

record endpoint_metrics =
  em_queue_depth :: usize
  em_total_messages :: u64
  em_total_bytes :: u64
  em_queue_high_water :: usize

definition endpoint_metrics_default :: endpoint_metrics where
  "endpoint_metrics_default =
     \<lparr>em_queue_depth = 0, em_total_messages = 0, em_total_bytes = 0, em_queue_high_water = 0\<rparr>"

definition MAX_MESSAGE_SIZE :: usize where
  "MAX_MESSAGE_SIZE = 4096"

definition MAX_CAPS_PER_MESSAGE :: usize where
  "MAX_CAPS_PER_MESSAGE = 4"

record transferred_cap =
  tc_cap_id :: u64
  tc_object_type :: object_type
  tc_object_id :: u64
  tc_permissions :: permissions

record message =
  msg_sender :: process_id
  msg_tag :: u32
  msg_data :: "u8 list"
  msg_caps :: "transferred_cap list"

text \<open>The type parameter is the message type, which differs between the two kernels.\<close>

record 'm endpoint =
  ep_id :: endpoint_id
  ep_owner :: process_id
  ep_pending :: "'m list"
  ep_metrics :: endpoint_metrics

definition endpoint_new :: "endpoint_id \<Rightarrow> process_id \<Rightarrow> 'm endpoint" where
  "endpoint_new eid owner =
     \<lparr>ep_id = eid, ep_owner = owner, ep_pending = [], ep_metrics = endpoint_metrics_default\<rparr>"

definition endpoint_enqueue :: "message endpoint \<Rightarrow> message \<Rightarrow> message endpoint" where
  "endpoint_enqueue e msg =
     (let data_len = word_of_nat (length (msg_data msg));
          pending = ep_pending e @ [msg];
          m = ep_metrics e;
          m = m\<lparr>em_queue_depth := length pending\<rparr>;
          m = m\<lparr>em_total_messages := em_total_messages m + 1\<rparr>;
          m = m\<lparr>em_total_bytes := em_total_bytes m + data_len\<rparr>;
          m = (if em_queue_depth m > em_queue_high_water m
               then m\<lparr>em_queue_high_water := em_queue_depth m\<rparr> else m)
      in e\<lparr>ep_pending := pending, ep_metrics := m\<rparr>)"

definition endpoint_dequeue :: "message endpoint \<Rightarrow> message option \<times> message endpoint" where
  "endpoint_dequeue e =
     (let (msg, rest) = (case ep_pending e of [] \<Rightarrow> (None, []) | x # xs \<Rightarrow> (Some x, xs))
      in (msg, e\<lparr>ep_pending := rest,
                 ep_metrics := (ep_metrics e)\<lparr>em_queue_depth := length rest\<rparr>\<rparr>))"

section \<open>Records returned by introspection\<close>

record system_metrics =
  sm_process_count :: usize
  sm_total_memory :: usize
  sm_endpoint_count :: usize
  sm_total_pending_messages :: usize
  sm_total_ipc_messages :: u64
  sm_uptime_ns :: u64

record cap_info =
  ci_id :: u64
  ci_object_type :: u8
  ci_object_id :: u64
  ci_permissions :: u8
  ci_generation :: u32
  ci_expires_at :: u64

record endpoint_info =
  ei_id :: endpoint_id
  ei_owner :: process_id
  ei_queue_depth :: usize

record message_summary =
  ms_sender :: process_id
  ms_tag :: u32
  ms_data_size :: usize
  ms_cap_count :: usize

record endpoint_detail =
  ed_id :: endpoint_id
  ed_owner :: process_id
  ed_pending_messages :: "message_summary list"
  ed_metrics :: endpoint_metrics

record revoke_notification =
  rn_pid :: process_id
  rn_slot :: u32
  rn_object_type :: u8
  rn_object_id :: u64
  rn_reason :: u8

definition revoke_notification_empty :: revoke_notification where
  "revoke_notification_empty =
     \<lparr>rn_pid = ProcessId 0, rn_slot = 0, rn_object_type = 0, rn_object_id = 0, rn_reason = 0\<rparr>"

section \<open>Kernel state\<close>

record kernel_state =
  ks_processes :: "(process_id, process) btree_map"
  ks_cap_spaces :: "(process_id, capability_space) btree_map"
  ks_endpoints :: "(endpoint_id, message endpoint) btree_map"
  ks_next_pid :: u64
  ks_next_endpoint_id :: u64
  ks_next_cap_id :: u64
  ks_total_ipc_count :: u64

definition ks_new :: kernel_state where
  "ks_new =
     \<lparr>ks_processes = [], ks_cap_spaces = [], ks_endpoints = [], ks_next_pid = 1,
      ks_next_endpoint_id = 1, ks_next_cap_id = 1, ks_total_ipc_count = 0\<rparr>"

definition ks_alloc_pid :: "kernel_state \<Rightarrow> process_id \<times> kernel_state" where
  "ks_alloc_pid s = (ProcessId (ks_next_pid s), s\<lparr>ks_next_pid := ks_next_pid s + 1\<rparr>)"

definition ks_alloc_endpoint_id :: "kernel_state \<Rightarrow> endpoint_id \<times> kernel_state" where
  "ks_alloc_endpoint_id s =
     (EndpointId (ks_next_endpoint_id s), s\<lparr>ks_next_endpoint_id := ks_next_endpoint_id s + 1\<rparr>)"

definition ks_alloc_cap_id :: "kernel_state \<Rightarrow> u64 \<times> kernel_state" where
  "ks_alloc_cap_id s = (ks_next_cap_id s, s\<lparr>ks_next_cap_id := ks_next_cap_id s + 1\<rparr>)"

definition ks_get_process :: "kernel_state \<Rightarrow> process_id \<Rightarrow> process option" where
  "ks_get_process s pid = bt_get (ks_processes s) pid"

definition ks_list_processes :: "kernel_state \<Rightarrow> (process_id \<times> process) list" where
  "ks_list_processes s = map (\<lambda>(pid, p). (pid, p)) (ks_processes s)"

definition ks_get_cap_space :: "kernel_state \<Rightarrow> process_id \<Rightarrow> capability_space option" where
  "ks_get_cap_space s pid = bt_get (ks_cap_spaces s) pid"

definition ks_get_endpoint :: "kernel_state \<Rightarrow> endpoint_id \<Rightarrow> message endpoint option" where
  "ks_get_endpoint s eid = bt_get (ks_endpoints s) eid"

definition ks_list_endpoints :: "kernel_state \<Rightarrow> endpoint_info list" where
  "ks_list_endpoints s =
     map (\<lambda>(_, e). \<lparr>ei_id = ep_id e, ei_owner = ep_owner e,
                    ei_queue_depth = length (ep_pending e)\<rparr>) (ks_endpoints s)"

definition ks_get_endpoint_detail :: "kernel_state \<Rightarrow> endpoint_id \<Rightarrow> endpoint_detail option" where
  "ks_get_endpoint_detail s eid =
     map_option (\<lambda>e. \<lparr>ed_id = ep_id e, ed_owner = ep_owner e,
        ed_pending_messages =
          map (\<lambda>m. \<lparr>ms_sender = msg_sender m, ms_tag = msg_tag m,
                    ms_data_size = length (msg_data m), ms_cap_count = length (msg_caps m)\<rparr>)
            (ep_pending e),
        ed_metrics = ep_metrics e\<rparr>)
       (bt_get (ks_endpoints s) eid)"

text \<open>A sum of \<^verbatim>\<open>usize\<close> values that are not lengths wraps at the word size of the target.\<close>

definition usize_wrap :: "nat \<Rightarrow> usize" where
  "usize_wrap n = n mod 2 ^ 64"

definition ks_total_memory :: "kernel_state \<Rightarrow> usize" where
  "ks_total_memory s =
     usize_wrap (sum_list (map (\<lambda>(_, p). pm_memory_size (proc_metrics p)) (ks_processes s)))"

definition ks_total_pending_messages :: "kernel_state \<Rightarrow> usize" where
  "ks_total_pending_messages s = sum_list (map (\<lambda>(_, e). length (ep_pending e)) (ks_endpoints s))"

definition ks_get_system_metrics :: "kernel_state \<Rightarrow> u64 \<Rightarrow> system_metrics" where
  "ks_get_system_metrics s uptime_ns =
     \<lparr>sm_process_count = length (ks_processes s), sm_total_memory = ks_total_memory s,
      sm_endpoint_count = length (ks_endpoints s),
      sm_total_pending_messages = ks_total_pending_messages s,
      sm_total_ipc_messages = ks_total_ipc_count s, sm_uptime_ns = uptime_ns\<rparr>"

definition ks_register_process :: "kernel_state \<Rightarrow> string \<Rightarrow> u64 \<Rightarrow> process_id \<times> kernel_state" where
  "ks_register_process s name timestamp =
     (let (pid, s) = ks_alloc_pid s;
          p = \<lparr>proc_pid = pid, proc_name = name, proc_state = Running,
               proc_metrics = process_metrics_default\<lparr>pm_start_time_ns := timestamp\<rparr>\<rparr>;
          s = s\<lparr>ks_processes := bt_insert pid p (ks_processes s)\<rparr>;
          s = s\<lparr>ks_cap_spaces := bt_insert pid cs_new (ks_cap_spaces s)\<rparr>
      in (pid, s))"

definition ks_register_process_with_pid ::
  "kernel_state \<Rightarrow> process_id \<Rightarrow> string \<Rightarrow> u64 \<Rightarrow> process_id \<times> kernel_state" where
  "ks_register_process_with_pid s pid name timestamp =
     (let s = (if pid_raw pid \<ge> ks_next_pid s then s\<lparr>ks_next_pid := pid_raw pid + 1\<rparr> else s);
          p = \<lparr>proc_pid = pid, proc_name = name, proc_state = Running,
               proc_metrics = process_metrics_default\<lparr>pm_start_time_ns := timestamp\<rparr>\<rparr>;
          s = s\<lparr>ks_processes := bt_insert pid p (ks_processes s)\<rparr>;
          s = s\<lparr>ks_cap_spaces := bt_insert pid cs_new (ks_cap_spaces s)\<rparr>
      in (pid, s))"

text \<open>
  What a block under \<^verbatim>\<open>if let Some(x) = state.get_process_mut(pid)\<close> (or \<^verbatim>\<open>get_endpoint_mut\<close>,
  \<^verbatim>\<open>get_cap_space_mut\<close>) does to the state.
\<close>

definition ks_map_process :: "process_id \<Rightarrow> (process \<Rightarrow> process) \<Rightarrow> kernel_state \<Rightarrow> kernel_state" where
  "ks_map_process pid f s = s\<lparr>ks_processes := bt_modify pid f (ks_processes s)\<rparr>"

definition ks_map_endpoint ::
  "endpoint_id \<Rightarrow> (message endpoint \<Rightarrow> message endpoint) \<Rightarrow> kernel_state \<Rightarrow> kernel_state" where
  "ks_map_endpoint eid f s = s\<lparr>ks_endpoints := bt_modify eid f (ks_endpoints s)\<rparr>"

definition ks_map_cap_space ::
  "process_id \<Rightarrow> (capability_space \<Rightarrow> capability_space) \<Rightarrow> kernel_state \<Rightarrow> kernel_state" where
  "ks_map_cap_space pid f s = s\<lparr>ks_cap_spaces := bt_modify pid f (ks_cap_spaces s)\<rparr>"

definition ks_kill_process :: "kernel_state \<Rightarrow> process_id \<Rightarrow> bool \<times> kernel_state" where
  "ks_kill_process s pid =
     (case bt_get (ks_processes s) pid of
        Some _ \<Rightarrow>
          (True, ks_map_process pid (\<lambda>p. p\<lparr>proc_state := Zombie\<rparr>) s)
      | None \<Rightarrow> (False, s))"

text \<open>The \<^verbatim>\<open>&&\<close> of the source skips the second removal when the first finds nothing.\<close>

definition ks_remove_process :: "kernel_state \<Rightarrow> process_id \<Rightarrow> bool \<times> kernel_state" where
  "ks_remove_process s pid =
     (let first = bt_contains (ks_processes s) pid;
          s = s\<lparr>ks_processes := bt_remove pid (ks_processes s)\<rparr>
      in if first
         then (bt_contains (ks_cap_spaces s) pid,
               s\<lparr>ks_cap_spaces := bt_remove pid (ks_cap_spaces s)\<rparr>)
         else (False, s))"

definition ks_create_endpoint :: "kernel_state \<Rightarrow> process_id \<Rightarrow> endpoint_id \<times> kernel_state" where
  "ks_create_endpoint s owner =
     (let (eid, s) = ks_alloc_endpoint_id s
      in (eid, s\<lparr>ks_endpoints := bt_insert eid (endpoint_new eid owner) (ks_endpoints s)\<rparr>))"

definition ks_remove_endpoint :: "kernel_state \<Rightarrow> endpoint_id \<Rightarrow> bool \<times> kernel_state" where
  "ks_remove_endpoint s eid =
     (bt_contains (ks_endpoints s) eid, s\<lparr>ks_endpoints := bt_remove eid (ks_endpoints s)\<rparr>)"

definition ks_process_exists :: "kernel_state \<Rightarrow> process_id \<Rightarrow> bool" where
  "ks_process_exists s pid =
     (case bt_get (ks_processes s) pid of
        Some p \<Rightarrow> proc_state p \<noteq> Zombie
      | None \<Rightarrow> False)"

definition bump_syscall_metrics :: "u64 \<Rightarrow> process \<Rightarrow> process" where
  "bump_syscall_metrics timestamp p =
     p\<lparr>proc_metrics := (proc_metrics p)\<lparr>pm_syscall_count := pm_syscall_count (proc_metrics p) + 1,
                                        pm_last_active_ns := timestamp\<rparr>\<rparr>"

definition ks_update_syscall_metrics :: "kernel_state \<Rightarrow> process_id \<Rightarrow> u64 \<Rightarrow> kernel_state" where
  "ks_update_syscall_metrics s pid timestamp =
     ks_map_process pid (bump_syscall_metrics timestamp) s"

section \<open>Queues\<close>

text \<open>
  The contract of a message queue: what is sent is appended, what is received is the oldest
  message. \<open>drain n q\<close> receives \<open>n\<close> times.
\<close>

fun drain :: "('q \<Rightarrow> 'm option \<times> 'q) \<Rightarrow> nat \<Rightarrow> 'q \<Rightarrow> 'm option list \<times> 'q" where
  "drain deq 0 q = ([], q)"
| "drain deq (Suc n) q =
     (let (m, q) = deq q; (ms, q) = drain deq n q in (m # ms, q))"

locale message_queue =
  fixes pending :: "'q \<Rightarrow> 'm list"
    and enq :: "'q \<Rightarrow> 'm \<Rightarrow> 'q"
    and deq :: "'q \<Rightarrow> 'm option \<times> 'q"
  assumes pending_enq: "pending (enq q m) = pending q @ [m]"
    and deq_empty: "pending q = [] \<Longrightarrow> fst (deq q) = None \<and> pending (snd (deq q)) = []"
    and deq_cons: "pending q = m # ms \<Longrightarrow> fst (deq q) = Some m \<and> pending (snd (deq q)) = ms"
begin

lemma pending_enqs: "pending (foldl enq q ms) = pending q @ ms"
  by (induction ms arbitrary: q) (simp_all add: pending_enq)

lemma drain_all:
  "fst (drain deq (length (pending q)) q) = map Some (pending q)
   \<and> pending (snd (drain deq (length (pending q)) q)) = []"
proof (induction "pending q" arbitrary: q)
  case Nil
  then show ?case by (metis drain.simps(1) fst_conv list.size(3) map_is_Nil_conv snd_conv)
next
  case (Cons m ms)
  have d: "fst (deq q) = Some m" "pending (snd (deq q)) = ms"
    using deq_cons [OF Cons.hyps(2) [symmetric]] by simp_all
  show ?case
    using Cons.hyps(1) [of "snd (deq q)"] d
    by (simp add: Cons.hyps(2) [symmetric] split: prod.split) force
qed

text \<open>First in, first out: a queue delivers what was pending and then what was sent, in order.\<close>

lemma fifo:
  "fst (drain deq (length (pending q) + length ms) (foldl enq q ms)) = map Some (pending q @ ms)"
  using drain_all [of "foldl enq q ms"] by (simp add: pending_enqs)

end

lemma endpoint_new_sel [simp]:
  "ep_id (endpoint_new eid owner) = eid" "ep_owner (endpoint_new eid owner) = owner"
  "ep_pending (endpoint_new eid owner) = []"
  by (simp_all add: endpoint_new_def)

lemma ep_pending_enqueue [simp]: "ep_pending (endpoint_enqueue e m) = ep_pending e @ [m]"
  by (simp add: endpoint_enqueue_def Let_def)

lemma ep_frame_enqueue [simp]:
  "ep_id (endpoint_enqueue e m) = ep_id e" "ep_owner (endpoint_enqueue e m) = ep_owner e"
  by (simp_all add: endpoint_enqueue_def Let_def)

lemma endpoint_dequeue_eq [simp]:
  "fst (endpoint_dequeue e) = (case ep_pending e of [] \<Rightarrow> None | m # _ \<Rightarrow> Some m)"
  "ep_pending (snd (endpoint_dequeue e)) = tl (ep_pending e)"
  "ep_id (snd (endpoint_dequeue e)) = ep_id e"
  "ep_owner (snd (endpoint_dequeue e)) = ep_owner e"
  by (simp_all add: endpoint_dequeue_def Let_def split: list.split)

interpretation ep: message_queue ep_pending endpoint_enqueue endpoint_dequeue
  by unfold_locales simp_all

text \<open>The recorded depth is the real one and the high-water mark is never below it.\<close>

definition ep_metrics_ok :: "'m endpoint \<Rightarrow> bool" where
  "ep_metrics_ok e \<longleftrightarrow>
     em_queue_depth (ep_metrics e) = length (ep_pending e)
     \<and> em_queue_depth (ep_metrics e) \<le> em_queue_high_water (ep_metrics e)"

lemma ep_metrics_ok_new: "ep_metrics_ok (endpoint_new eid owner)"
  by (simp add: ep_metrics_ok_def endpoint_new_def endpoint_metrics_default_def)

lemma ep_metrics_ok_enqueue: "ep_metrics_ok (endpoint_enqueue e m)"
  by (simp add: ep_metrics_ok_def endpoint_enqueue_def Let_def)

lemma ep_metrics_ok_dequeue: "ep_metrics_ok e \<Longrightarrow> ep_metrics_ok (snd (endpoint_dequeue e))"
  by (auto simp: ep_metrics_ok_def endpoint_dequeue_def Let_def split: list.splits)

end
