(* ===== verification/Kernel_Step.thy ===== *)
theory Kernel_Step
  imports Kernel_State
begin

text \<open>
  The pure step function of \<^verbatim>\<open>zos-kernel-core/src/step.rs\<close>: one definition per system call
  handler and \<open>step\<close>, which dispatches to them. A handler takes the state and returns the new
  state with the result and the audit commits of the source's \<^verbatim>\<open>StepResult\<close>.
\<close>

section \<open>System calls, results and commits\<close>

datatype syscall =
    Debug string
  | GetTime
  | Yield
  | Exit i32
  | Kill process_id
  | ListProcesses
  | CreateEndpoint
  | Send u32 u32 "u8 list"
  | Receive u32
  | SendWithCaps u32 u32 "u8 list" "u32 list"
  | Call u32 u32 "u8 list"
  | ListCaps
  | CapGrant u32 process_id permissions
  | CapRevoke u32
  | CapDelete u32
  | CapInspect u32
  | CapDerive u32 permissions

datatype kernel_error =
    ProcessNotFound
  | EndpointNotFound
  | InvalidCapability
  | PermissionDenied
  | MessageTooLarge
  | TooManyCaps
  | InvalidArgument
  | ResourceExhausted

datatype syscall_result =
    ResOk u64
  | ResErr kernel_error
  | ResMessage message
  | ResWouldBlock
  | ResCapList "(u32 \<times> capability) list"
  | ResCapInfo cap_info
  | ResProcessList "(process_id \<times> string \<times> process_state) list"

fun kernel_error_from :: "axiom_error \<Rightarrow> kernel_error" where
  "kernel_error_from InvalidSlot = InvalidCapability"
| "kernel_error_from WrongType = InvalidCapability"
| "kernel_error_from InsufficientRights = PermissionDenied"
| "kernel_error_from Expired = PermissionDenied"
| "kernel_error_from ObjectNotFound = InvalidCapability"

datatype step_commit_type =
    Genesis
  | ProcessRegistered u64 string
  | ProcessExited u64 i32
  | ProcessKilled u64 u64
  | EndpointCreated u64 u64
  | EndpointDeleted u64
  | IpcSent u64 u64 u32 usize
  | CapGranted u64 u64 u32 u64
  | CapRevoked u64 u32
  | CapDeleted u64 u32
  | CapDerived u64 u32 u32

record step_commit =
  sc_id :: "u8 list"
  sc_prev_commit :: "u8 list"
  sc_seq :: u64
  sc_timestamp :: u64
  sc_commit_type :: step_commit_type
  sc_caused_by :: "u64 option"

definition step_commit_new :: "step_commit_type \<Rightarrow> u64 \<Rightarrow> step_commit" where
  "step_commit_new commit_type timestamp =
     \<lparr>sc_id = replicate 32 0, sc_prev_commit = replicate 32 0, sc_seq = 0,
      sc_timestamp = timestamp, sc_commit_type = commit_type, sc_caused_by = None\<rparr>"

record step_result =
  sr_result :: syscall_result
  sr_commits :: "step_commit list"

text \<open>The two shapes of result the handlers return: without a commit and with one.\<close>

definition step_quiet :: "syscall_result \<Rightarrow> step_result" where
  "step_quiet r = \<lparr>sr_result = r, sr_commits = []\<rparr>"

definition step_logged :: "syscall_result \<Rightarrow> step_commit_type \<Rightarrow> u64 \<Rightarrow> step_result" where
  "step_logged r ct timestamp = \<lparr>sr_result = r, sr_commits = [step_commit_new ct timestamp]\<rparr>"

text \<open>
  \<^verbatim>\<open>state.get_cap_space_mut(pid).map(|cs| cs.insert(cap)).unwrap_or(0)\<close> and
  \<^verbatim>\<open>state.get_cap_space_mut(pid).and_then(|cs| cs.remove(slot))\<close>.
\<close>

definition cap_space_insert ::
  "kernel_state \<Rightarrow> process_id \<Rightarrow> capability \<Rightarrow> u32 \<times> kernel_state" where
  "cap_space_insert s pid c =
     (case ks_get_cap_space s pid of
        Some cs \<Rightarrow> (fst (cs_insert cs c), ks_map_cap_space pid (\<lambda>cs. snd (cs_insert cs c)) s)
      | None \<Rightarrow> (0, s))"

definition cap_space_remove ::
  "kernel_state \<Rightarrow> process_id \<Rightarrow> u32 \<Rightarrow> capability option \<times> kernel_state" where
  "cap_space_remove s pid slot =
     (case ks_get_cap_space s pid of
        Some cs \<Rightarrow> (fst (cs_remove cs slot), ks_map_cap_space pid (\<lambda>cs. snd (cs_remove cs slot)) s)
      | None \<Rightarrow> (None, s))"

section \<open>Handlers\<close>

definition step_exit :: "kernel_state \<Rightarrow> process_id \<Rightarrow> i32 \<Rightarrow> u64 \<Rightarrow> kernel_state \<times> step_result" where
  "step_exit s from_pid code timestamp =
     (ks_map_process from_pid (\<lambda>p. p\<lparr>proc_state := Zombie\<rparr>) s,
      step_logged (ResOk (scast code)) (ProcessExited (pid_raw from_pid) code) timestamp)"

definition step_kill ::
  "kernel_state \<Rightarrow> process_id \<Rightarrow> process_id \<Rightarrow> u64 \<Rightarrow> kernel_state \<times> step_result" where
  "step_kill s from_pid target_pid timestamp =
     (if \<not> bt_contains (ks_processes s) target_pid
      then (s, step_quiet (ResErr ProcessNotFound))
      else (snd (ks_kill_process s target_pid),
            step_logged (ResOk 0) (ProcessKilled (pid_raw target_pid) (pid_raw from_pid)) timestamp))"

definition step_list_processes :: "kernel_state \<Rightarrow> kernel_state \<times> step_result" where
  "step_list_processes s =
     (let procs = map (\<lambda>(pid, p). (pid, proc_name p, proc_state p)) (ks_processes s)
      in (s, step_quiet (ResProcessList procs)))"

definition step_create_endpoint ::
  "kernel_state \<Rightarrow> process_id \<Rightarrow> u64 \<Rightarrow> kernel_state \<times> step_result" where
  "step_create_endpoint s from_pid timestamp =
     (if \<not> ks_process_exists s from_pid
      then (s, step_quiet (ResErr ProcessNotFound))
      else
        let (eid, s) = ks_alloc_endpoint_id s;
            s = s\<lparr>ks_endpoints := bt_insert eid (endpoint_new eid from_pid) (ks_endpoints s)\<rparr>;
            (cid, s) = ks_alloc_cap_id s;
            cap = \<lparr>cap_id = cid, cap_object_type = ObjEndpoint, cap_object_id = eid_raw eid,
                   cap_permissions = perms_full, cap_generation = 0, cap_expires_at = 0\<rparr>;
            (slot, s) = cap_space_insert s from_pid cap;
            result = push_bit 32 (ucast slot) OR (eid_raw eid AND 0xFFFFFFFF)
        in (s, step_logged (ResOk result)
                 (EndpointCreated (eid_raw eid) (pid_raw from_pid)) timestamp))"

definition bump_ipc_sent :: "usize \<Rightarrow> process \<Rightarrow> process" where
  "bump_ipc_sent data_size p =
     p\<lparr>proc_metrics := (proc_metrics p)
         \<lparr>pm_ipc_sent := pm_ipc_sent (proc_metrics p) + 1,
          pm_ipc_bytes_sent := pm_ipc_bytes_sent (proc_metrics p) + word_of_nat data_size\<rparr>\<rparr>"

definition bump_ipc_received :: "usize \<Rightarrow> process \<Rightarrow> process" where
  "bump_ipc_received data_size p =
     p\<lparr>proc_metrics := (proc_metrics p)
         \<lparr>pm_ipc_received := pm_ipc_received (proc_metrics p) + 1,
          pm_ipc_bytes_received := pm_ipc_bytes_received (proc_metrics p) + word_of_nat data_size\<rparr>\<rparr>"

definition step_send ::
  "kernel_state \<Rightarrow> process_id \<Rightarrow> u32 \<Rightarrow> u32 \<Rightarrow> u8 list \<Rightarrow> u64 \<Rightarrow> kernel_state \<times> step_result" where
  "step_send s from_pid endpoint_slot tag data timestamp =
     (if length data > MAX_MESSAGE_SIZE then (s, step_quiet (ResErr MessageTooLarge))
      else case ks_get_cap_space s from_pid of
        None \<Rightarrow> (s, step_quiet (ResErr ProcessNotFound))
      | Some cspace \<Rightarrow>
          (case axiom_check cspace endpoint_slot perms_write_only (Some ObjEndpoint) timestamp of
             Inl e \<Rightarrow> (s, step_quiet (ResErr (kernel_error_from e)))
           | Inr cap \<Rightarrow>
               let endpoint_id = EndpointId (cap_object_id cap);
                   data_size = length data
               in (case ks_get_endpoint s endpoint_id of
                     None \<Rightarrow> (s, step_quiet (ResErr EndpointNotFound))
                   | Some _ \<Rightarrow>
                       let msg = \<lparr>msg_sender = from_pid, msg_tag = tag, msg_data = data,
                                  msg_caps = []\<rparr>;
                           s = ks_map_endpoint endpoint_id (\<lambda>e. endpoint_enqueue e msg) s;
                           s = ks_map_process from_pid (bump_ipc_sent data_size) s;
                           s = s\<lparr>ks_total_ipc_count := ks_total_ipc_count s + 1\<rparr>
                       in (s, step_logged (ResOk 0)
                                (IpcSent (pid_raw from_pid) (eid_raw endpoint_id) tag data_size)
                                timestamp))))"

definition step_receive ::
  "kernel_state \<Rightarrow> process_id \<Rightarrow> u32 \<Rightarrow> u64 \<Rightarrow> kernel_state \<times> step_result" where
  "step_receive s from_pid endpoint_slot timestamp =
     (case ks_get_cap_space s from_pid of
        None \<Rightarrow> (s, step_quiet (ResErr ProcessNotFound))
      | Some cspace \<Rightarrow>
          (case axiom_check cspace endpoint_slot perms_read_only (Some ObjEndpoint) timestamp of
             Inl e \<Rightarrow> (s, step_quiet (ResErr (kernel_error_from e)))
           | Inr cap \<Rightarrow>
               let endpoint_id = EndpointId (cap_object_id cap)
               in (case ks_get_endpoint s endpoint_id of
                     None \<Rightarrow> (s, step_quiet (ResErr EndpointNotFound))
                   | Some endpoint \<Rightarrow>
                       let s = ks_map_endpoint endpoint_id (\<lambda>e. snd (endpoint_dequeue e)) s
                       in (case fst (endpoint_dequeue endpoint) of
                             Some msg \<Rightarrow>
                               (ks_map_process from_pid (bump_ipc_received (length (msg_data msg))) s,
                                step_quiet (ResMessage msg))
                           | None \<Rightarrow> (s, step_quiet ResWouldBlock)))))"

text \<open>The loop that collects the capabilities to transfer; it stops at the first empty slot.\<close>

fun collect_transferred :: "capability_space \<Rightarrow> u32 list \<Rightarrow> transferred_cap list option" where
  "collect_transferred cspace [] = Some []"
| "collect_transferred cspace (slot # slots) =
     (case cs_get cspace slot of
        None \<Rightarrow> None
      | Some c \<Rightarrow>
          map_option (\<lambda>tcs. \<lparr>tc_cap_id = cap_id c, tc_object_type = cap_object_type c,
                            tc_object_id = cap_object_id c, tc_permissions = cap_permissions c\<rparr> # tcs)
            (collect_transferred cspace slots))"

definition step_send_with_caps ::
  "kernel_state \<Rightarrow> process_id \<Rightarrow> u32 \<Rightarrow> u32 \<Rightarrow> u8 list \<Rightarrow> u32 list \<Rightarrow> u64
   \<Rightarrow> kernel_state \<times> step_result" where
  "step_send_with_caps s from_pid endpoint_slot tag data cap_slots timestamp =
     (if length data > MAX_MESSAGE_SIZE then (s, step_quiet (ResErr MessageTooLarge))
      else if length cap_slots > MAX_CAPS_PER_MESSAGE then (s, step_quiet (ResErr TooManyCaps))
      else case ks_get_cap_space s from_pid of
        None \<Rightarrow> (s, step_quiet (ResErr ProcessNotFound))
      | Some cspace \<Rightarrow>
          (case axiom_check cspace endpoint_slot perms_write_only (Some ObjEndpoint) timestamp of
             Inl e \<Rightarrow> (s, step_quiet (ResErr (kernel_error_from e)))
           | Inr endpoint_cap \<Rightarrow>
               (case collect_transferred cspace cap_slots of
                  None \<Rightarrow> (s, step_quiet (ResErr InvalidCapability))
                | Some transferred_caps \<Rightarrow>
                    let endpoint_id = EndpointId (cap_object_id endpoint_cap);
                        data_size = length data
                    in (case ks_get_endpoint s endpoint_id of
                          None \<Rightarrow> (s, step_quiet (ResErr EndpointNotFound))
                        | Some _ \<Rightarrow>
                            let msg = \<lparr>msg_sender = from_pid, msg_tag = tag, msg_data = data,
                                       msg_caps = transferred_caps\<rparr>;
                                s = ks_map_endpoint endpoint_id (\<lambda>e. endpoint_enqueue e msg) s;
                                s = s\<lparr>ks_total_ipc_count := ks_total_ipc_count s + 1\<rparr>
                            in (s, step_logged (ResOk 0)
                                     (IpcSent (pid_raw from_pid) (eid_raw endpoint_id) tag data_size)
                                     timestamp)))))"

definition step_call ::
  "kernel_state \<Rightarrow> process_id \<Rightarrow> u32 \<Rightarrow> u32 \<Rightarrow> u8 list \<Rightarrow> u64 \<Rightarrow> kernel_state \<times> step_result" where
  "step_call s from_pid endpoint_slot tag data timestamp =
     (let (s, send_result) = step_send s from_pid endpoint_slot tag data timestamp
      in (case sr_result send_result of
            ResOk _ \<Rightarrow> (s, \<lparr>sr_result = ResWouldBlock, sr_commits = sr_commits send_result\<rparr>)
          | err \<Rightarrow> (s, \<lparr>sr_result = err, sr_commits = sr_commits send_result\<rparr>)))"

definition step_list_caps :: "kernel_state \<Rightarrow> process_id \<Rightarrow> kernel_state \<times> step_result" where
  "step_list_caps s from_pid =
     (let caps = (case ks_get_cap_space s from_pid of Some cs \<Rightarrow> cs_list cs | None \<Rightarrow> [])
      in (s, step_quiet (ResCapList caps)))"

definition step_cap_grant ::
  "kernel_state \<Rightarrow> process_id \<Rightarrow> u32 \<Rightarrow> process_id \<Rightarrow> permissions \<Rightarrow> u64
   \<Rightarrow> kernel_state \<times> step_result" where
  "step_cap_grant s from_pid from_slot to_pid permissions timestamp =
     (case ks_get_cap_space s from_pid of
        None \<Rightarrow> (s, step_quiet (ResErr ProcessNotFound))
      | Some cspace \<Rightarrow>
          (case axiom_check cspace from_slot perms_grant_only None timestamp of
             Inl e \<Rightarrow> (s, step_quiet (ResErr (kernel_error_from e)))
           | Inr source_cap \<Rightarrow>
               if \<not> ks_process_exists s to_pid then (s, step_quiet (ResErr ProcessNotFound))
               else if \<not> is_subset_of permissions (cap_permissions source_cap)
               then (s, step_quiet (ResErr PermissionDenied))
               else
                 let (cid, s) = ks_alloc_cap_id s;
                     new_cap = \<lparr>cap_id = cid, cap_object_type = cap_object_type source_cap,
                                cap_object_id = cap_object_id source_cap,
                                cap_permissions = permissions,
                                cap_generation = cap_generation source_cap + 1,
                                cap_expires_at = cap_expires_at source_cap\<rparr>;
                     (new_slot, s) = cap_space_insert s to_pid new_cap
                 in (s, step_logged (ResOk (ucast new_slot))
                          (CapGranted (pid_raw from_pid) (pid_raw to_pid) new_slot
                             (cap_object_id source_cap)) timestamp)))"

definition step_cap_revoke ::
  "kernel_state \<Rightarrow> process_id \<Rightarrow> u32 \<Rightarrow> u64 \<Rightarrow> kernel_state \<times> step_result" where
  "step_cap_revoke s from_pid slot timestamp =
     (let (removed, s) = cap_space_remove s from_pid slot
      in (case removed of
            Some _ \<Rightarrow> (s, step_logged (ResOk 0) (CapRevoked (pid_raw from_pid) slot) timestamp)
          | None \<Rightarrow> (s, step_quiet (ResErr InvalidCapability))))"

definition step_cap_delete ::
  "kernel_state \<Rightarrow> process_id \<Rightarrow> u32 \<Rightarrow> u64 \<Rightarrow> kernel_state \<times> step_result" where
  "step_cap_delete s from_pid slot timestamp =
     (let (removed, s) = cap_space_remove s from_pid slot
      in (case removed of
            Some _ \<Rightarrow> (s, step_logged (ResOk 0) (CapDeleted (pid_raw from_pid) slot) timestamp)
          | None \<Rightarrow> (s, step_quiet (ResErr InvalidCapability))))"

definition step_cap_inspect :: "kernel_state \<Rightarrow> process_id \<Rightarrow> u32 \<Rightarrow> kernel_state \<times> step_result" where
  "step_cap_inspect s from_pid slot =
     (case ks_get_cap_space s from_pid of
        None \<Rightarrow> (s, step_quiet (ResErr ProcessNotFound))
      | Some cspace \<Rightarrow>
          (case cs_get cspace slot of
             Some c \<Rightarrow>
               (s, step_quiet (ResCapInfo
                     \<lparr>ci_id = cap_id c, ci_object_type = object_type_as_u8 (cap_object_type c),
                      ci_object_id = cap_object_id c,
                      ci_permissions = perms_to_byte (cap_permissions c),
                      ci_generation = cap_generation c, ci_expires_at = cap_expires_at c\<rparr>))
           | None \<Rightarrow> (s, step_quiet (ResErr InvalidCapability))))"

definition step_cap_derive ::
  "kernel_state \<Rightarrow> process_id \<Rightarrow> u32 \<Rightarrow> permissions \<Rightarrow> u64 \<Rightarrow> kernel_state \<times> step_result" where
  "step_cap_derive s from_pid slot new_permissions timestamp =
     (case ks_get_cap_space s from_pid of
        None \<Rightarrow> (s, step_quiet (ResErr ProcessNotFound))
      | Some cspace \<Rightarrow>
          (case cs_get cspace slot of
             None \<Rightarrow> (s, step_quiet (ResErr InvalidCapability))
           | Some source_cap \<Rightarrow>
               if \<not> is_subset_of new_permissions (cap_permissions source_cap)
               then (s, step_quiet (ResErr PermissionDenied))
               else
                 let (cid, s) = ks_alloc_cap_id s;
                     new_cap = \<lparr>cap_id = cid, cap_object_type = cap_object_type source_cap,
                                cap_object_id = cap_object_id source_cap,
                                cap_permissions = new_permissions,
                                cap_generation = cap_generation source_cap + 1,
                                cap_expires_at = cap_expires_at source_cap\<rparr>;
                     (new_slot, s) = cap_space_insert s from_pid new_cap
                 in (s, step_logged (ResOk (ucast new_slot))
                          (CapDerived (pid_raw from_pid) slot new_slot) timestamp)))"

section \<open>The step function\<close>

fun step_dispatch ::
  "kernel_state \<Rightarrow> process_id \<Rightarrow> syscall \<Rightarrow> u64 \<Rightarrow> kernel_state \<times> step_result" where
  "step_dispatch s from_pid (Debug _) ts = (s, step_quiet (ResOk 0))"
| "step_dispatch s from_pid GetTime ts = (s, step_quiet (ResOk ts))"
| "step_dispatch s from_pid Yield ts = (s, step_quiet (ResOk 0))"
| "step_dispatch s from_pid (Exit code) ts = step_exit s from_pid code ts"
| "step_dispatch s from_pid (Kill target_pid) ts = step_kill s from_pid target_pid ts"
| "step_dispatch s from_pid ListProcesses ts = step_list_processes s"
| "step_dispatch s from_pid CreateEndpoint ts = step_create_endpoint s from_pid ts"
| "step_dispatch s from_pid (Send slot tag data) ts = step_send s from_pid slot tag data ts"
| "step_dispatch s from_pid (Receive slot) ts = step_receive s from_pid slot ts"
| "step_dispatch s from_pid (SendWithCaps slot tag data cap_slots) ts =
     step_send_with_caps s from_pid slot tag data cap_slots ts"
| "step_dispatch s from_pid (Call slot tag data) ts = step_call s from_pid slot tag data ts"
| "step_dispatch s from_pid ListCaps ts = step_list_caps s from_pid"
| "step_dispatch s from_pid (CapGrant slot to_pid perms) ts =
     step_cap_grant s from_pid slot to_pid perms ts"
| "step_dispatch s from_pid (CapRevoke slot) ts = step_cap_revoke s from_pid slot ts"
| "step_dispatch s from_pid (CapDelete slot) ts = step_cap_delete s from_pid slot ts"
| "step_dispatch s from_pid (CapInspect slot) ts = step_cap_inspect s from_pid slot"
| "step_dispatch s from_pid (CapDerive slot perms) ts = step_cap_derive s from_pid slot perms ts"

definition step :: "kernel_state \<Rightarrow> process_id \<Rightarrow> syscall \<Rightarrow> u64 \<Rightarrow> kernel_state \<times> step_result" where
  "step s from_pid syscall timestamp =
     step_dispatch (ks_update_syscall_metrics s from_pid timestamp) from_pid syscall timestamp"

text \<open>A call as a value, so that a history is a list of calls.\<close>

type_synonym kcall = "process_id \<times> syscall \<times> u64"

fun step_state :: "kernel_state \<Rightarrow> kcall \<Rightarrow> kernel_state" where
  "step_state s (pid, sc, ts) = fst (step s pid sc ts)"

lemmas step_handler_defs =
  step_exit_def step_kill_def step_list_processes_def step_create_endpoint_def step_send_def
  step_receive_def step_send_with_caps_def step_call_def step_list_caps_def step_cap_grant_def
  step_cap_revoke_def step_cap_delete_def step_cap_inspect_def step_cap_derive_def

section \<open>Who holds what\<close>

definition holds :: "kernel_state \<Rightarrow> process_id \<Rightarrow> capability \<Rightarrow> bool" where
  "holds s pid c \<longleftrightarrow>
     (\<exists>cs slot. bt_get (ks_cap_spaces s) pid = Some cs \<and> cs_get cs slot = Some c)"

lemma holds_code [code]:
  "holds s pid c \<longleftrightarrow>
     (case bt_get (ks_cap_spaces s) pid of
        None \<Rightarrow> False
      | Some cs \<Rightarrow> (\<exists>e \<in> set (cs_slots cs). cs_get cs (fst e) = Some c))"
proof -
  have "\<exists>e \<in> set m. bt_get m (fst e) = Some v" if "bt_get m k = Some v" for m :: "(u32, capability) btree_map" and k v
    using that map_of_SomeD [OF that] by (intro bexI [of _ "(k, v)"]) simp_all
  then show ?thesis
    by (auto simp: holds_def cs_get_def split: option.split)
qed

text \<open>\<open>c\<close> names the same object as \<open>c0\<close>, with no more rights and the same expiry.\<close>

definition attenuates :: "capability \<Rightarrow> capability \<Rightarrow> bool" where
  "attenuates c c0 \<longleftrightarrow>
     cap_object_type c = cap_object_type c0 \<and> cap_object_id c = cap_object_id c0
     \<and> is_subset_of (cap_permissions c) (cap_permissions c0)
     \<and> cap_expires_at c = cap_expires_at c0"

lemma attenuates_refl [simp, intro]: "attenuates c c"
  by (simp add: attenuates_def)

lemma attenuates_trans [trans]: "attenuates a b \<Longrightarrow> attenuates b c \<Longrightarrow> attenuates a c"
  by (auto simp: attenuates_def intro: is_subset_of_trans)

lemma attenuates_grant:
  "attenuates c c0 \<Longrightarrow> perm_grant (cap_permissions c) \<Longrightarrow> perm_grant (cap_permissions c0)"
  by (auto simp: attenuates_def is_subset_of_def)

named_theorems ks_frame \<open>what the primitive state updates leave alone\<close>

lemma ks_spaces_frame [simp, ks_frame]:
  "ks_cap_spaces (ks_map_process pid f s) = ks_cap_spaces s"
  "ks_cap_spaces (ks_map_endpoint eid g s) = ks_cap_spaces s"
  "ks_cap_spaces (ks_update_syscall_metrics s pid ts) = ks_cap_spaces s"
  "ks_cap_spaces (snd (ks_kill_process s pid)) = ks_cap_spaces s"
  by (simp_all add: ks_map_process_def ks_map_endpoint_def ks_update_syscall_metrics_def
      ks_kill_process_def split: option.split)

lemma ks_endpoints_frame [simp, ks_frame]:
  "ks_endpoints (ks_map_process pid f s) = ks_endpoints s"
  "ks_endpoints (ks_map_cap_space pid h s) = ks_endpoints s"
  "ks_endpoints (ks_update_syscall_metrics s pid ts) = ks_endpoints s"
  "ks_endpoints (snd (ks_kill_process s pid)) = ks_endpoints s"
  "ks_endpoints (snd (cap_space_insert s pid c)) = ks_endpoints s"
  "ks_endpoints (snd (cap_space_remove s pid slot)) = ks_endpoints s"
  by (simp_all add: ks_map_process_def ks_map_cap_space_def ks_update_syscall_metrics_def
      ks_kill_process_def cap_space_insert_def cap_space_remove_def split: option.split)

lemma ks_processes_frame [simp, ks_frame]:
  "ks_processes (ks_map_endpoint eid g s) = ks_processes s"
  "ks_processes (ks_map_cap_space pid h s) = ks_processes s"
  "ks_processes (snd (cap_space_insert s pid c)) = ks_processes s"
  "ks_processes (snd (cap_space_remove s pid slot)) = ks_processes s"
  by (simp_all add: ks_map_endpoint_def ks_map_cap_space_def
      cap_space_insert_def cap_space_remove_def split: option.split)

lemma ks_counters_frame [simp, ks_frame]:
  "ks_next_pid (ks_map_process pid f s) = ks_next_pid s"
  "ks_next_pid (ks_map_endpoint eid g s) = ks_next_pid s"
  "ks_next_pid (ks_map_cap_space pid h s) = ks_next_pid s"
  "ks_next_endpoint_id (ks_map_process pid f s) = ks_next_endpoint_id s"
  "ks_next_endpoint_id (ks_map_endpoint eid g s) = ks_next_endpoint_id s"
  "ks_next_endpoint_id (ks_map_cap_space pid h s) = ks_next_endpoint_id s"
  "ks_next_cap_id (ks_map_process pid f s) = ks_next_cap_id s"
  "ks_next_cap_id (ks_map_endpoint eid g s) = ks_next_cap_id s"
  "ks_next_cap_id (ks_map_cap_space pid h s) = ks_next_cap_id s"
  by (simp_all add: ks_map_process_def ks_map_endpoint_def ks_map_cap_space_def)

lemma ks_counters_calls [simp, ks_frame]:
  "ks_next_endpoint_id (ks_update_syscall_metrics s pid ts) = ks_next_endpoint_id s"
  "ks_next_endpoint_id (snd (ks_kill_process s pid)) = ks_next_endpoint_id s"
  "ks_next_endpoint_id (snd (cap_space_insert s pid c)) = ks_next_endpoint_id s"
  "ks_next_endpoint_id (snd (cap_space_remove s pid slot)) = ks_next_endpoint_id s"
  "ks_next_pid (ks_update_syscall_metrics s pid ts) = ks_next_pid s"
  "ks_next_pid (snd (ks_kill_process s pid)) = ks_next_pid s"
  "ks_next_pid (snd (cap_space_insert s pid c)) = ks_next_pid s"
  "ks_next_pid (snd (cap_space_remove s pid slot)) = ks_next_pid s"
  "ks_next_cap_id (ks_update_syscall_metrics s pid ts) = ks_next_cap_id s"
  "ks_next_cap_id (snd (ks_kill_process s pid)) = ks_next_cap_id s"
  "ks_next_cap_id (snd (cap_space_insert s pid c)) = ks_next_cap_id s"
  "ks_next_cap_id (snd (cap_space_remove s pid slot)) = ks_next_cap_id s"
  by (simp_all add: ks_update_syscall_metrics_def ks_kill_process_def cap_space_insert_def
      cap_space_remove_def split: option.split)

lemma holds_frame [simp]:
  "holds (ks_map_process pid f s) = holds s"
  "holds (ks_map_endpoint eid g s) = holds s"
  "holds (ks_update_syscall_metrics s pid ts) = holds s"
  "holds (snd (ks_kill_process s pid)) = holds s"
  "holds (s\<lparr>ks_total_ipc_count := n\<rparr>) = holds s"
  "holds (s\<lparr>ks_next_cap_id := i\<rparr>) = holds s"
  "holds (s\<lparr>ks_next_endpoint_id := i\<rparr>) = holds s"
  "holds (s\<lparr>ks_endpoints := es\<rparr>) = holds s"
  by (simp_all add: holds_def fun_eq_iff)

lemma holds_insert:
  "holds (snd (cap_space_insert s pid c)) q d \<Longrightarrow> holds s q d \<or> q = pid \<and> d = c"
  by (auto simp: holds_def cap_space_insert_def ks_map_cap_space_def ks_get_cap_space_def
      split: option.splits if_splits)

lemma holds_remove: "holds (snd (cap_space_remove s pid slot)) q d \<Longrightarrow> holds s q d"
  by (auto simp: holds_def cap_space_remove_def ks_map_cap_space_def ks_get_cap_space_def
      split: option.splits if_splits)

lemma holds_getI: "ks_get_cap_space s pid = Some cs \<Longrightarrow> cs_get cs slot = Some c \<Longrightarrow> holds s pid c"
  by (auto simp: holds_def ks_get_cap_space_def)

lemma fst_step_call [simp]:
  "fst (step_call s pid slot tag data ts) = fst (step_send s pid slot tag data ts)"
  by (simp add: step_call_def Let_def case_prod_unfold split: syscall_result.split)

text \<open>Only five handlers touch capability spaces.\<close>

lemma step_spaces_kept [simp]:
  "ks_cap_spaces (fst (step_exit s pid code ts)) = ks_cap_spaces s"
  "ks_cap_spaces (fst (step_kill s pid target ts)) = ks_cap_spaces s"
  "ks_cap_spaces (fst (step_send s pid slot tag data ts)) = ks_cap_spaces s"
  "ks_cap_spaces (fst (step_receive s pid slot ts)) = ks_cap_spaces s"
  "ks_cap_spaces (fst (step_send_with_caps s pid slot tag data caps ts)) = ks_cap_spaces s"
  by (simp_all add: step_exit_def step_kill_def step_send_def step_receive_def
      step_send_with_caps_def Let_def split: option.split sum.split)

lemma fst_step_reads [simp]:
  "fst (step_list_processes s) = s"
  "fst (step_list_caps s pid) = s"
  "fst (step_cap_inspect s pid slot) = s"
  by (simp_all add: step_list_processes_def step_list_caps_def step_cap_inspect_def Let_def
      split: option.split)

definition fresh_endpoint_cap :: "kernel_state \<Rightarrow> capability" where
  "fresh_endpoint_cap s =
     \<lparr>cap_id = ks_next_cap_id s, cap_object_type = ObjEndpoint,
      cap_object_id = ks_next_endpoint_id s, cap_permissions = perms_full,
      cap_generation = 0, cap_expires_at = 0\<rparr>"

lemma holds_create_endpoint:
  "holds (fst (step_create_endpoint s pid ts)) q c \<Longrightarrow>
     holds s q c \<or> q = pid \<and> c = fresh_endpoint_cap s"
  by (auto simp: step_create_endpoint_def Let_def case_prod_unfold ks_alloc_endpoint_id_def
      ks_alloc_cap_id_def fresh_endpoint_cap_def dest!: holds_insert split: if_splits)

lemma holds_grant:
  "holds (fst (step_cap_grant s pid slot to_pid perms ts)) q c \<Longrightarrow>
     holds s q c \<or> (\<exists>c0. holds s pid c0 \<and> attenuates c c0 \<and> perm_grant (cap_permissions c0))"
  by (auto simp: step_cap_grant_def Let_def case_prod_unfold ks_alloc_cap_id_def axiom_check_Inr
      attenuates_def dest!: holds_insert intro: holds_getI split: if_splits option.splits sum.splits)

lemma holds_derive:
  "holds (fst (step_cap_derive s pid slot perms ts)) q c \<Longrightarrow>
     holds s q c \<or> (\<exists>c0. holds s pid c0 \<and> attenuates c c0 \<and> q = pid)"
  by (auto simp: step_cap_derive_def Let_def case_prod_unfold ks_alloc_cap_id_def
      attenuates_def dest!: holds_insert intro: holds_getI split: if_splits option.splits)

lemma holds_revoke:
  "holds (fst (step_cap_revoke s pid slot ts)) q c \<Longrightarrow> holds s q c"
  "holds (fst (step_cap_delete s pid slot ts)) q c \<Longrightarrow> holds s q c"
  by (auto simp: step_cap_revoke_def step_cap_delete_def Let_def case_prod_unfold
      dest: holds_remove split: option.splits)

lemma holds_cong: "ks_cap_spaces t = ks_cap_spaces s \<Longrightarrow> holds t q c = holds s q c"
  by (simp add: holds_def)

lemma fresh_endpoint_cap_metrics [simp]:
  "fresh_endpoint_cap (ks_update_syscall_metrics s pid ts) = fresh_endpoint_cap s"
  by (simp add: fresh_endpoint_cap_def)

text \<open>
  Where a capability that is held after a step comes from: it was there, or it is the
  capability to an endpoint the step created, or the caller held one it attenuates.
\<close>

lemma step_holds:
  assumes "holds (fst (step s pid sc ts)) q c"
  shows "holds s q c
    \<or> sc = CreateEndpoint \<and> q = pid \<and> c = fresh_endpoint_cap s
    \<or> (\<exists>c0. holds s pid c0 \<and> attenuates c c0 \<and> (q = pid \<or> perm_grant (cap_permissions c0)))"
proof -
  let ?s = "ks_update_syscall_metrics s pid ts"
  have "holds (fst (step_dispatch ?s pid sc ts)) q c"
    using assms by (simp add: step_def)
  then show ?thesis
    by (cases sc)
      (auto simp: holds_cong [OF step_spaces_kept(1)] holds_cong [OF step_spaces_kept(2)]
        holds_cong [OF step_spaces_kept(3)] holds_cong [OF step_spaces_kept(4)]
        holds_cong [OF step_spaces_kept(5)]
        dest!: holds_create_endpoint holds_grant holds_derive holds_revoke)
qed

section \<open>Histories never amplify rights\<close>

text \<open>
  Between two states: every capability of the later one to an object that existed in the
  earlier one attenuates a capability held there, by the same process unless that one
  carries the right to grant.
\<close>

definition authority_le :: "kernel_state \<Rightarrow> kernel_state \<Rightarrow> bool" where
  "authority_le s s' \<longleftrightarrow>
     ks_next_endpoint_id s \<le> ks_next_endpoint_id s' \<and>
     (\<forall>pid c. holds s' pid c \<and>
        (cap_object_type c = ObjEndpoint \<longrightarrow> cap_object_id c < ks_next_endpoint_id s) \<longrightarrow>
        (\<exists>q c0. holds s q c0 \<and> attenuates c c0
           \<and> (q = pid \<or> perm_grant (cap_permissions c0))))"

definition endpoint_ids_left :: "kernel_state \<Rightarrow> kcall \<Rightarrow> bool" where
  "endpoint_ids_left s i \<longleftrightarrow> ks_next_endpoint_id s \<noteq> - 1"

lemma authority_le_refl: "authority_le s s"
  by (auto simp: authority_le_def)

lemma authority_le_trans:
  assumes "authority_le s t" "authority_le t u"
  shows "authority_le s u"
  unfolding authority_le_def
proof (intro conjI allI impI)
  show "ks_next_endpoint_id s \<le> ks_next_endpoint_id u"
    using assms by (auto simp: authority_le_def)
next
  fix pid c
  assume c: "holds u pid c \<and>
    (cap_object_type c = ObjEndpoint \<longrightarrow> cap_object_id c < ks_next_endpoint_id s)"
  then have "holds u pid c \<and>
    (cap_object_type c = ObjEndpoint \<longrightarrow> cap_object_id c < ks_next_endpoint_id t)"
    using assms(1) by (auto simp: authority_le_def)
  then obtain q c1 where 1: "holds t q c1" "attenuates c c1"
      "q = pid \<or> perm_grant (cap_permissions c1)"
    using assms(2) unfolding authority_le_def by blast
  moreover have "cap_object_type c1 = ObjEndpoint \<longrightarrow> cap_object_id c1 < ks_next_endpoint_id s"
    using 1(2) c by (auto simp: attenuates_def)
  ultimately obtain r c0 where 0: "holds s r c0" "attenuates c1 c0"
      "r = q \<or> perm_grant (cap_permissions c0)"
    using assms(1) unfolding authority_le_def by blast
  have "attenuates c c0" "r = pid \<or> perm_grant (cap_permissions c0)"
    using 0 1 attenuates_trans attenuates_grant by blast+
  then show "\<exists>q c0. holds s q c0 \<and> attenuates c c0 \<and> (q = pid \<or> perm_grant (cap_permissions c0))"
    using 0 by blast
qed

lemma step_next_endpoint_kept [simp]:
  "ks_next_endpoint_id (fst (step_exit s pid code ts)) = ks_next_endpoint_id s"
  "ks_next_endpoint_id (fst (step_kill s pid target ts)) = ks_next_endpoint_id s"
  "ks_next_endpoint_id (fst (step_send s pid slot tag data ts)) = ks_next_endpoint_id s"
  "ks_next_endpoint_id (fst (step_receive s pid slot ts)) = ks_next_endpoint_id s"
  "ks_next_endpoint_id (fst (step_send_with_caps s pid slot tag data caps ts))
     = ks_next_endpoint_id s"
  "ks_next_endpoint_id (fst (step_cap_grant s pid slot to_pid perms ts)) = ks_next_endpoint_id s"
  "ks_next_endpoint_id (fst (step_cap_derive s pid slot perms ts)) = ks_next_endpoint_id s"
  "ks_next_endpoint_id (fst (step_cap_revoke s pid slot ts)) = ks_next_endpoint_id s"
  "ks_next_endpoint_id (fst (step_cap_delete s pid slot ts)) = ks_next_endpoint_id s"
  by (simp_all add: step_exit_def step_kill_def step_send_def step_receive_def
      step_send_with_caps_def step_cap_grant_def step_cap_derive_def step_cap_revoke_def
      step_cap_delete_def ks_alloc_cap_id_def Let_def case_prod_unfold
      split: option.split sum.split)

lemma create_next_endpoint_id:
  "ks_next_endpoint_id (fst (step_create_endpoint s pid ts)) =
     (if ks_process_exists s pid then ks_next_endpoint_id s + 1 else ks_next_endpoint_id s)"
  by (simp add: step_create_endpoint_def ks_alloc_endpoint_id_def ks_alloc_cap_id_def Let_def
      case_prod_unfold)

lemma step_next_endpoint_id:
  "ks_next_endpoint_id (fst (step s pid sc ts)) \<in> {ks_next_endpoint_id s, ks_next_endpoint_id s + 1}"
  by (cases sc) (simp_all add: step_def create_next_endpoint_id)

lemma step_authority_le:
  assumes "endpoint_ids_left s (pid, sc, ts)"
  shows "authority_le s (fst (step s pid sc ts))"
proof -
  have "ks_next_endpoint_id s \<le> ks_next_endpoint_id (fst (step s pid sc ts))"
    using step_next_endpoint_id [of s pid sc ts] assms
      word_less_succ [of "ks_next_endpoint_id s" "ks_next_endpoint_id s"]
    by (auto simp: endpoint_ids_left_def)
  then show ?thesis
    unfolding authority_le_def
    by (auto dest!: step_holds simp: fresh_endpoint_cap_def)
qed

interpretation authority: guarded_machine step_state endpoint_ids_left "\<lambda>_. True" authority_le
proof unfold_locales
  fix s i
  assume "endpoint_ids_left s i"
  then show "authority_le s (step_state s i)"
    by (cases i) (simp add: step_authority_le)
qed (auto intro: authority_le_refl authority_le_trans)

end
