(* ===== verification/Kernel_Invariants.thy ===== *)
theory Kernel_Invariants
  imports Kernel_Step
begin

text \<open>
  The runtime-checkable invariants of \<^verbatim>\<open>zos-kernel-core/src/invariants.rs\<close>. The checkers are
  translated as they are, with their messages; \<open>check_all_invariants_iff\<close> says what an empty
  report means, and the rest of the theory shows which system calls keep the report empty.
\<close>

section \<open>The checkers\<close>

text \<open>Decimal output of \<^verbatim>\<open>format!\<close> for unsigned integers.\<close>

definition digit_char :: "nat \<Rightarrow> char" where
  "digit_char d = char_of (48 + d)"

fun show_nat :: "nat \<Rightarrow> string" where
  "show_nat n = (if n < 10 then [digit_char n] else show_nat (n div 10) @ [digit_char (n mod 10)])"

definition show_u64 :: "u64 \<Rightarrow> string" where
  "show_u64 w = show_nat (unat w)"

definition show_u32 :: "u32 \<Rightarrow> string" where
  "show_u32 w = show_nat (unat w)"

record invariant_violation =
  iv_invariant :: string
  iv_description :: string

definition check_process_capability_consistency :: "kernel_state \<Rightarrow> invariant_violation list" where
  "check_process_capability_consistency s =
     concat (map (\<lambda>(pid, _).
       if \<not> bt_contains (ks_cap_spaces s) pid
       then [\<lparr>iv_invariant = ''process_capability_consistency'',
              iv_description = ''Process '' @ show_u64 (pid_raw pid)
                @ '' exists but has no capability space''\<rparr>]
       else []) (ks_processes s))
     @ concat (map (\<lambda>(pid, _).
       if \<not> bt_contains (ks_processes s) pid
       then [\<lparr>iv_invariant = ''process_capability_consistency'',
              iv_description = ''Capability space exists for non-existent process ''
                @ show_u64 (pid_raw pid)\<rparr>]
       else []) (ks_cap_spaces s))"

definition check_endpoint_ownership :: "kernel_state \<Rightarrow> invariant_violation list" where
  "check_endpoint_ownership s =
     concat (map (\<lambda>(eid, endpoint).
       if \<not> bt_contains (ks_processes s) (ep_owner endpoint)
       then [\<lparr>iv_invariant = ''endpoint_ownership'',
              iv_description = ''Endpoint '' @ show_u64 (eid_raw eid)
                @ '' owned by non-existent process '' @ show_u64 (pid_raw (ep_owner endpoint))\<rparr>]
       else case bt_get (ks_processes s) (ep_owner endpoint) of
              Some proc \<Rightarrow>
                if proc_state proc = Zombie
                then [\<lparr>iv_invariant = ''endpoint_ownership'',
                       iv_description = ''Endpoint '' @ show_u64 (eid_raw eid)
                         @ '' owned by zombie process '' @ show_u64 (pid_raw (ep_owner endpoint))\<rparr>]
                else []
            | None \<Rightarrow> []) (ks_endpoints s))"

definition check_capability_object_validity :: "kernel_state \<Rightarrow> invariant_violation list" where
  "check_capability_object_validity s =
     concat (map (\<lambda>(pid, cspace). concat (map (\<lambda>(slot, cap).
       case cap_object_type cap of
         ObjEndpoint \<Rightarrow>
           if \<not> bt_contains (ks_endpoints s) (EndpointId (cap_object_id cap))
           then [\<lparr>iv_invariant = ''capability_object_validity'',
                  iv_description = ''Process '' @ show_u64 (pid_raw pid) @ '' slot '' @ show_u32 slot
                    @ '' references non-existent endpoint '' @ show_u64 (cap_object_id cap)\<rparr>]
           else []
       | ObjProcess \<Rightarrow>
           if \<not> bt_contains (ks_processes s) (ProcessId (cap_object_id cap))
           then [\<lparr>iv_invariant = ''capability_object_validity'',
                  iv_description = ''Process '' @ show_u64 (pid_raw pid) @ '' slot '' @ show_u32 slot
                    @ '' references non-existent process '' @ show_u64 (cap_object_id cap)\<rparr>]
           else []
       | _ \<Rightarrow> []) (cs_slots cspace))) (ks_cap_spaces s))"

definition check_id_monotonicity :: "kernel_state \<Rightarrow> invariant_violation list" where
  "check_id_monotonicity s =
     concat (map (\<lambda>(pid, _).
       if pid_raw pid \<ge> ks_next_pid s
       then [\<lparr>iv_invariant = ''id_monotonicity'',
              iv_description = ''Process '' @ show_u64 (pid_raw pid) @ '' exists but next_pid is ''
                @ show_u64 (ks_next_pid s)\<rparr>]
       else []) (ks_processes s))
     @ concat (map (\<lambda>(eid, _).
       if eid_raw eid \<ge> ks_next_endpoint_id s
       then [\<lparr>iv_invariant = ''id_monotonicity'',
              iv_description = ''Endpoint '' @ show_u64 (eid_raw eid)
                @ '' exists but next_endpoint_id is '' @ show_u64 (ks_next_endpoint_id s)\<rparr>]
       else []) (ks_endpoints s))
     @ concat (map (\<lambda>(_, cspace). concat (map (\<lambda>(_, cap).
       if cap_id cap \<ge> ks_next_cap_id s
       then [\<lparr>iv_invariant = ''id_monotonicity'',
              iv_description = ''Capability '' @ show_u64 (cap_id cap)
                @ '' exists but next_cap_id is '' @ show_u64 (ks_next_cap_id s)\<rparr>]
       else []) (cs_slots cspace))) (ks_cap_spaces s))"

definition check_all_invariants :: "kernel_state \<Rightarrow> invariant_violation list" where
  "check_all_invariants s =
     check_process_capability_consistency s
     @ check_endpoint_ownership s
     @ check_capability_object_validity s
     @ check_id_monotonicity s"

text \<open>\<open>Inl\<close> is the panic message: the name of the first violated invariant.\<close>

definition assert_invariants :: "kernel_state \<Rightarrow> string + unit" where
  "assert_invariants s =
     (case check_all_invariants s of
        [] \<Rightarrow> Inr ()
      | v # _ \<Rightarrow> Inl (''Invariant violated: '' @ iv_invariant v))"

section \<open>What the checkers mean\<close>

definition kernel_wf :: "kernel_state \<Rightarrow> bool" where
  "kernel_wf s \<longleftrightarrow>
     bt_wf (ks_processes s) \<and> bt_wf (ks_cap_spaces s) \<and> bt_wf (ks_endpoints s)
     \<and> (\<forall>pid p. bt_get (ks_processes s) pid = Some p \<longrightarrow> proc_pid p = pid)
     \<and> (\<forall>pid cs. bt_get (ks_cap_spaces s) pid = Some cs \<longrightarrow> bt_wf (cs_slots cs))
     \<and> (\<forall>eid e. bt_get (ks_endpoints s) eid = Some e \<longrightarrow> ep_id e = eid \<and> ep_metrics_ok e)"

definition inv_spaces :: "kernel_state \<Rightarrow> bool" where
  "inv_spaces s \<longleftrightarrow> dom (bt_get (ks_processes s)) = dom (bt_get (ks_cap_spaces s))"

definition inv_owners :: "kernel_state \<Rightarrow> bool" where
  "inv_owners s \<longleftrightarrow>
     (\<forall>eid e. bt_get (ks_endpoints s) eid = Some e \<longrightarrow> bt_contains (ks_processes s) (ep_owner e))"

definition inv_live_owners :: "kernel_state \<Rightarrow> bool" where
  "inv_live_owners s \<longleftrightarrow>
     (\<forall>eid e. bt_get (ks_endpoints s) eid = Some e \<longrightarrow> ks_process_exists s (ep_owner e))"

definition cap_object_ok :: "kernel_state \<Rightarrow> capability \<Rightarrow> bool" where
  "cap_object_ok s c \<longleftrightarrow>
     (cap_object_type c = ObjEndpoint \<longrightarrow> bt_contains (ks_endpoints s) (EndpointId (cap_object_id c)))
     \<and> (cap_object_type c = ObjProcess \<longrightarrow> bt_contains (ks_processes s) (ProcessId (cap_object_id c)))"

definition inv_objects :: "kernel_state \<Rightarrow> bool" where
  "inv_objects s \<longleftrightarrow> (\<forall>pid c. holds s pid c \<longrightarrow> cap_object_ok s c)"

definition inv_ids :: "kernel_state \<Rightarrow> bool" where
  "inv_ids s \<longleftrightarrow>
     (\<forall>pid. bt_contains (ks_processes s) pid \<longrightarrow> pid_raw pid < ks_next_pid s)
     \<and> (\<forall>eid. bt_contains (ks_endpoints s) eid \<longrightarrow> eid_raw eid < ks_next_endpoint_id s)
     \<and> (\<forall>pid c. holds s pid c \<longrightarrow> cap_id c < ks_next_cap_id s)"

definition kernel_invariant :: "kernel_state \<Rightarrow> bool" where
  "kernel_invariant s \<longleftrightarrow>
     kernel_wf s \<and> inv_spaces s \<and> inv_owners s \<and> inv_objects s \<and> inv_ids s"

lemmas kernel_invariant_defs =
  kernel_invariant_def kernel_wf_def inv_spaces_def inv_owners_def inv_objects_def inv_ids_def
  cap_object_ok_def

lemma bt_contains_set: "bt_wf m \<Longrightarrow> (k, v) \<in> set m \<Longrightarrow> bt_contains m k"
  by (simp add: bt_contains_def bt_in_set_iff)

lemma bt_ball_set:
  "bt_wf m \<Longrightarrow> (\<forall>e \<in> set m. P (fst e) (snd e)) \<longleftrightarrow> (\<forall>k v. bt_get m k = Some v \<longrightarrow> P k v)"
  by (auto simp: bt_in_set_iff [symmetric])

lemma kernel_wf_code [code]:
  "kernel_wf s \<longleftrightarrow>
     bt_wf (ks_processes s) \<and> bt_wf (ks_cap_spaces s) \<and> bt_wf (ks_endpoints s)
     \<and> (\<forall>x \<in> set (ks_processes s). proc_pid (snd x) = fst x)
     \<and> (\<forall>x \<in> set (ks_cap_spaces s). bt_wf (cs_slots (snd x)))
     \<and> (\<forall>x \<in> set (ks_endpoints s). ep_id (snd x) = fst x \<and> ep_metrics_ok (snd x))"
  unfolding kernel_wf_def
  using bt_ball_set [of "ks_processes s" "\<lambda>pid p. proc_pid p = pid"]
    bt_ball_set [of "ks_cap_spaces s" "\<lambda>_ cs. bt_wf (cs_slots cs)"]
    bt_ball_set [of "ks_endpoints s" "\<lambda>eid e. ep_id e = eid \<and> ep_metrics_ok e"]
  by blast

lemma concat_map_Nil: "concat (map f xs) = [] \<longleftrightarrow> (\<forall>x \<in> set xs. f x = [])"
  by simp

lemma report_Nil: "(if b then [x] else []) = [] \<longleftrightarrow> \<not> b"
  by simp

lemma check_spaces_iff:
  assumes "kernel_wf s"
  shows "check_process_capability_consistency s = [] \<longleftrightarrow> inv_spaces s"
proof -
  have wf: "bt_wf (ks_processes s)" "bt_wf (ks_cap_spaces s)"
    using assms by (auto simp: kernel_wf_def)
  have "check_process_capability_consistency s = [] \<longleftrightarrow>
      (\<forall>x \<in> set (ks_processes s). bt_contains (ks_cap_spaces s) (fst x))
      \<and> (\<forall>x \<in> set (ks_cap_spaces s). bt_contains (ks_processes s) (fst x))"
    by (force simp: check_process_capability_consistency_def split: if_splits)
  then show ?thesis
    using bt_ball_set [OF wf(1), where P = "\<lambda>pid _. bt_contains (ks_cap_spaces s) pid"]
      bt_ball_set [OF wf(2), where P = "\<lambda>pid _. bt_contains (ks_processes s) pid"]
    by (auto simp: inv_spaces_def bt_contains_def dom_def)
qed

lemma check_owners_iff:
  assumes "kernel_wf s"
  shows "check_endpoint_ownership s = [] \<longleftrightarrow> inv_live_owners s"
proof -
  have "check_endpoint_ownership s = [] \<longleftrightarrow>
      (\<forall>x \<in> set (ks_endpoints s). ks_process_exists s (ep_owner (snd x)))"
    by (force simp: check_endpoint_ownership_def bt_contains_def
        ks_process_exists_def split: option.splits if_splits)
  with assms show ?thesis
    by (simp add: inv_live_owners_def kernel_wf_def
        bt_ball_set [where P = "\<lambda>_ e. ks_process_exists s (ep_owner e)"])
qed

text \<open>Quantifying over the capabilities in all spaces is quantifying over \<open>holds\<close>.\<close>

lemma all_held_iff:
  assumes "kernel_wf s"
  shows "(\<forall>x \<in> set (ks_cap_spaces s). \<forall>y \<in> set (cs_slots (snd x)). P (snd y)) \<longleftrightarrow>
         (\<forall>pid c. holds s pid c \<longrightarrow> P c)"
proof -
  have wf: "bt_wf (ks_cap_spaces s)"
    and slots: "\<And>pid cs. bt_get (ks_cap_spaces s) pid = Some cs \<Longrightarrow> bt_wf (cs_slots cs)"
    using assms by (auto simp: kernel_wf_def)
  have "(\<forall>x \<in> set (ks_cap_spaces s). \<forall>y \<in> set (cs_slots (snd x)). P (snd y)) \<longleftrightarrow>
      (\<forall>pid cs. bt_get (ks_cap_spaces s) pid = Some cs \<longrightarrow> (\<forall>y \<in> set (cs_slots cs). P (snd y)))"
    using bt_ball_set [OF wf, where P = "\<lambda>_ cs. \<forall>y \<in> set (cs_slots cs). P (snd y)"] by simp
  also have "\<dots> \<longleftrightarrow> (\<forall>pid cs. bt_get (ks_cap_spaces s) pid = Some cs \<longrightarrow>
      (\<forall>slot c. cs_get cs slot = Some c \<longrightarrow> P c))"
    using bt_ball_set [OF slots, where P = "\<lambda>_ c. P c"] by (simp add: cs_get_def)
  finally show ?thesis
    by (auto simp: holds_def)
qed

lemma check_objects_iff:
  assumes "kernel_wf s"
  shows "check_capability_object_validity s = [] \<longleftrightarrow> inv_objects s"
proof -
  have "check_capability_object_validity s = [] \<longleftrightarrow>
      (\<forall>x \<in> set (ks_cap_spaces s). \<forall>y \<in> set (cs_slots (snd x)). cap_object_ok s (snd y))"
    by (force simp: check_capability_object_validity_def cap_object_ok_def
        split: object_type.splits if_splits)
  with assms show ?thesis
    by (simp add: all_held_iff inv_objects_def)
qed

lemma check_ids_iff:
  assumes "kernel_wf s"
  shows "check_id_monotonicity s = [] \<longleftrightarrow> inv_ids s"
proof -
  have wf: "bt_wf (ks_processes s)" "bt_wf (ks_endpoints s)"
    using assms by (auto simp: kernel_wf_def)
  have "check_id_monotonicity s = [] \<longleftrightarrow>
      (\<forall>x \<in> set (ks_processes s). pid_raw (fst x) < ks_next_pid s)
      \<and> (\<forall>x \<in> set (ks_endpoints s). eid_raw (fst x) < ks_next_endpoint_id s)
      \<and> (\<forall>x \<in> set (ks_cap_spaces s). \<forall>y \<in> set (cs_slots (snd x)). cap_id (snd y) < ks_next_cap_id s)"
    by (simp only: check_id_monotonicity_def append_is_Nil_conv concat_map_Nil split_beta
        report_Nil not_le)
  then show ?thesis
    using bt_ball_set [OF wf(1), where P = "\<lambda>pid _. pid_raw pid < ks_next_pid s"]
      bt_ball_set [OF wf(2), where P = "\<lambda>eid _. eid_raw eid < ks_next_endpoint_id s"]
      all_held_iff [OF assms, where P = "\<lambda>c. cap_id c < ks_next_cap_id s"]
    by (auto simp: inv_ids_def bt_contains_def)
qed

lemma live_owners_are_owners: "inv_live_owners s \<Longrightarrow> inv_owners s"
  by (fastforce simp: inv_live_owners_def inv_owners_def ks_process_exists_def bt_contains_def
      split: option.splits)

lemma check_all_iff:
  assumes "kernel_wf s"
  shows "check_all_invariants s = [] \<longleftrightarrow> kernel_invariant s \<and> inv_live_owners s"
  using assms live_owners_are_owners
  by (auto simp: check_all_invariants_def kernel_invariant_def check_spaces_iff check_owners_iff
      check_objects_iff check_ids_iff)

section \<open>Primitive updates keep the invariant\<close>

named_theorems kinv_intros \<open>updates that keep the kernel invariant\<close>

lemma ks_dom_map [simp]:
  "dom (bt_get (ks_processes (ks_map_process pid f s))) = dom (bt_get (ks_processes s))"
  "dom (bt_get (ks_cap_spaces (ks_map_cap_space pid h s))) = dom (bt_get (ks_cap_spaces s))"
  by (auto simp: ks_map_process_def ks_map_cap_space_def split: if_splits)

lemma ks_contains_map_process [simp]:
  "bt_contains (ks_processes (ks_map_process pid f s)) q = bt_contains (ks_processes s) q"
  by (auto simp: ks_map_process_def bt_contains_def)

lemma ks_contains_map_endpoint [simp]:
  "bt_contains (ks_endpoints (ks_map_endpoint eid g s)) e = bt_contains (ks_endpoints s) e"
  by (auto simp: ks_map_endpoint_def bt_contains_def)

lemma ks_contains_map_cap_space [simp]:
  "bt_contains (ks_cap_spaces (ks_map_cap_space pid h s)) q = bt_contains (ks_cap_spaces s) q"
  by (auto simp: ks_map_cap_space_def bt_contains_def)

lemma kinv_map_process [kinv_intros]:
  assumes "kernel_invariant s" "\<And>p. proc_pid (f p) = proc_pid p"
  shows "kernel_invariant (ks_map_process pid f s)"
proof -
  have "kernel_wf (ks_map_process pid f s)"
    using assms by (auto simp: kernel_invariant_def kernel_wf_def ks_map_process_def)
  then show ?thesis
    using assms by (simp add: kernel_invariant_defs)
qed

lemma kinv_map_endpoint [kinv_intros]:
  assumes "kernel_invariant s"
    and "\<And>e. ep_id (g e) = ep_id e \<and> ep_owner (g e) = ep_owner e"
    and "\<And>e. ep_metrics_ok e \<Longrightarrow> ep_metrics_ok (g e)"
  shows "kernel_invariant (ks_map_endpoint eid g s)"
proof -
  have "kernel_wf (ks_map_endpoint eid g s)" "inv_owners (ks_map_endpoint eid g s)"
    using assms
    by (auto simp: kernel_invariant_def kernel_wf_def inv_owners_def ks_map_endpoint_def
        split: if_splits)
  then show ?thesis
    using assms by (simp add: kernel_invariant_defs)
qed

lemma kinv_total_ipc [kinv_intros]:
  "kernel_invariant s \<Longrightarrow> kernel_invariant (s\<lparr>ks_total_ipc_count := n\<rparr>)"
  by (simp add: kernel_invariant_defs)

lemma cap_object_ok_frame:
  "cap_object_ok (ks_map_cap_space pid h s) c = cap_object_ok s c"
  by (simp add: cap_object_ok_def)

lemma kinv_map_cap_space:
  assumes "kernel_invariant s"
    and "\<And>cs. bt_wf (cs_slots cs) \<Longrightarrow> bt_wf (cs_slots (h cs))"
    and "\<And>cs slot c. cs_get (h cs) slot = Some c \<Longrightarrow>
           cs_get cs slot = Some c \<or> cap_object_ok s c \<and> cap_id c < ks_next_cap_id s"
  shows "kernel_invariant (ks_map_cap_space pid h s)"
proof -
  let ?t = "ks_map_cap_space pid h s"
  have held: "holds s q c \<or> cap_object_ok s c \<and> cap_id c < ks_next_cap_id s" if "holds ?t q c" for q c
    using that assms(3)
    by (fastforce simp: holds_def ks_map_cap_space_def split: if_splits)
  have "kernel_wf ?t"
    using assms(1,2)
    by (auto simp: kernel_invariant_def kernel_wf_def ks_map_cap_space_def split: if_splits)
  moreover have "inv_objects ?t"
    using assms(1) held by (auto simp: kernel_invariant_def inv_objects_def cap_object_ok_frame)
  moreover have "inv_ids ?t"
    using assms(1) by (auto simp: kernel_invariant_def inv_ids_def dest!: held)
  ultimately show ?thesis
    using assms(1) by (simp add: kernel_invariant_def inv_spaces_def inv_owners_def)
qed

lemma kinv_cap_space_insert [kinv_intros]:
  assumes "kernel_invariant s" "cap_object_ok s c" "cap_id c < ks_next_cap_id s"
  shows "kernel_invariant (snd (cap_space_insert s pid c))"
proof -
  have "kernel_invariant (ks_map_cap_space pid (\<lambda>cs. snd (cs_insert cs c)) s)"
    using assms
    by (intro kinv_map_cap_space)
      (auto simp: cs_insert_def Let_def cs_get_def split: if_splits)
  then show ?thesis
    using assms(1) by (simp add: cap_space_insert_def split: option.split)
qed

lemma kinv_cap_space_remove [kinv_intros]:
  assumes "kernel_invariant s"
  shows "kernel_invariant (snd (cap_space_remove s pid slot))"
proof -
  have "kernel_invariant (ks_map_cap_space pid (\<lambda>cs. snd (cs_remove cs slot)) s)"
    using assms
    by (intro kinv_map_cap_space)
      (auto simp: cs_remove_def cs_get_def split: if_splits)
  then show ?thesis
    using assms by (simp add: cap_space_remove_def split: option.split)
qed

text \<open>A counter that is not exhausted stays above every id below it.\<close>

lemma less_succ_word: "w \<noteq> - 1 \<Longrightarrow> x < w \<Longrightarrow> x < w + 1" for w :: "'a::len word"
  by (simp add: word_less_succ order_less_imp_le)

lemma kinv_alloc_cap_id:
  assumes "kernel_invariant s" "ks_next_cap_id s \<noteq> - 1"
  shows "kernel_invariant (s\<lparr>ks_next_cap_id := ks_next_cap_id s + 1\<rparr>)"
  using assms by (auto simp: kernel_invariant_defs less_succ_word)

lemma kinv_new_endpoint:
  assumes inv: "kernel_invariant s" and left: "ks_next_endpoint_id s \<noteq> - 1"
    and owner: "bt_contains (ks_processes s) pid"
  defines "eid \<equiv> EndpointId (ks_next_endpoint_id s)"
  shows "kernel_invariant (s\<lparr>ks_next_endpoint_id := ks_next_endpoint_id s + 1,
           ks_endpoints := bt_insert eid (endpoint_new eid pid) (ks_endpoints s)\<rparr>)" (is "kernel_invariant ?t")
proof -
  have "bt_contains (ks_endpoints ?t) e \<longleftrightarrow> e = eid \<or> bt_contains (ks_endpoints s) e" for e
    by (simp add: bt_contains_def)
  moreover have "kernel_wf ?t"
    using inv by (auto simp: kernel_invariant_def kernel_wf_def bt_simps ep_metrics_ok_new
        split: if_splits)
  moreover have "inv_owners ?t"
    using inv owner by (auto simp: kernel_invariant_def inv_owners_def split: if_splits)
  moreover have "eid_raw eid < ks_next_endpoint_id s + 1"
    using left by (simp add: eid_def word_less_succ)
  ultimately show ?thesis
    using inv left
    by (auto simp: kernel_invariant_def inv_spaces_def inv_objects_def inv_ids_def
        cap_object_ok_def less_succ_word)
qed

section \<open>Every system call keeps the invariant\<close>

lemma proc_pid_frame [simp]:
  "proc_pid (bump_syscall_metrics ts p) = proc_pid p"
  "proc_pid (bump_ipc_sent n p) = proc_pid p"
  "proc_pid (bump_ipc_received n p) = proc_pid p"
  by (simp_all add: bump_syscall_metrics_def bump_ipc_sent_def bump_ipc_received_def)

lemma kinv_update_metrics [kinv_intros]:
  "kernel_invariant s \<Longrightarrow> kernel_invariant (ks_update_syscall_metrics s pid ts)"
  by (simp add: ks_update_syscall_metrics_def kinv_map_process)

lemma kinv_enqueue [kinv_intros]:
  "kernel_invariant s \<Longrightarrow> kernel_invariant (ks_map_endpoint eid (\<lambda>e. endpoint_enqueue e m) s)"
  by (intro kinv_map_endpoint) (simp_all add: ep_metrics_ok_enqueue)

lemma kinv_dequeue [kinv_intros]:
  "kernel_invariant s \<Longrightarrow> kernel_invariant (ks_map_endpoint eid (\<lambda>e. snd (endpoint_dequeue e)) s)"
  by (intro kinv_map_endpoint) (simp_all add: ep_metrics_ok_dequeue)

lemma kinv_exit_kill:
  "kernel_invariant s \<Longrightarrow> kernel_invariant (fst (step_exit s pid code ts))"
  "kernel_invariant s \<Longrightarrow> kernel_invariant (fst (step_kill s pid target ts))"
  by (simp_all add: step_exit_def step_kill_def ks_kill_process_def kinv_map_process
      split: option.split)

lemma kinv_ipc:
  "kernel_invariant s \<Longrightarrow> kernel_invariant (fst (step_send s pid slot tag data ts))"
  "kernel_invariant s \<Longrightarrow> kernel_invariant (fst (step_receive s pid slot ts))"
  "kernel_invariant s \<Longrightarrow> kernel_invariant (fst (step_send_with_caps s pid slot tag data caps ts))"
  by (simp_all add: step_send_def step_receive_def step_send_with_caps_def Let_def
      kinv_total_ipc kinv_map_process kinv_enqueue kinv_dequeue split: option.split sum.split)

lemma held_cap_ok:
  "kernel_invariant s \<Longrightarrow> ks_get_cap_space s pid = Some cs \<Longrightarrow> cs_get cs slot = Some c \<Longrightarrow>
     cap_object_ok s c"
  by (auto simp: kernel_invariant_def inv_objects_def intro: holds_getI)

lemma kinv_new_cap:
  assumes "kernel_invariant s" "ks_next_cap_id s \<noteq> - 1"
    and "cap_object_ok s c" "cap_id c = ks_next_cap_id s"
  shows "kernel_invariant
    (snd (cap_space_insert (s\<lparr>ks_next_cap_id := ks_next_cap_id s + 1\<rparr>) pid c))"
  using assms
  by (intro kinv_cap_space_insert kinv_alloc_cap_id)
    (simp_all add: cap_object_ok_def word_less_succ)

lemma kinv_grant_derive:
  assumes "kernel_invariant s" "ks_next_cap_id s \<noteq> - 1"
  shows "kernel_invariant (fst (step_cap_grant s pid slot to_pid perms ts))"
    and "kernel_invariant (fst (step_cap_derive s pid slot perms ts))"
  using assms held_cap_ok [OF assms(1)]
  by (auto simp: step_cap_grant_def step_cap_derive_def Let_def case_prod_unfold
      ks_alloc_cap_id_def axiom_check_Inr cap_object_ok_def
      intro!: kinv_new_cap split: option.splits sum.splits)

lemma kinv_revoke_delete:
  "kernel_invariant s \<Longrightarrow> kernel_invariant (fst (step_cap_revoke s pid slot ts))"
  "kernel_invariant s \<Longrightarrow> kernel_invariant (fst (step_cap_delete s pid slot ts))"
  by (simp_all add: step_cap_revoke_def step_cap_delete_def Let_def case_prod_unfold
      kinv_cap_space_remove split: option.split)

lemma kinv_create_endpoint:
  assumes "kernel_invariant s" "ks_next_endpoint_id s \<noteq> - 1" "ks_next_cap_id s \<noteq> - 1"
  shows "kernel_invariant (fst (step_create_endpoint s pid ts))"
proof (cases "ks_process_exists s pid")
  case True
  then have "bt_contains (ks_processes s) pid"
    by (auto simp: ks_process_exists_def bt_contains_def split: option.splits)
  note inv = kinv_new_endpoint [OF assms(1,2) this]
  show ?thesis
    using True assms(3) kinv_new_cap [OF inv, of "fresh_endpoint_cap s" pid]
    by (simp add: step_create_endpoint_def Let_def case_prod_unfold ks_alloc_endpoint_id_def
        ks_alloc_cap_id_def fresh_endpoint_cap_def cap_object_ok_def bt_contains_def)
qed (use assms in \<open>simp add: step_create_endpoint_def\<close>)

definition ids_left :: "kernel_state \<Rightarrow> kcall \<Rightarrow> bool" where
  "ids_left s i \<longleftrightarrow> ks_next_endpoint_id s \<noteq> - 1 \<and> ks_next_cap_id s \<noteq> - 1"

lemma step_kernel_invariant:
  assumes "kernel_invariant s" "ids_left s (pid, sc, ts)"
  shows "kernel_invariant (fst (step s pid sc ts))"
proof -
  have "kernel_invariant (ks_update_syscall_metrics s pid ts)"
    using assms(1) by (rule kinv_update_metrics)
  then show ?thesis
    using assms(2)
    by (cases sc)
      (simp_all add: step_def ids_left_def kinv_exit_kill kinv_ipc kinv_grant_derive
        kinv_revoke_delete kinv_create_endpoint)
qed

interpretation kernel: guarded_machine step_state ids_left kernel_invariant
  "\<lambda>s t. authority_le s t"
proof unfold_locales
  fix s i
  assume "kernel_invariant s" and "ids_left s i"
  then show "kernel_invariant (step_state s i)" and "authority_le s (step_state s i)"
    by (cases i; simp add: step_kernel_invariant step_authority_le ids_left_def
        endpoint_ids_left_def)+
qed (auto intro: authority_le_refl authority_le_trans)

section \<open>Live owners\<close>

definition ends_process :: "syscall \<Rightarrow> bool" where
  "ends_process sc \<longleftrightarrow> (\<exists>code. sc = Exit code) \<or> (\<exists>pid. sc = Kill pid)"

lemma exists_map_process:
  "(\<And>p. proc_state (f p) = proc_state p) \<Longrightarrow>
     ks_process_exists (ks_map_process pid f s) q = ks_process_exists s q"
  by (auto simp: ks_process_exists_def ks_map_process_def split: option.splits)

lemma exists_cong: "ks_processes t = ks_processes s \<Longrightarrow> ks_process_exists t q = ks_process_exists s q"
  by (simp add: ks_process_exists_def)

lemma proc_state_frame [simp]:
  "proc_state (bump_syscall_metrics ts p) = proc_state p"
  "proc_state (bump_ipc_sent n p) = proc_state p"
  "proc_state (bump_ipc_received n p) = proc_state p"
  by (simp_all add: bump_syscall_metrics_def bump_ipc_sent_def bump_ipc_received_def)

lemma exists_total_ipc [simp]:
  "ks_process_exists (s\<lparr>ks_total_ipc_count := n\<rparr>) q = ks_process_exists s q"
  by (simp add: ks_process_exists_def)

lemma exists_ipc:
  "ks_process_exists (fst (step_send s pid slot tag data ts)) q = ks_process_exists s q"
  "ks_process_exists (fst (step_receive s pid slot ts)) q = ks_process_exists s q"
  "ks_process_exists (fst (step_send_with_caps s pid slot tag data caps ts)) q
     = ks_process_exists s q"
  by (auto simp: step_send_def step_receive_def step_send_with_caps_def Let_def
      exists_map_process exists_cong [of "ks_map_endpoint e g s" s for e g]
      split: option.splits sum.splits)

lemma exists_caps:
  "ks_process_exists (fst (step_cap_grant s pid slot to_pid perms ts)) q = ks_process_exists s q"
  "ks_process_exists (fst (step_cap_derive s pid slot perms ts)) q = ks_process_exists s q"
  "ks_process_exists (fst (step_cap_revoke s pid slot ts)) q = ks_process_exists s q"
  "ks_process_exists (fst (step_cap_delete s pid slot ts)) q = ks_process_exists s q"
  "ks_process_exists (fst (step_create_endpoint s pid ts)) q = ks_process_exists s q"
  by (rule exists_cong,
      simp add: step_cap_grant_def step_cap_derive_def step_cap_revoke_def step_cap_delete_def
        step_create_endpoint_def Let_def case_prod_unfold ks_alloc_cap_id_def
        ks_alloc_endpoint_id_def split: option.split sum.split)+

lemma step_process_exists:
  assumes "\<not> ends_process sc"
  shows "ks_process_exists (fst (step s pid sc ts)) q = ks_process_exists s q"
proof -
  have "ks_process_exists (ks_update_syscall_metrics s pid ts) q = ks_process_exists s q"
    by (simp add: ks_update_syscall_metrics_def exists_map_process)
  then show ?thesis
    using assms by (cases sc) (simp_all add: step_def ends_process_def exists_ipc exists_caps)
qed

end
