(* ===== verification/Kernel_Traffic.thy ===== *)
theory Kernel_Traffic
  imports Kernel_Invariants
begin

text \<open>
  What one step of the pure kernel does to message queues and to the durable part of the
  state: who may extend or shorten a queue, delivery in order, refused calls and the audit
  trail.
\<close>

section \<open>Queues\<close>

definition may_use :: "kernel_state \<Rightarrow> process_id \<Rightarrow> permissions \<Rightarrow> endpoint_id \<Rightarrow> u64 \<Rightarrow> bool" where
  "may_use s pid need eid ts \<longleftrightarrow>
     (\<exists>cs slot c. ks_get_cap_space s pid = Some cs
        \<and> axiom_check cs slot need (Some ObjEndpoint) ts = Inr c
        \<and> cap_object_id c = eid_raw eid)"

text \<open>How the queue \<open>e\<close> of endpoint \<open>eid\<close> may change to \<open>e'\<close> when \<open>pid\<close> calls the kernel.\<close>

definition queue_change ::
  "kernel_state \<Rightarrow> process_id \<Rightarrow> u64 \<Rightarrow> syscall_result \<Rightarrow> endpoint_id
   \<Rightarrow> message endpoint \<Rightarrow> message endpoint \<Rightarrow> bool" where
  "queue_change s pid ts r eid e e' \<longleftrightarrow>
     ep_id e' = ep_id e \<and> ep_owner e' = ep_owner e \<and>
     (ep_pending e' = ep_pending e
      \<or> (\<exists>m. ep_pending e' = ep_pending e @ [m] \<and> msg_sender m = pid
           \<and> length (msg_data m) \<le> MAX_MESSAGE_SIZE \<and> length (msg_caps m) \<le> MAX_CAPS_PER_MESSAGE
           \<and> may_use s pid perms_write_only eid ts)
      \<or> (\<exists>m. ep_pending e = m # ep_pending e' \<and> r = ResMessage m
           \<and> may_use s pid perms_read_only eid ts))"

lemma queue_change_refl [simp, intro]: "queue_change s pid ts r eid e e"
  by (simp add: queue_change_def)

lemma collect_transferred_length:
  "collect_transferred cs slots = Some tcs \<Longrightarrow> length tcs = length slots"
  by (induction slots arbitrary: tcs) (auto split: option.splits)

lemma may_useI:
  "ks_get_cap_space s pid = Some cs \<Longrightarrow> axiom_check cs slot need (Some ObjEndpoint) ts = Inr c \<Longrightarrow>
     may_use s pid need (EndpointId (cap_object_id c)) ts"
  by (auto simp: may_use_def)

lemma send_queue:
  assumes "bt_get (ks_endpoints s) eid = Some e"
  shows "\<exists>e'. bt_get (ks_endpoints (fst (step_send s pid slot tag data ts))) eid = Some e'
           \<and> queue_change s pid ts r eid e e'"
  using assms
  by (auto simp: step_send_def Let_def ks_map_endpoint_def queue_change_def
      intro: may_useI split: option.split sum.split)

lemma send_caps_queue:
  assumes "bt_get (ks_endpoints s) eid = Some e"
  shows "\<exists>e'. bt_get (ks_endpoints (fst (step_send_with_caps s pid slot tag data caps ts))) eid = Some e'
           \<and> queue_change s pid ts r eid e e'"
  using assms
  by (auto simp: step_send_with_caps_def Let_def ks_map_endpoint_def queue_change_def
      intro: may_useI dest!: collect_transferred_length split: option.split sum.split)

lemma receive_queue:
  assumes "bt_get (ks_endpoints s) eid = Some e"
  shows "\<exists>e'. bt_get (ks_endpoints (fst (step_receive s pid slot ts))) eid = Some e'
           \<and> queue_change s pid ts (sr_result (snd (step_receive s pid slot ts))) eid e e'"
  using assms
  by (auto simp: step_receive_def Let_def ks_map_endpoint_def queue_change_def step_quiet_def
      ks_get_endpoint_def intro: may_useI split: option.split sum.split list.splits)

lemma may_use_metrics [simp]:
  "may_use (ks_update_syscall_metrics s pid ts) = may_use s"
  by (simp add: may_use_def ks_get_cap_space_def fun_eq_iff)

lemma queue_change_metrics [simp]:
  "queue_change (ks_update_syscall_metrics s pid ts) = queue_change s"
  by (simp add: queue_change_def fun_eq_iff)

lemma step_endpoints_kept:
  "ks_endpoints (fst (step_exit s pid code ts)) = ks_endpoints s"
  "ks_endpoints (fst (step_kill s pid target ts)) = ks_endpoints s"
  "ks_endpoints (fst (step_cap_grant s pid slot to_pid perms ts)) = ks_endpoints s"
  "ks_endpoints (fst (step_cap_derive s pid slot perms ts)) = ks_endpoints s"
  "ks_endpoints (fst (step_cap_revoke s pid slot ts)) = ks_endpoints s"
  "ks_endpoints (fst (step_cap_delete s pid slot ts)) = ks_endpoints s"
  by (simp_all add: step_exit_def step_kill_def step_cap_grant_def step_cap_derive_def
      step_cap_revoke_def step_cap_delete_def Let_def case_prod_unfold ks_alloc_cap_id_def
      split: option.split sum.split)

lemma create_endpoint_endpoints:
  "ks_endpoints (fst (step_create_endpoint s pid ts)) =
     (if ks_process_exists s pid
      then bt_insert (EndpointId (ks_next_endpoint_id s))
             (endpoint_new (EndpointId (ks_next_endpoint_id s)) pid) (ks_endpoints s)
      else ks_endpoints s)"
  by (simp add: step_create_endpoint_def Let_def case_prod_unfold ks_alloc_endpoint_id_def
      ks_alloc_cap_id_def)

lemma step_queue:
  assumes e: "bt_get (ks_endpoints s) eid = Some e" and old: "eid_raw eid < ks_next_endpoint_id s"
  shows "\<exists>e'. bt_get (ks_endpoints (fst (step s pid sc ts))) eid = Some e'
           \<and> queue_change s pid ts (sr_result (snd (step s pid sc ts))) eid e e'"
proof -
  let ?s = "ks_update_syscall_metrics s pid ts"
  have "bt_get (ks_endpoints ?s) eid = Some e"
    using e by simp
  note ipc = send_queue [OF this] send_caps_queue [OF this] receive_queue [OF this]
  have "EndpointId (ks_next_endpoint_id ?s) \<noteq> eid"
    using old by auto
  then show ?thesis
    using e ipc
    by (cases sc) (auto simp: step_def step_endpoints_kept create_endpoint_endpoints)
qed

lemma step_new_endpoint:
  assumes "bt_get (ks_endpoints s) eid = None"
    and "bt_get (ks_endpoints (fst (step s pid sc ts))) eid = Some e'"
  shows "sc = CreateEndpoint \<and> eid = EndpointId (ks_next_endpoint_id s)
    \<and> e' = endpoint_new eid pid \<and> ks_process_exists s pid"
proof -
  have ipc: "bt_get (ks_endpoints (fst (step_send s pid slot tag data ts))) eid = None"
      "bt_get (ks_endpoints (fst (step_send_with_caps s pid slot tag data caps ts))) eid = None"
      "bt_get (ks_endpoints (fst (step_receive s pid slot ts))) eid = None"
    if "bt_get (ks_endpoints s) eid = None" for s slot tag data caps
    using that by (auto simp: step_send_def step_send_with_caps_def step_receive_def Let_def
        ks_map_endpoint_def split: option.split sum.split)
  have "ks_process_exists (ks_update_syscall_metrics s pid ts) pid = ks_process_exists s pid"
    by (simp add: ks_update_syscall_metrics_def exists_map_process)
  then show ?thesis
    using assms
    by (cases sc) (auto simp: step_def ipc step_endpoints_kept create_endpoint_endpoints
        split: if_splits)
qed

section \<open>The checked invariants along a step\<close>

lemma step_live_owners:
  assumes "kernel_invariant s" "inv_live_owners s" "\<not> ends_process sc"
  shows "inv_live_owners (fst (step s pid sc ts))"
  unfolding inv_live_owners_def step_process_exists [OF assms(3)]
proof (intro allI impI)
  fix eid e'
  assume e': "bt_get (ks_endpoints (fst (step s pid sc ts))) eid = Some e'"
  show "ks_process_exists s (ep_owner e')"
  proof (cases "bt_get (ks_endpoints s) eid")
    case None
    then show ?thesis
      using step_new_endpoint [OF None e'] by simp
  next
    case (Some e)
    then have "eid_raw eid < ks_next_endpoint_id s"
      using assms(1) by (auto simp: kernel_invariant_def inv_ids_def bt_contains_def)
    from step_queue [OF Some this, of pid sc ts] e' have "ep_owner e' = ep_owner e"
      by (auto simp: queue_change_def)
    then show ?thesis
      using assms(2) Some by (auto simp: inv_live_owners_def)
  qed
qed

lemma step_check_all:
  assumes "kernel_wf s" "check_all_invariants s = []" "ids_left s (pid, sc, ts)"
    and "\<not> ends_process sc"
  shows "check_all_invariants (fst (step s pid sc ts)) = []"
proof -
  have inv: "kernel_invariant s" "inv_live_owners s"
    using assms(1,2) by (simp_all add: check_all_iff)
  then have "kernel_invariant (fst (step s pid sc ts))"
    using assms(3) by (simp add: step_kernel_invariant)
  then show ?thesis
    using step_live_owners [OF inv assms(4)]
    by (subst check_all_iff) (simp_all add: kernel_invariant_def)
qed

lemma exit_zombie:
  "bt_get (ks_processes s) pid = Some p \<Longrightarrow> \<not> ks_process_exists (fst (step s pid (Exit code) ts)) pid"
  by (simp add: step_def step_exit_def ks_process_exists_def ks_map_process_def
      ks_update_syscall_metrics_def)

section \<open>Refused calls and silent calls\<close>

lemma cap_space_remove_None:
  assumes "bt_wf (ks_cap_spaces s)" "fst (cap_space_remove s pid slot) = None"
  shows "snd (cap_space_remove s pid slot) = s"
proof (cases "ks_get_cap_space s pid")
  case (Some cs)
  then have none: "bt_get (cs_slots cs) slot = None"
    using assms(2) by (simp add: cap_space_remove_def cs_get_def)
  have "bt_modify pid (\<lambda>cs. snd (cs_remove cs slot)) (ks_cap_spaces s) = ks_cap_spaces s"
  proof (rule bt_modify_same [OF assms(1)])
    fix v
    assume "bt_get (ks_cap_spaces s) pid = Some v"
    then have "v = cs"
      using Some by (simp add: ks_get_cap_space_def)
    then show "snd (cs_remove v slot) = v"
      using none by (simp add: cs_remove_def bt_remove_absent)
  qed
  then show ?thesis
    using Some by (simp add: cap_space_remove_def ks_map_cap_space_def)
qed (simp add: cap_space_remove_def)

text \<open>The part of the state the audit trail is about: no metrics, no message queues.\<close>

definition durable ::
  "kernel_state \<Rightarrow> (process_id, string \<times> process_state) btree_map
     \<times> (process_id, capability_space) btree_map \<times> (endpoint_id, process_id) btree_map
     \<times> u64 \<times> u64 \<times> u64" where
  "durable s =
     (bt_map (\<lambda>p. (proc_name p, proc_state p)) (ks_processes s), ks_cap_spaces s,
      bt_map ep_owner (ks_endpoints s), ks_next_pid s, ks_next_endpoint_id s, ks_next_cap_id s)"

lemma durable_metrics [simp]:
  "durable (ks_update_syscall_metrics s pid ts) = durable s"
  "durable (ks_map_process pid (bump_ipc_received n) s) = durable s"
  "durable (ks_map_endpoint eid (\<lambda>e. snd (endpoint_dequeue e)) s) = durable s"
  by (simp_all add: durable_def ks_update_syscall_metrics_def ks_map_process_def
      ks_map_endpoint_def bt_map_modify_invisible bump_syscall_metrics_def bump_ipc_received_def)

text \<open>An outcome is clean when a refusal changes nothing and no durable change goes unlogged.\<close>

definition clean_outcome :: "kernel_state \<Rightarrow> kernel_state \<times> step_result \<Rightarrow> bool" where
  "clean_outcome s out \<longleftrightarrow>
     ((\<exists>e. sr_result (snd out) = ResErr e) \<longrightarrow> fst out = s \<and> sr_commits (snd out) = [])
     \<and> (sr_commits (snd out) = [] \<longrightarrow> durable (fst out) = durable s)"

named_theorems clean_intros \<open>outcomes that are clean\<close>

lemma clean_quiet [simp]: "clean_outcome s (s, step_quiet r)"
  by (simp add: clean_outcome_def step_quiet_def)

lemma clean_logged [simp]: "clean_outcome s (t, step_logged (ResOk v) ct ts)"
  by (simp add: clean_outcome_def step_logged_def)

lemma clean_received:
  "durable t = durable s \<Longrightarrow> clean_outcome s (t, step_quiet (ResMessage m))"
  "durable t = durable s \<Longrightarrow> clean_outcome s (t, step_quiet ResWouldBlock)"
  by (simp_all add: clean_outcome_def step_quiet_def)

lemma clean_exit [clean_intros]: "clean_outcome s (step_exit s pid code ts)"
  by (simp add: step_exit_def)

lemma clean_kill [clean_intros]: "clean_outcome s (step_kill s pid target ts)"
  by (simp add: step_kill_def)

lemma clean_create [clean_intros]: "clean_outcome s (step_create_endpoint s pid ts)"
  by (simp add: step_create_endpoint_def Let_def case_prod_unfold)

lemma clean_send [clean_intros]: "clean_outcome s (step_send s pid slot tag data ts)"
  by (simp add: step_send_def Let_def split: option.split sum.split)

lemma clean_receive [clean_intros]: "clean_outcome s (step_receive s pid slot ts)"
  by (simp add: step_receive_def Let_def clean_received split: option.split sum.split list.split)

lemma clean_send_with_caps [clean_intros]:
  "clean_outcome s (step_send_with_caps s pid slot tag data caps ts)"
  by (simp add: step_send_with_caps_def Let_def split: option.split sum.split)

lemma clean_call [clean_intros]: "clean_outcome s (step_call s pid slot tag data ts)"
  using clean_send [of s pid slot tag data ts]
  by (simp add: step_call_def Let_def case_prod_unfold clean_outcome_def
      split: syscall_result.split)

lemma clean_reads [clean_intros]:
  "clean_outcome s (step_list_processes s)"
  "clean_outcome s (step_list_caps s pid)"
  "clean_outcome s (step_cap_inspect s pid slot)"
  by (simp_all add: step_list_processes_def step_list_caps_def step_cap_inspect_def Let_def
      split: option.split)

lemma clean_grant [clean_intros]: "clean_outcome s (step_cap_grant s pid slot to_pid perms ts)"
  by (simp add: step_cap_grant_def Let_def case_prod_unfold split: option.split sum.split)

lemma clean_derive [clean_intros]: "clean_outcome s (step_cap_derive s pid slot perms ts)"
  by (simp add: step_cap_derive_def Let_def case_prod_unfold split: option.split)

lemma clean_revoke_delete [clean_intros]:
  assumes "bt_wf (ks_cap_spaces s)"
  shows "clean_outcome s (step_cap_revoke s pid slot ts)"
    and "clean_outcome s (step_cap_delete s pid slot ts)"
  using cap_space_remove_None [OF assms, of pid slot]
  by (simp_all add: step_cap_revoke_def step_cap_delete_def Let_def case_prod_unfold
      split: option.split)

lemma step_clean:
  assumes "bt_wf (ks_cap_spaces s)"
  shows "clean_outcome (ks_update_syscall_metrics s pid ts) (step s pid sc ts)"
  using assms by (cases sc) (simp_all add: step_def clean_intros)

section \<open>Delivery in order\<close>

fun step_results :: "kernel_state \<Rightarrow> kcall list \<Rightarrow> syscall_result list" where
  "step_results s [] = []"
| "step_results s ((pid, sc, ts) # calls) =
     sr_result (snd (step s pid sc ts)) # step_results (fst (step s pid sc ts)) calls"

type_synonym send_call = "process_id \<times> u32 \<times> u32 \<times> u8 list \<times> u64"

fun send_call :: "send_call \<Rightarrow> kcall" where
  "send_call (pid, slot, tag, data, ts) = (pid, Send slot tag data, ts)"

fun sent_message :: "send_call \<Rightarrow> message" where
  "sent_message (pid, slot, tag, data, ts) =
     \<lparr>msg_sender = pid, msg_tag = tag, msg_data = data, msg_caps = []\<rparr>"

definition grants_slot ::
  "kernel_state \<Rightarrow> process_id \<Rightarrow> u32 \<Rightarrow> permissions \<Rightarrow> u64 \<Rightarrow> endpoint_id \<Rightarrow> bool" where
  "grants_slot s pid slot need ts eid \<longleftrightarrow>
     (case ks_get_cap_space s pid of
        None \<Rightarrow> False
      | Some cs \<Rightarrow>
          (case axiom_check cs slot need (Some ObjEndpoint) ts of
             Inl _ \<Rightarrow> False
           | Inr c \<Rightarrow> EndpointId (cap_object_id c) = eid))"

fun sendable :: "kernel_state \<Rightarrow> endpoint_id \<Rightarrow> send_call \<Rightarrow> bool" where
  "sendable s eid (pid, slot, tag, data, ts) \<longleftrightarrow>
     length data \<le> MAX_MESSAGE_SIZE \<and> grants_slot s pid slot perms_write_only ts eid"

lemma grants_slot_cong:
  "ks_cap_spaces t = ks_cap_spaces s \<Longrightarrow> grants_slot t = grants_slot s"
  by (simp add: grants_slot_def ks_get_cap_space_def fun_eq_iff)

lemma sendable_cong:
  assumes "ks_cap_spaces t = ks_cap_spaces s"
  shows "sendable t eid x = sendable s eid x"
  using grants_slot_cong [OF assms] by (cases x) simp

lemma send_delivers:
  assumes "sendable s eid x" "bt_get (ks_endpoints s) eid = Some e"
  shows "ks_cap_spaces (step_state s (send_call x)) = ks_cap_spaces s
    \<and> bt_get (ks_endpoints (step_state s (send_call x))) eid
        = Some (endpoint_enqueue e (sent_message x))"
  using assms
  by (cases x)
    (auto simp: step_def step_send_def grants_slot_def ks_get_cap_space_def ks_get_endpoint_def
      Let_def ks_map_endpoint_def split: option.splits sum.splits)

lemma sends_deliver:
  assumes "\<forall>x \<in> set xs. sendable s eid x" "bt_get (ks_endpoints s) eid = Some e"
  shows "ks_cap_spaces (run step_state s (map send_call xs)) = ks_cap_spaces s
    \<and> bt_get (ks_endpoints (run step_state s (map send_call xs))) eid
        = Some (foldl endpoint_enqueue e (map sent_message xs))"
  using assms
proof (induction xs arbitrary: s e)
  case (Cons x xs)
  let ?t = "step_state s (send_call x)"
  have t: "ks_cap_spaces ?t = ks_cap_spaces s"
      "bt_get (ks_endpoints ?t) eid = Some (endpoint_enqueue e (sent_message x))"
    using send_delivers [of s eid x e] Cons.prems by simp_all
  then have "\<forall>x \<in> set xs. sendable ?t eid x"
    using Cons.prems sendable_cong [OF t(1)] by auto
  from Cons.IH [OF this t(2)] t(1) show ?case
    by simp
qed simp

definition receive_result :: "message option \<Rightarrow> syscall_result" where
  "receive_result m = (case m of Some msg \<Rightarrow> ResMessage msg | None \<Rightarrow> ResWouldBlock)"

lemma receive_delivers:
  assumes "grants_slot s pid slot perms_read_only ts eid" "bt_get (ks_endpoints s) eid = Some e"
  shows "sr_result (snd (step s pid (Receive slot) ts)) = receive_result (fst (endpoint_dequeue e))
    \<and> ks_cap_spaces (fst (step s pid (Receive slot) ts)) = ks_cap_spaces s
    \<and> bt_get (ks_endpoints (fst (step s pid (Receive slot) ts))) eid
        = Some (snd (endpoint_dequeue e))"
  using assms
  by (auto simp: step_def step_receive_def grants_slot_def ks_get_cap_space_def
      ks_get_endpoint_def Let_def ks_map_endpoint_def step_quiet_def receive_result_def
      simp del: endpoint_dequeue_eq split: option.splits sum.splits)

lemma receives_drain:
  assumes "grants_slot s pid slot perms_read_only ts eid" "bt_get (ks_endpoints s) eid = Some e"
  shows "step_results s (replicate n (pid, Receive slot, ts))
    = map receive_result (fst (drain endpoint_dequeue n e))"
  using assms
proof (induction n arbitrary: s e)
  case (Suc n)
  let ?t = "fst (step s pid (Receive slot) ts)"
  note r = receive_delivers [OF Suc.prems]
  then have "grants_slot ?t pid slot perms_read_only ts eid"
    using Suc.prems(1) grants_slot_cong [of ?t s] by simp
  with Suc.IH r show ?case
    by (simp add: case_prod_unfold Let_def del: endpoint_dequeue_eq)
qed simp

section \<open>Histories of calls that end no process\<close>

definition quiet_call :: "kernel_state \<Rightarrow> kcall \<Rightarrow> bool" where
  "quiet_call s i \<longleftrightarrow> ids_left s i \<and> \<not> ends_process (fst (snd i))"

lemma ends_process_code [code]:
  "ends_process sc = (case sc of Exit _ \<Rightarrow> True | Kill _ \<Rightarrow> True | _ \<Rightarrow> False)"
  by (cases sc) (simp_all add: ends_process_def)

interpretation live_kernel: guarded_machine step_state quiet_call
  "\<lambda>s. kernel_invariant s \<and> inv_live_owners s" authority_le
proof unfold_locales
  fix s i
  assume inv: "kernel_invariant s \<and> inv_live_owners s" and ok: "quiet_call s i"
  obtain pid sc ts where i: "i = (pid, sc, ts)"
    by (cases i)
  show "kernel_invariant (step_state s i) \<and> inv_live_owners (step_state s i)"
    using inv ok by (simp add: i quiet_call_def step_kernel_invariant step_live_owners)
  show "authority_le s (step_state s i)"
    using ok by (auto simp: i quiet_call_def ids_left_def endpoint_ids_left_def
        intro: step_authority_le)
qed (auto intro: authority_le_refl authority_le_trans)

section \<open>The packed result of endpoint creation\<close>

lemma low_half_mask: "(0xFFFFFFFF :: u64) = mask 32"
  by (simp add: mask_eq_exp_minus_1)

lemma packed_slot:
  fixes slot :: u32
  shows "ucast (drop_bit 32 (push_bit 32 (ucast slot) :: u64)) = slot"
  by (intro bit_eqI) (auto simp: bit_simps)

lemma packed_id:
  fixes slot :: u32 and x :: u64
  shows "(push_bit 32 (ucast slot) OR (x AND 0xFFFFFFFF)) AND 0xFFFFFFFF = x AND (0xFFFFFFFF :: u64)"
  unfolding low_half_mask by (intro bit_eqI) (auto simp: bit_simps)

section \<open>Properties\<close>

text \<open>
  The state the witnesses start from: two processes, an endpoint of the first one, and a
  write-only capability to it granted to the second one.
\<close>

definition example_state :: kernel_state where
  "example_state = run step_state
     (snd (ks_register_process (snd (ks_register_process ks_new ''init'' 0)) ''app'' 0))
     [(ProcessId 1, CreateEndpoint, 5), (ProcessId 1, CapGrant 0 (ProcessId 2) perms_write_only, 6)]"

text \<open>
  C19. Rights are never amplified. After any sequence of system calls by any processes, a
  capability to an object that existed at the start attenuates a capability somebody held at
  the start (same object, no more rights, same expiry), and it has left that holder only if
  that capability carried the right to grant. The only hypothesis on the history is that the
  64-bit endpoint counter is not exhausted on the way.
\<close>

theorem history_no_amplification:
  assumes "run_ok step_state endpoint_ids_left s calls"
    and "holds (run step_state s calls) pid c"
    and "cap_object_type c = ObjEndpoint \<Longrightarrow> cap_object_id c < ks_next_endpoint_id s"
  shows "\<exists>q c0. holds s q c0 \<and> attenuates c c0 \<and> (q = pid \<or> perm_grant (cap_permissions c0))"
  using authority.run_le [OF TrueI assms(1)] assms(2,3)
  unfolding authority_le_def by blast

definition example_calls :: "kcall list" where
  "example_calls =
     [(ProcessId 1, CapGrant 0 (ProcessId 2) \<lparr>perm_read = True, perm_write = False, perm_grant = True\<rparr>, 7),
      (ProcessId 2, CapDerive 1 perms_read_only, 8),
      (ProcessId 1, CapRevoke 0, 9)]"

definition example_cap :: capability where
  "example_cap =
     \<lparr>cap_id = 4, cap_object_type = ObjEndpoint, cap_object_id = 1,
      cap_permissions = perms_read_only, cap_generation = 2, cap_expires_at = 0\<rparr>"

theorem history_no_amplification_witness:
  "holds (run step_state example_state example_calls) (ProcessId 2) example_cap
   \<and> (\<exists>q c0. holds example_state q c0 \<and> attenuates example_cap c0
        \<and> (q = ProcessId 2 \<or> perm_grant (cap_permissions c0)))"
proof -
  have ok: "run_ok step_state endpoint_ids_left example_state example_calls"
    by code_simp
  have held: "holds (run step_state example_state example_calls) (ProcessId 2) example_cap"
    by code_simp
  have old: "cap_object_id example_cap < ks_next_endpoint_id example_state"
    by code_simp
  show ?thesis
    using history_no_amplification [OF ok held old] held by blast
qed

text \<open>
  C20. The invariant checker stays silent along every history of calls that end no process: if
  \<^verbatim>\<open>check_all_invariants\<close> reports nothing in a well-formed state and the id counters are not
  exhausted on the way, it reports nothing at the end.
\<close>

theorem history_keeps_invariants:
  assumes "kernel_wf s" "check_all_invariants s = []" "run_ok step_state quiet_call s calls"
  shows "check_all_invariants (run step_state s calls) = []"
proof -
  have "kernel_invariant s \<and> inv_live_owners s"
    using assms(1,2) by (simp add: check_all_iff)
  from live_kernel.run_inv [OF this assms(3)] show ?thesis
    by (subst check_all_iff) (simp_all add: kernel_invariant_def)
qed

theorem history_keeps_invariants_witness:
  "check_all_invariants (run step_state example_state example_calls) = []"
proof (rule history_keeps_invariants)
  show "kernel_wf example_state" by code_simp
  show "check_all_invariants example_state = []" by code_simp
  show "run_ok step_state quiet_call example_state example_calls" by code_simp
qed

text \<open>
  C21. What an empty report of the checker means, on states whose tables are keyed properly:
  processes and capability spaces correspond, every endpoint has an owner that is not a
  zombie, every capability to an endpoint or a process names an existing one, and every
  allocated id lies below its counter.
\<close>

theorem check_all_invariants_iff:
  assumes "kernel_wf s"
  shows "check_all_invariants s = [] \<longleftrightarrow>
    dom (bt_get (ks_processes s)) = dom (bt_get (ks_cap_spaces s)) \<and> inv_live_owners s
    \<and> inv_objects s \<and> inv_ids s"
  using assms live_owners_are_owners
  by (auto simp: check_all_iff kernel_invariant_def inv_spaces_def)

theorem check_all_invariants_iff_witness:
  "dom (bt_get (ks_processes example_state)) = dom (bt_get (ks_cap_spaces example_state))
   \<and> inv_live_owners example_state \<and> inv_objects example_state \<and> inv_ids example_state"
proof -
  have "kernel_wf example_state" "check_all_invariants example_state = []"
    by code_simp+
  then show ?thesis
    using check_all_invariants_iff [of example_state] by simp
qed

text \<open>
  C22. Delivery in order. Any processes that hold write capabilities send any messages of
  allowed size to an endpoint; a holder of a read capability then receives, one by one, what
  was pending before and after that exactly the messages sent, in order, each with the true
  sender.
\<close>

theorem kernel_delivers_in_order:
  assumes "\<forall>x \<in> set sends. sendable s eid x"
    and "grants_slot s pid slot perms_read_only ts eid"
    and "bt_get (ks_endpoints s) eid = Some e"
  shows "step_results (run step_state s (map send_call sends))
      (replicate (length (ep_pending e) + length sends) (pid, Receive slot, ts))
    = map ResMessage (ep_pending e @ map sent_message sends)"
proof -
  let ?t = "run step_state s (map send_call sends)"
  have t: "ks_cap_spaces ?t = ks_cap_spaces s"
      "bt_get (ks_endpoints ?t) eid = Some (foldl endpoint_enqueue e (map sent_message sends))"
    using sends_deliver [OF assms(1,3)] by simp_all
  have "grants_slot ?t pid slot perms_read_only ts eid"
    using assms(2) grants_slot_cong [OF t(1)] by simp
  from receives_drain [OF this t(2)] show ?thesis
    using ep.fifo [of e "map sent_message sends"] by (simp add: receive_result_def)
qed

definition example_sends :: "send_call list" where
  "example_sends = [(ProcessId 2, 0, 7, [1, 2], 8), (ProcessId 1, 0, 9, [], 8)]"

theorem kernel_delivers_in_order_witness:
  "step_results (run step_state example_state (map send_call example_sends))
     (replicate 2 (ProcessId 1, Receive 0, 9))
   = map ResMessage
       [\<lparr>msg_sender = ProcessId 2, msg_tag = 7, msg_data = [1, 2], msg_caps = []\<rparr>,
        \<lparr>msg_sender = ProcessId 1, msg_tag = 9, msg_data = [], msg_caps = []\<rparr>]"
proof -
  have "\<forall>x \<in> set example_sends. sendable example_state (EndpointId 1) x"
    by code_simp
  moreover have "grants_slot example_state (ProcessId 1) 0 perms_read_only 9 (EndpointId 1)"
    by code_simp
  moreover have "bt_get (ks_endpoints example_state) (EndpointId 1)
      = Some (endpoint_new (EndpointId 1) (ProcessId 1))"
    by code_simp
  ultimately show ?thesis
    using kernel_delivers_in_order [of example_sends example_state "EndpointId 1" "ProcessId 1" 0 9]
    by (simp add: example_sends_def numeral_2_eq_2)
qed

text \<open>
  C23. Queues change by authority only. Whatever call a process makes, an endpoint's queue is
  as before, or has one more message at its end that names the caller as sender and respects
  the size limits, and then the caller presented a valid write capability to that endpoint;
  or it has lost its head, which is the result of the call, and then the caller presented a
  valid read capability. Endpoints do not vanish, and one that is new belongs to the caller
  and is empty.
\<close>

theorem queues_change_by_authority:
  assumes "kernel_invariant s"
  shows "case bt_get (ks_endpoints (fst (step s pid sc ts))) eid of
      None \<Rightarrow> bt_get (ks_endpoints s) eid = None
    | Some e' \<Rightarrow>
        (case bt_get (ks_endpoints s) eid of
           Some e \<Rightarrow> queue_change s pid ts (sr_result (snd (step s pid sc ts))) eid e e'
         | None \<Rightarrow> sc = CreateEndpoint \<and> eid = EndpointId (ks_next_endpoint_id s)
             \<and> e' = endpoint_new eid pid \<and> ks_process_exists s pid)"
proof (cases "bt_get (ks_endpoints s) eid")
  case None
  then show ?thesis
    using step_new_endpoint [OF None] by (auto split: option.split)
next
  case (Some e)
  then have "eid_raw eid < ks_next_endpoint_id s"
    using assms by (auto simp: kernel_invariant_def inv_ids_def bt_contains_def)
  from step_queue [OF Some this, of pid sc ts] Some show ?thesis
    by auto
qed

theorem queues_change_by_authority_witness:
  "\<exists>e'. bt_get (ks_endpoints (fst (step example_state (ProcessId 2) (Send 0 7 [1]) 8))) (EndpointId 1)
      = Some e'
    \<and> queue_change example_state (ProcessId 2) 8 (ResOk 0) (EndpointId 1)
        (endpoint_new (EndpointId 1) (ProcessId 1)) e'"
proof -
  have "kernel_wf example_state" "check_all_invariants example_state = []"
    by code_simp+
  then have "kernel_invariant example_state"
    using check_all_iff by blast
  moreover have "bt_get (ks_endpoints example_state) (EndpointId 1)
      = Some (endpoint_new (EndpointId 1) (ProcessId 1))"
    by code_simp
  moreover have "sr_result (snd (step example_state (ProcessId 2) (Send 0 7 [1]) 8)) = ResOk 0"
    by code_simp
  ultimately show ?thesis
    using queues_change_by_authority [where s = example_state and pid = "ProcessId 2"
        and sc = "Send 0 7 [1]" and ts = 8 and eid = "EndpointId 1"]
    by (auto split: option.splits)
qed

text \<open>
  C24. A refused call changes nothing: when a call returns an error, the state is the old one
  but for the caller's call counter and last-active time, and nothing is logged.
\<close>

theorem refused_calls_change_nothing:
  assumes "bt_wf (ks_cap_spaces s)" "sr_result (snd (step s pid sc ts)) = ResErr err"
  shows "fst (step s pid sc ts) = ks_update_syscall_metrics s pid ts
    \<and> sr_commits (snd (step s pid sc ts)) = []"
  using step_clean [OF assms(1), of pid ts sc] assms(2) by (auto simp: clean_outcome_def)

theorem refused_calls_change_nothing_witness:
  "fst (step example_state (ProcessId 2) (Receive 0) 8)
   = ks_update_syscall_metrics example_state (ProcessId 2) 8"
proof -
  have "bt_wf (ks_cap_spaces example_state)"
    and "sr_result (snd (step example_state (ProcessId 2) (Receive 0) 8)) = ResErr PermissionDenied"
    by code_simp+
  then show ?thesis
    using refused_calls_change_nothing by blast
qed

text \<open>
  The audit trail is complete: a call that logs no commit leaves names and states of
  processes, all capability spaces, the endpoints with their owners and the id counters as
  they were.
\<close>

theorem unlogged_calls_keep_durable_state:
  assumes "bt_wf (ks_cap_spaces s)" "sr_commits (snd (step s pid sc ts)) = []"
  shows "durable (fst (step s pid sc ts)) = durable s"
  using step_clean [OF assms(1), of pid ts sc] assms(2) by (simp add: clean_outcome_def)

theorem unlogged_calls_keep_durable_state_witness:
  "durable (fst (step (step_state example_state (ProcessId 2, Send 0 7 [1], 8))
     (ProcessId 1) (Receive 0) 9))
   = durable (step_state example_state (ProcessId 2, Send 0 7 [1], 8))"
proof -
  have "bt_wf (ks_cap_spaces (step_state example_state (ProcessId 2, Send 0 7 [1], 8)))"
    and "sr_commits (snd (step (step_state example_state (ProcessId 2, Send 0 7 [1], 8))
           (ProcessId 1) (Receive 0) 9)) = []"
    by code_simp+
  then show ?thesis
    by (rule unlogged_calls_keep_durable_state)
qed

text \<open>
  Creating an endpoint: a live process gets back a word whose upper half is the slot that
  now holds a full capability to the new, empty endpoint it owns, and whose lower half is the
  low half of the endpoint's id.
\<close>

theorem create_endpoint_result:
  assumes "ks_process_exists s pid" "ks_get_cap_space s pid = Some cs"
  shows "\<exists>w cs'. sr_result (snd (step s pid CreateEndpoint ts)) = ResOk w
    \<and> ucast (drop_bit 32 w) = cs_next_slot cs
    \<and> w AND 0xFFFFFFFF = ks_next_endpoint_id s AND 0xFFFFFFFF
    \<and> ks_get_cap_space (fst (step s pid CreateEndpoint ts)) pid = Some cs'
    \<and> cs_get cs' (cs_next_slot cs) = Some (fresh_endpoint_cap s)
    \<and> ks_get_endpoint (fst (step s pid CreateEndpoint ts)) (EndpointId (ks_next_endpoint_id s))
        = Some (endpoint_new (EndpointId (ks_next_endpoint_id s)) pid)"
proof -
  let ?s = "ks_update_syscall_metrics s pid ts"
  have "ks_process_exists ?s pid" "ks_get_cap_space ?s pid = Some cs"
    using assms(1,2)
    by (simp_all add: ks_update_syscall_metrics_def exists_map_process ks_get_cap_space_def)
  then show ?thesis
    by (simp add: step_def step_create_endpoint_def cap_space_insert_def Let_def
        case_prod_unfold ks_alloc_endpoint_id_def ks_alloc_cap_id_def step_logged_def
        packed_slot packed_id ks_map_cap_space_def ks_get_cap_space_def ks_get_endpoint_def
        fresh_endpoint_cap_def)
qed

theorem create_endpoint_result_witness:
  "\<exists>w cs'. sr_result (snd (step example_state (ProcessId 2) CreateEndpoint 9)) = ResOk w
    \<and> ucast (drop_bit 32 w) = (1 :: u32) \<and> w AND 0xFFFFFFFF = 2
    \<and> ks_get_cap_space (fst (step example_state (ProcessId 2) CreateEndpoint 9)) (ProcessId 2) = Some cs'
    \<and> cs_get cs' 1 = Some (fresh_endpoint_cap example_state)"
proof -
  have live: "ks_process_exists example_state (ProcessId 2)"
    by code_simp
  obtain cs where cs: "ks_get_cap_space example_state (ProcessId 2) = Some cs" "cs_next_slot cs = 1"
  proof -
    have "map_option cs_next_slot (ks_get_cap_space example_state (ProcessId 2)) = Some 1"
      by code_simp
    then show ?thesis
      using that by auto
  qed
  have "ks_next_endpoint_id example_state = 2"
    by code_simp
  then show ?thesis
    using create_endpoint_result [OF live cs(1), of 9] cs(2) by auto
qed

text \<open>
  The end of a process leaves its endpoints behind: when a process that owns an endpoint
  exits, the invariant checker reports the state that \<^verbatim>\<open>step\<close> returns.
\<close>

theorem exit_of_owner_is_reported:
  assumes "kernel_invariant s" "bt_get (ks_endpoints s) eid = Some e"
  shows "check_all_invariants (fst (step s (ep_owner e) (Exit code) ts)) \<noteq> []"
proof -
  let ?t = "fst (step s (ep_owner e) (Exit code) ts)"
  obtain p where "bt_get (ks_processes s) (ep_owner e) = Some p"
    using assms by (auto simp: kernel_invariant_def inv_owners_def bt_contains_def)
  then have "\<not> ks_process_exists ?t (ep_owner e)"
    by (rule exit_zombie)
  moreover have "bt_get (ks_endpoints ?t) eid = Some e"
    using assms(2) by (simp add: step_def step_endpoints_kept)
  ultimately have "\<not> inv_live_owners ?t"
    by (auto simp: inv_live_owners_def)
  moreover have "kernel_wf ?t"
    using kinv_exit_kill(1) [OF kinv_update_metrics [OF assms(1)]]
    by (simp add: step_def kernel_invariant_def)
  ultimately show ?thesis
    by (simp add: check_all_iff)
qed

theorem exit_of_owner_is_reported_witness:
  "check_all_invariants (fst (step example_state (ProcessId 1) (Exit 0) 9)) \<noteq> []"
proof -
  have "kernel_wf example_state" "check_all_invariants example_state = []"
    by code_simp+
  then have "kernel_invariant example_state"
    using check_all_iff by blast
  moreover have "bt_get (ks_endpoints example_state) (EndpointId 1)
      = Some (endpoint_new (EndpointId 1) (ProcessId 1))"
    by code_simp
  ultimately show ?thesis
    using exit_of_owner_is_reported [of example_state "EndpointId 1"
        "endpoint_new (EndpointId 1) (ProcessId 1)" 0 9]
    by simp
qed

text \<open>
  Killing needs no capability: whatever the caller holds, a \<^verbatim>\<open>Kill\<close> of a process in the
  table succeeds and the process is dead afterwards.
\<close>

theorem kill_needs_no_capability:
  assumes "bt_contains (ks_processes s) target"
  shows "sr_result (snd (step s pid (Kill target) ts)) = ResOk 0
    \<and> \<not> ks_process_exists (fst (step s pid (Kill target) ts)) target"
  using assms
  by (auto simp: step_def step_kill_def step_logged_def ks_kill_process_def ks_process_exists_def
      ks_map_process_def ks_update_syscall_metrics_def bt_contains_def split: option.split)

theorem kill_needs_no_capability_witness:
  "sr_result (snd (step example_state (ProcessId 99) (Kill (ProcessId 1)) 9)) = ResOk 0
   \<and> \<not> ks_process_exists (fst (step example_state (ProcessId 99) (Kill (ProcessId 1)) 9)) (ProcessId 1)"
proof -
  have "bt_contains (ks_processes example_state) (ProcessId 1)"
    by code_simp
  then show ?thesis
    by (rule kill_needs_no_capability)
qed

text \<open>
  The commits of a step do not determine its effect: the record of a grant leaves out the
  permissions, so two grants that put different capabilities into the target's space log the
  same commits, and no replay of the log can tell them apart.
\<close>

theorem grant_commits_omit_permissions:
  "sr_commits (snd (step example_state (ProcessId 1) (CapGrant 0 (ProcessId 2) perms_read_only) 9))
     = sr_commits (snd (step example_state (ProcessId 1) (CapGrant 0 (ProcessId 2) perms_full) 9))
   \<and> durable (fst (step example_state (ProcessId 1) (CapGrant 0 (ProcessId 2) perms_read_only) 9))
     \<noteq> durable (fst (step example_state (ProcessId 1) (CapGrant 0 (ProcessId 2) perms_full) 9))"
  by code_simp

end
