(* ===== verification/Axiom_Log.thy ===== *)
theory Axiom_Log
  imports Capability
begin

text \<open>
  The two logs of \<^verbatim>\<open>zos-axiom\<close>: the audit log of system calls (\<^verbatim>\<open>syslog.rs\<close>, prefix \<open>sl_\<close>) and
  the hash-chained commit log (\<^verbatim>\<open>commitlog.rs\<close>, prefix \<open>cl_\<close>), with the FNV-1a hash they use.
  Both are bounded logs in the sense of the locale \<open>bounded_log\<close> and number their entries in
  the sense of \<open>numbered_log\<close>.
\<close>

section \<open>FNV-1a\<close>

definition FNV_OFFSET :: u64 where
  "FNV_OFFSET = 0xcbf29ce484222325"

definition FNV_PRIME :: u64 where
  "FNV_PRIME = 0x100000001b3"

definition fnv_step :: "u64 \<Rightarrow> u8 \<Rightarrow> u64" where
  "fnv_step hash byte = (hash XOR ucast byte) * FNV_PRIME"

definition fnv_bytes :: "u64 \<Rightarrow> u8 list \<Rightarrow> u64" where
  "fnv_bytes hash bytes = foldl fnv_step hash bytes"

text \<open>The expansion of a 64-bit hash, eight bytes per chunk.\<close>

fun hash_expand :: "nat \<Rightarrow> u64 \<Rightarrow> u8 list" where
  "hash_expand 0 h = []"
| "hash_expand (Suc n) h = u64_to_le_bytes h @ hash_expand n (h * FNV_PRIME)"

definition str_bytes :: "string \<Rightarrow> u8 list" where
  "str_bytes s = map of_char s"

section \<open>Commits\<close>

type_synonym commit_id = "u8 list"
type_synonym event_id = u64

datatype commit_type =
    Genesis
  | ProcessCreated u64 u64 string
  | ProcessExited u64 i32
  | ProcessFaulted u64 u32 string
  | CapInserted u64 u32 u64 u8 u64 u8
  | CapRemoved u64 u32
  | CapGranted u64 u64 u32 u32 u64 permissions
  | EndpointCreated u64 u64
  | EndpointDestroyed u64
  | MessageSent u64 u64 u32 usize

record commit =
  cm_id :: commit_id
  cm_prev_commit :: commit_id
  cm_seq :: u64
  cm_timestamp :: u64
  cm_commit_type :: commit_type
  cm_caused_by :: "event_id option"

fun commit_type_byte :: "commit_type \<Rightarrow> u8" where
  "commit_type_byte Genesis = 0"
| "commit_type_byte (ProcessCreated _ _ _) = 1"
| "commit_type_byte (ProcessExited _ _) = 2"
| "commit_type_byte (ProcessFaulted _ _ _) = 3"
| "commit_type_byte (CapInserted _ _ _ _ _ _) = 4"
| "commit_type_byte (CapRemoved _ _) = 5"
| "commit_type_byte (CapGranted _ _ _ _ _ _) = 6"
| "commit_type_byte (EndpointCreated _ _) = 7"
| "commit_type_byte (EndpointDestroyed _) = 8"
| "commit_type_byte (MessageSent _ _ _ _) = 9"

fun hash_commit_type :: "u64 \<Rightarrow> commit_type \<Rightarrow> u64" where
  "hash_commit_type hash Genesis = hash"
| "hash_commit_type hash (ProcessCreated pid parent name) =
     (let hash = fnv_bytes hash (u64_to_le_bytes pid);
          hash = fnv_bytes hash (u64_to_le_bytes parent)
      in fnv_bytes hash (str_bytes name))"
| "hash_commit_type hash (ProcessExited pid code) =
     (let hash = fnv_bytes hash (u64_to_le_bytes pid)
      in fnv_bytes hash (u32_to_le_bytes code))"
| "hash_commit_type hash (CapInserted pid slot cid object_type object_id perms) =
     (let hash = fnv_bytes hash (u64_to_le_bytes pid);
          hash = fnv_bytes hash (u32_to_le_bytes slot);
          hash = fnv_bytes hash (u64_to_le_bytes cid);
          hash = fnv_step hash object_type;
          hash = fnv_bytes hash (u64_to_le_bytes object_id)
      in fnv_step hash perms)"
| "hash_commit_type hash (CapRemoved pid slot) =
     (let hash = fnv_bytes hash (u64_to_le_bytes pid)
      in fnv_bytes hash (u32_to_le_bytes slot))"
| "hash_commit_type hash (CapGranted from_pid to_pid from_slot to_slot new_cap_id perms) =
     (let hash = fnv_bytes hash (u64_to_le_bytes from_pid);
          hash = fnv_bytes hash (u64_to_le_bytes to_pid);
          hash = fnv_bytes hash (u32_to_le_bytes from_slot);
          hash = fnv_bytes hash (u32_to_le_bytes to_slot);
          hash = fnv_bytes hash (u64_to_le_bytes new_cap_id)
      in fnv_step hash (perms_to_byte perms))"
| "hash_commit_type hash (EndpointCreated eid owner) =
     (let hash = fnv_bytes hash (u64_to_le_bytes eid)
      in fnv_bytes hash (u64_to_le_bytes owner))"
| "hash_commit_type hash (EndpointDestroyed eid) = fnv_bytes hash (u64_to_le_bytes eid)"
| "hash_commit_type hash (ProcessFaulted pid reason description) =
     (let hash = fnv_bytes hash (u64_to_le_bytes pid);
          hash = fnv_bytes hash (u32_to_le_bytes reason)
      in fnv_bytes hash (str_bytes description))"
| "hash_commit_type hash (MessageSent from_pid to_endpoint tag sz) =
     (let hash = fnv_bytes hash (u64_to_le_bytes from_pid);
          hash = fnv_bytes hash (u64_to_le_bytes to_endpoint);
          hash = fnv_bytes hash (u32_to_le_bytes tag)
      in fnv_bytes hash (u64_to_le_bytes (word_of_nat sz)))"

definition compute_hash :: "commit \<Rightarrow> commit_id" where
  "compute_hash c =
     (let hash = FNV_OFFSET;
          hash = fnv_bytes hash (cm_prev_commit c);
          hash = fnv_bytes hash (u64_to_le_bytes (cm_seq c));
          hash = fnv_bytes hash (u64_to_le_bytes (cm_timestamp c));
          hash = fnv_step hash (commit_type_byte (cm_commit_type c));
          hash = hash_commit_type hash (cm_commit_type c)
      in hash_expand 4 hash)"

section \<open>The commit log\<close>

definition MAX_COMMITLOG_ENTRIES :: usize where
  "MAX_COMMITLOG_ENTRIES = 100000"

record commit_log =
  cl_commits :: "commit list"
  cl_next_seq :: u64
  cl_last_hash :: commit_id

definition zero_hash :: commit_id where
  "zero_hash = replicate 32 0"

definition cl_new :: "u64 \<Rightarrow> commit_log" where
  "cl_new timestamp =
     (let genesis = \<lparr>cm_id = zero_hash, cm_prev_commit = zero_hash, cm_seq = 0,
                     cm_timestamp = timestamp, cm_commit_type = Genesis, cm_caused_by = None\<rparr>;
          cid = compute_hash genesis
      in \<lparr>cl_commits = [genesis\<lparr>cm_id := cid\<rparr>], cl_next_seq = 1, cl_last_hash = cid\<rparr>)"

definition cl_trim_if_needed :: "commit_log \<Rightarrow> commit_log" where
  "cl_trim_if_needed l =
     (if length (cl_commits l) > MAX_COMMITLOG_ENTRIES
      then l\<lparr>cl_commits := drop (length (cl_commits l) - MAX_COMMITLOG_ENTRIES) (cl_commits l)\<rparr>
      else l)"

definition cl_append ::
  "commit_log \<Rightarrow> commit_type \<Rightarrow> event_id option \<Rightarrow> u64 \<Rightarrow> commit_id \<times> commit_log" where
  "cl_append l ct caused_by timestamp =
     (let c = \<lparr>cm_id = zero_hash, cm_prev_commit = cl_last_hash l, cm_seq = cl_next_seq l,
               cm_timestamp = timestamp, cm_commit_type = ct, cm_caused_by = caused_by\<rparr>;
          cid = compute_hash c;
          c = c\<lparr>cm_id := cid\<rparr>;
          l = l\<lparr>cl_last_hash := cid, cl_next_seq := cl_next_seq l + 1,
                cl_commits := cl_commits l @ [c]\<rparr>
      in (cid, cl_trim_if_needed l))"

definition cl_get_range :: "commit_log \<Rightarrow> u64 \<Rightarrow> u64 \<Rightarrow> commit list" where
  "cl_get_range l start_seq end_seq =
     filter (\<lambda>c. cm_seq c \<ge> start_seq \<and> cm_seq c < end_seq) (cl_commits l)"

definition cl_get_recent :: "commit_log \<Rightarrow> usize \<Rightarrow> commit list" where
  "cl_get_recent l count = take count (rev (cl_commits l))"

definition cl_head :: "commit_log \<Rightarrow> commit_id" where
  "cl_head l = cl_last_hash l"

definition cl_current_seq :: "commit_log \<Rightarrow> u64" where
  "cl_current_seq l = (if cl_next_seq l = 0 then 0 else cl_next_seq l - 1)"

definition cl_len :: "commit_log \<Rightarrow> usize" where
  "cl_len l = length (cl_commits l)"

definition cl_is_empty :: "commit_log \<Rightarrow> bool" where
  "cl_is_empty l \<longleftrightarrow> cl_commits l = []"

text \<open>The loop of \<^verbatim>\<open>verify_integrity\<close>; \<open>None\<close> is its early \<^verbatim>\<open>return false\<close>.\<close>

fun verify_chain :: "commit_id \<Rightarrow> commit list \<Rightarrow> commit_id option" where
  "verify_chain expected_prev [] = Some expected_prev"
| "verify_chain expected_prev (c # cs) =
     (if cm_prev_commit c \<noteq> expected_prev then None
      else if compute_hash c \<noteq> cm_id c then None
      else verify_chain (cm_id c) cs)"

definition cl_verify_integrity :: "commit_log \<Rightarrow> bool" where
  "cl_verify_integrity l \<longleftrightarrow>
     (if cl_commits l = [] then True
      else (case verify_chain zero_hash (cl_commits l) of
              None \<Rightarrow> False
            | Some expected_prev \<Rightarrow> expected_prev = cl_last_hash l))"

section \<open>The system call log\<close>

type_synonym args4 = "u32 \<times> u32 \<times> u32 \<times> u32"

datatype sys_event_type =
    Request u32 args4
  | Response event_id i64

record sys_event =
  se_id :: event_id
  se_sender :: u64
  se_timestamp :: u64
  se_event_type :: sys_event_type

definition MAX_SYSLOG_EVENTS :: usize where
  "MAX_SYSLOG_EVENTS = 10000"

record sys_log =
  sl_events :: "sys_event list"
  sl_next_id :: event_id

definition sl_new :: sys_log where
  "sl_new = \<lparr>sl_events = [], sl_next_id = 0\<rparr>"

definition sl_trim_if_needed :: "sys_log \<Rightarrow> sys_log" where
  "sl_trim_if_needed l =
     (if length (sl_events l) > MAX_SYSLOG_EVENTS
      then l\<lparr>sl_events := drop (length (sl_events l) - MAX_SYSLOG_EVENTS) (sl_events l)\<rparr>
      else l)"

definition sl_log_request :: "sys_log \<Rightarrow> u64 \<Rightarrow> u32 \<Rightarrow> args4 \<Rightarrow> u64 \<Rightarrow> event_id \<times> sys_log" where
  "sl_log_request l sender syscall_num args timestamp =
     (let eid = sl_next_id l;
          l = l\<lparr>sl_next_id := sl_next_id l + 1\<rparr>;
          l = l\<lparr>sl_events := sl_events l @
                 [\<lparr>se_id = eid, se_sender = sender, se_timestamp = timestamp,
                   se_event_type = Request syscall_num args\<rparr>]\<rparr>
      in (eid, sl_trim_if_needed l))"

definition sl_log_response :: "sys_log \<Rightarrow> u64 \<Rightarrow> event_id \<Rightarrow> i64 \<Rightarrow> u64 \<Rightarrow> sys_log" where
  "sl_log_response l sender request_id result timestamp =
     (let eid = sl_next_id l;
          l = l\<lparr>sl_next_id := sl_next_id l + 1\<rparr>;
          l = l\<lparr>sl_events := sl_events l @
                 [\<lparr>se_id = eid, se_sender = sender, se_timestamp = timestamp,
                   se_event_type = Response request_id result\<rparr>]\<rparr>
      in sl_trim_if_needed l)"

definition sl_get_range :: "sys_log \<Rightarrow> event_id \<Rightarrow> event_id \<Rightarrow> sys_event list" where
  "sl_get_range l start_id end_id = filter (\<lambda>e. se_id e \<ge> start_id \<and> se_id e < end_id) (sl_events l)"

definition sl_get_recent :: "sys_log \<Rightarrow> usize \<Rightarrow> sys_event list" where
  "sl_get_recent l count = take count (rev (sl_events l))"

definition sl_len :: "sys_log \<Rightarrow> usize" where
  "sl_len l = length (sl_events l)"

definition sl_is_empty :: "sys_log \<Rightarrow> bool" where
  "sl_is_empty l \<longleftrightarrow> sl_events l = []"

section \<open>The hash is a fold over the commit's bytes\<close>

fun commit_type_bytes :: "commit_type \<Rightarrow> u8 list" where
  "commit_type_bytes Genesis = []"
| "commit_type_bytes (ProcessCreated pid parent name) =
     u64_to_le_bytes pid @ u64_to_le_bytes parent @ str_bytes name"
| "commit_type_bytes (ProcessExited pid code) = u64_to_le_bytes pid @ u32_to_le_bytes code"
| "commit_type_bytes (ProcessFaulted pid reason description) =
     u64_to_le_bytes pid @ u32_to_le_bytes reason @ str_bytes description"
| "commit_type_bytes (CapInserted pid slot cid ot oid perms) =
     u64_to_le_bytes pid @ u32_to_le_bytes slot @ u64_to_le_bytes cid @ [ot]
     @ u64_to_le_bytes oid @ [perms]"
| "commit_type_bytes (CapRemoved pid slot) = u64_to_le_bytes pid @ u32_to_le_bytes slot"
| "commit_type_bytes (CapGranted p q s t cid perms) =
     u64_to_le_bytes p @ u64_to_le_bytes q @ u32_to_le_bytes s @ u32_to_le_bytes t
     @ u64_to_le_bytes cid @ [perms_to_byte perms]"
| "commit_type_bytes (EndpointCreated eid owner) = u64_to_le_bytes eid @ u64_to_le_bytes owner"
| "commit_type_bytes (EndpointDestroyed eid) = u64_to_le_bytes eid"
| "commit_type_bytes (MessageSent p eid tag sz) =
     u64_to_le_bytes p @ u64_to_le_bytes eid @ u32_to_le_bytes tag
     @ u64_to_le_bytes (word_of_nat sz)"

definition commit_bytes :: "commit \<Rightarrow> u8 list" where
  "commit_bytes c =
     cm_prev_commit c @ u64_to_le_bytes (cm_seq c) @ u64_to_le_bytes (cm_timestamp c)
     @ [commit_type_byte (cm_commit_type c)] @ commit_type_bytes (cm_commit_type c)"

lemma fnv_bytes_simps [simp]:
  "fnv_bytes h [] = h"
  "fnv_bytes h (b # bs) = fnv_bytes (fnv_step h b) bs"
  "fnv_bytes h (xs @ ys) = fnv_bytes (fnv_bytes h xs) ys"
  by (simp_all add: fnv_bytes_def)

lemma hash_commit_type_fold: "hash_commit_type h ct = fnv_bytes h (commit_type_bytes ct)"
  by (cases ct) simp_all

lemma compute_hash_fold: "compute_hash c = hash_expand 4 (fnv_bytes FNV_OFFSET (commit_bytes c))"
  by (simp add: compute_hash_def commit_bytes_def hash_commit_type_fold)

text \<open>The prime is odd, so multiplying by it is injective on 64-bit words.\<close>

lemma fnv_prime_mult_inject: "x * FNV_PRIME = y * FNV_PRIME \<longleftrightarrow> x = y"
proof
  assume "x * FNV_PRIME = y * FNV_PRIME"
  then have "x * FNV_PRIME * 0xce965057aff6957b = y * FNV_PRIME * 0xce965057aff6957b"
    by simp
  moreover have "FNV_PRIME * 0xce965057aff6957b = 1"
    by (simp add: FNV_PRIME_def)
  ultimately show "x = y"
    by (simp add: mult.assoc)
qed simp

lemma xor_right_cancel: "h XOR x = h' XOR x \<longleftrightarrow> h = h'" for h h' x :: u64
proof
  assume "h XOR x = h' XOR x"
  then have "(h XOR x) XOR x = (h' XOR x) XOR x"
    by (rule arg_cong)
  then show "h = h'"
    by (simp add: xor.assoc)
qed simp

lemma xor_left_cancel: "x XOR h = x XOR h' \<longleftrightarrow> h = h'" for h h' x :: u64
  using xor_right_cancel [of h x h'] by (simp add: xor.commute)

lemma ucast_u8_u64_inject: "(ucast b :: u64) = ucast b' \<longleftrightarrow> b = b'" for b b' :: u8
proof
  have id: "ucast (ucast w :: u64) = w" for w :: u8
    by (intro bit_eqI) (auto simp: bit_simps)
  assume "(ucast b :: u64) = ucast b'"
  then have "(ucast (ucast b :: u64) :: u8) = ucast (ucast b' :: u64)"
    by (rule arg_cong)
  then show "b = b'"
    unfolding id .
qed simp

lemma fnv_step_inject: "fnv_step h b = fnv_step h' b \<longleftrightarrow> h = h'"
  by (simp add: fnv_step_def fnv_prime_mult_inject xor_right_cancel)

lemma fnv_step_byte_inject: "fnv_step h b = fnv_step h b' \<longleftrightarrow> b = b'"
  by (simp add: fnv_step_def fnv_prime_mult_inject xor_left_cancel
      ucast_u8_u64_inject)

lemma fnv_bytes_inject: "fnv_bytes h bs = fnv_bytes h' bs \<longleftrightarrow> h = h'"
  by (induction bs arbitrary: h h') (simp_all add: fnv_step_inject)

text \<open>Two byte strings that differ in exactly one position have different hashes.\<close>

lemma fnv_single_byte:
  assumes "b \<noteq> b'"
  shows "fnv_bytes h (xs @ b # ys) \<noteq> fnv_bytes h (xs @ b' # ys)"
  using assms by (simp add: fnv_bytes_inject fnv_step_byte_inject)

lemma u64_le_bytes_inject: "u64_to_le_bytes v = u64_to_le_bytes w \<longleftrightarrow> v = w"
proof
  have "le_bytes_nat (u64_to_le_bytes v) = unat v" for v
  proof -
    have "unat v < 2 ^ LENGTH(64)"
      by (rule unsigned_less)
    then show ?thesis
      by (simp add: u64_to_le_bytes_def le_bytes_nat_inverse)
  qed
  then show "v = w" if "u64_to_le_bytes v = u64_to_le_bytes w"
    using that by (metis word_unat_eq_iff)
qed simp

lemma length_hash_expand [simp]: "length (hash_expand n h) = 8 * n"
  by (induction n arbitrary: h) simp_all

lemma hash_expand_inject:
  assumes "n > 0"
  shows "hash_expand n h = hash_expand n h' \<longleftrightarrow> h = h'"
  using assms by (cases n) (auto simp: u64_le_bytes_inject)

lemma length_compute_hash [simp]: "length (compute_hash c) = 32"
  by (simp add: compute_hash_def Let_def)

section \<open>Bounded, numbered logs\<close>

definition keep_last :: "nat \<Rightarrow> 'e list \<Rightarrow> 'e list" where
  "keep_last cap xs = drop (length xs - cap) xs"

lemma keep_last_short: "length xs \<le> cap \<Longrightarrow> keep_last cap xs = xs"
  by (simp add: keep_last_def)

lemma length_keep_last: "length (keep_last cap xs) = min cap (length xs)"
  by (auto simp: keep_last_def)

lemma keep_last_append: "keep_last cap (keep_last cap xs @ ys) = keep_last cap (xs @ ys)"
proof -
  have "drop (length xs - cap + (length xs - (length xs - cap) + length ys - cap)) xs
      = drop (length xs + length ys - cap) xs"
    by (cases "length xs \<le> cap") auto
  then show ?thesis
    by (auto simp: keep_last_def add.commute)
qed

text \<open>The entries a sequence of inputs creates, each in the state it arrives in.\<close>

fun log_history :: "('l \<Rightarrow> 'i \<Rightarrow> 'e) \<Rightarrow> ('l \<Rightarrow> 'i \<Rightarrow> 'l) \<Rightarrow> 'l \<Rightarrow> 'i list \<Rightarrow> 'e list" where
  "log_history entry add l [] = []"
| "log_history entry add l (i # is) = entry l i # log_history entry add (add l i) is"

lemma length_log_history [simp]: "length (log_history entry add l is) = length is"
  by (induction "is" arbitrary: l) simp_all

locale bounded_log =
  fixes cap :: nat
    and entries :: "'l \<Rightarrow> 'e list"
    and entry :: "'l \<Rightarrow> 'i \<Rightarrow> 'e"
    and add :: "'l \<Rightarrow> 'i \<Rightarrow> 'l"
  assumes entries_add: "entries (add l i) = keep_last cap (entries l @ [entry l i])"
begin

text \<open>The log is always the last \<open>cap\<close> entries of the whole history.\<close>

lemma entries_run:
  "entries l = keep_last cap xs \<Longrightarrow>
     entries (run add l is) = keep_last cap (xs @ log_history entry add l is)"
proof (induction "is" arbitrary: l xs)
  case (Cons i "is")
  have "entries (add l i) = keep_last cap (xs @ [entry l i])"
    using Cons.prems by (simp add: entries_add keep_last_append)
  from Cons.IH [OF this] show ?case
    by simp
qed simp

lemma entries_bounded: "length (entries l) \<le> cap \<Longrightarrow> length (entries (run add l is)) \<le> cap"
  using entries_run [of l "entries l"] by (simp add: keep_last_short length_keep_last)

lemma entries_complete:
  assumes "length (entries l) + length is \<le> cap"
  shows "entries (run add l is) = entries l @ log_history entry add l is"
  using assms entries_run [of l "entries l" "is"] by (simp add: keep_last_short)

end

text \<open>A log that numbers its entries consecutively (with wrap-around at the word size).\<close>

definition word_upto :: "u64 \<Rightarrow> nat \<Rightarrow> u64 list" where
  "word_upto start n = map (\<lambda>k. start + word_of_nat k) [0..<n]"

lemma word_upto_Suc: "word_upto start (Suc n) = start # word_upto (start + 1) n"
proof -
  have "[0..<Suc n] = 0 # map Suc [0..<n]"
    by (simp only: upt_conv_Cons zero_less_Suc map_Suc_upt)
  then show ?thesis
    by (simp add: word_upto_def add.assoc del: upt_Suc)
qed

locale numbered_log = bounded_log +
  fixes num :: "'b \<Rightarrow> u64"
    and next_num :: "'a \<Rightarrow> u64"
  assumes num_entry: "num (entry l i) = next_num l"
    and next_num_add: "next_num (add l i) = next_num l + 1"
begin

lemma next_num_run: "next_num (run add l is) = next_num l + word_of_nat (length is)"
  by (induction "is" arbitrary: l) (simp_all add: next_num_add algebra_simps)

lemma history_nums: "map num (log_history entry add l is) = word_upto (next_num l) (length is)"
  by (induction "is" arbitrary: l)
    (simp_all add: word_upto_Suc num_entry next_num_add word_upto_def [of _ 0])

text \<open>Started empty, the log holds the last numbers handed out, without gaps.\<close>

lemma nums_run:
  assumes "entries l = []"
  shows "map num (entries (run add l is)) = keep_last cap (word_upto (next_num l) (length is))"
proof -
  have "entries (run add l is) = keep_last cap (log_history entry add l is)"
    using entries_run [of l "[]" "is"] assms by (simp add: keep_last_def)
  then show ?thesis
    by (simp add: keep_last_def drop_map history_nums [symmetric])
qed

end

section \<open>Both logs are bounded and numbered\<close>

datatype sys_log_op = LogRequest u64 u32 args4 u64 | LogResponse u64 event_id i64 u64

fun sl_apply :: "sys_log \<Rightarrow> sys_log_op \<Rightarrow> sys_log" where
  "sl_apply l (LogRequest sender num args ts) = snd (sl_log_request l sender num args ts)"
| "sl_apply l (LogResponse sender req result ts) = sl_log_response l sender req result ts"

fun sl_entry :: "sys_log \<Rightarrow> sys_log_op \<Rightarrow> sys_event" where
  "sl_entry l (LogRequest sender num args ts) =
     \<lparr>se_id = sl_next_id l, se_sender = sender, se_timestamp = ts, se_event_type = Request num args\<rparr>"
| "sl_entry l (LogResponse sender req result ts) =
     \<lparr>se_id = sl_next_id l, se_sender = sender, se_timestamp = ts, se_event_type = Response req result\<rparr>"

lemma sl_events_trim:
  "sl_events (sl_trim_if_needed l) = keep_last MAX_SYSLOG_EVENTS (sl_events l)"
  by (simp add: sl_trim_if_needed_def keep_last_def)

lemma sl_next_id_trim [simp]: "sl_next_id (sl_trim_if_needed l) = sl_next_id l"
  by (simp add: sl_trim_if_needed_def)

interpretation syslog: numbered_log MAX_SYSLOG_EVENTS sl_events sl_entry sl_apply se_id sl_next_id
proof unfold_locales
  fix l op
  show "sl_events (sl_apply l op) = keep_last MAX_SYSLOG_EVENTS (sl_events l @ [sl_entry l op])"
    by (cases op) (simp_all add: sl_log_request_def sl_log_response_def Let_def sl_events_trim)
  show "se_id (sl_entry l op) = sl_next_id l"
    by (cases op) simp_all
  show "sl_next_id (sl_apply l op) = sl_next_id l + 1"
    by (cases op) (simp_all add: sl_log_request_def sl_log_response_def Let_def)
qed

type_synonym append_op = "commit_type \<times> event_id option \<times> u64"

fun cl_apply :: "commit_log \<Rightarrow> append_op \<Rightarrow> commit_log" where
  "cl_apply l (ct, caused_by, ts) = snd (cl_append l ct caused_by ts)"

fun cl_entry :: "commit_log \<Rightarrow> append_op \<Rightarrow> commit" where
  "cl_entry l (ct, caused_by, ts) =
     (let c = \<lparr>cm_id = zero_hash, cm_prev_commit = cl_last_hash l, cm_seq = cl_next_seq l,
               cm_timestamp = ts, cm_commit_type = ct, cm_caused_by = caused_by\<rparr>
      in c\<lparr>cm_id := compute_hash c\<rparr>)"

lemma cl_commits_trim:
  "cl_commits (cl_trim_if_needed l) = keep_last MAX_COMMITLOG_ENTRIES (cl_commits l)"
  by (simp add: cl_trim_if_needed_def keep_last_def)

lemma cl_trim_frame [simp]:
  "cl_next_seq (cl_trim_if_needed l) = cl_next_seq l"
  "cl_last_hash (cl_trim_if_needed l) = cl_last_hash l"
  by (simp_all add: cl_trim_if_needed_def)

interpretation commitlog: numbered_log MAX_COMMITLOG_ENTRIES cl_commits cl_entry cl_apply cm_seq cl_next_seq
proof unfold_locales
  fix l op
  show "cl_commits (cl_apply l op) = keep_last MAX_COMMITLOG_ENTRIES (cl_commits l @ [cl_entry l op])"
    by (cases op) (simp add: cl_append_def Let_def cl_commits_trim)
  show "cm_seq (cl_entry l op) = cl_next_seq l"
    by (cases op) (simp add: Let_def)
  show "cl_next_seq (cl_apply l op) = cl_next_seq l + 1"
    by (cases op) (simp add: cl_append_def Let_def)
qed

section \<open>The hash chain\<close>

text \<open>Every commit is sealed by its own hash and names its predecessor; \<open>h\<close> is the last hash.\<close>

lemma compute_hash_id [simp]: "compute_hash (c\<lparr>cm_id := x\<rparr>) = compute_hash c"
  by (simp add: compute_hash_def)

lemma verify_chain_append:
  "verify_chain p (xs @ ys) =
     (case verify_chain p xs of None \<Rightarrow> None | Some q \<Rightarrow> verify_chain q ys)"
  by (induction xs arbitrary: p) simp_all

lemma cl_entry_sealed:
  "cm_prev_commit (cl_entry l op) = cl_last_hash l"
  "compute_hash (cl_entry l op) = cm_id (cl_entry l op)"
  "cl_last_hash (cl_apply l op) = cm_id (cl_entry l op)"
  by (cases op; simp add: Let_def cl_append_def compute_hash_fold commit_bytes_def)+

lemma history_chain:
  "verify_chain (cl_last_hash l) (log_history cl_entry cl_apply l ops)
     = Some (cl_last_hash (run cl_apply l ops))"
  by (induction ops arbitrary: l)
    (simp_all add: cl_entry_sealed(1,2) cl_entry_sealed(3) [symmetric])

text \<open>The whole history of a log, from its genesis commit on, verifies.\<close>

lemma genesis_chain:
  "verify_chain zero_hash (cl_commits (cl_new ts)) = Some (cl_last_hash (cl_new ts))"
  by (simp add: cl_new_def Let_def compute_hash_fold commit_bytes_def)

lemma full_chain:
  "verify_chain zero_hash (cl_commits (cl_new ts) @ log_history cl_entry cl_apply (cl_new ts) ops)
     = Some (cl_last_hash (run cl_apply (cl_new ts) ops))"
  by (simp add: verify_chain_append genesis_chain history_chain)

lemma cl_new_length [simp]: "length (cl_commits (cl_new ts)) = 1"
  by (simp add: cl_new_def Let_def)

lemma cl_new_commits_eq: "cl_commits (cl_new ts) = [hd (cl_commits (cl_new ts))]"
  by (simp add: cl_new_def Let_def)

text \<open>A chain splits where the log was cut; the first kept commit names the last dropped one.\<close>

lemma verify_chain_suffix:
  assumes "verify_chain p (xs @ c # ys) = Some h"
  shows "verify_chain q (c # ys) = (if q = cm_prev_commit c then Some h else None)"
    and "xs \<noteq> [] \<Longrightarrow> cm_prev_commit c = cm_id (last xs)"
proof -
  have *: "verify_chain p xs = Some r \<Longrightarrow> xs \<noteq> [] \<Longrightarrow> r = cm_id (last xs)" for p r
    by (induction xs arbitrary: p) (auto split: if_splits)
  from assms obtain r where r: "verify_chain p xs = Some r" "verify_chain r (c # ys) = Some h"
    by (auto simp: verify_chain_append split: option.splits)
  then show "verify_chain q (c # ys) = (if q = cm_prev_commit c then Some h else None)"
    by (auto split: if_splits)
  show "cm_prev_commit c = cm_id (last xs)" if "xs \<noteq> []"
    using * [OF r(1) that] r(2) by (auto split: if_splits)
qed

text \<open>Changing one byte of what is hashed breaks the chain at that commit.\<close>

lemma one_byte_changes_hash:
  assumes "commit_bytes c = xs @ b # ys" "commit_bytes c' = xs @ b' # ys" "b \<noteq> b'"
  shows "compute_hash c \<noteq> compute_hash c'"
  using fnv_single_byte [OF assms(3)] by (simp add: compute_hash_fold assms(1,2) hash_expand_inject)

lemma verify_chain_sealed:
  "verify_chain p cs = Some h \<Longrightarrow> c \<in> set cs \<Longrightarrow> compute_hash c = cm_id c"
  by (induction cs arbitrary: p) (auto split: if_splits)

lemma verify_integrity_chain:
  "cl_commits l \<noteq> [] \<Longrightarrow>
     cl_verify_integrity l \<longleftrightarrow> verify_chain zero_hash (cl_commits l) = Some (cl_last_hash l)"
  by (auto simp: cl_verify_integrity_def split: option.split)

lemma verify_chain_replaced:
  assumes "verify_chain p (xs @ c # ys) = Some h" "verify_chain p (xs @ c' # ys) = Some h"
  shows "cm_id c = cm_id c'"
proof (cases ys)
  case Nil
  then show ?thesis
    using assms by (auto simp: verify_chain_append split: option.splits if_splits)
next
  case (Cons d zs)
  then show ?thesis
    using assms by (auto simp: verify_chain_append split: option.splits if_splits)
qed

lemma verify_chain_caused_by:
  "verify_chain p (map (\<lambda>c. c\<lparr>cm_caused_by := f c\<rparr>) cs) = verify_chain p cs"
  by (induction cs arbitrary: p) (simp_all add: compute_hash_fold commit_bytes_def)

lemma verify_chain_cut:
  assumes "verify_chain p full = Some h" "Suc n < length full"
  shows "verify_chain q (drop (Suc n) full) = (if q = cm_id (full ! n) then Some h else None)"
proof -
  have full: "full = take (Suc n) full @ full ! Suc n # drop (Suc (Suc n)) full"
    using assms(2) by (rule id_take_nth_drop)
  have rest: "drop (Suc n) full = full ! Suc n # drop (Suc (Suc n)) full"
    using assms(2) by (simp add: Cons_nth_drop_Suc)
  have chain: "verify_chain p (take (Suc n) full @ full ! Suc n # drop (Suc (Suc n)) full) = Some h"
    using assms(1) full by simp
  have "take (Suc n) full \<noteq> []" "last (take (Suc n) full) = full ! n"
    using assms(2) by (auto simp: take_Suc_conv_app_nth)
  then show ?thesis
    using verify_chain_suffix(1) [OF chain, of q] verify_chain_suffix(2) [OF chain]
    by (simp only: rest) auto
qed

lemma cl_new_first: "(cl_commits (cl_new ts) @ xs) ! 0 = hd (cl_commits (cl_new ts))"
  using cl_new_commits_eq [of ts] by (metis append_Cons nth_Cons_0)

lemma map_keep_last: "map f (keep_last cap xs) = keep_last cap (map f xs)"
  by (simp add: keep_last_def drop_map)

lemma untrimmed_verifies:
  assumes "length ops < MAX_COMMITLOG_ENTRIES"
  shows "cl_verify_integrity (run cl_apply (cl_new ts) ops)"
proof -
  have "cl_commits (run cl_apply (cl_new ts) ops)
      = cl_commits (cl_new ts) @ log_history cl_entry cl_apply (cl_new ts) ops"
    using assms by (intro commitlog.entries_complete) simp
  then show ?thesis
    using full_chain [of ts ops] cl_new_commits_eq [of ts]
    by (subst verify_integrity_chain) auto
qed

section \<open>Properties\<close>

text \<open>
  C37. The commit log verifies its own chain: as long as no more commits were appended than the
  log keeps, \<^verbatim>\<open>verify_integrity\<close> accepts the log.
\<close>

theorem commit_log_verifies:
  assumes "length ops < MAX_COMMITLOG_ENTRIES"
  shows "cl_verify_integrity (run cl_apply (cl_new ts) ops)"
  using assms by (rule untrimmed_verifies)

theorem commit_log_verifies_witness:
  "cl_verify_integrity (run cl_apply (cl_new 0)
     [(ProcessCreated 1 0 ''init'', None, 1000), (EndpointCreated 1 1, Some 7, 2000)])"
  by (rule commit_log_verifies) (simp add: MAX_COMMITLOG_ENTRIES_def)

text \<open>
  Trimming breaks the check: once the log has dropped a commit, \<^verbatim>\<open>verify_integrity\<close> rejects
  the untampered log unless the last dropped commit happens to have the all-zero id, because
  it still expects the first commit it sees to be the genesis commit.
\<close>

theorem trimmed_log_is_rejected:
  assumes "MAX_COMMITLOG_ENTRIES \<le> length ops"
  shows "cl_verify_integrity (run cl_apply (cl_new ts) ops) \<longleftrightarrow>
    cm_id ((cl_commits (cl_new ts) @ log_history cl_entry cl_apply (cl_new ts) ops)
             ! (length ops - MAX_COMMITLOG_ENTRIES)) = zero_hash"
proof -
  let ?full = "cl_commits (cl_new ts) @ log_history cl_entry cl_apply (cl_new ts) ops"
  let ?n = "length ops - MAX_COMMITLOG_ENTRIES"
  have len: "length ?full = Suc (length ops)"
    by simp
  have kept: "cl_commits (run cl_apply (cl_new ts) ops) = drop (Suc ?n) ?full"
    using commitlog.entries_run [of "cl_new ts" "cl_commits (cl_new ts)" ops] assms
    by (simp add: keep_last_short keep_last_def MAX_COMMITLOG_ENTRIES_def Suc_diff_le)
  have "Suc ?n < length ?full"
    unfolding len using assms by (simp add: MAX_COMMITLOG_ENTRIES_def)
  note cut = verify_chain_cut [OF full_chain [of ts ops] this]
  have "drop (Suc ?n) ?full \<noteq> []"
    using \<open>Suc ?n < length ?full\<close> by (simp only: drop_eq_Nil not_le)
  then show ?thesis
    using cut [of zero_hash] by (subst verify_integrity_chain) (simp_all only: kept, auto)
qed

theorem trimmed_log_is_rejected_witness:
  "cl_verify_integrity (run cl_apply (cl_new 0) (replicate 100000 (EndpointDestroyed 1, None, 5)))
   \<longleftrightarrow> cm_id (hd (cl_commits (cl_new 0))) = zero_hash"
proof -
  let ?ops = "replicate 100000 (EndpointDestroyed 1, None, 5) :: append_op list"
  have len: "length ?ops = MAX_COMMITLOG_ENTRIES"
    unfolding MAX_COMMITLOG_ENTRIES_def by (rule length_replicate)
  have "MAX_COMMITLOG_ENTRIES \<le> length ?ops"
    unfolding len by (rule order_refl)
  from trimmed_log_is_rejected [OF this, of 0] show ?thesis
    unfolding len diff_self_eq_0 cl_new_first .
qed

text \<open>
  C38. Tampering is detected: if a log verifies and one byte of what the hash covers of one
  commit is changed (whatever is then written into its id), the log no longer verifies.
\<close>

theorem tampering_is_detected:
  assumes "cl_verify_integrity l" "cl_commits l = cs @ c # ds"
    and "commit_bytes c = xs @ b # ys" "commit_bytes c' = xs @ b' # ys" "b \<noteq> b'"
  shows "\<not> cl_verify_integrity (l\<lparr>cl_commits := cs @ c' # ds\<rparr>)"
proof
  assume "cl_verify_integrity (l\<lparr>cl_commits := cs @ c' # ds\<rparr>)"
  then have new: "verify_chain zero_hash (cs @ c' # ds) = Some (cl_last_hash l)"
    by (simp add: verify_integrity_chain)
  have old: "verify_chain zero_hash (cs @ c # ds) = Some (cl_last_hash l)"
    using assms(1,2) by (simp add: verify_integrity_chain)
  have "compute_hash c = compute_hash c'"
    using verify_chain_sealed [OF old, of c] verify_chain_sealed [OF new, of c']
      verify_chain_replaced [OF old new] by simp
  then show False
    using one_byte_changes_hash [OF assms(3-5)] by simp
qed

definition example_commit :: commit where
  "example_commit = cl_entry (cl_new 0) (EndpointDestroyed 1, None, 5)"

definition example_log :: commit_log where
  "example_log = run cl_apply (cl_new 0) [(EndpointDestroyed 1, None, 5)]"

theorem tampering_is_detected_witness:
  "\<not> cl_verify_integrity (example_log\<lparr>cl_commits :=
      cl_commits (cl_new 0) @ example_commit\<lparr>cm_commit_type := EndpointDestroyed 2\<rparr> # []\<rparr>)"
proof (rule tampering_is_detected)
  show "cl_verify_integrity example_log"
    unfolding example_log_def
    by (rule untrimmed_verifies) (simp add: MAX_COMMITLOG_ENTRIES_def)
  show "cl_commits example_log = cl_commits (cl_new 0) @ example_commit # []"
    unfolding example_log_def example_commit_def
    by (subst commitlog.entries_complete) (simp_all add: MAX_COMMITLOG_ENTRIES_def)
  let ?front = "cm_prev_commit example_commit @ u64_to_le_bytes (cm_seq example_commit)
      @ u64_to_le_bytes (cm_timestamp example_commit) @ [8]"
  have "cm_commit_type example_commit = EndpointDestroyed 1"
    by (simp add: example_commit_def Let_def)
  moreover have "u64_to_le_bytes 1 = 1 # replicate 7 0" "u64_to_le_bytes 2 = 2 # replicate 7 0"
    by code_simp+
  ultimately show "commit_bytes example_commit = ?front @ 1 # replicate 7 0"
    and "commit_bytes (example_commit\<lparr>cm_commit_type := EndpointDestroyed 2\<rparr>) = ?front @ 2 # replicate 7 0"
    by (simp_all add: commit_bytes_def)
  show "(1 :: u8) \<noteq> 2"
    by simp
qed

text \<open>
  The cause of a commit is not protected: rewriting the \<^verbatim>\<open>caused_by\<close> field of any commits
  leaves the verdict of \<^verbatim>\<open>verify_integrity\<close> as it was.
\<close>

theorem caused_by_is_unprotected:
  "cl_verify_integrity (l\<lparr>cl_commits := map (\<lambda>c. c\<lparr>cm_caused_by := f c\<rparr>) (cl_commits l)\<rparr>)
   = cl_verify_integrity l"
  by (simp add: cl_verify_integrity_def verify_chain_caused_by split: option.split)

text \<open>
  Audit ids have no gaps: after any sequence of logged requests and responses the log holds
  the events with the last ids handed out, in order, and never more than its capacity.
\<close>

theorem audit_ids_consecutive:
  "map se_id (sl_events (run sl_apply sl_new ops))
     = keep_last MAX_SYSLOG_EVENTS (word_upto 0 (length ops))
   \<and> sl_len (run sl_apply sl_new ops) \<le> MAX_SYSLOG_EVENTS"
  using syslog.nums_run [of sl_new ops] syslog.entries_bounded [of sl_new ops]
  by (simp add: sl_new_def sl_len_def)

text \<open>
  Sequence numbers have no gaps: the same for the commit log, whose numbers start with the
  genesis commit.
\<close>

theorem commit_seqs_consecutive:
  "map cm_seq (cl_commits (run cl_apply (cl_new ts) ops))
     = keep_last MAX_COMMITLOG_ENTRIES (word_upto 0 (Suc (length ops)))
   \<and> cl_len (run cl_apply (cl_new ts) ops) \<le> MAX_COMMITLOG_ENTRIES"
proof -
  let ?full = "cl_commits (cl_new ts) @ log_history cl_entry cl_apply (cl_new ts) ops"
  have run: "cl_commits (run cl_apply (cl_new ts) ops) = keep_last MAX_COMMITLOG_ENTRIES ?full"
    by (intro commitlog.entries_run) (simp add: keep_last_short MAX_COMMITLOG_ENTRIES_def)
  have "map cm_seq ?full = word_upto 0 (Suc (length ops))"
    using commitlog.history_nums [of "cl_new ts" ops]
    by (simp add: word_upto_Suc cl_new_def Let_def)
  then have "map cm_seq (keep_last MAX_COMMITLOG_ENTRIES ?full)
      = keep_last MAX_COMMITLOG_ENTRIES (word_upto 0 (Suc (length ops)))"
    by (simp only: map_keep_last)
  then show ?thesis
    by (simp add: run cl_len_def length_keep_last)
qed

end
