(* ===== verification/Axiom_Gateway.thy ===== *)
theory Axiom_Gateway
  imports Axiom_Log
begin

text \<open>
  The gateway of \<^verbatim>\<open>zos-axiom/src/gateway.rs\<close>, which brackets a kernel operation by a request
  and a response in the audit log and records its commits, and the replay of commits by
  \<^verbatim>\<open>replay.rs\<close>. The kernel function and the \<^verbatim>\<open>Replayable\<close> implementation are parameters, as they
  are in the source; the locale \<open>replay_refinement\<close> says what a kernel owes the replay.
\<close>

section \<open>The gateway\<close>

record axiom_gateway =
  gw_syslog :: sys_log
  gw_commitlog :: commit_log

definition gw_new :: "u64 \<Rightarrow> axiom_gateway" where
  "gw_new timestamp = \<lparr>gw_syslog = sl_new, gw_commitlog = cl_new timestamp\<rparr>"

text \<open>The loop that appends the commits of a call and collects their ids.\<close>

fun cl_append_all ::
  "commit_log \<Rightarrow> commit_type list \<Rightarrow> event_id option \<Rightarrow> u64 \<Rightarrow> commit_id list \<times> commit_log" where
  "cl_append_all l [] caused_by timestamp = ([], l)"
| "cl_append_all l (ct # cts) caused_by timestamp =
     (let (cid, l) = cl_append l ct caused_by timestamp;
          (cids, l) = cl_append_all l cts caused_by timestamp
      in (cid # cids, l))"

text \<open>The closure \<open>kernel_fn\<close> may change what it captures, here the state \<open>st\<close>.\<close>

definition gw_syscall ::
  "axiom_gateway \<Rightarrow> u64 \<Rightarrow> u32 \<Rightarrow> args4 \<Rightarrow> u64
   \<Rightarrow> (u32 \<Rightarrow> args4 \<Rightarrow> 's \<Rightarrow> (i64 \<times> commit_type list) \<times> 's) \<Rightarrow> 's
   \<Rightarrow> (i64 \<times> commit_id list) \<times> axiom_gateway \<times> 's" where
  "gw_syscall gw sender syscall_num args timestamp kernel_fn st =
     (let (request_id, sl) = sl_log_request (gw_syslog gw) sender syscall_num args timestamp;
          gw = gw\<lparr>gw_syslog := sl\<rparr>;
          ((result, commit_types), st) = kernel_fn syscall_num args st;
          (commit_ids, cl) = cl_append_all (gw_commitlog gw) commit_types (Some request_id) timestamp;
          gw = gw\<lparr>gw_commitlog := cl\<rparr>;
          gw = gw\<lparr>gw_syslog := sl_log_response (gw_syslog gw) sender request_id result timestamp\<rparr>
      in ((result, commit_ids), gw, st))"

definition gw_append_internal_commit ::
  "axiom_gateway \<Rightarrow> commit_type \<Rightarrow> u64 \<Rightarrow> commit_id \<times> axiom_gateway" where
  "gw_append_internal_commit gw ct timestamp =
     (let (cid, cl) = cl_append (gw_commitlog gw) ct None timestamp
      in (cid, gw\<lparr>gw_commitlog := cl\<rparr>))"

definition gw_verify_integrity :: "axiom_gateway \<Rightarrow> bool" where
  "gw_verify_integrity gw \<longleftrightarrow> cl_verify_integrity (gw_commitlog gw)"

record gateway_state =
  gs_syslog_len :: usize
  gs_syslog_next_id :: u64
  gs_commitlog_len :: usize
  gs_commitlog_seq :: u64
  gs_commitlog_head :: commit_id

definition gw_state_summary :: "axiom_gateway \<Rightarrow> gateway_state" where
  "gw_state_summary gw =
     \<lparr>gs_syslog_len = sl_len (gw_syslog gw), gs_syslog_next_id = sl_next_id (gw_syslog gw),
      gs_commitlog_len = cl_len (gw_commitlog gw),
      gs_commitlog_seq = cl_current_seq (gw_commitlog gw),
      gs_commitlog_head = cl_head (gw_commitlog gw)\<rparr>"

section \<open>Replay\<close>

datatype replay_error =
    InvalidCommit string
  | ReplayProcessNotFound u64
  | ReplayEndpointNotFound u64
  | CapabilityError string
  | HashMismatch "u8 list" "u8 list"
  | UnknownObjectType u8

text \<open>
  The trait \<^verbatim>\<open>Replayable\<close>: one operation per kind of commit. An operation gets the state by
  \<^verbatim>\<open>&mut self\<close> and returns it beside its result.
\<close>

type_synonym 's replay_result = "(replay_error + unit) \<times> 's"

record 's replayable =
  rp_genesis :: "'s \<Rightarrow> 's replay_result"
  rp_create_process :: "'s \<Rightarrow> u64 \<Rightarrow> u64 \<Rightarrow> string \<Rightarrow> 's replay_result"
  rp_exit_process :: "'s \<Rightarrow> u64 \<Rightarrow> i32 \<Rightarrow> 's replay_result"
  rp_process_faulted :: "'s \<Rightarrow> u64 \<Rightarrow> u32 \<Rightarrow> string \<Rightarrow> 's replay_result"
  rp_insert_capability ::
    "'s \<Rightarrow> u64 \<Rightarrow> u32 \<Rightarrow> u64 \<Rightarrow> u8 \<Rightarrow> u64 \<Rightarrow> u8 \<Rightarrow> 's replay_result"
  rp_remove_capability :: "'s \<Rightarrow> u64 \<Rightarrow> u32 \<Rightarrow> 's replay_result"
  rp_cap_granted ::
    "'s \<Rightarrow> u64 \<Rightarrow> u64 \<Rightarrow> u32 \<Rightarrow> u32 \<Rightarrow> u64 \<Rightarrow> permissions \<Rightarrow> 's replay_result"
  rp_create_endpoint :: "'s \<Rightarrow> u64 \<Rightarrow> u64 \<Rightarrow> 's replay_result"
  rp_destroy_endpoint :: "'s \<Rightarrow> u64 \<Rightarrow> 's replay_result"
  rp_message_sent :: "'s \<Rightarrow> u64 \<Rightarrow> u64 \<Rightarrow> u32 \<Rightarrow> usize \<Rightarrow> 's replay_result"
  rp_state_hash :: "'s \<Rightarrow> u8 list"

fun apply_commit_type :: "'s replayable \<Rightarrow> 's \<Rightarrow> commit_type \<Rightarrow> 's replay_result" where
  "apply_commit_type R s Genesis = rp_genesis R s"
| "apply_commit_type R s (ProcessCreated pid parent name) = rp_create_process R s pid parent name"
| "apply_commit_type R s (ProcessExited pid code) = rp_exit_process R s pid code"
| "apply_commit_type R s (ProcessFaulted pid reason description) =
     rp_process_faulted R s pid reason description"
| "apply_commit_type R s (CapInserted pid slot cid ot oid perms) =
     rp_insert_capability R s pid slot cid ot oid perms"
| "apply_commit_type R s (CapRemoved pid slot) = rp_remove_capability R s pid slot"
| "apply_commit_type R s (CapGranted from_pid to_pid from_slot to_slot new_cap_id perms) =
     rp_cap_granted R s from_pid to_pid from_slot to_slot new_cap_id perms"
| "apply_commit_type R s (EndpointCreated eid owner) = rp_create_endpoint R s eid owner"
| "apply_commit_type R s (EndpointDestroyed eid) = rp_destroy_endpoint R s eid"
| "apply_commit_type R s (MessageSent from_pid to_endpoint tag sz) =
     rp_message_sent R s from_pid to_endpoint tag sz"

definition apply_commit :: "'s replayable \<Rightarrow> 's \<Rightarrow> commit \<Rightarrow> 's replay_result" where
  "apply_commit R s c = apply_commit_type R s (cm_commit_type c)"

fun replay :: "'s replayable \<Rightarrow> 's \<Rightarrow> commit list \<Rightarrow> 's replay_result" where
  "replay R s [] = (Inr (), s)"
| "replay R s (c # cs) =
     (case apply_commit R s c of
        (Inl e, s') \<Rightarrow> (Inl e, s')
      | (Inr _, s') \<Rightarrow> replay R s' cs)"

definition replay_and_verify ::
  "'s replayable \<Rightarrow> 's \<Rightarrow> commit list \<Rightarrow> u8 list \<Rightarrow> 's replay_result" where
  "replay_and_verify R s commits expected_hash =
     (case replay R s commits of
        (Inl e, s') \<Rightarrow> (Inl e, s')
      | (Inr _, s') \<Rightarrow>
          let actual_hash = rp_state_hash R s'
          in if actual_hash \<noteq> expected_hash
             then (Inl (HashMismatch expected_hash actual_hash), s')
             else (Inr (), s'))"

section \<open>The state hasher\<close>

type_synonym state_hasher = u64

definition sh_new :: state_hasher where
  "sh_new = FNV_OFFSET"

definition sh_write_u8 :: "state_hasher \<Rightarrow> u8 \<Rightarrow> state_hasher" where
  "sh_write_u8 h v = (h XOR ucast v) * FNV_PRIME"

definition sh_write_u32 :: "state_hasher \<Rightarrow> u32 \<Rightarrow> state_hasher" where
  "sh_write_u32 h v = foldl sh_write_u8 h (u32_to_le_bytes v)"

definition sh_write_u64 :: "state_hasher \<Rightarrow> u64 \<Rightarrow> state_hasher" where
  "sh_write_u64 h v = foldl sh_write_u8 h (u64_to_le_bytes v)"

definition sh_write_str :: "state_hasher \<Rightarrow> string \<Rightarrow> state_hasher" where
  "sh_write_str h s = foldl sh_write_u8 (sh_write_u64 h (word_of_nat (length s))) (str_bytes s)"

definition sh_write_bytes :: "state_hasher \<Rightarrow> u8 list \<Rightarrow> state_hasher" where
  "sh_write_bytes h bytes = foldl sh_write_u8 (sh_write_u64 h (word_of_nat (length bytes))) bytes"

definition sh_finalize :: "state_hasher \<Rightarrow> u8 list" where
  "sh_finalize h = hash_expand 4 h"

section \<open>What the gateway records\<close>

lemma cl_append_entry:
  "cl_append l ct caused_by ts = (cm_id (cl_entry l (ct, caused_by, ts)), cl_apply l (ct, caused_by, ts))"
  by (simp add: cl_append_def Let_def)

lemma cl_append_all_run:
  "cl_append_all l cts caused_by ts =
     (map cm_id (log_history cl_entry cl_apply l (map (\<lambda>ct. (ct, caused_by, ts)) cts)),
      run cl_apply l (map (\<lambda>ct. (ct, caused_by, ts)) cts))"
  by (induction cts arbitrary: l)
    (simp_all add: cl_append_entry case_prod_unfold del: cl_entry.simps cl_apply.simps)

lemma history_types:
  "map cm_commit_type (log_history cl_entry cl_apply l ops) = map fst ops"
  "map cm_caused_by (log_history cl_entry cl_apply l ops) = map (fst \<circ> snd) ops"
  by (induction ops arbitrary: l) (auto simp: Let_def simp del: cl_apply.simps)

lemma replay_append:
  "replay R s (cs @ ds) =
     (case replay R s cs of (Inl e, s') \<Rightarrow> (Inl e, s') | (Inr _, s') \<Rightarrow> replay R s' ds)"
  by (induction cs arbitrary: s) (auto split: prod.split sum.split)

section \<open>Refinement of a kernel by the replay of its commits\<close>

text \<open>
  A live kernel executes operations and emits commit types; the replayed kernel applies them.
  If every allowed operation and the replay of its commits take states with the same view to
  states with the same view, then so do whole histories.
\<close>

fun replay_types :: "'s replayable \<Rightarrow> 's \<Rightarrow> commit_type list \<Rightarrow> 's replay_result" where
  "replay_types R s [] = (Inr (), s)"
| "replay_types R s (ct # cts) =
     (case apply_commit_type R s ct of
        (Inl e, s') \<Rightarrow> (Inl e, s')
      | (Inr _, s') \<Rightarrow> replay_types R s' cts)"

lemma replay_by_types: "replay R s cs = replay_types R s (map cm_commit_type cs)"
  by (induction cs arbitrary: s) (auto simp: apply_commit_def split: prod.split sum.split)

lemma replay_types_append:
  "replay_types R s (cs @ ds) =
     (case replay_types R s cs of (Inl e, s') \<Rightarrow> (Inl e, s') | (Inr _, s') \<Rightarrow> replay_types R s' ds)"
  by (induction cs arbitrary: s) (auto split: prod.split sum.split)

fun history_commits :: "('l \<Rightarrow> 'i \<Rightarrow> 'l \<times> commit_type list) \<Rightarrow> 'l \<Rightarrow> 'i list \<Rightarrow> commit_type list" where
  "history_commits live l [] = []"
| "history_commits live l (i # is) =
     snd (live l i) @ history_commits live (fst (live l i)) is"

locale replay_refinement =
  fixes R :: "'s replayable"
    and live :: "'l \<Rightarrow> 'i \<Rightarrow> 'l \<times> commit_type list"
    and ok :: "'l \<Rightarrow> 'i \<Rightarrow> bool"
    and inv :: "'l \<Rightarrow> bool"
    and view :: "'l \<Rightarrow> 'v"
    and rview :: "'s \<Rightarrow> 'v"
  assumes live_inv: "inv l \<Longrightarrow> ok l i \<Longrightarrow> inv (fst (live l i))"
    and live_replayed: "inv l \<Longrightarrow> ok l i \<Longrightarrow> rview s = view l \<Longrightarrow>
      \<exists>s'. replay_types R s (snd (live l i)) = (Inr (), s') \<and> rview s' = view (fst (live l i))"
begin

lemma history_replayed:
  "inv l \<Longrightarrow> run_ok (\<lambda>l i. fst (live l i)) ok l is \<Longrightarrow> rview s = view l \<Longrightarrow>
     \<exists>s'. replay_types R s (history_commits live l is) = (Inr (), s')
        \<and> rview s' = view (run (\<lambda>l i. fst (live l i)) l is)"
proof (induction "is" arbitrary: l s)
  case (Cons i "is")
  then obtain s1 where s1: "replay_types R s (snd (live l i)) = (Inr (), s1)"
      "rview s1 = view (fst (live l i))"
    using live_replayed [of l i s] by auto
  with Cons.IH [of "fst (live l i)" s1] Cons.prems live_inv [of l i] show ?case
    by (auto simp: replay_types_append)
qed simp

end

section \<open>Properties\<close>

lemma cl_commits_append_all:
  assumes "length (cl_commits l) \<le> MAX_COMMITLOG_ENTRIES"
  shows "cl_commits (snd (cl_append_all l cts caused_by ts)) = keep_last MAX_COMMITLOG_ENTRIES
    (cl_commits l @ log_history cl_entry cl_apply l (map (\<lambda>ct. (ct, caused_by, ts)) cts))"
  using assms by (simp add: cl_append_all_run commitlog.entries_run keep_last_short)

lemma syslog_pair:
  assumes "length (sl_events l) \<le> MAX_SYSLOG_EVENTS"
  shows "sl_events (sl_log_response (snd (sl_log_request l sender num args ts)) sender req result ts)
    = keep_last MAX_SYSLOG_EVENTS (sl_events l @
        [\<lparr>se_id = sl_next_id l, se_sender = sender, se_timestamp = ts, se_event_type = Request num args\<rparr>,
         \<lparr>se_id = sl_next_id l + 1, se_sender = sender, se_timestamp = ts,
          se_event_type = Response req result\<rparr>])"
  using assms
  by (simp add: sl_log_request_def sl_log_response_def Let_def sl_events_trim keep_last_append)

text \<open>
  C28. Every call through the gateway is audited: whatever the kernel function does, one request
  and one response with the call's arguments and result enter the audit log, the response
  naming the request; the commits the function returned enter the commit log in order, each
  naming the request as its cause, and their ids are returned.
\<close>

theorem gateway_audits_every_call:
  assumes "length (sl_events (gw_syslog gw)) \<le> MAX_SYSLOG_EVENTS"
    and "length (cl_commits (gw_commitlog gw)) \<le> MAX_COMMITLOG_ENTRIES"
    and "kernel_fn num args st = ((result, cts), st')"
  shows "\<exists>new ids gw'. gw_syscall gw sender num args ts kernel_fn st = ((result, ids), gw', st')
    \<and> sl_events (gw_syslog gw') = keep_last MAX_SYSLOG_EVENTS (sl_events (gw_syslog gw) @
        [\<lparr>se_id = sl_next_id (gw_syslog gw), se_sender = sender, se_timestamp = ts,
          se_event_type = Request num args\<rparr>,
         \<lparr>se_id = sl_next_id (gw_syslog gw) + 1, se_sender = sender, se_timestamp = ts,
          se_event_type = Response (sl_next_id (gw_syslog gw)) result\<rparr>])
    \<and> cl_commits (gw_commitlog gw')
        = keep_last MAX_COMMITLOG_ENTRIES (cl_commits (gw_commitlog gw) @ new)
    \<and> map cm_commit_type new = cts \<and> map cm_id new = ids
    \<and> (\<forall>c \<in> set new. cm_caused_by c = Some (sl_next_id (gw_syslog gw)))"
proof -
  let ?req = "sl_next_id (gw_syslog gw)"
  let ?new = "log_history cl_entry cl_apply (gw_commitlog gw) (map (\<lambda>ct. (ct, Some ?req, ts)) cts)"
  have req: "fst (sl_log_request (gw_syslog gw) sender num args ts) = ?req"
    by (simp add: sl_log_request_def Let_def)
  have "map cm_caused_by ?new = map (\<lambda>_. Some ?req) cts"
    by (simp add: history_types comp_def)
  then have "\<forall>c \<in> set ?new. cm_caused_by c = Some ?req"
    by (metis (no_types, lifting) imageE image_eqI list.set_map)
  moreover have "map cm_commit_type ?new = cts"
    by (simp add: history_types comp_def)
  ultimately show ?thesis
    using assms(3) syslog_pair [OF assms(1), of sender num args ts ?req result]
      cl_commits_append_all [OF assms(2), of cts "Some ?req" ts]
    by (intro exI [of _ ?new])
      (simp add: gw_syscall_def case_prod_unfold Let_def req cl_append_all_run)
qed

theorem gateway_audits_every_call_witness:
  "\<exists>(new :: commit list) ids gw'. gw_syscall (gw_new 0) 3 0x11 (1, 0, 0, 0) 42
      (\<lambda>n a st. ((7, [EndpointCreated 1 3]), Suc st)) 0 = ((7, ids), gw', Suc 0)
    \<and> map cm_commit_type new = [EndpointCreated 1 3] \<and> map cm_id new = ids
    \<and> (\<forall>c \<in> set new. cm_caused_by c = Some 0)"
proof -
  have "length (sl_events (gw_syslog (gw_new 0))) \<le> MAX_SYSLOG_EVENTS"
    "length (cl_commits (gw_commitlog (gw_new 0))) \<le> MAX_COMMITLOG_ENTRIES"
    "sl_next_id (gw_syslog (gw_new 0)) = 0"
    by (simp_all add: gw_new_def sl_new_def MAX_SYSLOG_EVENTS_def MAX_COMMITLOG_ENTRIES_def)
  note * = gateway_audits_every_call [OF this(1,2), unfolded this(3)]
  show ?thesis
    using * [of "\<lambda>n a st. ((7, [EndpointCreated 1 3]), Suc st)" "0x11" "(1, 0, 0, 0)" 0 7
        "[EndpointCreated 1 3]" "Suc 0" 3 42, OF refl]
    by (elim exE conjE) (intro exI conjI; assumption)
qed

end
