(* ===== verification/Core_Kernel.thy ===== *)
theory Core_Kernel
  imports Kernel_State Axiom_Gateway
begin

text \<open>
  The core of the runtime kernel, \<^verbatim>\<open>zos-kernel/src/core/{mod,process,endpoint,capability}.rs\<close>,
  with its error and message types. A method of \<^verbatim>\<open>KernelCore\<close> is a function with the prefix
  \<open>kc_\<close>; one that takes \<^verbatim>\<open>&mut self\<close> returns its result, the commits that describe what it did,
  and the new state. The HAL field of the source is used for debug output only and has no
  counterpart. Processes, endpoints and their metrics have the fields of the pure kernel's
  and share its records; the message type differs.
\<close>

section \<open>Types\<close>

datatype hal_error =
    OutOfMemory | ProcessSpawnFailed | HalProcessNotFound | InvalidMessage | NotSupported | IoError
  | InvalidArgument | StorageError | ResourceExhausted | NotFound | InvalidBinary

datatype core_error =
    ProcessNotFound | EndpointNotFound | InvalidCapability | PermissionDenied | WouldBlock
  | Hal hal_error

definition core_MAX_CAPS_PER_MESSAGE :: usize where
  "core_MAX_CAPS_PER_MESSAGE = 8"

definition core_MAX_MESSAGE_SIZE :: usize where
  "core_MAX_MESSAGE_SIZE = 16384"

record core_transferred_cap =
  ct_capability :: capability
  ct_receiver_slot :: "u32 option"

record core_message =
  cmsg_from :: process_id
  cmsg_tag :: u32
  cmsg_data :: "u8 list"
  cmsg_transferred_caps :: "core_transferred_cap list"

type_synonym core_endpoint = "core_message endpoint"

record core_message_summary =
  cms_from :: process_id
  cms_tag :: u32
  cms_size :: usize

record core_endpoint_detail =
  ced_id :: endpoint_id
  ced_owner :: process_id
  ced_queue_depth :: usize
  ced_metrics :: endpoint_metrics
  ced_queued_messages :: "core_message_summary list"

section \<open>The kernel core\<close>

record kernel_core =
  kc_processes :: "(process_id, process) btree_map"
  kc_cap_spaces :: "(process_id, capability_space) btree_map"
  kc_endpoints :: "(endpoint_id, core_endpoint) btree_map"
  kc_next_pid :: u64
  kc_next_endpoint_id :: u64
  kc_next_cap_id :: u64
  kc_total_ipc_count :: u64

type_synonym 'a core_result = "(core_error + 'a) \<times> commit list \<times> kernel_core"

definition kc_new :: kernel_core where
  "kc_new =
     \<lparr>kc_processes = [], kc_cap_spaces = [], kc_endpoints = [], kc_next_pid = 1,
      kc_next_endpoint_id = 1, kc_next_cap_id = 1, kc_total_ipc_count = 0\<rparr>"

definition kc_alloc_cap_id :: "kernel_core \<Rightarrow> u64 \<times> kernel_core" where
  "kc_alloc_cap_id k = (kc_next_cap_id k, k\<lparr>kc_next_cap_id := kc_next_cap_id k + 1\<rparr>)"

definition kc_get_process :: "kernel_core \<Rightarrow> process_id \<Rightarrow> process option" where
  "kc_get_process k pid = bt_get (kc_processes k) pid"

definition kc_list_processes :: "kernel_core \<Rightarrow> (process_id \<times> process) list" where
  "kc_list_processes k = map (\<lambda>(pid, p). (pid, p)) (kc_processes k)"

definition kc_get_cap_space :: "kernel_core \<Rightarrow> process_id \<Rightarrow> capability_space option" where
  "kc_get_cap_space k pid = bt_get (kc_cap_spaces k) pid"

definition kc_total_memory :: "kernel_core \<Rightarrow> usize" where
  "kc_total_memory k =
     usize_wrap (sum_list (map (\<lambda>(_, p). pm_memory_size (proc_metrics p)) (kc_processes k)))"

definition kc_total_pending_messages :: "kernel_core \<Rightarrow> usize" where
  "kc_total_pending_messages k = sum_list (map (\<lambda>(_, e). length (ep_pending e)) (kc_endpoints k))"

definition kc_get_system_metrics :: "kernel_core \<Rightarrow> u64 \<Rightarrow> system_metrics" where
  "kc_get_system_metrics k uptime_ns =
     \<lparr>sm_process_count = length (kc_processes k), sm_total_memory = kc_total_memory k,
      sm_endpoint_count = length (kc_endpoints k),
      sm_total_pending_messages = kc_total_pending_messages k,
      sm_total_ipc_messages = kc_total_ipc_count k, sm_uptime_ns = uptime_ns\<rparr>"

text \<open>What a block under \<^verbatim>\<open>if let Some(x) = self.processes.get_mut(pid)\<close> does, and so on.\<close>

definition kc_map_process :: "process_id \<Rightarrow> (process \<Rightarrow> process) \<Rightarrow> kernel_core \<Rightarrow> kernel_core" where
  "kc_map_process pid f k = k\<lparr>kc_processes := bt_modify pid f (kc_processes k)\<rparr>"

definition kc_map_endpoint ::
  "endpoint_id \<Rightarrow> (core_endpoint \<Rightarrow> core_endpoint) \<Rightarrow> kernel_core \<Rightarrow> kernel_core" where
  "kc_map_endpoint eid f k = k\<lparr>kc_endpoints := bt_modify eid f (kc_endpoints k)\<rparr>"

definition kc_map_cap_space ::
  "process_id \<Rightarrow> (capability_space \<Rightarrow> capability_space) \<Rightarrow> kernel_core \<Rightarrow> kernel_core" where
  "kc_map_cap_space pid f k = k\<lparr>kc_cap_spaces := bt_modify pid f (kc_cap_spaces k)\<rparr>"

definition set_memory_size :: "(usize \<Rightarrow> usize) \<Rightarrow> process \<Rightarrow> process" where
  "set_memory_size f p =
     p\<lparr>proc_metrics := (proc_metrics p)\<lparr>pm_memory_size := f (pm_memory_size (proc_metrics p))\<rparr>\<rparr>"

definition kc_allocate_memory ::
  "kernel_core \<Rightarrow> process_id \<Rightarrow> usize \<Rightarrow> (core_error + usize) \<times> kernel_core" where
  "kc_allocate_memory k pid bytes =
     (case bt_get (kc_processes k) pid of
        None \<Rightarrow> (Inl ProcessNotFound, k)
      | Some p \<Rightarrow>
          let total = usize_wrap (pm_memory_size (proc_metrics p) + bytes)
          in (Inr total, kc_map_process pid (set_memory_size (\<lambda>_. total)) k))"

definition kc_free_memory ::
  "kernel_core \<Rightarrow> process_id \<Rightarrow> usize \<Rightarrow> (core_error + usize) \<times> kernel_core" where
  "kc_free_memory k pid bytes =
     (case bt_get (kc_processes k) pid of
        None \<Rightarrow> (Inl ProcessNotFound, k)
      | Some p \<Rightarrow>
          let total = pm_memory_size (proc_metrics p) - bytes
          in (Inr total, kc_map_process pid (set_memory_size (\<lambda>_. total)) k))"

definition kc_update_process_memory :: "kernel_core \<Rightarrow> process_id \<Rightarrow> usize \<Rightarrow> kernel_core" where
  "kc_update_process_memory k pid new_size = kc_map_process pid (set_memory_size (\<lambda>_. new_size)) k"

fun map_axiom_error :: "axiom_error \<Rightarrow> core_error" where
  "map_axiom_error InvalidSlot = InvalidCapability"
| "map_axiom_error WrongType = InvalidCapability"
| "map_axiom_error InsufficientRights = PermissionDenied"
| "map_axiom_error Expired = PermissionDenied"
| "map_axiom_error ObjectNotFound = InvalidCapability"

text \<open>The literal \<^verbatim>\<open>Commit { id: [0; 32], prev_commit: [0; 32], seq: 0, ..., caused_by: None }\<close>.\<close>

definition kc_commit :: "u64 \<Rightarrow> commit_type \<Rightarrow> commit" where
  "kc_commit timestamp ct =
     \<lparr>cm_id = zero_hash, cm_prev_commit = zero_hash, cm_seq = 0, cm_timestamp = timestamp,
      cm_commit_type = ct, cm_caused_by = None\<rparr>"

section \<open>Processes\<close>

definition process_metrics_at :: "usize \<Rightarrow> u64 \<Rightarrow> process_metrics" where
  "process_metrics_at memory_size timestamp =
     \<lparr>pm_memory_size = memory_size, pm_ipc_sent = 0, pm_ipc_received = 0, pm_ipc_bytes_sent = 0,
      pm_ipc_bytes_received = 0, pm_syscall_count = 0, pm_last_active_ns = timestamp,
      pm_start_time_ns = timestamp\<rparr>"

definition kc_create_process_entry :: "process_id \<Rightarrow> string \<Rightarrow> u64 \<Rightarrow> process" where
  "kc_create_process_entry pid name timestamp =
     \<lparr>proc_pid = pid, proc_name = name, proc_state = Running,
      proc_metrics = process_metrics_at 65536 timestamp\<rparr>"

definition kc_create_process_commit :: "process_id \<Rightarrow> u64 \<Rightarrow> string \<Rightarrow> u64 \<Rightarrow> commit" where
  "kc_create_process_commit pid parent name timestamp =
     kc_commit timestamp (ProcessCreated (pid_raw pid) parent name)"

definition kc_register_process_with_parent ::
  "kernel_core \<Rightarrow> string \<Rightarrow> process_id \<Rightarrow> u64 \<Rightarrow> process_id \<times> commit list \<times> kernel_core" where
  "kc_register_process_with_parent k name parent timestamp =
     (let pid = ProcessId (kc_next_pid k);
          k = k\<lparr>kc_next_pid := kc_next_pid k + 1\<rparr>;
          p = kc_create_process_entry pid name timestamp;
          k = k\<lparr>kc_processes := bt_insert pid p (kc_processes k)\<rparr>;
          k = k\<lparr>kc_cap_spaces := bt_insert pid cs_new (kc_cap_spaces k)\<rparr>
      in (pid, [kc_create_process_commit pid (pid_raw parent) name timestamp], k))"

definition kc_register_process ::
  "kernel_core \<Rightarrow> string \<Rightarrow> u64 \<Rightarrow> process_id \<times> commit list \<times> kernel_core" where
  "kc_register_process k name timestamp =
     kc_register_process_with_parent k name (ProcessId 0) timestamp"

definition kc_register_process_with_pid ::
  "kernel_core \<Rightarrow> process_id \<Rightarrow> string \<Rightarrow> u64 \<Rightarrow> process_id \<times> commit list \<times> kernel_core" where
  "kc_register_process_with_pid k pid name timestamp =
     (if bt_contains (kc_processes k) pid then (pid, [], k)
      else
        let k = (if pid_raw pid \<ge> kc_next_pid k then k\<lparr>kc_next_pid := pid_raw pid + 1\<rparr> else k);
            p = \<lparr>proc_pid = pid, proc_name = name, proc_state = Running,
                 proc_metrics = process_metrics_at 0 timestamp\<rparr>;
            k = k\<lparr>kc_processes := bt_insert pid p (kc_processes k)\<rparr>;
            k = k\<lparr>kc_cap_spaces := bt_insert pid cs_new (kc_cap_spaces k)\<rparr>
        in (pid, [kc_create_process_commit pid 0 name timestamp], k))"

definition kc_has_kill_permission :: "kernel_core \<Rightarrow> process_id \<Rightarrow> process_id \<Rightarrow> bool" where
  "kc_has_kill_permission k caller target =
     (case bt_get (kc_cap_spaces k) caller of
        None \<Rightarrow> False
      | Some cspace \<Rightarrow>
          list_ex (\<lambda>(_, c). cap_object_type c = ObjProcess \<and> cap_object_id c = pid_raw target
                     \<and> perm_write (cap_permissions c)) (cs_slots cspace))"

fun kc_remove_endpoints ::
  "kernel_core \<Rightarrow> endpoint_id list \<Rightarrow> u64 \<Rightarrow> commit list \<times> kernel_core" where
  "kc_remove_endpoints k [] timestamp = ([], k)"
| "kc_remove_endpoints k (eid # eids) timestamp =
     (let found = bt_contains (kc_endpoints k) eid;
          k = k\<lparr>kc_endpoints := bt_remove eid (kc_endpoints k)\<rparr>;
          (cs, k) = kc_remove_endpoints k eids timestamp
      in (if found then kc_commit timestamp (EndpointDestroyed (eid_raw eid)) # cs else cs, k))"

definition kc_cleanup_process_endpoints ::
  "kernel_core \<Rightarrow> process_id \<Rightarrow> u64 \<Rightarrow> commit list \<times> kernel_core" where
  "kc_cleanup_process_endpoints k pid timestamp =
     (let owned_endpoints = map fst (filter (\<lambda>(_, e). ep_owner e = pid) (kc_endpoints k))
      in kc_remove_endpoints k owned_endpoints timestamp)"

definition kc_kill_process :: "kernel_core \<Rightarrow> process_id \<Rightarrow> u64 \<Rightarrow> commit list \<times> kernel_core" where
  "kc_kill_process k pid timestamp =
     (let exit_commits = (if bt_contains (kc_processes k) pid
                          then [kc_commit timestamp (ProcessExited (pid_raw pid) (- 1))] else []);
          k = k\<lparr>kc_processes := bt_remove pid (kc_processes k)\<rparr>;
          k = k\<lparr>kc_cap_spaces := bt_remove pid (kc_cap_spaces k)\<rparr>;
          (ep_commits, k) = kc_cleanup_process_endpoints k pid timestamp
      in (exit_commits @ ep_commits, k))"

definition kc_kill_process_with_cap_check ::
  "kernel_core \<Rightarrow> process_id \<Rightarrow> process_id \<Rightarrow> u64 \<Rightarrow> unit core_result" where
  "kc_kill_process_with_cap_check k caller target_pid timestamp =
     (if \<not> bt_contains (kc_processes k) target_pid then (Inl ProcessNotFound, [], k)
      else if pid_raw caller = 1
      then (let (commits, k) = kc_kill_process k target_pid timestamp in (Inr (), commits, k))
      else if \<not> kc_has_kill_permission k caller target_pid then (Inl PermissionDenied, [], k)
      else (let (commits, k) = kc_kill_process k target_pid timestamp in (Inr (), commits, k)))"

definition kc_fault_process ::
  "kernel_core \<Rightarrow> process_id \<Rightarrow> u32 \<Rightarrow> string \<Rightarrow> u64 \<Rightarrow> commit list \<times> kernel_core" where
  "kc_fault_process k pid reason description timestamp =
     (let fault_commits = (if bt_contains (kc_processes k) pid
                then [kc_commit timestamp (ProcessFaulted (pid_raw pid) reason description)] else []);
          (kill_commits, k) = kc_kill_process k pid timestamp
      in (fault_commits @ kill_commits, k))"

section \<open>Endpoints\<close>

definition cap_inserted_commit :: "u64 \<Rightarrow> process_id \<Rightarrow> u32 \<Rightarrow> capability \<Rightarrow> commit" where
  "cap_inserted_commit timestamp pid slot c =
     kc_commit timestamp (CapInserted (pid_raw pid) slot (cap_id c)
       (object_type_as_u8 (cap_object_type c)) (cap_object_id c)
       (perms_to_byte (cap_permissions c)))"

text \<open>
  The common tail of the operations that create a capability: look the receiving space up
  (an unknown process is an error), insert, and describe the insertion.
\<close>

definition kc_insert_cap ::
  "kernel_core \<Rightarrow> process_id \<Rightarrow> capability \<Rightarrow> u64 \<Rightarrow> (core_error + u32 \<times> commit list) \<times> kernel_core" where
  "kc_insert_cap k pid c timestamp =
     (case bt_get (kc_cap_spaces k) pid of
        None \<Rightarrow> (Inl ProcessNotFound, k)
      | Some cspace \<Rightarrow>
          let slot = fst (cs_insert cspace c)
          in (Inr (slot, [cap_inserted_commit timestamp pid slot c]),
              kc_map_cap_space pid (\<lambda>cs. snd (cs_insert cs c)) k))"

definition kc_grant_owner_endpoint_cap ::
  "kernel_core \<Rightarrow> process_id \<Rightarrow> endpoint_id \<Rightarrow> u64
   \<Rightarrow> (core_error + u32 \<times> commit list) \<times> kernel_core" where
  "kc_grant_owner_endpoint_cap k owner eid timestamp =
     (let (cid, k) = kc_alloc_cap_id k;
          c = \<lparr>cap_id = cid, cap_object_type = ObjEndpoint, cap_object_id = eid_raw eid,
               cap_permissions = perms_full, cap_generation = 0, cap_expires_at = 0\<rparr>
      in kc_insert_cap k owner c timestamp)"

definition kc_create_endpoint ::
  "kernel_core \<Rightarrow> process_id \<Rightarrow> u64 \<Rightarrow> (endpoint_id \<times> u32) core_result" where
  "kc_create_endpoint k owner timestamp =
     (if \<not> bt_contains (kc_processes k) owner then (Inl ProcessNotFound, [], k)
      else
        let eid = EndpointId (kc_next_endpoint_id k);
            k = k\<lparr>kc_next_endpoint_id := kc_next_endpoint_id k + 1\<rparr>;
            k = k\<lparr>kc_endpoints := bt_insert eid (endpoint_new eid owner) (kc_endpoints k)\<rparr>
        in (case kc_grant_owner_endpoint_cap k owner eid timestamp of
             (Inl e, k) \<Rightarrow> (Inl e, [], k\<lparr>kc_endpoints := bt_remove eid (kc_endpoints k)\<rparr>)
           | (Inr (slot, cap_commits), k) \<Rightarrow>
               (Inr (eid, slot),
                kc_commit timestamp (EndpointCreated (eid_raw eid) (pid_raw owner)) # cap_commits, k)))"

definition kc_list_endpoints :: "kernel_core \<Rightarrow> endpoint_info list" where
  "kc_list_endpoints k =
     map (\<lambda>(eid, e). \<lparr>ei_id = eid, ei_owner = ep_owner e,
                      ei_queue_depth = length (ep_pending e)\<rparr>) (kc_endpoints k)"

definition kc_get_endpoint :: "kernel_core \<Rightarrow> endpoint_id \<Rightarrow> core_endpoint option" where
  "kc_get_endpoint k eid = bt_get (kc_endpoints k) eid"

definition kc_get_endpoint_detail :: "kernel_core \<Rightarrow> endpoint_id \<Rightarrow> core_endpoint_detail option" where
  "kc_get_endpoint_detail k eid =
     map_option (\<lambda>e. \<lparr>ced_id = eid, ced_owner = ep_owner e, ced_queue_depth = length (ep_pending e),
         ced_metrics = ep_metrics e,
         ced_queued_messages =
           map (\<lambda>m. \<lparr>cms_from = cmsg_from m, cms_tag = cmsg_tag m, cms_size = length (cmsg_data m)\<rparr>)
             (take 10 (ep_pending e))\<rparr>)
       (bt_get (kc_endpoints k) eid)"

section \<open>Capabilities\<close>

definition attenuate_permissions :: "permissions \<Rightarrow> permissions \<Rightarrow> permissions" where
  "attenuate_permissions source requested =
     \<lparr>perm_read = (perm_read source \<and> perm_read requested),
      perm_write = (perm_write source \<and> perm_write requested),
      perm_grant = (perm_grant source \<and> perm_grant requested)\<rparr>"

definition create_cap_removed_commit :: "process_id \<Rightarrow> u32 \<Rightarrow> u64 \<Rightarrow> commit" where
  "create_cap_removed_commit pid slot timestamp =
     kc_commit timestamp (CapRemoved (pid_raw pid) slot)"

definition kc_check ::
  "kernel_core \<Rightarrow> process_id \<Rightarrow> u32 \<Rightarrow> permissions \<Rightarrow> object_type option \<Rightarrow> u64 \<Rightarrow> core_error + capability" where
  "kc_check k pid slot required expected_type timestamp =
     (case bt_get (kc_cap_spaces k) pid of
        None \<Rightarrow> Inl ProcessNotFound
      | Some cspace \<Rightarrow>
          (case axiom_check_ax cspace slot required expected_type timestamp of
             Inl e \<Rightarrow> Inl (map_axiom_error e)
           | Inr c \<Rightarrow> Inr c))"

definition kc_validate_grant_source ::
  "kernel_core \<Rightarrow> process_id \<Rightarrow> u32 \<Rightarrow> u64 \<Rightarrow> core_error + capability" where
  "kc_validate_grant_source k from_pid from_slot timestamp =
     kc_check k from_pid from_slot perms_grant_only None timestamp"

definition kc_validate_revoke_permission ::
  "kernel_core \<Rightarrow> process_id \<Rightarrow> u32 \<Rightarrow> u64 \<Rightarrow> core_error + u64" where
  "kc_validate_revoke_permission k pid slot timestamp =
     map_sum id cap_id (kc_check k pid slot perms_grant_only None timestamp)"

definition kc_validate_derive_source ::
  "kernel_core \<Rightarrow> process_id \<Rightarrow> u32 \<Rightarrow> u64 \<Rightarrow> core_error + capability" where
  "kc_validate_derive_source k pid slot timestamp =
     kc_check k pid slot perms_default None timestamp"

definition kc_create_derived_cap ::
  "kernel_core \<Rightarrow> process_id \<Rightarrow> capability \<Rightarrow> permissions \<Rightarrow> u64
   \<Rightarrow> (core_error + u32 \<times> commit list) \<times> kernel_core" where
  "kc_create_derived_cap k to_pid source_cap new_perms timestamp =
     (let (new_cap_id, k) = kc_alloc_cap_id k;
          c = \<lparr>cap_id = new_cap_id, cap_object_type = cap_object_type source_cap,
               cap_object_id = cap_object_id source_cap, cap_permissions = new_perms,
               cap_generation = cap_generation source_cap, cap_expires_at = cap_expires_at source_cap\<rparr>
      in kc_insert_cap k to_pid c timestamp)"

text \<open>The id the grant commit reads back from the last of the insertion's commits.\<close>

definition last_inserted_id :: "commit list \<Rightarrow> u64" where
  "last_inserted_id commits =
     (if commits = [] then 0
      else case cm_commit_type (last commits) of CapInserted _ _ cid _ _ _ \<Rightarrow> cid | _ \<Rightarrow> 0)"

definition kc_grant_capability ::
  "kernel_core \<Rightarrow> process_id \<Rightarrow> u32 \<Rightarrow> process_id \<Rightarrow> permissions \<Rightarrow> u64 \<Rightarrow> u32 core_result" where
  "kc_grant_capability k from_pid from_slot to_pid new_perms timestamp =
     (case kc_validate_grant_source k from_pid from_slot timestamp of
        Inl e \<Rightarrow> (Inl e, [], k)
      | Inr source_cap \<Rightarrow>
          let granted_perms = attenuate_permissions (cap_permissions source_cap) new_perms
          in (case kc_create_derived_cap k to_pid source_cap granted_perms timestamp of
               (Inl e, k) \<Rightarrow> (Inl e, [], k)
             | (Inr (to_slot, cap_commits), k) \<Rightarrow>
                 (Inr to_slot,
                  kc_commit timestamp (CapGranted (pid_raw from_pid) (pid_raw to_pid) from_slot to_slot
                     (last_inserted_id cap_commits)
                     \<lparr>perm_read = perm_read granted_perms, perm_write = perm_write granted_perms,
                      perm_grant = perm_grant granted_perms\<rparr>) # cap_commits, k)))"

definition kc_grant_capability_to_endpoint ::
  "kernel_core \<Rightarrow> process_id \<Rightarrow> endpoint_id \<Rightarrow> process_id \<Rightarrow> permissions \<Rightarrow> u64 \<Rightarrow> u32 core_result" where
  "kc_grant_capability_to_endpoint k owner_pid eid to_pid perms timestamp =
     (case bt_get (kc_endpoints k) eid of
        None \<Rightarrow> (Inl EndpointNotFound, [], k)
      | Some e \<Rightarrow>
          if ep_owner e \<noteq> owner_pid then (Inl PermissionDenied, [], k)
          else
            let (new_cap_id, k) = kc_alloc_cap_id k;
                c = \<lparr>cap_id = new_cap_id, cap_object_type = ObjEndpoint, cap_object_id = eid_raw eid,
                     cap_permissions = perms, cap_generation = 0, cap_expires_at = 0\<rparr>
            in (case kc_insert_cap k to_pid c timestamp of
                 (Inl err, k) \<Rightarrow> (Inl err, [], k)
               | (Inr (to_slot, commits), k) \<Rightarrow> (Inr to_slot, commits, k)))"

definition kc_revoke_capability ::
  "kernel_core \<Rightarrow> process_id \<Rightarrow> u32 \<Rightarrow> u64 \<Rightarrow> unit core_result" where
  "kc_revoke_capability k pid slot timestamp =
     (case kc_validate_revoke_permission k pid slot timestamp of
        Inl e \<Rightarrow> (Inl e, [], k)
      | Inr _ \<Rightarrow>
          let commits = [create_cap_removed_commit pid slot timestamp]
          in (case bt_get (kc_cap_spaces k) pid of
               None \<Rightarrow> (Inl ProcessNotFound, commits, k)
             | Some _ \<Rightarrow> (Inr (), commits, kc_map_cap_space pid (\<lambda>cs. snd (cs_remove cs slot)) k)))"

definition kc_delete_capability ::
  "kernel_core \<Rightarrow> process_id \<Rightarrow> u32 \<Rightarrow> u64 \<Rightarrow> unit core_result" where
  "kc_delete_capability k pid slot timestamp =
     (case bt_get (kc_cap_spaces k) pid of
        None \<Rightarrow> (Inl ProcessNotFound, [], k)
      | Some cspace \<Rightarrow>
          (case cs_get cspace slot of
             None \<Rightarrow> (Inl InvalidCapability, [], k)
           | Some _ \<Rightarrow> (Inr (), [create_cap_removed_commit pid slot timestamp],
                        kc_map_cap_space pid (\<lambda>cs. snd (cs_remove cs slot)) k)))"

definition kc_derive_capability ::
  "kernel_core \<Rightarrow> process_id \<Rightarrow> u32 \<Rightarrow> permissions \<Rightarrow> u64 \<Rightarrow> u32 core_result" where
  "kc_derive_capability k pid slot new_perms timestamp =
     (case kc_validate_derive_source k pid slot timestamp of
        Inl e \<Rightarrow> (Inl e, [], k)
      | Inr source_cap \<Rightarrow>
          let derived_perms = attenuate_permissions (cap_permissions source_cap) new_perms
          in (case kc_create_derived_cap k pid source_cap derived_perms timestamp of
               (Inl e, k) \<Rightarrow> (Inl e, [], k)
             | (Inr (new_slot, cap_commits), k) \<Rightarrow> (Inr new_slot, cap_commits, k)))"

end
