(* ===== verification/Core_Syscall.thy ===== *)
theory Core_Syscall
  imports Core_Kernel
begin

text \<open>
  Message passing and the system call handlers of the runtime kernel,
  \<^verbatim>\<open>zos-kernel/src/core/{ipc,syscall}.rs\<close>, with the call and result types of \<^verbatim>\<open>syscall.rs\<close>.
\<close>

section \<open>Capability checks of message passing\<close>

definition kc_validate_send_cap ::
  "kernel_core \<Rightarrow> process_id \<Rightarrow> u32 \<Rightarrow> u64 \<Rightarrow> core_error + endpoint_id" where
  "kc_validate_send_cap k from_pid endpoint_slot timestamp =
     map_sum id (\<lambda>c. EndpointId (cap_object_id c))
       (kc_check k from_pid endpoint_slot perms_write_only (Some ObjEndpoint) timestamp)"

definition kc_validate_send_cap_basic ::
  "kernel_core \<Rightarrow> process_id \<Rightarrow> u32 \<Rightarrow> core_error + endpoint_id" where
  "kc_validate_send_cap_basic k from_pid endpoint_slot =
     (case bt_get (kc_cap_spaces k) from_pid of
        None \<Rightarrow> Inl ProcessNotFound
      | Some cspace \<Rightarrow>
          (case cs_get cspace endpoint_slot of
             None \<Rightarrow> Inl InvalidCapability
           | Some c \<Rightarrow>
               if cap_object_type c \<noteq> ObjEndpoint \<or> \<not> perm_write (cap_permissions c)
               then Inl PermissionDenied
               else Inr (EndpointId (cap_object_id c))))"

definition kc_validate_receive_cap ::
  "kernel_core \<Rightarrow> process_id \<Rightarrow> u32 \<Rightarrow> u64 \<Rightarrow> core_error + endpoint_id" where
  "kc_validate_receive_cap k pid endpoint_slot timestamp =
     map_sum id (\<lambda>c. EndpointId (cap_object_id c))
       (kc_check k pid endpoint_slot perms_read_only (Some ObjEndpoint) timestamp)"

definition kc_validate_receive_cap_readonly ::
  "kernel_core \<Rightarrow> process_id \<Rightarrow> u32 \<Rightarrow> u64 \<Rightarrow> core_error + endpoint_id" where
  "kc_validate_receive_cap_readonly k pid endpoint_slot timestamp =
     kc_validate_receive_cap k pid endpoint_slot timestamp"

definition kc_validate_caps_exist ::
  "kernel_core \<Rightarrow> process_id \<Rightarrow> u32 list \<Rightarrow> core_error + unit" where
  "kc_validate_caps_exist k pid slots =
     (case bt_get (kc_cap_spaces k) pid of
        None \<Rightarrow> Inl ProcessNotFound
      | Some cspace \<Rightarrow>
          if list_ex (\<lambda>slot. cs_get cspace slot = None) slots then Inl InvalidCapability
          else Inr ())"

definition validate_message_limits :: "usize \<Rightarrow> usize \<Rightarrow> core_error + unit" where
  "validate_message_limits data_len cap_count =
     (if data_len > core_MAX_MESSAGE_SIZE then Inl PermissionDenied
      else if cap_count > core_MAX_CAPS_PER_MESSAGE then Inl PermissionDenied
      else Inr ())"

section \<open>Queues and metrics\<close>

definition kc_queue_message ::
  "kernel_core \<Rightarrow> endpoint_id \<Rightarrow> core_message \<Rightarrow> (core_error + unit) \<times> kernel_core" where
  "kc_queue_message k eid message =
     (case bt_get (kc_endpoints k) eid of
        None \<Rightarrow> (Inl EndpointNotFound, k)
      | Some _ \<Rightarrow>
          (Inr (), kc_map_endpoint eid (\<lambda>e. e\<lparr>ep_pending := ep_pending e @ [message]\<rparr>) k))"

definition count_sent :: "usize \<Rightarrow> core_endpoint \<Rightarrow> core_endpoint" where
  "count_sent data_len e =
     (let m = ep_metrics e;
          m = m\<lparr>em_queue_depth := length (ep_pending e)\<rparr>;
          m = m\<lparr>em_total_messages := em_total_messages m + 1\<rparr>;
          m = m\<lparr>em_total_bytes := em_total_bytes m + word_of_nat data_len\<rparr>;
          m = (if em_queue_depth m > em_queue_high_water m
               then m\<lparr>em_queue_high_water := em_queue_depth m\<rparr> else m)
      in e\<lparr>ep_metrics := m\<rparr>)"

definition count_sender :: "usize \<Rightarrow> u64 \<Rightarrow> process \<Rightarrow> process" where
  "count_sender data_len timestamp p =
     p\<lparr>proc_metrics := (proc_metrics p)\<lparr>pm_ipc_sent := pm_ipc_sent (proc_metrics p) + 1,
         pm_ipc_bytes_sent := pm_ipc_bytes_sent (proc_metrics p) + word_of_nat data_len,
         pm_last_active_ns := timestamp\<rparr>\<rparr>"

definition count_receiver :: "usize \<Rightarrow> u64 \<Rightarrow> process \<Rightarrow> process" where
  "count_receiver data_len timestamp p =
     p\<lparr>proc_metrics := (proc_metrics p)\<lparr>pm_ipc_received := pm_ipc_received (proc_metrics p) + 1,
         pm_ipc_bytes_received := pm_ipc_bytes_received (proc_metrics p) + word_of_nat data_len,
         pm_last_active_ns := timestamp\<rparr>\<rparr>"

definition kc_update_send_metrics ::
  "kernel_core \<Rightarrow> process_id \<Rightarrow> endpoint_id \<Rightarrow> usize \<Rightarrow> u64 \<Rightarrow> kernel_core" where
  "kc_update_send_metrics k from_pid eid data_len timestamp =
     (let k = kc_map_endpoint eid (count_sent data_len) k;
          k = kc_map_process from_pid (count_sender data_len timestamp) k
      in k\<lparr>kc_total_ipc_count := kc_total_ipc_count k + 1\<rparr>)"

text \<open>
  \<^verbatim>\<open>pop_front\<close> of an endpoint's queue with the depth metric, which is left alone when the queue
  was empty.
\<close>

definition core_dequeue :: "core_endpoint \<Rightarrow> core_message option \<times> core_endpoint" where
  "core_dequeue e =
     (case ep_pending e of
        [] \<Rightarrow> (None, e)
      | m # ms \<Rightarrow> (Some m, e\<lparr>ep_pending := ms,
                             ep_metrics := (ep_metrics e)\<lparr>em_queue_depth := length ms\<rparr>\<rparr>))"

section \<open>Sending and receiving\<close>

definition kc_ipc_send ::
  "kernel_core \<Rightarrow> process_id \<Rightarrow> u32 \<Rightarrow> u32 \<Rightarrow> u8 list \<Rightarrow> u64
   \<Rightarrow> (core_error + unit) \<times> commit option \<times> kernel_core" where
  "kc_ipc_send k from_pid endpoint_slot tag data timestamp =
     (case kc_validate_send_cap k from_pid endpoint_slot timestamp of
        Inl e \<Rightarrow> (Inl e, None, k)
      | Inr eid \<Rightarrow>
          let data_len = length data;
              message = \<lparr>cmsg_from = from_pid, cmsg_tag = tag, cmsg_data = data,
                         cmsg_transferred_caps = []\<rparr>
          in (case kc_queue_message k eid message of
                (Inl e, k) \<Rightarrow> (Inl e, None, k)
              | (Inr _, k) \<Rightarrow>
                  let k = kc_update_send_metrics k from_pid eid data_len timestamp
                  in (Inr (), Some (kc_commit timestamp
                        (MessageSent (pid_raw from_pid) (eid_raw eid) tag data_len)), k)))"

text \<open>The loop of \<^verbatim>\<open>remove_and_transfer_caps\<close> over the sender's capability space.\<close>

fun remove_caps ::
  "capability_space \<Rightarrow> process_id \<Rightarrow> u32 list \<Rightarrow> u64
   \<Rightarrow> core_transferred_cap list \<times> commit list \<times> capability_space" where
  "remove_caps cspace pid [] timestamp = ([], [], cspace)"
| "remove_caps cspace pid (slot # slots) timestamp =
     (case cs_remove cspace slot of
        (Some c, cspace') \<Rightarrow>
          let (tcaps, commits, cspace') = remove_caps cspace' pid slots timestamp
          in (\<lparr>ct_capability = c, ct_receiver_slot = None\<rparr> # tcaps,
              kc_commit timestamp (CapRemoved (pid_raw pid) slot) # commits, cspace')
      | (None, cspace') \<Rightarrow> remove_caps cspace' pid slots timestamp)"

definition kc_remove_and_transfer_caps ::
  "kernel_core \<Rightarrow> process_id \<Rightarrow> u32 list \<Rightarrow> u64
   \<Rightarrow> (core_error + core_transferred_cap list \<times> commit list) \<times> kernel_core" where
  "kc_remove_and_transfer_caps k from_pid cap_slots timestamp =
     (case bt_get (kc_cap_spaces k) from_pid of
        None \<Rightarrow> (Inl ProcessNotFound, k)
      | Some sender_cspace \<Rightarrow>
          let (transferred_caps, commits, sender_cspace) =
                remove_caps sender_cspace from_pid cap_slots timestamp
          in (Inr (transferred_caps, commits),
              kc_map_cap_space from_pid (\<lambda>_. sender_cspace) k))"

definition kc_ipc_send_with_caps ::
  "kernel_core \<Rightarrow> process_id \<Rightarrow> u32 \<Rightarrow> u32 \<Rightarrow> u8 list \<Rightarrow> u32 list \<Rightarrow> u64 \<Rightarrow> unit core_result" where
  "kc_ipc_send_with_caps k from_pid endpoint_slot tag data cap_slots timestamp =
     (case validate_message_limits (length data) (length cap_slots) of
        Inl e \<Rightarrow> (Inl e, [], k)
      | Inr _ \<Rightarrow>
     (case kc_validate_send_cap_basic k from_pid endpoint_slot of
        Inl e \<Rightarrow> (Inl e, [], k)
      | Inr eid \<Rightarrow>
     if \<not> bt_contains (kc_endpoints k) eid then (Inl EndpointNotFound, [], k)
     else
     (case kc_validate_caps_exist k from_pid cap_slots of
        Inl e \<Rightarrow> (Inl e, [], k)
      | Inr _ \<Rightarrow>
     (case kc_remove_and_transfer_caps k from_pid cap_slots timestamp of
        (Inl e, k) \<Rightarrow> (Inl e, [], k)
      | (Inr (transferred_caps, commits), k) \<Rightarrow>
          let data_len = length data;
              message = \<lparr>cmsg_from = from_pid, cmsg_tag = tag, cmsg_data = data,
                         cmsg_transferred_caps = transferred_caps\<rparr>
          in (case kc_queue_message k eid message of
                (Inl e, k) \<Rightarrow> (Inl e, commits, k)
              | (Inr _, k) \<Rightarrow>
                  (Inr (), commits, kc_update_send_metrics k from_pid eid data_len timestamp))))))"

definition kc_ipc_receive ::
  "kernel_core \<Rightarrow> process_id \<Rightarrow> u32 \<Rightarrow> u64 \<Rightarrow> (core_error + core_message option) \<times> kernel_core" where
  "kc_ipc_receive k pid endpoint_slot timestamp =
     (case kc_validate_receive_cap k pid endpoint_slot timestamp of
        Inl e \<Rightarrow> (Inl e, k)
      | Inr eid \<Rightarrow>
          (case bt_get (kc_endpoints k) eid of
             None \<Rightarrow> (Inl EndpointNotFound, k)
           | Some e \<Rightarrow>
               let msg = fst (core_dequeue e);
                   k = kc_map_endpoint eid (\<lambda>e. snd (core_dequeue e)) k;
                   k = (case msg of
                          None \<Rightarrow> k
                        | Some m \<Rightarrow>
                            kc_map_process pid (count_receiver (length (cmsg_data m)) timestamp) k)
               in (Inr msg, k)))"

text \<open>The loop of \<^verbatim>\<open>install_transferred_caps\<close> over the receiver's capability space.\<close>

fun install_caps ::
  "capability_space \<Rightarrow> process_id \<Rightarrow> core_transferred_cap list \<Rightarrow> u64
   \<Rightarrow> u32 list \<times> commit list \<times> capability_space" where
  "install_caps cspace pid [] timestamp = ([], [], cspace)"
| "install_caps cspace pid (tcap # tcaps) timestamp =
     (let (slot, cspace) = cs_insert cspace (ct_capability tcap);
          (slots, commits, cspace) = install_caps cspace pid tcaps timestamp
      in (slot # slots, cap_inserted_commit timestamp pid slot (ct_capability tcap) # commits, cspace))"

definition kc_install_transferred_caps ::
  "kernel_core \<Rightarrow> process_id \<Rightarrow> core_transferred_cap list \<Rightarrow> u64
   \<Rightarrow> (core_error + u32 list \<times> commit list) \<times> kernel_core" where
  "kc_install_transferred_caps k pid transferred_caps timestamp =
     (case bt_get (kc_cap_spaces k) pid of
        None \<Rightarrow> (Inl ProcessNotFound, k)
      | Some receiver_cspace \<Rightarrow>
          let (slots, commits, receiver_cspace) =
                install_caps receiver_cspace pid transferred_caps timestamp
          in (Inr (slots, commits), kc_map_cap_space pid (\<lambda>_. receiver_cspace) k))"

definition kc_ipc_receive_with_caps ::
  "kernel_core \<Rightarrow> process_id \<Rightarrow> u32 \<Rightarrow> u64 \<Rightarrow> (core_message \<times> u32 list) option core_result" where
  "kc_ipc_receive_with_caps k pid endpoint_slot timestamp =
     (case kc_ipc_receive k pid endpoint_slot timestamp of
        (Inl e, k) \<Rightarrow> (Inl e, [], k)
      | (Inr None, k) \<Rightarrow> (Inr None, [], k)
      | (Inr (Some message), k) \<Rightarrow>
          if cmsg_transferred_caps message = [] then (Inr (Some (message, [])), [], k)
          else
            (case kc_install_transferred_caps k pid (cmsg_transferred_caps message) timestamp of
               (Inl e, k) \<Rightarrow> (Inl e, [], k)
             | (Inr (installed_slots, cap_commits), k) \<Rightarrow>
                 (Inr (Some (message, installed_slots)), cap_commits, k)))"

definition kc_ipc_has_message :: "kernel_core \<Rightarrow> process_id \<Rightarrow> u32 \<Rightarrow> u64 \<Rightarrow> core_error + bool" where
  "kc_ipc_has_message k pid endpoint_slot timestamp =
     (case kc_validate_receive_cap_readonly k pid endpoint_slot timestamp of
        Inl e \<Rightarrow> Inl e
      | Inr eid \<Rightarrow>
          (case bt_get (kc_endpoints k) eid of
             None \<Rightarrow> Inl EndpointNotFound
           | Some e \<Rightarrow> Inr (ep_pending e \<noteq> [])))"

section \<open>System calls\<close>

datatype core_syscall =
    Debug string
  | CreateEndpoint
  | Send u32 u32 "u8 list"
  | Receive u32
  | ListCaps
  | ListProcesses
  | Exit i32
  | GetTime
  | Yield
  | CapGrant u32 process_id permissions
  | CapRevoke u32
  | CapDelete u32
  | CapInspect u32
  | CapDerive u32 permissions
  | SendWithCaps u32 u32 "u8 list" "u32 list"
  | Call u32 u32 "u8 list"
  | Kill process_id

record core_cap_info =
  cci_id :: u64
  cci_object_type :: object_type
  cci_object_id :: u64
  cci_permissions :: permissions
  cci_generation :: u32
  cci_expires_at :: u64

definition cap_info_from :: "capability \<Rightarrow> core_cap_info" where
  "cap_info_from c =
     \<lparr>cci_id = cap_id c, cci_object_type = cap_object_type c, cci_object_id = cap_object_id c,
      cci_permissions = cap_permissions c, cci_generation = cap_generation c,
      cci_expires_at = cap_expires_at c\<rparr>"

definition revoke_notification_is_valid :: "revoke_notification \<Rightarrow> bool" where
  "revoke_notification_is_valid n \<longleftrightarrow> rn_object_type n \<noteq> 0"

datatype core_syscall_result =
    Ok u64
  | Err core_error
  | Message core_message
  | MessageWithCaps core_message "u32 list"
  | ResWouldBlock
  | CapInfo core_cap_info
  | CapList "(u32 \<times> capability) list"
  | ProcessList "(process_id \<times> string \<times> process_state) list"

type_synonym handled = "core_syscall_result \<times> commit list \<times> kernel_core"

text \<open>How a handler turns the result of an operation into a system call result.\<close>

fun sys_result :: "('a \<Rightarrow> core_syscall_result) \<Rightarrow> core_error + 'a \<Rightarrow> core_syscall_result" where
  "sys_result f (Inl e) = Err e"
| "sys_result f (Inr a) = f a"

definition handle_debug :: "kernel_core \<Rightarrow> process_id \<Rightarrow> string \<Rightarrow> handled" where
  "handle_debug k from_pid msg = (Ok 0, [], k)"

definition handle_create_endpoint :: "kernel_core \<Rightarrow> process_id \<Rightarrow> u64 \<Rightarrow> handled" where
  "handle_create_endpoint k from_pid timestamp =
     (let (result, commits, k) = kc_create_endpoint k from_pid timestamp
      in (sys_result (\<lambda>(eid, slot). Ok (push_bit 32 (ucast slot) OR (eid_raw eid AND 0xFFFFFFFF))) result,
          commits, k))"

definition handle_send :: "kernel_core \<Rightarrow> process_id \<Rightarrow> u32 \<Rightarrow> u32 \<Rightarrow> u8 list \<Rightarrow> u64 \<Rightarrow> handled" where
  "handle_send k from_pid endpoint_slot tag data timestamp =
     (let (result, commit, k) = kc_ipc_send k from_pid endpoint_slot tag data timestamp
      in (sys_result (\<lambda>_. Ok 0) result, (case commit of None \<Rightarrow> [] | Some c \<Rightarrow> [c]), k))"

definition handle_receive :: "kernel_core \<Rightarrow> process_id \<Rightarrow> u32 \<Rightarrow> u64 \<Rightarrow> handled" where
  "handle_receive k from_pid endpoint_slot timestamp =
     (let (result, k) = kc_ipc_receive k from_pid endpoint_slot timestamp
      in (sys_result (\<lambda>r. case r of Some msg \<Rightarrow> Message msg | None \<Rightarrow> ResWouldBlock) result, [], k))"

definition handle_send_with_caps ::
  "kernel_core \<Rightarrow> process_id \<Rightarrow> u32 \<Rightarrow> u32 \<Rightarrow> u8 list \<Rightarrow> u32 list \<Rightarrow> u64 \<Rightarrow> handled" where
  "handle_send_with_caps k from_pid endpoint_slot tag data cap_slots timestamp =
     (let (result, commits, k) =
            kc_ipc_send_with_caps k from_pid endpoint_slot tag data cap_slots timestamp
      in (sys_result (\<lambda>_. Ok 0) result, commits, k))"

definition handle_call :: "kernel_core \<Rightarrow> process_id \<Rightarrow> u32 \<Rightarrow> u32 \<Rightarrow> u8 list \<Rightarrow> u64 \<Rightarrow> handled" where
  "handle_call k from_pid endpoint_slot tag data timestamp =
     (let (result, commit, k) = kc_ipc_send k from_pid endpoint_slot tag data timestamp
      in (sys_result (\<lambda>_. ResWouldBlock) result, (case commit of None \<Rightarrow> [] | Some c \<Rightarrow> [c]), k))"

definition handle_list_caps :: "kernel_core \<Rightarrow> process_id \<Rightarrow> handled" where
  "handle_list_caps k from_pid =
     (let caps = (case bt_get (kc_cap_spaces k) from_pid of None \<Rightarrow> [] | Some cs \<Rightarrow> cs_list cs)
      in (CapList caps, [], k))"

definition handle_cap_grant ::
  "kernel_core \<Rightarrow> process_id \<Rightarrow> u32 \<Rightarrow> process_id \<Rightarrow> permissions \<Rightarrow> u64 \<Rightarrow> handled" where
  "handle_cap_grant k from_pid from_slot to_pid permissions timestamp =
     (let (result, commits, k) = kc_grant_capability k from_pid from_slot to_pid permissions timestamp
      in (sys_result (\<lambda>new_slot. Ok (ucast new_slot)) result, commits, k))"

definition handle_cap_revoke :: "kernel_core \<Rightarrow> process_id \<Rightarrow> u32 \<Rightarrow> u64 \<Rightarrow> handled" where
  "handle_cap_revoke k from_pid slot timestamp =
     (let (result, commits, k) = kc_revoke_capability k from_pid slot timestamp
      in (sys_result (\<lambda>_. Ok 0) result, commits, k))"

definition handle_cap_delete :: "kernel_core \<Rightarrow> process_id \<Rightarrow> u32 \<Rightarrow> u64 \<Rightarrow> handled" where
  "handle_cap_delete k from_pid slot timestamp =
     (let (result, commits, k) = kc_delete_capability k from_pid slot timestamp
      in (sys_result (\<lambda>_. Ok 0) result, commits, k))"

definition handle_cap_inspect :: "kernel_core \<Rightarrow> process_id \<Rightarrow> u32 \<Rightarrow> handled" where
  "handle_cap_inspect k from_pid slot =
     ((case bt_get (kc_cap_spaces k) from_pid of
         None \<Rightarrow> Err ProcessNotFound
       | Some cspace \<Rightarrow>
           (case cs_get cspace slot of
              None \<Rightarrow> Err InvalidCapability
            | Some c \<Rightarrow> CapInfo (cap_info_from c))), [], k)"

definition handle_cap_derive ::
  "kernel_core \<Rightarrow> process_id \<Rightarrow> u32 \<Rightarrow> permissions \<Rightarrow> u64 \<Rightarrow> handled" where
  "handle_cap_derive k from_pid slot new_permissions timestamp =
     (let (result, commits, k) = kc_derive_capability k from_pid slot new_permissions timestamp
      in (sys_result (\<lambda>new_slot. Ok (ucast new_slot)) result, commits, k))"

definition handle_list_processes :: "kernel_core \<Rightarrow> handled" where
  "handle_list_processes k =
     (ProcessList (map (\<lambda>(pid, p). (pid, proc_name p, proc_state p)) (kc_processes k)), [], k)"

definition handle_exit :: "kernel_core \<Rightarrow> process_id \<Rightarrow> i32 \<Rightarrow> u64 \<Rightarrow> handled" where
  "handle_exit k from_pid code timestamp =
     (let k = kc_map_process from_pid (\<lambda>p. p\<lparr>proc_state := Zombie\<rparr>) k
      in (Ok (scast code), [kc_commit timestamp (ProcessExited (pid_raw from_pid) code)], k))"

definition handle_kill :: "kernel_core \<Rightarrow> process_id \<Rightarrow> process_id \<Rightarrow> u64 \<Rightarrow> handled" where
  "handle_kill k from_pid target_pid timestamp =
     (let (result, commits, k) = kc_kill_process_with_cap_check k from_pid target_pid timestamp
      in (sys_result (\<lambda>_. Ok 0) result, commits, k))"

definition kc_update_syscall_metrics :: "kernel_core \<Rightarrow> process_id \<Rightarrow> u64 \<Rightarrow> kernel_core" where
  "kc_update_syscall_metrics k from_pid timestamp =
     kc_map_process from_pid (bump_syscall_metrics timestamp) k"

fun handle_dispatch :: "kernel_core \<Rightarrow> process_id \<Rightarrow> core_syscall \<Rightarrow> u64 \<Rightarrow> handled" where
  "handle_dispatch k from_pid (Debug msg) ts = handle_debug k from_pid msg"
| "handle_dispatch k from_pid CreateEndpoint ts = handle_create_endpoint k from_pid ts"
| "handle_dispatch k from_pid (Send endpoint_slot tag data) ts =
     handle_send k from_pid endpoint_slot tag data ts"
| "handle_dispatch k from_pid (Receive endpoint_slot) ts = handle_receive k from_pid endpoint_slot ts"
| "handle_dispatch k from_pid (SendWithCaps endpoint_slot tag data cap_slots) ts =
     handle_send_with_caps k from_pid endpoint_slot tag data cap_slots ts"
| "handle_dispatch k from_pid (Call endpoint_slot tag data) ts =
     handle_call k from_pid endpoint_slot tag data ts"
| "handle_dispatch k from_pid ListCaps ts = handle_list_caps k from_pid"
| "handle_dispatch k from_pid (CapGrant from_slot to_pid permissions) ts =
     handle_cap_grant k from_pid from_slot to_pid permissions ts"
| "handle_dispatch k from_pid (CapRevoke slot) ts = handle_cap_revoke k from_pid slot ts"
| "handle_dispatch k from_pid (CapDelete slot) ts = handle_cap_delete k from_pid slot ts"
| "handle_dispatch k from_pid (CapInspect slot) ts = handle_cap_inspect k from_pid slot"
| "handle_dispatch k from_pid (CapDerive slot new_permissions) ts =
     handle_cap_derive k from_pid slot new_permissions ts"
| "handle_dispatch k from_pid ListProcesses ts = handle_list_processes k"
| "handle_dispatch k from_pid (Exit code) ts = handle_exit k from_pid code ts"
| "handle_dispatch k from_pid (Kill target_pid) ts = handle_kill k from_pid target_pid ts"
| "handle_dispatch k from_pid GetTime ts = (Ok ts, [], k)"
| "handle_dispatch k from_pid Yield ts = (Ok 0, [], k)"

definition handle_syscall :: "kernel_core \<Rightarrow> process_id \<Rightarrow> core_syscall \<Rightarrow> u64 \<Rightarrow> handled" where
  "handle_syscall k from_pid sc timestamp =
     handle_dispatch (kc_update_syscall_metrics k from_pid timestamp) from_pid sc timestamp"

end
