(* ===== verification/Core_Authority.thy ===== *)
theory Core_Authority
  imports Core_Syscall
begin

text \<open>
  Authority in the runtime kernel: which capabilities exist, held in a space or in flight in a
  queued message, and how a system call may change them; who may end a process.
\<close>

section \<open>All capabilities of a kernel\<close>

definition cs_caps :: "capability_space \<Rightarrow> capability set" where
  "cs_caps cs = snd ` set (cs_slots cs)"

definition space_caps :: "(process_id, capability_space) btree_map \<Rightarrow> capability set" where
  "space_caps css = (\<Union>e \<in> set css. cs_caps (snd e))"

definition message_caps :: "core_message \<Rightarrow> capability set" where
  "message_caps m = ct_capability ` set (cmsg_transferred_caps m)"

definition endpoint_caps :: "core_endpoint \<Rightarrow> capability set" where
  "endpoint_caps e = \<Union>(message_caps ` set (ep_pending e))"

definition queue_caps :: "(endpoint_id, core_endpoint) btree_map \<Rightarrow> capability set" where
  "queue_caps eps = (\<Union>e \<in> set eps. endpoint_caps (snd e))"

definition kc_caps :: "kernel_core \<Rightarrow> capability set" where
  "kc_caps k = space_caps (kc_cap_spaces k) \<union> queue_caps (kc_endpoints k)"

lemma space_capsI: "bt_get css pid = Some cs \<Longrightarrow> cs_get cs slot = Some c \<Longrightarrow> c \<in> space_caps css"
  by (force simp: space_caps_def cs_caps_def cs_get_def dest!: map_of_SomeD)

lemma space_caps_insert: "space_caps (bt_insert pid cs css) \<subseteq> cs_caps cs \<union> space_caps css"
  using bt_set_insert [of pid cs css] by (fastforce simp: space_caps_def)

lemma space_caps_remove: "space_caps (bt_remove pid css) \<subseteq> space_caps css"
  by (auto simp: space_caps_def bt_remove_def)

lemma union_modify:
  assumes "\<And>v. g (f v) \<subseteq> g v \<union> A"
  shows "(\<Union>e \<in> set (bt_modify k f m). g (snd e)) \<subseteq> (\<Union>e \<in> set m. g (snd e)) \<union> A"
proof -
  have "g (if fst e = k then f (snd e) else snd e) \<subseteq> g (snd e) \<union> A" for e
    using assms [of "snd e"] by auto
  then show ?thesis
    by (simp add: bt_modify_def) blast
qed

lemma space_caps_modify:
  "(\<And>cs. cs_caps (f cs) \<subseteq> cs_caps cs \<union> A) \<Longrightarrow>
     space_caps (bt_modify pid f css) \<subseteq> space_caps css \<union> A"
  unfolding space_caps_def by (rule union_modify)

lemma queue_caps_remove: "queue_caps (bt_remove eid eps) \<subseteq> queue_caps eps"
  by (auto simp: queue_caps_def bt_remove_def)

lemma queue_caps_insert:
  "ep_pending e = [] \<Longrightarrow> queue_caps (bt_insert eid e eps) \<subseteq> queue_caps eps"
  using bt_set_insert [of eid e eps] by (fastforce simp: queue_caps_def endpoint_caps_def)

lemma queue_caps_modify:
  "(\<And>e. endpoint_caps (f e) \<subseteq> endpoint_caps e \<union> A) \<Longrightarrow>
     queue_caps (bt_modify eid f eps) \<subseteq> queue_caps eps \<union> A"
  unfolding queue_caps_def by (rule union_modify)

lemma cs_insert_caps: "cs_caps (snd (cs_insert cs c)) \<subseteq> insert c (cs_caps cs)"
  using bt_set_insert [of "cs_next_slot cs" c "cs_slots cs"] by (force simp: cs_caps_def cs_insert_def Let_def)

lemma cs_remove_caps: "cs_caps (snd (cs_remove cs s)) \<subseteq> cs_caps cs"
  by (auto simp: cs_caps_def cs_remove_def bt_remove_def)

section \<open>Attenuation\<close>

definition cap_le :: "capability \<Rightarrow> capability \<Rightarrow> bool" where
  "cap_le c c0 \<longleftrightarrow>
     cap_object_type c = cap_object_type c0 \<and> cap_object_id c = cap_object_id c0
     \<and> cap_generation c = cap_generation c0 \<and> cap_expires_at c = cap_expires_at c0
     \<and> is_subset_of (cap_permissions c) (cap_permissions c0)"

lemma cap_le_refl [simp]: "cap_le c c"
  by (simp add: cap_le_def)

lemma cap_le_trans: "cap_le a b \<Longrightarrow> cap_le b c \<Longrightarrow> cap_le a c"
  by (auto simp: cap_le_def intro: is_subset_of_trans)

lemma attenuate_subset [simp]: "is_subset_of (attenuate_permissions p q) p"
  by (simp add: attenuate_permissions_def is_subset_of_def)

text \<open>
  \<open>kc_le k k'\<close>: some number of endpoints was created, and every capability of \<open>k'\<close> attenuates
  one of \<open>k\<close> or names an endpoint created in between.
\<close>

definition new_endpoint_cap :: "u64 \<Rightarrow> nat \<Rightarrow> capability \<Rightarrow> bool" where
  "new_endpoint_cap base n c \<longleftrightarrow>
     cap_object_type c = ObjEndpoint \<and> cap_generation c = 0 \<and> cap_expires_at c = 0
     \<and> (\<exists>i < n. cap_object_id c = base + word_of_nat i)"

definition kc_le :: "kernel_core \<Rightarrow> kernel_core \<Rightarrow> bool" where
  "kc_le k k' \<longleftrightarrow> (\<exists>n. kc_next_endpoint_id k' = kc_next_endpoint_id k + word_of_nat n
     \<and> (\<forall>c \<in> kc_caps k'. (\<exists>c0 \<in> kc_caps k. cap_le c c0)
           \<or> new_endpoint_cap (kc_next_endpoint_id k) n c))"

lemma kc_leI:
  "kc_next_endpoint_id k' = kc_next_endpoint_id k \<Longrightarrow>
   (\<And>c. c \<in> kc_caps k' \<Longrightarrow> \<exists>c0 \<in> kc_caps k. cap_le c c0) \<Longrightarrow> kc_le k k'"
  unfolding kc_le_def by (rule exI [of _ 0]) simp

lemma kc_le_sub:
  "kc_next_endpoint_id k' = kc_next_endpoint_id k \<Longrightarrow> kc_caps k' \<subseteq> kc_caps k \<Longrightarrow> kc_le k k'"
  by (rule kc_leI) (auto intro: cap_le_refl)

lemma kc_le_refl: "kc_le k k"
  by (rule kc_le_sub) simp_all

lemma new_endpoint_cap_shift:
  "new_endpoint_cap (base + word_of_nat n) m c \<Longrightarrow> new_endpoint_cap base (n + m) c"
  unfolding new_endpoint_cap_def
  by (metis add.assoc nat_add_left_cancel_less of_nat_add)

lemma new_endpoint_cap_le:
  "cap_le c c0 \<Longrightarrow> new_endpoint_cap base n c0 \<Longrightarrow> new_endpoint_cap base (n + m) c"
  unfolding new_endpoint_cap_def cap_le_def by (metis trans_less_add1)

lemma kc_le_trans:
  assumes "kc_le k1 k2" "kc_le k2 k3"
  shows "kc_le k1 k3"
proof -
  obtain n where n: "kc_next_endpoint_id k2 = kc_next_endpoint_id k1 + word_of_nat n"
    "\<And>c. c \<in> kc_caps k2 \<Longrightarrow> (\<exists>c0 \<in> kc_caps k1. cap_le c c0)
        \<or> new_endpoint_cap (kc_next_endpoint_id k1) n c"
    using assms(1) unfolding kc_le_def by blast
  obtain m where m: "kc_next_endpoint_id k3 = kc_next_endpoint_id k2 + word_of_nat m"
    "\<And>c. c \<in> kc_caps k3 \<Longrightarrow> (\<exists>c0 \<in> kc_caps k2. cap_le c c0)
        \<or> new_endpoint_cap (kc_next_endpoint_id k2) m c"
    using assms(2) unfolding kc_le_def by blast
  have "(\<exists>c0 \<in> kc_caps k1. cap_le c c0) \<or> new_endpoint_cap (kc_next_endpoint_id k1) (n + m) c"
    if "c \<in> kc_caps k3" for c
    using m(2) [OF that]
  proof
    assume "\<exists>c0 \<in> kc_caps k2. cap_le c c0"
    then show ?thesis
      using n(2) by (blast intro: cap_le_trans new_endpoint_cap_le)
  next
    assume "new_endpoint_cap (kc_next_endpoint_id k2) m c"
    then show ?thesis
      by (simp add: n(1) new_endpoint_cap_shift)
  qed
  moreover have "kc_next_endpoint_id k3 = kc_next_endpoint_id k1 + word_of_nat (n + m)"
    using n(1) m(1) by simp
  ultimately show ?thesis
    unfolding kc_le_def by blast
qed

section \<open>What the operations do to the capabilities\<close>

lemmas kc_map_defs = kc_map_process_def kc_map_endpoint_def kc_map_cap_space_def

lemma kc_map_process_frame [simp]:
  "kc_caps (kc_map_process pid f k) = kc_caps k"
  "kc_next_endpoint_id (kc_map_process pid f k) = kc_next_endpoint_id k"
  "kc_cap_spaces (kc_map_process pid f k) = kc_cap_spaces k"
  "kc_endpoints (kc_map_process pid f k) = kc_endpoints k"
  by (simp_all add: kc_caps_def kc_map_defs)

lemma kc_check_Inr:
  "kc_check k pid slot required ot ts = Inr c \<Longrightarrow>
     \<exists>cs. bt_get (kc_cap_spaces k) pid = Some cs \<and> cs_get cs slot = Some c
        \<and> is_subset_of required (cap_permissions c) \<and> (ot \<noteq> None \<longrightarrow> ot = Some (cap_object_type c))
        \<and> \<not> is_expired c ts"
  by (auto simp: kc_check_def axiom_gate.check_grants split: option.splits sum.splits)

lemma kc_check_mem: "kc_check k pid slot required ot ts = Inr c \<Longrightarrow> c \<in> kc_caps k"
  by (auto dest!: kc_check_Inr intro: space_capsI simp: kc_caps_def)

lemma kc_caps_eq:
  "kc_cap_spaces k' = kc_cap_spaces k \<Longrightarrow> kc_endpoints k' = kc_endpoints k \<Longrightarrow> kc_caps k' = kc_caps k"
  by (simp add: kc_caps_def)

lemma kc_caps_upd [simp]:
  "kc_caps (k\<lparr>kc_next_cap_id := x\<rparr>) = kc_caps k"
  "kc_caps (k\<lparr>kc_next_pid := x\<rparr>) = kc_caps k"
  "kc_caps (k\<lparr>kc_next_endpoint_id := x\<rparr>) = kc_caps k"
  "kc_caps (k\<lparr>kc_total_ipc_count := x\<rparr>) = kc_caps k"
  "kc_caps (k\<lparr>kc_processes := ps\<rparr>) = kc_caps k"
  by (simp_all add: kc_caps_def)

lemma kc_alloc_cap_id_frame [simp]:
  "kc_caps (snd (kc_alloc_cap_id k)) = kc_caps k"
  "kc_next_endpoint_id (snd (kc_alloc_cap_id k)) = kc_next_endpoint_id k"
  "kc_cap_spaces (snd (kc_alloc_cap_id k)) = kc_cap_spaces k"
  "kc_endpoints (snd (kc_alloc_cap_id k)) = kc_endpoints k"
  by (simp_all add: kc_alloc_cap_id_def kc_caps_def)

lemma kc_insert_cap_caps: "kc_caps (snd (kc_insert_cap k pid c ts)) \<subseteq> insert c (kc_caps k)"
proof -
  have "space_caps (bt_modify pid (\<lambda>cs. snd (cs_insert cs c)) (kc_cap_spaces k))
      \<subseteq> space_caps (kc_cap_spaces k) \<union> {c}"
    by (rule space_caps_modify) (use cs_insert_caps in auto)
  then show ?thesis
    by (auto simp: kc_insert_cap_def kc_caps_def kc_map_defs Let_def split: option.split)
qed

lemma kc_insert_cap_next [simp]:
  "kc_next_endpoint_id (snd (kc_insert_cap k pid c ts)) = kc_next_endpoint_id k"
  by (simp add: kc_insert_cap_def kc_map_defs Let_def split: option.split)

lemma kc_remove_slot_caps:
  "kc_caps (kc_map_cap_space pid (\<lambda>cs. snd (cs_remove cs slot)) k) \<subseteq> kc_caps k"
proof -
  have "space_caps (bt_modify pid (\<lambda>cs. snd (cs_remove cs slot)) (kc_cap_spaces k))
      \<subseteq> space_caps (kc_cap_spaces k) \<union> {}"
    by (rule space_caps_modify) (use cs_remove_caps in auto)
  then show ?thesis
    by (auto simp: kc_caps_def kc_map_defs)
qed

lemma derived_le:
  assumes "source \<in> kc_caps k" "is_subset_of perms (cap_permissions source)"
  shows "kc_le k (snd (kc_create_derived_cap k pid source perms ts))"
proof (rule kc_leI)
  fix c
  assume "c \<in> kc_caps (snd (kc_create_derived_cap k pid source perms ts))"
  then have "c \<in> insert \<lparr>cap_id = kc_next_cap_id k, cap_object_type = cap_object_type source,
      cap_object_id = cap_object_id source, cap_permissions = perms,
      cap_generation = cap_generation source, cap_expires_at = cap_expires_at source\<rparr> (kc_caps k)"
    using kc_insert_cap_caps [of "k\<lparr>kc_next_cap_id := kc_next_cap_id k + 1\<rparr>"]
    by (auto simp: kc_create_derived_cap_def kc_alloc_cap_id_def Let_def)
  then show "\<exists>c0 \<in> kc_caps k. cap_le c c0"
    using assms by (auto simp: cap_le_def)
qed (simp add: kc_create_derived_cap_def case_prod_unfold Let_def)

definition op_state :: "'a \<times> 'b \<times> kernel_core \<Rightarrow> kernel_core" where
  "op_state r = snd (snd r)"

lemma op_state_simps [simp]: "op_state (a, b, k) = k"
  by (simp add: op_state_def)

lemma grant_le: "kc_le k (op_state (kc_grant_capability k p s q perms ts))"
proof (cases "kc_validate_grant_source k p s ts")
  case (Inr source)
  have "kc_le k (snd (kc_create_derived_cap k q source
      (attenuate_permissions (cap_permissions source) perms) ts))"
    using Inr by (intro derived_le) (auto simp: kc_validate_grant_source_def dest: kc_check_mem)
  then show ?thesis
    using Inr by (auto simp: kc_grant_capability_def Let_def split: prod.split sum.split)
qed (simp add: kc_grant_capability_def kc_le_refl)

lemma derive_le: "kc_le k (op_state (kc_derive_capability k p s perms ts))"
proof (cases "kc_validate_derive_source k p s ts")
  case (Inr source)
  have "kc_le k (snd (kc_create_derived_cap k p source
      (attenuate_permissions (cap_permissions source) perms) ts))"
    using Inr by (intro derived_le) (auto simp: kc_validate_derive_source_def dest: kc_check_mem)
  then show ?thesis
    using Inr by (auto simp: kc_derive_capability_def Let_def split: prod.split sum.split)
qed (simp add: kc_derive_capability_def kc_le_refl)

lemma remove_slot_le: "kc_le k (kc_map_cap_space pid (\<lambda>cs. snd (cs_remove cs slot)) k)"
  by (rule kc_le_sub [OF _ kc_remove_slot_caps]) (simp add: kc_map_defs)

lemma revoke_le: "kc_le k (op_state (kc_revoke_capability k p s ts))"
  by (simp add: kc_revoke_capability_def Let_def kc_le_refl remove_slot_le
      split: sum.split option.split)

lemma delete_le: "kc_le k (op_state (kc_delete_capability k p s ts))"
  by (simp add: kc_delete_capability_def kc_le_refl remove_slot_le split: option.split)

lemma create_endpoint_le: "kc_le k (op_state (kc_create_endpoint k p ts))"
proof (cases "bt_contains (kc_processes k) p")
  case True
  let ?eid = "EndpointId (kc_next_endpoint_id k)"
  let ?c = "\<lparr>cap_id = kc_next_cap_id k, cap_object_type = ObjEndpoint,
             cap_object_id = kc_next_endpoint_id k, cap_permissions = perms_full,
             cap_generation = 0, cap_expires_at = 0\<rparr>"
  let ?k = "k\<lparr>kc_next_endpoint_id := kc_next_endpoint_id k + 1,
              kc_endpoints := bt_insert ?eid (endpoint_new ?eid p) (kc_endpoints k),
              kc_next_cap_id := kc_next_cap_id k + 1\<rparr>"
  let ?r = "kc_insert_cap ?k p ?c ts"
  have caps: "kc_caps (snd ?r) \<subseteq> insert ?c (kc_caps k)"
    using kc_insert_cap_caps [of ?k p ?c ts] queue_caps_insert [of "endpoint_new ?eid p" ?eid "kc_endpoints k"]
    by (auto simp: kc_caps_def)
  have rolled: "kc_caps ((snd ?r)\<lparr>kc_endpoints := bt_remove ?eid (kc_endpoints (snd ?r))\<rparr>)
      \<subseteq> kc_caps (snd ?r)"
    using queue_caps_remove by (auto simp: kc_caps_def)
  have new: "new_endpoint_cap (kc_next_endpoint_id k) 1 ?c"
    by (simp add: new_endpoint_cap_def)
  have le: "kc_le k k'" if "kc_next_endpoint_id k' = kc_next_endpoint_id k + 1"
    "kc_caps k' \<subseteq> insert ?c (kc_caps k)" for k'
    unfolding kc_le_def using that new by (intro exI [of _ 1]) (auto intro: cap_le_refl)
  have "kc_next_endpoint_id (snd ?r) = kc_next_endpoint_id k + 1"
    by simp
  then have "kc_le k (snd ?r)"
    "kc_le k ((snd ?r)\<lparr>kc_endpoints := bt_remove ?eid (kc_endpoints (snd ?r))\<rparr>)"
    using caps rolled by (auto intro!: le)
  then show ?thesis
    using True by (auto simp: kc_create_endpoint_def kc_grant_owner_endpoint_cap_def
        kc_alloc_cap_id_def Let_def split: prod.split sum.split)
qed (simp add: kc_create_endpoint_def kc_le_refl)

section \<open>Message passing\<close>

lemma endpoint_caps_append:
  "endpoint_caps (e\<lparr>ep_pending := ep_pending e @ [m]\<rparr>) = endpoint_caps e \<union> message_caps m"
  by (auto simp: endpoint_caps_def)

lemma endpoint_caps_metrics [simp]: "endpoint_caps (e\<lparr>ep_metrics := x\<rparr>) = endpoint_caps e"
  by (simp add: endpoint_caps_def)

lemma endpoint_caps_count_sent [simp]: "endpoint_caps (count_sent n e) = endpoint_caps e"
  by (simp add: count_sent_def Let_def)

lemma endpoint_caps_dequeue: "endpoint_caps (snd (core_dequeue e)) \<subseteq> endpoint_caps e"
  by (auto simp: core_dequeue_def endpoint_caps_def split: list.split)

lemma kc_map_endpoint_caps:
  "(\<And>e. endpoint_caps (f e) \<subseteq> endpoint_caps e \<union> A) \<Longrightarrow>
     kc_caps (kc_map_endpoint eid f k) \<subseteq> kc_caps k \<union> A"
  using queue_caps_modify [of f A eid "kc_endpoints k"] by (auto simp: kc_caps_def kc_map_defs)

lemma kc_map_endpoint_next [simp]:
  "kc_next_endpoint_id (kc_map_endpoint eid f k) = kc_next_endpoint_id k"
  "kc_next_endpoint_id (kc_map_cap_space pid g k) = kc_next_endpoint_id k"
  by (simp_all add: kc_map_defs)

lemma queue_message_caps:
  "kc_caps (snd (kc_queue_message k eid m)) \<subseteq> kc_caps k \<union> message_caps m"
  using kc_map_endpoint_caps [of "\<lambda>e. e\<lparr>ep_pending := ep_pending e @ [m]\<rparr>" "message_caps m" eid k]
  by (auto simp: kc_queue_message_def endpoint_caps_append split: option.split)

lemma update_send_metrics_caps: "kc_caps (kc_update_send_metrics k p eid n ts) \<subseteq> kc_caps k"
  using kc_map_endpoint_caps [of "count_sent n" "{}" eid k]
  by (simp add: kc_update_send_metrics_def Let_def)

lemma update_send_metrics_next [simp]:
  "kc_next_endpoint_id (kc_update_send_metrics k p eid n ts) = kc_next_endpoint_id k"
  by (simp add: kc_update_send_metrics_def Let_def)

lemma queue_message_next [simp]:
  "kc_next_endpoint_id (snd (kc_queue_message k eid m)) = kc_next_endpoint_id k"
  by (simp add: kc_queue_message_def split: option.split)

text \<open>Queueing a message and counting it, which is how both send operations end.\<close>

lemma queued_le:
  assumes "kc_queue_message k eid m = (r, k')" "message_caps m \<subseteq> kc_caps k0"
    "kc_caps k \<subseteq> kc_caps k0" "kc_next_endpoint_id k = kc_next_endpoint_id k0"
  shows "kc_le k0 k'" "kc_le k0 (kc_update_send_metrics k' p eid n ts)"
proof -
  have caps: "kc_caps k' \<subseteq> kc_caps k0"
    using queue_message_caps [of k eid m] assms by auto
  moreover have "kc_next_endpoint_id k' = kc_next_endpoint_id k0"
    using queue_message_next [of k eid m] assms by simp
  ultimately show "kc_le k0 k'" "kc_le k0 (kc_update_send_metrics k' p eid n ts)"
    using update_send_metrics_caps [of k' p eid n ts] by (auto intro!: kc_le_sub)
qed

lemma send_le: "kc_le k (op_state (kc_ipc_send k p slot tag data ts))"
  by (simp add: kc_ipc_send_def Let_def kc_le_refl split: sum.split prod.split)
    (auto intro: queued_le simp: message_caps_def)

lemma kc_le_map_process [simp]: "kc_le k (kc_map_process p f k') = kc_le k k'"
  by (simp add: kc_le_def)

lemma receive_le: "kc_le k (snd (kc_ipc_receive k p slot ts))"
proof -
  have "kc_le k (kc_map_endpoint eid (\<lambda>e. snd (core_dequeue e)) k)" for eid
    using kc_map_endpoint_caps [of "\<lambda>e. snd (core_dequeue e)" "{}"] endpoint_caps_dequeue
    by (auto intro!: kc_le_sub)
  then show ?thesis
    by (simp add: kc_ipc_receive_def Let_def kc_le_refl split: sum.split option.split)
qed

text \<open>The two loops over a capability space, with projections instead of patterns.\<close>

lemma remove_caps_Cons:
  "remove_caps cs pid (slot # slots) ts =
     (let r = remove_caps (snd (cs_remove cs slot)) pid slots ts
      in case cs_get cs slot of
           None \<Rightarrow> r
         | Some c \<Rightarrow> (\<lparr>ct_capability = c, ct_receiver_slot = None\<rparr> # fst r,
             kc_commit ts (CapRemoved (pid_raw pid) slot) # fst (snd r), snd (snd r)))"
  by (simp add: cs_remove_def cs_get_def Let_def case_prod_unfold split: option.split)

lemma install_caps_Cons:
  "install_caps cs pid (tcap # tcaps) ts =
     (let r = install_caps (snd (cs_insert cs (ct_capability tcap))) pid tcaps ts
      in (cs_next_slot cs # fst r,
          cap_inserted_commit ts pid (cs_next_slot cs) (ct_capability tcap) # fst (snd r), snd (snd r)))"
  by (simp add: Let_def case_prod_unfold)

lemmas transfer_loops = remove_caps.simps(1) remove_caps_Cons install_caps.simps(1) install_caps_Cons

declare remove_caps.simps(2) [simp del] install_caps.simps(2) [simp del]

lemma remove_caps_caps:
  "ct_capability ` set (fst (remove_caps cs pid slots ts)) \<subseteq> cs_caps cs
   \<and> cs_caps (snd (snd (remove_caps cs pid slots ts))) \<subseteq> cs_caps cs"
proof (induction slots arbitrary: cs)
  case (Cons slot slots)
  have "c \<in> cs_caps cs" if "cs_get cs slot = Some c" for c
    using that by (force simp: cs_caps_def cs_get_def dest: map_of_SomeD)
  with Cons.IH [of "snd (cs_remove cs slot)"] cs_remove_caps [of cs slot] show ?case
    by (simp add: transfer_loops Let_def split: option.split) blast
qed simp

lemma install_caps_caps:
  "cs_caps (snd (snd (install_caps cs pid tcaps ts)))
     \<subseteq> cs_caps cs \<union> ct_capability ` set tcaps"
proof (induction tcaps arbitrary: cs)
  case (Cons tcap tcaps)
  from Cons.IH [of "snd (cs_insert cs (ct_capability tcap))"]
    cs_insert_caps [of cs "ct_capability tcap"] show ?case
    by (simp add: transfer_loops Let_def) blast
qed simp

lemma space_caps_set_space:
  assumes "cs_caps cs \<subseteq> A"
  shows "kc_caps (kc_map_cap_space pid (\<lambda>_. cs) k) \<subseteq> kc_caps k \<union> A"
  using space_caps_modify [of "\<lambda>_. cs" A pid "kc_cap_spaces k"] assms
  by (auto simp: kc_caps_def kc_map_defs)

lemma space_caps_get: "bt_get css pid = Some cs \<Longrightarrow> cs_caps cs \<subseteq> space_caps css"
  by (force simp: space_caps_def dest: map_of_SomeD)

lemma remove_and_transfer_caps_caps:
  assumes "kc_remove_and_transfer_caps k p slots ts = (r, k')"
  shows "kc_caps k' \<subseteq> kc_caps k" "kc_next_endpoint_id k' = kc_next_endpoint_id k"
    "r = Inr (tcaps, commits) \<Longrightarrow> ct_capability ` set tcaps \<subseteq> kc_caps k"
proof -
  have *: "kc_caps k' \<subseteq> kc_caps k \<and> kc_next_endpoint_id k' = kc_next_endpoint_id k
    \<and> (r = Inr (tcaps, commits) \<longrightarrow> ct_capability ` set tcaps \<subseteq> kc_caps k)"
  proof (cases "bt_get (kc_cap_spaces k) p")
    case (Some cs)
    have "cs_caps cs \<subseteq> kc_caps k"
      using space_caps_get [OF Some] by (auto simp: kc_caps_def)
    with remove_caps_caps [of cs p slots ts] assms Some
      space_caps_set_space [of "snd (snd (remove_caps cs p slots ts))" "kc_caps k" p k]
    show ?thesis
      by (auto simp: kc_remove_and_transfer_caps_def case_prod_unfold Let_def)
  qed (use assms in \<open>auto simp: kc_remove_and_transfer_caps_def\<close>)
  then show "kc_caps k' \<subseteq> kc_caps k" "kc_next_endpoint_id k' = kc_next_endpoint_id k"
    "r = Inr (tcaps, commits) \<Longrightarrow> ct_capability ` set tcaps \<subseteq> kc_caps k" by simp_all
qed

lemma send_with_caps_le: "kc_le k (op_state (kc_ipc_send_with_caps k p slot tag data slots ts))"
proof -
  have le1: "kc_le k k'" if "kc_remove_and_transfer_caps k p slots ts = (r, k')" for r k'
    using remove_and_transfer_caps_caps [OF that] by (auto intro: kc_le_sub)
  have le2: "kc_le k k''" "kc_le k (kc_update_send_metrics k'' p eid n ts)"
    if "kc_remove_and_transfer_caps k p slots ts = (Inr (tcaps, cs), k')"
      "kc_queue_message k' eid \<lparr>cmsg_from = p, cmsg_tag = tag, cmsg_data = data,
          cmsg_transferred_caps = tcaps\<rparr> = (r, k'')" for k' tcaps cs eid r k'' n
    using remove_and_transfer_caps_caps [OF that(1)]
    by (auto intro!: queued_le [OF that(2)] simp: message_caps_def)
  show ?thesis
    by (simp add: kc_ipc_send_with_caps_def Let_def kc_le_refl split: sum.split prod.split)
      (auto intro: le1 le2)
qed

lemma receive_message_caps:
  assumes "kc_ipc_receive k p slot ts = (Inr (Some m), k')"
  shows "message_caps m \<subseteq> kc_caps k"
proof -
  from assms obtain eid e where "bt_get (kc_endpoints k) eid = Some e" "fst (core_dequeue e) = Some m"
    by (auto simp: kc_ipc_receive_def Let_def split: sum.splits option.splits)
  then show ?thesis
    by (force simp: core_dequeue_def kc_caps_def queue_caps_def endpoint_caps_def
        dest: map_of_SomeD split: list.splits)
qed

lemma receive_with_caps_le: "kc_le k (op_state (kc_ipc_receive_with_caps k p slot ts))"
proof -
  have le1: "kc_le k k'" if "kc_ipc_receive k p slot ts = (r, k')" for r k'
    using receive_le [of k p slot ts] that by simp
  have le2: "kc_le k k''"
    if m: "kc_ipc_receive k p slot ts = (Inr (Some m), k')"
      and inst: "kc_install_transferred_caps k' p (cmsg_transferred_caps m) ts = (r, k'')" for m k' r k''
  proof (cases "bt_get (kc_cap_spaces k') p")
    case (Some cs)
    let ?cs = "snd (snd (install_caps cs p (cmsg_transferred_caps m) ts))"
    have "cs_caps ?cs \<subseteq> kc_caps k' \<union> message_caps m"
      using install_caps_caps [of cs p "cmsg_transferred_caps m" ts] space_caps_get [OF Some]
      by (auto simp: kc_caps_def message_caps_def)
    then have caps: "kc_caps (kc_map_cap_space p (\<lambda>_. ?cs) k') \<subseteq> kc_caps k' \<union> message_caps m"
      using space_caps_set_space by blast
    have k'': "k'' = kc_map_cap_space p (\<lambda>_. ?cs) k'"
      using inst Some by (auto simp: kc_install_transferred_caps_def case_prod_unfold Let_def)
    obtain n where n: "kc_next_endpoint_id k' = kc_next_endpoint_id k + word_of_nat n"
      "\<And>c. c \<in> kc_caps k' \<Longrightarrow> (\<exists>c0 \<in> kc_caps k. cap_le c c0)
          \<or> new_endpoint_cap (kc_next_endpoint_id k) n c"
      using le1 [OF m] unfolding kc_le_def by blast
    show ?thesis
      unfolding kc_le_def k''
      using n caps receive_message_caps [OF m] by (intro exI [of _ n]) (auto intro: cap_le_refl)
  qed (use inst le1 [OF m] in \<open>auto simp: kc_install_transferred_caps_def\<close>)
  show ?thesis
    by (simp add: kc_ipc_receive_with_caps_def split: sum.split prod.split option.split)
      (auto intro: le1 le2)
qed

section \<open>Ending processes\<close>

lemma kc_remove_endpoints_eq:
  "snd (kc_remove_endpoints k eids ts)
     = k\<lparr>kc_endpoints := filter (\<lambda>e. fst e \<notin> set eids) (kc_endpoints k)\<rparr>"
  by (induction eids arbitrary: k)
    (auto simp: Let_def case_prod_unfold bt_remove_def conj_commute intro!: arg_cong [where f = "\<lambda>x. k\<lparr>kc_endpoints := x\<rparr>" for k])

definition owned_by :: "process_id \<Rightarrow> (endpoint_id, core_endpoint) btree_map \<Rightarrow> endpoint_id set" where
  "owned_by pid eps = {eid. \<exists>e. (eid, e) \<in> set eps \<and> ep_owner e = pid}"

lemma kc_kill_process_eq:
  "snd (kc_kill_process k pid ts) =
     k\<lparr>kc_processes := bt_remove pid (kc_processes k), kc_cap_spaces := bt_remove pid (kc_cap_spaces k),
       kc_endpoints := filter (\<lambda>e. fst e \<notin> owned_by pid (kc_endpoints k)) (kc_endpoints k)\<rparr>"
proof -
  have "set (map fst (filter (\<lambda>(_, e). ep_owner e = pid) eps)) = owned_by pid eps" for eps
    by (force simp: owned_by_def)
  then show ?thesis
    by (simp add: kc_kill_process_def kc_cleanup_process_endpoints_def Let_def case_prod_unfold
        kc_remove_endpoints_eq)
qed

lemma kill_le: "kc_le k (snd (kc_kill_process k pid ts))"
  unfolding kc_kill_process_eq
  by (rule kc_le_sub) (auto simp: kc_caps_def space_caps_def queue_caps_def bt_remove_def)

lemma kill_checked_le: "kc_le k (op_state (kc_kill_process_with_cap_check k p q ts))"
  using kill_le [of k q ts]
  by (simp add: kc_kill_process_with_cap_check_def case_prod_unfold op_state_def kc_le_refl)

section \<open>Every system call\<close>

lemma handler_state [simp]:
  "op_state (handle_debug k p msg) = k"
  "op_state (handle_create_endpoint k p ts) = op_state (kc_create_endpoint k p ts)"
  "op_state (handle_send k p s tag data ts) = op_state (kc_ipc_send k p s tag data ts)"
  "op_state (handle_receive k p s ts) = snd (kc_ipc_receive k p s ts)"
  "op_state (handle_send_with_caps k p s tag data slots ts)
     = op_state (kc_ipc_send_with_caps k p s tag data slots ts)"
  "op_state (handle_call k p s tag data ts) = op_state (kc_ipc_send k p s tag data ts)"
  "op_state (handle_list_caps k p) = k"
  "op_state (handle_cap_grant k p s q perms ts) = op_state (kc_grant_capability k p s q perms ts)"
  "op_state (handle_cap_revoke k p s ts) = op_state (kc_revoke_capability k p s ts)"
  "op_state (handle_cap_delete k p s ts) = op_state (kc_delete_capability k p s ts)"
  "op_state (handle_cap_inspect k p s) = k"
  "op_state (handle_cap_derive k p s perms ts) = op_state (kc_derive_capability k p s perms ts)"
  "op_state (handle_list_processes k) = k"
  "op_state (handle_exit k p code ts) = kc_map_process p (\<lambda>p. p\<lparr>proc_state := Zombie\<rparr>) k"
  "op_state (handle_kill k p q ts) = op_state (kc_kill_process_with_cap_check k p q ts)"
  by (simp_all add: op_state_def case_prod_unfold Let_def handle_debug_def
      handle_create_endpoint_def handle_send_def handle_receive_def handle_send_with_caps_def
      handle_call_def handle_list_caps_def handle_cap_grant_def handle_cap_revoke_def
      handle_cap_delete_def handle_cap_inspect_def handle_cap_derive_def handle_list_processes_def
      handle_exit_def handle_kill_def)

lemma handle_dispatch_le: "kc_le k (op_state (handle_dispatch k p sc ts))"
  by (cases sc)
    (simp_all add: kc_le_refl create_endpoint_le send_le receive_le send_with_caps_le grant_le
       revoke_le delete_le derive_le kill_checked_le)

lemma handle_syscall_le: "kc_le k (op_state (handle_syscall k p sc ts))"
proof -
  have "kc_le k (kc_update_syscall_metrics k p ts)"
    by (simp add: kc_update_syscall_metrics_def kc_le_refl)
  then show ?thesis
    unfolding handle_syscall_def using handle_dispatch_le kc_le_trans by blast
qed

type_synonym core_call = "process_id \<times> core_syscall \<times> u64"

fun core_step :: "kernel_core \<Rightarrow> core_call \<Rightarrow> kernel_core" where
  "core_step k (p, sc, ts) = op_state (handle_syscall k p sc ts)"

interpretation runtime_authority: guarded_machine core_step "\<lambda>_ _. True" "\<lambda>_. True" kc_le
proof
  show "kc_le s (core_step s i)" for s i
    by (cases i) (simp add: handle_syscall_le)
qed (auto intro: kc_le_refl kc_le_trans)

lemma run_ok_True [simp]: "run_ok step (\<lambda>_ _. True) s is"
  by (induction "is" arbitrary: s) auto

section \<open>Processes and their domains\<close>

definition kc_pids :: "kernel_core \<Rightarrow> process_id set" where
  "kc_pids k = dom (bt_get (kc_processes k))"

lemma dom_modify: "dom (bt_get (bt_modify k f m)) = dom (bt_get m)"
  by (auto simp: dom_def split: if_splits)

text \<open>The processes and the keys of the capability spaces, which most operations leave alone.\<close>

definition kc_shape :: "kernel_core \<Rightarrow> process_id set \<times> process_id list" where
  "kc_shape k = (kc_pids k, map fst (kc_cap_spaces k))"

lemma kc_shape_pids: "kc_shape k' = kc_shape k \<Longrightarrow> kc_pids k' = kc_pids k"
  by (simp add: kc_shape_def)

lemma kc_shape_frame [simp]:
  "kc_shape (kc_map_process p f k) = kc_shape k"
  "kc_shape (kc_map_endpoint eid g k) = kc_shape k"
  "kc_shape (kc_map_cap_space p h k) = kc_shape k"
  "kc_shape (k\<lparr>kc_next_cap_id := x\<rparr>) = kc_shape k"
  "kc_shape (k\<lparr>kc_next_endpoint_id := x\<rparr>) = kc_shape k"
  "kc_shape (k\<lparr>kc_endpoints := eps\<rparr>) = kc_shape k"
  "kc_shape (k\<lparr>kc_total_ipc_count := x\<rparr>) = kc_shape k"
  by (simp_all add: kc_shape_def kc_pids_def kc_map_defs dom_modify del: bt_get_modify)

lemma kc_insert_cap_shape [simp]: "kc_shape (snd (kc_insert_cap k p c ts)) = kc_shape k"
  by (simp add: kc_insert_cap_def Let_def split: option.split)

lemma insert_cap_shape: "kc_insert_cap k p c ts = (r, k') \<Longrightarrow> kc_shape k' = kc_shape k"
  using kc_insert_cap_shape [of k p c ts] by simp

lemma create_endpoint_shape: "kc_shape (op_state (kc_create_endpoint k p ts)) = kc_shape k"
  by (auto simp: kc_create_endpoint_def kc_grant_owner_endpoint_cap_def kc_alloc_cap_id_def Let_def
      dest: insert_cap_shape split: prod.split sum.split)

lemma derived_shape: "kc_create_derived_cap k p c q ts = (r, k') \<Longrightarrow> kc_shape k' = kc_shape k"
  by (auto simp: kc_create_derived_cap_def kc_alloc_cap_id_def Let_def dest: insert_cap_shape)

lemma grant_shape: "kc_shape (op_state (kc_grant_capability k p s q perms ts)) = kc_shape k"
  by (auto simp: kc_grant_capability_def Let_def dest: derived_shape split: prod.split sum.split)

lemma derive_shape: "kc_shape (op_state (kc_derive_capability k p s perms ts)) = kc_shape k"
  by (auto simp: kc_derive_capability_def Let_def dest: derived_shape split: prod.split sum.split)

lemma remove_shape:
  "kc_shape (op_state (kc_revoke_capability k p s ts)) = kc_shape k"
  "kc_shape (op_state (kc_delete_capability k p s ts)) = kc_shape k"
  by (simp_all add: kc_revoke_capability_def kc_delete_capability_def Let_def
      split: sum.split option.split)

lemma update_send_metrics_shape [simp]: "kc_shape (kc_update_send_metrics k p eid n ts) = kc_shape k"
  by (simp add: kc_update_send_metrics_def Let_def)

lemma queue_message_shape: "kc_queue_message k eid m = (r, k') \<Longrightarrow> kc_shape k' = kc_shape k"
  by (auto simp: kc_queue_message_def split: option.splits)

lemma send_shape: "kc_shape (op_state (kc_ipc_send k p s t d ts)) = kc_shape k"
  by (auto simp: kc_ipc_send_def Let_def dest: queue_message_shape split: prod.split sum.split)

lemma receive_shape: "kc_shape (snd (kc_ipc_receive k p s ts)) = kc_shape k"
  by (simp add: kc_ipc_receive_def Let_def split: sum.split option.split)

lemma transfer_shape:
  "kc_remove_and_transfer_caps k p slots ts = (r, k') \<Longrightarrow> kc_shape k' = kc_shape k"
  by (auto simp: kc_remove_and_transfer_caps_def case_prod_unfold Let_def split: option.splits)

lemma send_with_caps_shape: "kc_shape (op_state (kc_ipc_send_with_caps k p s t d slots ts)) = kc_shape k"
  by (auto simp: kc_ipc_send_with_caps_def Let_def dest!: queue_message_shape transfer_shape
      split: prod.split sum.split)

lemmas core_shape = create_endpoint_shape grant_shape derive_shape remove_shape send_shape receive_shape
  send_with_caps_shape

lemma dispatch_shape:
  "\<nexists>q. sc = Kill q \<Longrightarrow> kc_shape (op_state (handle_dispatch k p sc ts)) = kc_shape k"
  by (cases sc) (simp_all add: core_shape)

lemma kc_update_syscall_metrics_frame [simp]:
  "kc_shape (kc_update_syscall_metrics k p ts) = kc_shape k"
  "kc_cap_spaces (kc_update_syscall_metrics k p ts) = kc_cap_spaces k"
  "kc_endpoints (kc_update_syscall_metrics k p ts) = kc_endpoints k"
  by (simp_all add: kc_update_syscall_metrics_def)

lemma kill_pids:
  "kc_pids (op_state (kc_kill_process_with_cap_check k p q ts)) =
     (if q \<in> kc_pids k \<and> (pid_raw p = 1 \<or> kc_has_kill_permission k p q)
      then kc_pids k - {q} else kc_pids k)"
  by (auto simp: kc_kill_process_with_cap_check_def case_prod_unfold op_state_def kc_kill_process_eq
      kc_pids_def bt_contains_dom)

lemma kill_permission_held:
  "kc_has_kill_permission k p q \<Longrightarrow>
     \<exists>cs slot c. bt_get (kc_cap_spaces k) p = Some cs \<and> (slot, c) \<in> set (cs_slots cs)
        \<and> cap_object_type c = ObjProcess \<and> cap_object_id c = pid_raw q
        \<and> perm_write (cap_permissions c)"
  by (force simp: kc_has_kill_permission_def list_ex_iff split: option.splits)

lemma remove_endpoints_commits:
  "distinct eids \<Longrightarrow> set eids \<subseteq> dom (bt_get (kc_endpoints k)) \<Longrightarrow>
     map cm_commit_type (fst (kc_remove_endpoints k eids ts))
       = map (\<lambda>eid. EndpointDestroyed (eid_raw eid)) eids"
proof (induction eids arbitrary: k)
  case (Cons eid eids)
  then have "set eids \<subseteq> dom (bt_get (bt_remove eid (kc_endpoints k)))"
    by auto
  with Cons.IH [of "k\<lparr>kc_endpoints := bt_remove eid (kc_endpoints k)\<rparr>"] Cons.prems show ?case
    by (auto simp: Let_def case_prod_unfold bt_contains_dom kc_commit_def)
qed simp

lemma bt_get_filter_owned:
  assumes "bt_wf eps"
  shows "bt_get (filter (\<lambda>e. fst e \<notin> owned_by pid eps) eps) eid =
    (case bt_get eps eid of None \<Rightarrow> None | Some e \<Rightarrow> if ep_owner e = pid then None else Some e)"
proof -
  have filt: "bt_get (filter (\<lambda>e. P (fst e)) m) x = (if P x then bt_get m x else None)" for P m x
    by (induction m) auto
  have "eid \<in> owned_by pid eps \<longleftrightarrow> (\<exists>e. bt_get eps eid = Some e \<and> ep_owner e = pid)"
    using assms by (auto simp: owned_by_def bt_in_set_iff)
  then show ?thesis
    by (subst filt [of "\<lambda>x. x \<notin> owned_by pid eps"]) (auto split: option.split)
qed

section \<open>Properties\<close>


definition example_core :: kernel_core where
  "example_core =
     kc_new\<lparr>kc_processes :=
              [(ProcessId 1, \<lparr>proc_pid = ProcessId 1, proc_name = ''init'', proc_state = Running,
                              proc_metrics = process_metrics_default\<rparr>),
               (ProcessId 2, \<lparr>proc_pid = ProcessId 2, proc_name = ''app'', proc_state = Running,
                              proc_metrics = process_metrics_default\<rparr>)],
            kc_cap_spaces := [(ProcessId 1, cs_new), (ProcessId 2, cs_new)],
            kc_next_pid := 3\<rparr>"


text \<open>
  C18. Only authority ends a process: if a process is gone from the table after a system call,
  the call was \<^verbatim>\<open>Kill\<close> of that process, made by Init or by a caller that held a capability
  to that process with the write right.
\<close>

theorem processes_end_by_authority:
  assumes "handle_syscall k p sc ts = (r, commits, k')"
    and "bt_get (kc_processes k) q \<noteq> None" "bt_get (kc_processes k') q = None"
  shows "sc = Kill q \<and> (p = ProcessId 1 \<or>
    (\<exists>cs slot c. bt_get (kc_cap_spaces k) p = Some cs \<and> (slot, c) \<in> set (cs_slots cs)
       \<and> cap_object_type c = ObjProcess \<and> cap_object_id c = pid_raw q
       \<and> perm_write (cap_permissions c)))"
proof -
  let ?k = "kc_update_syscall_metrics k p ts"
  have k': "k' = op_state (handle_dispatch ?k p sc ts)"
    using assms(1) by (simp add: handle_syscall_def)
  have shape: "kc_pids ?k = kc_pids k"
    by (rule kc_shape_pids) simp
  have q: "q \<in> kc_pids ?k" "q \<notin> kc_pids k'"
    using assms(2,3) by (auto simp: shape kc_pids_def [of k] kc_pids_def [of k'])
  then obtain q' where kill: "sc = Kill q'"
    using kc_shape_pids [OF dispatch_shape [of sc ?k p ts]] k' by auto
  with q k' have "q' = q" "pid_raw p = 1 \<or> kc_has_kill_permission ?k p q"
    by (auto simp: kill_pids split: if_splits)
  then show ?thesis
    using kill kill_permission_held [of ?k p q] by (cases p) auto
qed

theorem processes_end_by_authority_witness:
  "Kill (ProcessId 2) = Kill (ProcessId 2) \<and> (ProcessId 1 = ProcessId 1 \<or>
    (\<exists>cs slot c. bt_get (kc_cap_spaces example_core) (ProcessId 1) = Some cs
       \<and> (slot, c) \<in> set (cs_slots cs)
       \<and> cap_object_type c = ObjProcess \<and> cap_object_id c = pid_raw (ProcessId 2)
       \<and> perm_write (cap_permissions c)))"
proof (rule processes_end_by_authority)
  let ?r = "handle_syscall example_core (ProcessId 1) (Kill (ProcessId 2)) 5"
  show "?r = (fst ?r, fst (snd ?r), snd (snd ?r))"
    by simp
  show "bt_get (kc_processes example_core) (ProcessId 2) \<noteq> None"
    "bt_get (kc_processes (snd (snd ?r))) (ProcessId 2) = None"
    by code_simp+
qed

text \<open>
  C27. A kill cleans up and touches nothing else: after an authorised kill the process, its
  capability space and the endpoints it owned are gone, every other process, space and endpoint
  is as it was, and the exit and each destroyed endpoint are in the commits.
\<close>

theorem kill_cleans_up:
  assumes "bt_wf (kc_endpoints k)" "bt_get (kc_processes k) q \<noteq> None"
    and "kc_kill_process k q ts = (commits, k')"
  shows "bt_get (kc_processes k') = (bt_get (kc_processes k))(q := None)
    \<and> bt_get (kc_cap_spaces k') = (bt_get (kc_cap_spaces k))(q := None)
    \<and> (\<forall>eid. bt_get (kc_endpoints k') eid =
         (case bt_get (kc_endpoints k) eid of
            None \<Rightarrow> None | Some e \<Rightarrow> if ep_owner e = q then None else Some e))
    \<and> map cm_commit_type commits = ProcessExited (pid_raw q) (- 1) #
        map (\<lambda>e. EndpointDestroyed (eid_raw (fst e))) (filter (\<lambda>e. ep_owner (snd e) = q) (kc_endpoints k))"
proof -
  let ?owned = "map fst (filter (\<lambda>(_, e). ep_owner e = q) (kc_endpoints k))"
  have "distinct ?owned"
    using bt_wf_distinct [OF assms(1)] by (rule distinct_map_filter)
  moreover have "set ?owned \<subseteq> dom (bt_get (kc_endpoints k))"
    using assms(1) by (auto simp: bt_in_set_iff)
  ultimately have "map cm_commit_type (fst (kc_cleanup_process_endpoints
      (k\<lparr>kc_processes := ps, kc_cap_spaces := css\<rparr>) q ts))
      = map (\<lambda>e. EndpointDestroyed (eid_raw (fst e))) (filter (\<lambda>e. ep_owner (snd e) = q) (kc_endpoints k))"
    for ps css
    by (simp add: kc_cleanup_process_endpoints_def remove_endpoints_commits comp_def case_prod_unfold)
  then have "map cm_commit_type commits = ProcessExited (pid_raw q) (- 1) #
      map (\<lambda>e. EndpointDestroyed (eid_raw (fst e))) (filter (\<lambda>e. ep_owner (snd e) = q) (kc_endpoints k))"
    using assms(2,3) by (auto simp: kc_kill_process_def Let_def case_prod_unfold bt_contains_def kc_commit_def)
  moreover have "k' = snd (kc_kill_process k q ts)"
    using assms(3) by simp
  ultimately show ?thesis
    by (simp add: kc_kill_process_eq bt_get_filter_owned [OF assms(1)] fun_eq_iff)
qed

theorem kill_cleans_up_witness:
  "\<exists>k'. snd (kc_kill_process example_core (ProcessId 2) 5) = k'
     \<and> bt_get (kc_processes k') = (bt_get (kc_processes example_core))(ProcessId 2 := None)
     \<and> bt_get (kc_cap_spaces k') = (bt_get (kc_cap_spaces example_core))(ProcessId 2 := None)"
proof -
  have "bt_wf (kc_endpoints example_core)" "bt_get (kc_processes example_core) (ProcessId 2) \<noteq> None"
    by (simp_all add: example_core_def kc_new_def)
  from kill_cleans_up [OF this prod.collapse [symmetric]] show ?thesis
    by blast
qed

end
