(* ===== verification/Core_Replay.thy ===== *)
theory Core_Replay
  imports Core_Authority
begin

text \<open>
  Deterministic replay, \<^verbatim>\<open>zos-kernel/src/replay.rs\<close>: the \<^verbatim>\<open>Replayable\<close> implementation of the
  runtime kernel (prefix \<open>rk_\<close>; the source goes through \<^verbatim>\<open>self.kernel\<close> only) and its state hash.
  The abstract specification is \<open>durable\<close>, the part of the state the commit log determines,
  with one transition per kind of commit; the replay and the live kernel both refine it.
\<close>

section \<open>The operations\<close>

definition rk_genesis :: "kernel_core \<Rightarrow> kernel_core replay_result" where
  "rk_genesis k = (Inr (), k)"

definition rk_create_process :: "kernel_core \<Rightarrow> u64 \<Rightarrow> u64 \<Rightarrow> string \<Rightarrow> kernel_core replay_result" where
  "rk_create_process k pid parent name =
     (let p = \<lparr>proc_pid = ProcessId pid, proc_name = name, proc_state = Running,
               proc_metrics = process_metrics_default\<rparr>;
          k = k\<lparr>kc_processes := bt_insert (ProcessId pid) p (kc_processes k)\<rparr>;
          k = k\<lparr>kc_cap_spaces := bt_insert (ProcessId pid) cs_new (kc_cap_spaces k)\<rparr>;
          k = (if pid \<ge> kc_next_pid k then k\<lparr>kc_next_pid := pid + 1\<rparr> else k)
      in (Inr (), k))"

definition rk_exit_process :: "kernel_core \<Rightarrow> u64 \<Rightarrow> i32 \<Rightarrow> kernel_core replay_result" where
  "rk_exit_process k pid code =
     (case bt_get (kc_processes k) (ProcessId pid) of
        None \<Rightarrow> (Inl (ReplayProcessNotFound pid), k)
      | Some _ \<Rightarrow> (Inr (), kc_map_process (ProcessId pid) (\<lambda>p. p\<lparr>proc_state := Zombie\<rparr>) k))"

definition rk_process_faulted ::
  "kernel_core \<Rightarrow> u64 \<Rightarrow> u32 \<Rightarrow> string \<Rightarrow> kernel_core replay_result" where
  "rk_process_faulted k pid reason description =
     (case bt_get (kc_processes k) (ProcessId pid) of
        None \<Rightarrow> (Inl (ReplayProcessNotFound pid), k)
      | Some _ \<Rightarrow> (Inr (), kc_map_process (ProcessId pid) (\<lambda>p. p\<lparr>proc_state := Zombie\<rparr>) k))"

definition map_object_type :: "u8 \<Rightarrow> replay_error + object_type" where
  "map_object_type v =
     (if v = 1 then Inr ObjEndpoint
      else if v = 2 then Inr ObjProcess
      else if v = 3 then Inr ObjMemory
      else if v = 4 then Inr ObjIrq
      else if v = 5 then Inr ObjIoPort
      else if v = 6 then Inr ObjConsole
      else Inl (UnknownObjectType v))"

definition rk_insert_capability ::
  "kernel_core \<Rightarrow> u64 \<Rightarrow> u32 \<Rightarrow> u64 \<Rightarrow> u8 \<Rightarrow> u64 \<Rightarrow> u8 \<Rightarrow> kernel_core replay_result" where
  "rk_insert_capability k pid slot cid ot oid perms =
     (case map_object_type ot of
        Inl e \<Rightarrow> (Inl e, k)
      | Inr obj_type \<Rightarrow>
          let c = \<lparr>cap_id = cid, cap_object_type = obj_type, cap_object_id = oid,
                   cap_permissions = perms_from_byte perms, cap_generation = 0, cap_expires_at = 0\<rparr>
          in (case bt_get (kc_cap_spaces k) (ProcessId pid) of
                None \<Rightarrow> (Inl (ReplayProcessNotFound pid), k)
              | Some _ \<Rightarrow>
                  let k = kc_map_cap_space (ProcessId pid)
                            (\<lambda>cs. let cs = cs\<lparr>cs_slots := bt_insert slot c (cs_slots cs)\<rparr>
                                  in if slot \<ge> cs_next_slot cs then cs\<lparr>cs_next_slot := slot + 1\<rparr>
                                     else cs) k;
                      k = (if cid \<ge> kc_next_cap_id k then k\<lparr>kc_next_cap_id := cid + 1\<rparr> else k)
                  in (Inr (), k)))"

definition rk_remove_capability :: "kernel_core \<Rightarrow> u64 \<Rightarrow> u32 \<Rightarrow> kernel_core replay_result" where
  "rk_remove_capability k pid slot =
     (case bt_get (kc_cap_spaces k) (ProcessId pid) of
        None \<Rightarrow> (Inl (ReplayProcessNotFound pid), k)
      | Some _ \<Rightarrow> (Inr (), kc_map_cap_space (ProcessId pid)
                            (\<lambda>cs. cs\<lparr>cs_slots := bt_remove slot (cs_slots cs)\<rparr>) k))"

definition rk_cap_granted ::
  "kernel_core \<Rightarrow> u64 \<Rightarrow> u64 \<Rightarrow> u32 \<Rightarrow> u32 \<Rightarrow> u64 \<Rightarrow> permissions \<Rightarrow> kernel_core replay_result" where
  "rk_cap_granted k from_pid to_pid from_slot to_slot new_cap_id perms =
     (Inr (), if new_cap_id \<ge> kc_next_cap_id k then k\<lparr>kc_next_cap_id := new_cap_id + 1\<rparr> else k)"

definition rk_create_endpoint :: "kernel_core \<Rightarrow> u64 \<Rightarrow> u64 \<Rightarrow> kernel_core replay_result" where
  "rk_create_endpoint k eid owner =
     (if \<not> bt_contains (kc_processes k) (ProcessId owner)
      then (Inl (ReplayProcessNotFound owner), k)
      else
        let e = endpoint_new (EndpointId eid) (ProcessId owner);
            k = k\<lparr>kc_endpoints := bt_insert (EndpointId eid) e (kc_endpoints k)\<rparr>;
            k = (if eid \<ge> kc_next_endpoint_id k then k\<lparr>kc_next_endpoint_id := eid + 1\<rparr> else k)
        in (Inr (), k))"

definition rk_destroy_endpoint :: "kernel_core \<Rightarrow> u64 \<Rightarrow> kernel_core replay_result" where
  "rk_destroy_endpoint k eid =
     (Inr (), k\<lparr>kc_endpoints := bt_remove (EndpointId eid) (kc_endpoints k)\<rparr>)"

definition rk_message_sent ::
  "kernel_core \<Rightarrow> u64 \<Rightarrow> u64 \<Rightarrow> u32 \<Rightarrow> usize \<Rightarrow> kernel_core replay_result" where
  "rk_message_sent k from_pid to_endpoint tag sz = (Inr (), k)"

fun process_state_to_u8 :: "process_state \<Rightarrow> u8" where
  "process_state_to_u8 Running = 0"
| "process_state_to_u8 Blocked = 1"
| "process_state_to_u8 Zombie = 2"

text \<open>The three loops of \<^verbatim>\<open>state_hash\<close>.\<close>

definition hash_processes :: "state_hasher \<Rightarrow> (process_id, process) btree_map \<Rightarrow> state_hasher" where
  "hash_processes h ps =
     foldl (\<lambda>h (pid, p). let h = sh_write_u64 h (pid_raw pid);
                             h = sh_write_str h (proc_name p)
                         in sh_write_u8 h (process_state_to_u8 (proc_state p)))
       (sh_write_u64 h (word_of_nat (length ps))) ps"

definition hash_slots :: "state_hasher \<Rightarrow> (u32, capability) btree_map \<Rightarrow> state_hasher" where
  "hash_slots h slots =
     foldl (\<lambda>h (slot, c). let h = sh_write_u32 h slot;
                              h = sh_write_u64 h (cap_id c);
                              h = sh_write_u8 h (object_type_as_u8 (cap_object_type c));
                              h = sh_write_u64 h (cap_object_id c);
                              h = sh_write_u8 h (perms_to_byte (cap_permissions c));
                              h = sh_write_u32 h (cap_generation c)
                          in sh_write_u64 h (cap_expires_at c))
       (sh_write_u64 h (word_of_nat (length slots))) slots"

definition hash_cap_spaces ::
  "state_hasher \<Rightarrow> (process_id, capability_space) btree_map \<Rightarrow> state_hasher" where
  "hash_cap_spaces h css =
     foldl (\<lambda>h (pid, cs). hash_slots (sh_write_u64 h (pid_raw pid)) (cs_slots cs))
       (sh_write_u64 h (word_of_nat (length css))) css"

definition hash_endpoints :: "state_hasher \<Rightarrow> (endpoint_id, core_endpoint) btree_map \<Rightarrow> state_hasher" where
  "hash_endpoints h eps =
     foldl (\<lambda>h (eid, e). sh_write_u64 (sh_write_u64 h (eid_raw eid)) (pid_raw (ep_owner e)))
       (sh_write_u64 h (word_of_nat (length eps))) eps"

definition rk_state_hash :: "kernel_core \<Rightarrow> u8 list" where
  "rk_state_hash k =
     (let h = sh_new;
          h = hash_processes h (kc_processes k);
          h = hash_cap_spaces h (kc_cap_spaces k);
          h = hash_endpoints h (kc_endpoints k)
      in sh_finalize h)"

definition core_replayable :: "kernel_core replayable" where
  "core_replayable =
     \<lparr>rp_genesis = rk_genesis, rp_create_process = rk_create_process,
      rp_exit_process = rk_exit_process, rp_process_faulted = rk_process_faulted,
      rp_insert_capability = rk_insert_capability, rp_remove_capability = rk_remove_capability,
      rp_cap_granted = rk_cap_granted, rp_create_endpoint = rk_create_endpoint,
      rp_destroy_endpoint = rk_destroy_endpoint, rp_message_sent = rk_message_sent,
      rp_state_hash = rk_state_hash\<rparr>"

section \<open>The durable state and its commit semantics\<close>

record durable =
  du_processes :: "(process_id, string \<times> process_state) btree_map"
  du_caps :: "(process_id, (u32, capability) btree_map) btree_map"
  du_endpoints :: "(endpoint_id, process_id) btree_map"

definition proc_view :: "process \<Rightarrow> string \<times> process_state" where
  "proc_view p = (proc_name p, proc_state p)"

definition durable_of :: "kernel_core \<Rightarrow> durable" where
  "durable_of k =
     \<lparr>du_processes = bt_map proc_view (kc_processes k),
      du_caps = bt_map cs_slots (kc_cap_spaces k),
      du_endpoints = bt_map ep_owner (kc_endpoints k)\<rparr>"

definition du_zombie :: "durable \<Rightarrow> u64 \<Rightarrow> durable option" where
  "du_zombie d pid =
     (if bt_contains (du_processes d) (ProcessId pid)
      then Some (d\<lparr>du_processes :=
             bt_modify (ProcessId pid) (\<lambda>(name, _). (name, Zombie)) (du_processes d)\<rparr>)
      else None)"

fun du_apply :: "durable \<Rightarrow> commit_type \<Rightarrow> durable option" where
  "du_apply d Genesis = Some d"
| "du_apply d (ProcessCreated pid _ name) =
     Some (d\<lparr>du_processes := bt_insert (ProcessId pid) (name, Running) (du_processes d),
             du_caps := bt_insert (ProcessId pid) [] (du_caps d)\<rparr>)"
| "du_apply d (ProcessExited pid _) = du_zombie d pid"
| "du_apply d (ProcessFaulted pid _ _) = du_zombie d pid"
| "du_apply d (CapInserted pid slot cid ot oid perms) =
     (case object_type_from_u8 ot of
        Some t \<Rightarrow>
          if bt_contains (du_caps d) (ProcessId pid)
          then Some (d\<lparr>du_caps := bt_modify (ProcessId pid) (bt_insert slot
                 \<lparr>cap_id = cid, cap_object_type = t, cap_object_id = oid,
                  cap_permissions = perms_from_byte perms, cap_generation = 0,
                  cap_expires_at = 0\<rparr>) (du_caps d)\<rparr>)
          else None
      | None \<Rightarrow> None)"
| "du_apply d (CapRemoved pid slot) =
     (if bt_contains (du_caps d) (ProcessId pid)
      then Some (d\<lparr>du_caps := bt_modify (ProcessId pid) (bt_remove slot) (du_caps d)\<rparr>) else None)"
| "du_apply d (CapGranted _ _ _ _ _ _) = Some d"
| "du_apply d (EndpointCreated eid owner) =
     (if bt_contains (du_processes d) (ProcessId owner)
      then Some (d\<lparr>du_endpoints := bt_insert (EndpointId eid) (ProcessId owner) (du_endpoints d)\<rparr>)
      else None)"
| "du_apply d (EndpointDestroyed eid) =
     Some (d\<lparr>du_endpoints := bt_remove (EndpointId eid) (du_endpoints d)\<rparr>)"
| "du_apply d (MessageSent _ _ _ _) = Some d"

fun du_run :: "durable \<Rightarrow> commit_type list \<Rightarrow> durable option" where
  "du_run d [] = Some d"
| "du_run d (ct # cts) = (case du_apply d ct of None \<Rightarrow> None | Some d' \<Rightarrow> du_run d' cts)"

lemma du_run_append [simp]:
  "du_run d (xs @ ys) = (case du_run d xs of None \<Rightarrow> None | Some d' \<Rightarrow> du_run d' ys)"
  by (induction xs arbitrary: d) (auto split: option.split)

section \<open>Replay refines the commit semantics\<close>

lemma bt_contains_map [simp]: "bt_contains (bt_map f m) k = bt_contains m k"
  by (simp add: bt_contains_def)

lemma bt_map_modify_commute:
  "(\<And>v. f (g v) = h (f v)) \<Longrightarrow> bt_map f (bt_modify k g m) = bt_modify k h (bt_map f m)"
  by (simp add: bt_map_def bt_modify_def)

lemma map_object_type_eq:
  "map_object_type v =
     (case object_type_from_u8 v of None \<Rightarrow> Inl (UnknownObjectType v) | Some t \<Rightarrow> Inr t)"
  by (simp add: map_object_type_def object_type_from_u8_def)

lemmas rk_defs =
  rk_genesis_def rk_create_process_def rk_exit_process_def rk_process_faulted_def
  rk_insert_capability_def rk_remove_capability_def rk_cap_granted_def rk_create_endpoint_def
  rk_destroy_endpoint_def rk_message_sent_def

lemmas durable_defs = durable_of_def kc_map_process_def kc_map_cap_space_def kc_map_endpoint_def

lemma proc_view_zombie:
  "bt_map proc_view (bt_modify pid (proc_state_update (\<lambda>_. Zombie)) m)
     = bt_modify pid (\<lambda>(name, _). (name, Zombie)) (bt_map proc_view m)"
  by (rule bt_map_modify_commute) (simp add: proc_view_def)

lemma bt_contains_cases: "bt_contains m k \<longleftrightarrow> (\<exists>v. bt_get m k = Some v)"
  by (auto simp: bt_contains_def)

text \<open>
  A commit that the abstract transition accepts is applied without error, and the durable state
  of the result is the abstract one; a commit it rejects is an error.
\<close>

lemma replay_refines:
  "case apply_commit_type core_replayable k ct of
     (Inr _, k') \<Rightarrow> du_apply (durable_of k) ct = Some (durable_of k')
   | (Inl _, k') \<Rightarrow> du_apply (durable_of k) ct = None \<and> k' = k"
  by (cases ct)
    (simp_all add: core_replayable_def rk_defs durable_defs du_zombie_def map_object_type_eq Let_def
       bt_contains_cases bt_map_insert bt_map_remove bt_map_modify_commute cs_new_def
       proc_view_zombie proc_view_def
       split: option.split)

lemma replay_types_refines:
  "du_run (durable_of k) cts = Some d \<Longrightarrow>
     \<exists>k'. replay_types core_replayable k cts = (Inr (), k') \<and> durable_of k' = d"
proof (induction cts arbitrary: k)
  case (Cons ct cts)
  obtain r k1 where r: "apply_commit_type core_replayable k ct = (r, k1)"
    by fastforce
  then show ?case
    using Cons.IH [of k1] Cons.prems replay_refines [of k ct]
    by (auto split: sum.splits option.splits)
qed simp

section \<open>The live kernel refines the commit semantics\<close>

text \<open>\<open>emits k cs k'\<close>: the commits say exactly how the durable state changed.\<close>

definition emits :: "kernel_core \<Rightarrow> commit list \<Rightarrow> kernel_core \<Rightarrow> bool" where
  "emits k cs k' \<longleftrightarrow> du_run (durable_of k) (map cm_commit_type cs) = Some (durable_of k')"

lemma emits_same: "durable_of k' = durable_of k \<Longrightarrow> emits k [] k'"
  by (simp add: emits_def)

lemma emits_refl [simp]: "emits k [] k"
  by (simp add: emits_same)

lemma emits_append: "emits k cs k1 \<Longrightarrow> emits k1 ds k2 \<Longrightarrow> emits k (cs @ ds) k2"
  by (simp add: emits_def)

lemma emits_Cons: "emits k [c] k1 \<Longrightarrow> emits k1 ds k2 \<Longrightarrow> emits k (c # ds) k2"
  using emits_append [of k "[c]"] by simp

lemma emits_cong:
  "durable_of k1 = durable_of k \<Longrightarrow> durable_of k1' = durable_of k' \<Longrightarrow> emits k1 cs k1' = emits k cs k'"
  by (simp add: emits_def)

lemma durable_upd [simp]:
  "durable_of (k\<lparr>kc_next_cap_id := x\<rparr>) = durable_of k"
  "durable_of (k\<lparr>kc_next_pid := x\<rparr>) = durable_of k"
  "durable_of (k\<lparr>kc_next_endpoint_id := x\<rparr>) = durable_of k"
  "durable_of (k\<lparr>kc_total_ipc_count := x\<rparr>) = durable_of k"
  by (simp_all add: durable_of_def)

lemma durable_map_process:
  "(\<And>p. proc_view (f p) = proc_view p) \<Longrightarrow> durable_of (kc_map_process pid f k) = durable_of k"
  by (simp add: durable_defs bt_map_modify_invisible)

lemma durable_map_endpoint:
  "(\<And>e. ep_owner (f e) = ep_owner e) \<Longrightarrow> durable_of (kc_map_endpoint eid f k) = durable_of k"
  by (simp add: durable_defs bt_map_modify_invisible)

lemma metrics_invisible [simp]:
  "proc_view (count_sender n ts p) = proc_view p"
  "proc_view (count_receiver n ts p) = proc_view p"
  "proc_view (bump_syscall_metrics ts p) = proc_view p"
  "ep_owner (count_sent n e) = ep_owner e"
  "ep_owner (snd (core_dequeue e)) = ep_owner e"
  by (simp_all add: proc_view_def count_sender_def count_receiver_def bump_syscall_metrics_def
      count_sent_def core_dequeue_def Let_def split: list.split)

subsection \<open>Capability insertion and removal\<close>

definition plain_cap :: "capability \<Rightarrow> bool" where
  "plain_cap c \<longleftrightarrow> cap_generation c = 0 \<and> cap_expires_at c = 0"

lemma plain_cap_rebuilt:
  "plain_cap c \<Longrightarrow> \<lparr>cap_id = cap_id c, cap_object_type = cap_object_type c,
     cap_object_id = cap_object_id c, cap_permissions = cap_permissions c,
     cap_generation = 0, cap_expires_at = 0\<rparr> = c"
  by (simp add: plain_cap_def)

definition kc_aligned :: "kernel_core \<Rightarrow> bool" where
  "kc_aligned k \<longleftrightarrow> bt_wf (kc_cap_spaces k) \<and> set (map fst (kc_cap_spaces k)) = kc_pids k"

lemma kc_aligned_shape: "kc_shape k' = kc_shape k \<Longrightarrow> kc_aligned k' = kc_aligned k"
  by (simp add: kc_aligned_def kc_shape_def bt_wf_def)

lemma emits_set_space:
  assumes "bt_wf (kc_cap_spaces k)" "bt_get (kc_cap_spaces k) pid = Some cs"
    and "cs_slots cs' = bt_insert slot c (cs_slots cs)" "plain_cap c"
  shows "emits k [cap_inserted_commit ts pid slot c] (kc_map_cap_space pid (\<lambda>_. cs') k)"
proof -
  have "bt_map cs_slots (bt_modify pid (\<lambda>_. cs') (kc_cap_spaces k))
      = bt_modify pid (bt_insert slot c) (bt_map cs_slots (kc_cap_spaces k))"
    using assms by (intro bt_map_modify) (auto simp: bt_wf_distinct)
  then show ?thesis
    using assms(2) plain_cap_rebuilt [OF assms(4)]
    by (simp add: emits_def cap_inserted_commit_def kc_commit_def durable_defs bt_contains_def)
qed

lemma emits_unset_space:
  assumes "bt_wf (kc_cap_spaces k)" "bt_get (kc_cap_spaces k) pid = Some cs"
    and "cs_slots cs' = bt_remove slot (cs_slots cs)"
  shows "emits k [kc_commit ts (CapRemoved (pid_raw pid) slot)] (kc_map_cap_space pid (\<lambda>_. cs') k)"
proof -
  have "bt_map cs_slots (bt_modify pid (\<lambda>_. cs') (kc_cap_spaces k))
      = bt_modify pid (bt_remove slot) (bt_map cs_slots (kc_cap_spaces k))"
    using assms by (intro bt_map_modify) (auto simp: bt_wf_distinct)
  then show ?thesis
    using assms(2) by (simp add: emits_def kc_commit_def durable_defs bt_contains_def)
qed

lemma kc_map_cap_space_const:
  assumes "bt_wf (kc_cap_spaces k)" "bt_get (kc_cap_spaces k) pid = Some cs"
  shows "kc_map_cap_space pid f k = kc_map_cap_space pid (\<lambda>_. f cs) k"
  using assms unfolding kc_map_cap_space_def bt_modify_def
  by (auto simp: bt_in_set_iff intro!: arg_cong [where f = "\<lambda>x. k\<lparr>kc_cap_spaces := x\<rparr>"])

lemma kc_map_cap_space_id:
  assumes "bt_wf (kc_cap_spaces k)" "bt_get (kc_cap_spaces k) pid = Some cs"
  shows "kc_map_cap_space pid (\<lambda>_. cs) k = k"
proof -
  have "bt_modify pid (\<lambda>_. cs) (kc_cap_spaces k) = kc_cap_spaces k"
    using assms by (intro bt_modify_same) auto
  then show ?thesis
    by (simp add: kc_map_cap_space_def)
qed

lemma kc_map_cap_space_twice [simp]:
  "kc_map_cap_space pid (\<lambda>_. a) (kc_map_cap_space pid (\<lambda>_. b) k) = kc_map_cap_space pid (\<lambda>_. a) k"
  by (simp add: kc_map_cap_space_def bt_modify_def)

lemma kc_map_cap_space_sel [simp]:
  "kc_cap_spaces (kc_map_cap_space pid f k) = bt_modify pid f (kc_cap_spaces k)"
  "kc_processes (kc_map_cap_space pid f k) = kc_processes k"
  "kc_endpoints (kc_map_cap_space pid f k) = kc_endpoints k"
  by (simp_all add: kc_map_cap_space_def)

lemma insert_cap_emits:
  assumes "bt_wf (kc_cap_spaces k)" "plain_cap c" "kc_insert_cap k pid c ts = (Inr (slot, cs), k')"
  shows "emits k cs k'"
proof -
  obtain sp where sp: "bt_get (kc_cap_spaces k) pid = Some sp"
    using assms(3) by (auto simp: kc_insert_cap_def split: option.splits)
  then have "cs = [cap_inserted_commit ts pid (cs_next_slot sp) c]"
    "k' = kc_map_cap_space pid (\<lambda>_. snd (cs_insert sp c)) k"
    using assms(3) kc_map_cap_space_const [OF assms(1) sp]
    by (auto simp: kc_insert_cap_def Let_def)
  then show ?thesis
    using emits_set_space [OF assms(1) sp _ assms(2)] by (simp add: cs_insert_def Let_def)
qed

lemma insert_cap_fails: "kc_insert_cap k pid c ts = (Inl e, k') \<Longrightarrow> k' = k \<and> bt_get (kc_cap_spaces k) pid = None"
  by (auto simp: kc_insert_cap_def Let_def split: option.splits)

lemma install_caps_emits:
  assumes "bt_wf (kc_cap_spaces k)" "bt_get (kc_cap_spaces k) pid = Some cs"
    and "\<And>t. t \<in> set tcaps \<Longrightarrow> plain_cap (ct_capability t)"
  shows "emits k (fst (snd (install_caps cs pid tcaps ts)))
    (kc_map_cap_space pid (\<lambda>_. snd (snd (install_caps cs pid tcaps ts))) k)"
  using assms
proof (induction tcaps arbitrary: k cs)
  case (Cons t tcaps)
  let ?cs = "snd (cs_insert cs (ct_capability t))"
  let ?k = "kc_map_cap_space pid (\<lambda>_. ?cs) k"
  have "emits k [cap_inserted_commit ts pid (cs_next_slot cs) (ct_capability t)] ?k"
    using Cons.prems by (intro emits_set_space) (auto simp: cs_insert_def Let_def)
  moreover have "emits ?k (fst (snd (install_caps ?cs pid tcaps ts)))
      (kc_map_cap_space pid (\<lambda>_. snd (snd (install_caps ?cs pid tcaps ts))) ?k)"
    using Cons.prems by (intro Cons.IH) auto
  ultimately show ?case
    by (simp add: transfer_loops Let_def emits_Cons)
qed (simp add: kc_map_cap_space_id)

lemma remove_caps_emits:
  assumes "bt_wf (kc_cap_spaces k)" "bt_get (kc_cap_spaces k) pid = Some cs"
  shows "emits k (fst (snd (remove_caps cs pid slots ts)))
    (kc_map_cap_space pid (\<lambda>_. snd (snd (remove_caps cs pid slots ts))) k)"
  using assms
proof (induction slots arbitrary: k cs)
  case (Cons slot slots)
  let ?cs = "snd (cs_remove cs slot)"
  let ?k = "kc_map_cap_space pid (\<lambda>_. ?cs) k"
  have rest: "emits ?k (fst (snd (remove_caps ?cs pid slots ts)))
      (kc_map_cap_space pid (\<lambda>_. snd (snd (remove_caps ?cs pid slots ts))) ?k)"
    using Cons.prems by (intro Cons.IH) auto
  show ?case
  proof (cases "cs_get cs slot")
    case None
    then have "?cs = cs"
      by (simp add: cs_remove_def cs_get_def bt_remove_absent)
    then show ?thesis
      using None Cons by (simp add: transfer_loops Let_def)
  next
    case (Some c)
    have "emits k [kc_commit ts (CapRemoved (pid_raw pid) slot)] ?k"
      using Cons.prems by (intro emits_unset_space) (auto simp: cs_remove_def)
    with rest Some show ?thesis
      by (simp add: transfer_loops Let_def emits_Cons)
  qed
qed (simp add: kc_map_cap_space_id)

subsection \<open>Operations\<close>

definition core_inv :: "kernel_core \<Rightarrow> bool" where
  "core_inv k \<longleftrightarrow> kc_aligned k \<and> (\<forall>c \<in> kc_caps k. plain_cap c)"

definition op_emits :: "kernel_core \<Rightarrow> 'a \<times> commit list \<times> kernel_core \<Rightarrow> bool" where
  "op_emits k r \<longleftrightarrow> emits k (fst (snd r)) (snd (snd r))"

lemma op_emits_simps [simp]: "op_emits k (r, cs, k') = emits k cs k'"
  by (simp add: op_emits_def)

lemma aligned_wf: "kc_aligned k \<Longrightarrow> bt_wf (kc_cap_spaces k)"
  by (simp add: kc_aligned_def)

lemma aligned_space: "kc_aligned k \<Longrightarrow> bt_contains (kc_processes k) p \<Longrightarrow> bt_get (kc_cap_spaces k) p \<noteq> None"
  by (auto simp: kc_aligned_def kc_pids_def bt_contains_dom map_of_eq_None_iff dest!: map_of_SomeD)

lemma inv_plain: "core_inv k \<Longrightarrow> c \<in> kc_caps k \<Longrightarrow> plain_cap c"
  by (simp add: core_inv_def)

lemma inv_wf: "core_inv k \<Longrightarrow> bt_wf (kc_cap_spaces k)"
  by (simp add: core_inv_def aligned_wf)

lemma derived_emits:
  assumes "core_inv k" "source \<in> kc_caps k"
  shows "kc_create_derived_cap k pid source perms ts = (Inr (slot, cs), k') \<Longrightarrow> emits k cs k'"
    and "kc_create_derived_cap k pid source perms ts = (Inl e, k') \<Longrightarrow> emits k [] k'"
proof -
  have plain: "plain_cap source"
    using assms by (rule inv_plain)
  let ?k = "k\<lparr>kc_next_cap_id := kc_next_cap_id k + 1\<rparr>"
  have wf: "bt_wf (kc_cap_spaces ?k)"
    using inv_wf [OF assms(1)] by simp
  show "emits k cs k'" if r: "kc_create_derived_cap k pid source perms ts = (Inr (slot, cs), k')"
  proof -
    have "emits ?k cs k'"
      using r plain by (intro insert_cap_emits [OF wf])
        (auto simp: kc_create_derived_cap_def kc_alloc_cap_id_def Let_def plain_cap_def)
    then show ?thesis
      by (simp add: emits_def)
  qed
  show "emits k [] k'" if "kc_create_derived_cap k pid source perms ts = (Inl e, k')"
    using that by (auto simp: kc_create_derived_cap_def kc_alloc_cap_id_def Let_def
        intro!: emits_same dest!: insert_cap_fails)
qed

lemma kc_check_source:
  "kc_validate_grant_source k p s ts = Inr c \<Longrightarrow> c \<in> kc_caps k"
  "kc_validate_derive_source k p s ts = Inr c \<Longrightarrow> c \<in> kc_caps k"
  by (auto simp: kc_validate_grant_source_def kc_validate_derive_source_def dest: kc_check_mem)

lemma grant_noted: "emits k (kc_commit ts (CapGranted a b c d e f) # cs) k' = emits k cs k'"
  by (simp add: emits_def kc_commit_def)

lemma grant_emits: "core_inv k \<Longrightarrow> op_emits k (kc_grant_capability k p s q perms ts)"
  by (auto simp: kc_grant_capability_def Let_def grant_noted
      intro: derived_emits dest: kc_check_source split: sum.split prod.split)

lemma derive_emits: "core_inv k \<Longrightarrow> op_emits k (kc_derive_capability k p s perms ts)"
  by (auto simp: kc_derive_capability_def Let_def
      intro: derived_emits dest: kc_check_source split: sum.split prod.split)

lemma remove_slot_emits:
  assumes "bt_wf (kc_cap_spaces k)" "bt_get (kc_cap_spaces k) p = Some cs"
  shows "emits k [create_cap_removed_commit p s ts] (kc_map_cap_space p (\<lambda>cs. snd (cs_remove cs s)) k)"
  unfolding kc_map_cap_space_const [OF assms, of "\<lambda>cs. snd (cs_remove cs s)"] create_cap_removed_commit_def
  by (rule emits_unset_space [OF assms]) (simp add: cs_remove_def)

lemma revoke_emits: "core_inv k \<Longrightarrow> op_emits k (kc_revoke_capability k p s ts)"
  by (auto simp: kc_revoke_capability_def kc_validate_revoke_permission_def kc_check_def Let_def inv_wf
      intro: remove_slot_emits split: sum.split option.split)

lemma delete_emits: "core_inv k \<Longrightarrow> op_emits k (kc_delete_capability k p s ts)"
  by (auto simp: kc_delete_capability_def inv_wf intro: remove_slot_emits split: option.split)

lemma create_endpoint_emits:
  assumes "core_inv k"
  shows "op_emits k (kc_create_endpoint k p ts)"
proof (cases "bt_contains (kc_processes k) p")
  case True
  let ?eid = "EndpointId (kc_next_endpoint_id k)"
  let ?k1 = "k\<lparr>kc_next_endpoint_id := kc_next_endpoint_id k + 1,
               kc_endpoints := bt_insert ?eid (endpoint_new ?eid p) (kc_endpoints k)\<rparr>"
  let ?c = "\<lparr>cap_id = kc_next_cap_id k, cap_object_type = ObjEndpoint,
             cap_object_id = kc_next_endpoint_id k, cap_permissions = perms_full,
             cap_generation = 0, cap_expires_at = 0\<rparr>"
  let ?k2 = "?k1\<lparr>kc_next_cap_id := kc_next_cap_id k + 1\<rparr>"
  have created: "emits k [kc_commit ts (EndpointCreated (kc_next_endpoint_id k) (pid_raw p))] ?k2"
    using True by (simp add: emits_def kc_commit_def durable_of_def bt_map_insert)
  have wf: "bt_wf (kc_cap_spaces ?k2)"
    using inv_wf [OF assms] by simp
  have "bt_get (kc_cap_spaces k) p \<noteq> None"
    using aligned_space assms True by (auto simp: core_inv_def)
  then obtain slot cs k' where r: "kc_insert_cap ?k2 p ?c ts = (Inr (slot, cs), k')"
    by (auto simp: kc_insert_cap_def Let_def)
  have "emits ?k2 cs k'"
    by (rule insert_cap_emits [OF wf _ r]) (simp add: plain_cap_def)
  then show ?thesis
    using True r emits_Cons [OF created]
    by (simp add: kc_create_endpoint_def kc_grant_owner_endpoint_cap_def kc_alloc_cap_id_def Let_def)
qed (simp add: kc_create_endpoint_def)

lemma queue_message_durable: "kc_queue_message k eid m = (r, k') \<Longrightarrow> durable_of k' = durable_of k"
  by (auto simp: kc_queue_message_def durable_map_endpoint split: option.splits)

lemma update_send_metrics_durable [simp]:
  "durable_of (kc_update_send_metrics k p eid n ts) = durable_of k"
  by (simp add: kc_update_send_metrics_def Let_def durable_map_endpoint durable_map_process)

lemma sent_noted: "durable_of k' = durable_of k \<Longrightarrow> emits k [kc_commit ts (MessageSent a b c d)] k'"
  by (simp add: emits_def kc_commit_def)

lemma send_emits:
  "emits k (case fst (snd (kc_ipc_send k p s tag data ts)) of None \<Rightarrow> [] | Some c \<Rightarrow> [c])
     (snd (snd (kc_ipc_send k p s tag data ts)))"
  by (auto simp: kc_ipc_send_def Let_def intro!: emits_same sent_noted
      dest!: queue_message_durable split: sum.split prod.split)

lemma receive_durable: "durable_of (snd (kc_ipc_receive k p s ts)) = durable_of k"
  by (simp add: kc_ipc_receive_def Let_def durable_map_endpoint durable_map_process
      split: sum.split option.split)

lemma transfer_emits:
  assumes "core_inv k" "kc_remove_and_transfer_caps k p slots ts = (Inr (tcaps, cs), k')"
  shows "emits k cs k'"
proof -
  obtain sp where sp: "bt_get (kc_cap_spaces k) p = Some sp"
    using assms(2) by (auto simp: kc_remove_and_transfer_caps_def split: option.splits)
  then show ?thesis
    using assms(2) remove_caps_emits [OF inv_wf [OF assms(1)] sp, of slots ts]
    by (auto simp: kc_remove_and_transfer_caps_def case_prod_unfold Let_def)
qed

lemma transfer_fails:
  "kc_remove_and_transfer_caps k p slots ts = (Inl e, k') \<Longrightarrow> k' = k"
  by (auto simp: kc_remove_and_transfer_caps_def case_prod_unfold Let_def split: option.splits)

lemma emits_then_same: "emits k cs k1 \<Longrightarrow> durable_of k2 = durable_of k1 \<Longrightarrow> emits k cs k2"
  by (simp add: emits_def)

lemma send_with_caps_emits: "core_inv k \<Longrightarrow> op_emits k (kc_ipc_send_with_caps k p s tag data slots ts)"
  by (simp add: kc_ipc_send_with_caps_def Let_def split: sum.split prod.split)
    (auto intro: emits_then_same transfer_emits dest!: transfer_fails queue_message_durable)

lemma receive_spaces:
  "kc_cap_spaces (snd (kc_ipc_receive k p s ts)) = kc_cap_spaces k"
  by (simp add: kc_ipc_receive_def kc_map_endpoint_def Let_def split: sum.split option.split)

lemma receive_with_caps_emits:
  assumes "core_inv k"
  shows "op_emits k (kc_ipc_receive_with_caps k p s ts)"
proof -
  have same: "emits k [] k'" if "kc_ipc_receive k p s ts = (r, k')" for r k'
    using receive_durable [of k p s ts] that by (intro emits_same) simp
  have inst: "emits k cs k''"
    if m: "kc_ipc_receive k p s ts = (Inr (Some m), k')"
      and r: "kc_install_transferred_caps k' p (cmsg_transferred_caps m) ts = (Inr (slots, cs), k'')"
    for m k' slots cs k''
  proof -
    have spaces: "kc_cap_spaces k' = kc_cap_spaces k"
      using receive_spaces [of k p s ts] m by simp
    obtain sp where sp: "bt_get (kc_cap_spaces k') p = Some sp"
      using r by (auto simp: kc_install_transferred_caps_def split: option.splits)
    have "emits k' cs k''"
      using r sp install_caps_emits [of k' p sp "cmsg_transferred_caps m" ts]
        inv_wf [OF assms] spaces receive_message_caps [OF m] inv_plain [OF assms]
      by (auto simp: kc_install_transferred_caps_def case_prod_unfold Let_def message_caps_def)
    with same [OF m] show ?thesis
      using emits_append [of k "[]" k'] by simp
  qed
  have fail: "k'' = k'" if "kc_install_transferred_caps k' p tcaps ts = (Inl e, k'')" for k' tcaps e k''
    using that by (auto simp: kc_install_transferred_caps_def case_prod_unfold Let_def split: option.splits)
  show ?thesis
    by (simp add: kc_ipc_receive_with_caps_def split: sum.split prod.split option.split)
      (auto intro: same inst dest: fail)
qed

lemma exit_emits: "p \<in> kc_pids k \<Longrightarrow> op_emits k (handle_exit k p code ts)"
  by (simp add: handle_exit_def Let_def emits_def kc_commit_def du_zombie_def durable_defs
      proc_view_zombie kc_pids_def bt_contains_dom [symmetric])

lemma register_emits: "op_emits k (kc_register_process_with_parent k name parent ts)"
  by (simp add: kc_register_process_with_parent_def Let_def emits_def kc_create_process_commit_def
      kc_commit_def durable_of_def bt_map_insert proc_view_def kc_create_process_entry_def cs_new_def)

lemma register_pid_emits: "op_emits k (kc_register_process_with_pid k pid name ts)"
  by (simp add: kc_register_process_with_pid_def Let_def emits_def kc_create_process_commit_def
      kc_commit_def durable_of_def bt_map_insert proc_view_def cs_new_def)

lemma grant_to_endpoint_emits:
  assumes "core_inv k"
  shows "op_emits k (kc_grant_capability_to_endpoint k owner eid to perms ts)"
proof -
  let ?k = "k\<lparr>kc_next_cap_id := kc_next_cap_id k + 1\<rparr>"
  have wf: "bt_wf (kc_cap_spaces ?k)"
    using inv_wf [OF assms] by simp
  have "emits k cs k'" if "kc_insert_cap ?k to c ts = (Inr (slot, cs), k')" "plain_cap c" for c slot cs k'
    using insert_cap_emits [OF wf that(2,1)] by (simp add: emits_def)
  moreover have "emits k [] k'" if "kc_insert_cap ?k to c ts = (Inl e, k')" for c e k'
    using insert_cap_fails [OF that] by (intro emits_same) simp
  ultimately show ?thesis
    by (auto simp: kc_grant_capability_to_endpoint_def kc_alloc_cap_id_def Let_def plain_cap_def
        split: option.split sum.split prod.split)
qed

lemma kill_refused_emits:
  "isl (fst (kc_kill_process_with_cap_check k p q ts)) \<Longrightarrow>
     op_emits k (kc_kill_process_with_cap_check k p q ts)"
  by (auto simp: kc_kill_process_with_cap_check_def case_prod_unfold split: if_splits)

lemma handler_emits:
  "op_emits k (handle_debug k' p msg) \<longleftrightarrow> emits k [] k'"
  "op_emits k (handle_create_endpoint k' p ts) = op_emits k (kc_create_endpoint k' p ts)"
  "op_emits k (handle_receive k' p s ts) \<longleftrightarrow> emits k [] (snd (kc_ipc_receive k' p s ts))"
  "op_emits k (handle_send_with_caps k' p s tag data slots ts)
     = op_emits k (kc_ipc_send_with_caps k' p s tag data slots ts)"
  "op_emits k (handle_list_caps k' p) \<longleftrightarrow> emits k [] k'"
  "op_emits k (handle_cap_grant k' p s q perms ts) = op_emits k (kc_grant_capability k' p s q perms ts)"
  "op_emits k (handle_cap_revoke k' p s ts) = op_emits k (kc_revoke_capability k' p s ts)"
  "op_emits k (handle_cap_delete k' p s ts) = op_emits k (kc_delete_capability k' p s ts)"
  "op_emits k (handle_cap_inspect k' p s) \<longleftrightarrow> emits k [] k'"
  "op_emits k (handle_cap_derive k' p s perms ts) = op_emits k (kc_derive_capability k' p s perms ts)"
  "op_emits k (handle_list_processes k') \<longleftrightarrow> emits k [] k'"
  "op_emits k (handle_kill k' p q ts) = op_emits k (kc_kill_process_with_cap_check k' p q ts)"
  by (simp_all add: op_emits_def case_prod_unfold Let_def handle_debug_def
      handle_create_endpoint_def handle_receive_def handle_send_with_caps_def
      handle_list_caps_def handle_cap_grant_def handle_cap_revoke_def
      handle_cap_delete_def handle_cap_inspect_def handle_cap_derive_def handle_list_processes_def
      handle_kill_def)

lemma handle_send_emits:
  "op_emits k (handle_send k p s tag data ts)" "op_emits k (handle_call k p s tag data ts)"
  using send_emits [of k p s tag data ts]
  by (simp_all add: handle_send_def handle_call_def case_prod_unfold Let_def)

definition core_ok_call :: "kernel_core \<Rightarrow> process_id \<Rightarrow> core_syscall \<Rightarrow> u64 \<Rightarrow> bool" where
  "core_ok_call k p sc ts =
     (case sc of
        Exit _ \<Rightarrow> bt_contains (kc_processes k) p
      | Kill q \<Rightarrow> isl (fst (kc_kill_process_with_cap_check k p q ts))
      | _ \<Rightarrow> True)"

lemma dispatch_emits:
  assumes "core_inv k" "core_ok_call k p sc ts"
  shows "op_emits k (handle_dispatch k p sc ts)"
  using assms
  by (cases sc)
    (simp_all add: handler_emits handle_send_emits receive_durable emits_same create_endpoint_emits
       send_with_caps_emits grant_emits revoke_emits delete_emits derive_emits exit_emits
       kill_refused_emits core_ok_call_def kc_pids_def bt_contains_dom)

lemma update_metrics_durable [simp]: "durable_of (kc_update_syscall_metrics k p ts) = durable_of k"
  by (simp add: kc_update_syscall_metrics_def durable_map_process)

lemma update_metrics_ok:
  "core_ok_call (kc_update_syscall_metrics k p ts) p sc ts = core_ok_call k p sc ts"
proof -
  have pids: "bt_contains (kc_processes (kc_update_syscall_metrics k p ts)) q = bt_contains (kc_processes k) q" for q
    by (auto simp: kc_update_syscall_metrics_def kc_map_process_def bt_contains_def)
  then show ?thesis
    by (simp add: core_ok_call_def kc_kill_process_with_cap_check_def case_prod_unfold
        kc_has_kill_permission_def split: core_syscall.split)
qed

lemma update_metrics_inv [simp]: "core_inv (kc_update_syscall_metrics k p ts) = core_inv k"
  using kc_aligned_shape [of "kc_update_syscall_metrics k p ts" k] by (simp add: core_inv_def kc_caps_def)

lemma syscall_emits:
  "core_inv k \<Longrightarrow> core_ok_call k p sc ts \<Longrightarrow> op_emits k (handle_syscall k p sc ts)"
  using dispatch_emits [of "kc_update_syscall_metrics k p ts" p sc ts]
  by (simp add: handle_syscall_def update_metrics_ok op_emits_def emits_def)

subsection \<open>The invariant\<close>

lemma plain_le: "kc_le k k' \<Longrightarrow> \<forall>c \<in> kc_caps k. plain_cap c \<Longrightarrow> \<forall>c \<in> kc_caps k'. plain_cap c"
  by (fastforce simp: kc_le_def cap_le_def new_endpoint_cap_def plain_cap_def)

lemma kill_refused_shape:
  "isl (fst (kc_kill_process_with_cap_check k p q ts)) \<Longrightarrow>
     kc_shape (op_state (kc_kill_process_with_cap_check k p q ts)) = kc_shape k"
  by (auto simp: kc_kill_process_with_cap_check_def case_prod_unfold split: if_splits)

lemma syscall_inv:
  assumes "core_inv k" "core_ok_call k p sc ts"
  shows "core_inv (op_state (handle_syscall k p sc ts))"
proof -
  let ?k = "kc_update_syscall_metrics k p ts"
  have "core_ok_call ?k p sc ts"
    using assms(2) by (simp add: update_metrics_ok)
  then have "kc_shape (op_state (handle_dispatch ?k p sc ts)) = kc_shape ?k"
    using dispatch_shape [of sc ?k p ts] kill_refused_shape [of ?k p _ ts]
    by (cases sc) (auto simp: core_ok_call_def)
  then have "kc_aligned (op_state (handle_syscall k p sc ts)) = kc_aligned k"
    by (intro kc_aligned_shape) (simp add: handle_syscall_def)
  then show ?thesis
    using assms(1) plain_le [OF handle_syscall_le, of k p sc ts] by (simp add: core_inv_def)
qed

lemma register_inv:
  assumes "core_inv k"
  shows "core_inv (k\<lparr>kc_next_pid := n, kc_processes := bt_insert pid p (kc_processes k),
                     kc_cap_spaces := bt_insert pid cs_new (kc_cap_spaces k)\<rparr>)"
proof -
  have "space_caps (bt_insert pid cs_new (kc_cap_spaces k)) \<subseteq> space_caps (kc_cap_spaces k)"
    using space_caps_insert [of pid cs_new "kc_cap_spaces k"] by (simp add: cs_caps_def cs_new_def)
  then show ?thesis
    using assms by (auto simp: core_inv_def kc_aligned_def kc_pids_def kc_caps_def bt_wf_insert
        bt_keys_insert dom_def)
qed

lemma insert_cap_inv:
  assumes "kc_insert_cap k p c ts = (r, k')" "core_inv k" "plain_cap c"
  shows "core_inv k'"
  using assms kc_aligned_shape [OF insert_cap_shape [OF assms(1)]] kc_insert_cap_caps [of k p c ts]
  by (auto simp: core_inv_def)

datatype core_op =
    OpRegister string process_id u64
  | OpRegisterPid process_id string u64
  | OpGrantEndpoint process_id endpoint_id process_id permissions u64
  | OpReceiveWithCaps process_id u32 u64
  | OpSyscall process_id core_syscall u64

definition live_of :: "'a \<times> commit list \<times> kernel_core \<Rightarrow> kernel_core \<times> commit_type list" where
  "live_of r = (snd (snd r), map cm_commit_type (fst (snd r)))"

fun core_live :: "kernel_core \<Rightarrow> core_op \<Rightarrow> kernel_core \<times> commit_type list" where
  "core_live k (OpRegister name parent ts) = live_of (kc_register_process_with_parent k name parent ts)"
| "core_live k (OpRegisterPid pid name ts) = live_of (kc_register_process_with_pid k pid name ts)"
| "core_live k (OpGrantEndpoint owner eid to perms ts) =
     live_of (kc_grant_capability_to_endpoint k owner eid to perms ts)"
| "core_live k (OpReceiveWithCaps p s ts) = live_of (kc_ipc_receive_with_caps k p s ts)"
| "core_live k (OpSyscall p sc ts) = live_of (handle_syscall k p sc ts)"

fun core_ok :: "kernel_core \<Rightarrow> core_op \<Rightarrow> bool" where
  "core_ok k (OpSyscall p sc ts) = core_ok_call k p sc ts"
| "core_ok k _ = True"

lemma core_live_emits:
  assumes "core_inv k" "core_ok k op"
  shows "du_run (durable_of k) (snd (core_live k op)) = Some (durable_of (fst (core_live k op)))"
  using assms register_emits register_pid_emits grant_to_endpoint_emits receive_with_caps_emits syscall_emits
  by (cases op) (simp_all add: live_of_def op_emits_def emits_def)

lemma grant_to_endpoint_inv:
  assumes "core_inv k"
  shows "core_inv (op_state (kc_grant_capability_to_endpoint k owner eid to perms ts))"
proof -
  have "core_inv (k\<lparr>kc_next_cap_id := n\<rparr>)" for n
    using assms by (simp add: core_inv_def kc_aligned_def kc_pids_def)
  then show ?thesis
    using assms by (auto simp: kc_grant_capability_to_endpoint_def kc_alloc_cap_id_def Let_def plain_cap_def
        intro: insert_cap_inv split: option.split sum.split prod.split)
qed

lemma receive_with_caps_shape: "kc_shape (op_state (kc_ipc_receive_with_caps k p s ts)) = kc_shape k"
proof -
  have recv: "kc_shape k' = kc_shape k" if "kc_ipc_receive k p s ts = (r, k')" for r k'
    using receive_shape [of k p s ts] that by simp
  have inst: "kc_shape k'' = kc_shape k'" if "kc_install_transferred_caps k' p t ts = (r, k'')" for k' t r k''
    using that by (auto simp: kc_install_transferred_caps_def case_prod_unfold Let_def split: option.splits)
  show ?thesis
    by (auto simp: kc_ipc_receive_with_caps_def dest!: recv inst split: sum.split prod.split option.split)
qed

lemma core_live_inv:
  assumes "core_inv k" "core_ok k op"
  shows "core_inv (fst (core_live k op))"
proof (cases op)
  case (OpRegister name parent ts)
  then show ?thesis
    using register_inv [OF assms(1)]
    by (simp add: live_of_def kc_register_process_with_parent_def Let_def)
next
  case (OpRegisterPid pid name ts)
  then show ?thesis
    using assms(1) register_inv [OF assms(1), where n = "kc_next_pid k"] register_inv [OF assms(1)]
    by (simp add: live_of_def kc_register_process_with_pid_def Let_def)
next
  case (OpGrantEndpoint owner eid to perms ts)
  then show ?thesis
    using grant_to_endpoint_inv [OF assms(1)] by (simp add: live_of_def op_state_def)
next
  case (OpReceiveWithCaps p s ts)
  have "kc_aligned (op_state (kc_ipc_receive_with_caps k p s ts)) = kc_aligned k"
    by (rule kc_aligned_shape [OF receive_with_caps_shape])
  then show ?thesis
    using OpReceiveWithCaps assms(1) plain_le [OF receive_with_caps_le, of k p s ts]
    by (simp add: live_of_def op_state_def core_inv_def)
next
  case (OpSyscall p sc ts)
  then show ?thesis
    using syscall_inv [of k p sc ts] assms by (simp add: live_of_def op_state_def)
qed

interpretation runtime_replay:
  replay_refinement core_replayable core_live core_ok core_inv durable_of durable_of
proof
  show "core_inv (fst (core_live k op))" if "core_inv k" "core_ok k op" for k op
    using that by (rule core_live_inv)
  show "\<exists>s'. replay_types core_replayable s (snd (core_live k op)) = (Inr (), s')
      \<and> durable_of s' = durable_of (fst (core_live k op))"
    if "core_inv k" "core_ok k op" "durable_of s = durable_of k" for k op s
    using core_live_emits [OF that(1,2)] replay_types_refines [of s] that(3) by simp
qed

section \<open>The state hash sees the durable state only\<close>

lemma hash_processes_view:
  "bt_map proc_view ps = bt_map proc_view ps' \<Longrightarrow> hash_processes h ps = hash_processes h ps'"
proof -
  have *: "hash_processes h ps =
    foldl (\<lambda>h (pid, n, s). sh_write_u8 (sh_write_str (sh_write_u64 h (pid_raw pid)) n) (process_state_to_u8 s))
      (sh_write_u64 h (word_of_nat (length (bt_map proc_view ps)))) (bt_map proc_view ps)" for h ps
    by (simp add: hash_processes_def bt_map_def foldl_map proc_view_def case_prod_unfold Let_def)
  show "bt_map proc_view ps = bt_map proc_view ps' \<Longrightarrow> hash_processes h ps = hash_processes h ps'"
    by (simp only: *)
qed

lemma hash_cap_spaces_view:
  "bt_map cs_slots css = bt_map cs_slots css' \<Longrightarrow> hash_cap_spaces h css = hash_cap_spaces h css'"
proof -
  have *: "hash_cap_spaces h css =
    foldl (\<lambda>h (pid, slots). hash_slots (sh_write_u64 h (pid_raw pid)) slots)
      (sh_write_u64 h (word_of_nat (length (bt_map cs_slots css)))) (bt_map cs_slots css)" for h css
    by (simp add: hash_cap_spaces_def bt_map_def foldl_map case_prod_unfold)
  show "bt_map cs_slots css = bt_map cs_slots css' \<Longrightarrow> hash_cap_spaces h css = hash_cap_spaces h css'"
    by (simp only: *)
qed

lemma hash_endpoints_view:
  "bt_map ep_owner eps = bt_map ep_owner eps' \<Longrightarrow> hash_endpoints h eps = hash_endpoints h eps'"
proof -
  have *: "hash_endpoints h eps =
    foldl (\<lambda>h (eid, owner). sh_write_u64 (sh_write_u64 h (eid_raw eid)) (pid_raw owner))
      (sh_write_u64 h (word_of_nat (length (bt_map ep_owner eps)))) (bt_map ep_owner eps)" for h eps
    by (simp add: hash_endpoints_def bt_map_def foldl_map case_prod_unfold)
  show "bt_map ep_owner eps = bt_map ep_owner eps' \<Longrightarrow> hash_endpoints h eps = hash_endpoints h eps'"
    by (simp only: *)
qed

lemma state_hash_durable:
  assumes "durable_of k = durable_of k'"
  shows "rk_state_hash k = rk_state_hash k'"
proof -
  have "bt_map proc_view (kc_processes k) = bt_map proc_view (kc_processes k')"
    "bt_map cs_slots (kc_cap_spaces k) = bt_map cs_slots (kc_cap_spaces k')"
    "bt_map ep_owner (kc_endpoints k) = bt_map ep_owner (kc_endpoints k')"
    using assms by (simp_all add: durable_of_def)
  then show ?thesis
    unfolding rk_state_hash_def Let_def
    using hash_processes_view hash_cap_spaces_view hash_endpoints_view by metis
qed

section \<open>A kill and its commits\<close>

lemma destroyed_run:
  "\<exists>d'. du_run d (map cm_commit_type (fst (kc_remove_endpoints k eids ts))) = Some d'
     \<and> du_processes d' = du_processes d"
proof (induction eids arbitrary: k d)
  case (Cons eid eids)
  let ?k = "k\<lparr>kc_endpoints := bt_remove eid (kc_endpoints k)\<rparr>"
  from Cons.IH [where k = ?k and d = d]
    Cons.IH [where k = ?k and d = "d\<lparr>du_endpoints := bt_remove eid (du_endpoints d)\<rparr>"]
  show ?case
    by (auto simp: Let_def case_prod_unfold kc_commit_def)
qed simp

lemma kill_run:
  assumes "bt_contains (kc_processes k) q"
  shows "\<exists>d. du_run (durable_of k) (map cm_commit_type (fst (kc_kill_process k q ts))) = Some d
    \<and> bt_contains (du_processes d) q"
proof -
  let ?d = "(durable_of k)\<lparr>du_processes :=
    bt_modify q (\<lambda>(name, _). (name, Zombie)) (du_processes (durable_of k))\<rparr>"
  have q: "bt_contains (du_processes (durable_of k)) q"
    using assms by (simp add: durable_of_def)
  then have "bt_contains (du_processes ?d) q"
    by (simp add: bt_contains_def)
  moreover obtain d where "du_run ?d (map cm_commit_type (fst (kc_cleanup_process_endpoints
      (k\<lparr>kc_processes := bt_remove q (kc_processes k), kc_cap_spaces := bt_remove q (kc_cap_spaces k)\<rparr>) q ts)))
        = Some d" "du_processes d = du_processes ?d"
    using destroyed_run unfolding kc_cleanup_process_endpoints_def Let_def by blast
  ultimately show ?thesis
    using assms q by (simp add: kc_kill_process_def Let_def case_prod_unfold kc_commit_def du_zombie_def)
qed

section \<open>Properties\<close>

text \<open>
  C15. Replay reconstructs the state: for every history of kernel operations from boot (processes
  registered, endpoint capabilities granted, messages received with their capabilities, and any
  system calls, where a kill is refused and an exit comes from a registered process), replaying
  the commits the operations emitted into a fresh kernel succeeds and ends in a state with the
  live kernel's state hash, whatever ids, timestamps and causes the log gave the commits.
\<close>

theorem replay_reconstructs_state:
  assumes "run_ok (\<lambda>k op. fst (core_live k op)) core_ok kc_new ops"
    and "map cm_commit_type commits = history_commits core_live kc_new ops"
  shows "fst (replay_and_verify core_replayable kc_new commits
           (rk_state_hash (run (\<lambda>k op. fst (core_live k op)) kc_new ops))) = Inr ()"
proof -
  have "core_inv kc_new"
    by (simp add: core_inv_def kc_aligned_def kc_new_def kc_pids_def kc_caps_def space_caps_def
        queue_caps_def)
  from runtime_replay.history_replayed [OF this assms(1) refl]
  obtain k' where "replay core_replayable kc_new commits = (Inr (), k')"
    "durable_of k' = durable_of (run (\<lambda>k op. fst (core_live k op)) kc_new ops)"
    by (auto simp: replay_by_types assms(2))
  then show ?thesis
    using state_hash_durable [of k'] by (simp add: replay_and_verify_def core_replayable_def)
qed

theorem replay_reconstructs_state_witness:
  "let ops = [OpRegister ''init'' (ProcessId 0) 1, OpSyscall (ProcessId 1) CreateEndpoint 2,
              OpRegister ''app'' (ProcessId 1) 3, OpSyscall (ProcessId 1) (Send 0 7 [1, 2]) 4,
              OpSyscall (ProcessId 1) (CapGrant 0 (ProcessId 2) perms_read_only) 5]
   in fst (replay_and_verify core_replayable kc_new
        (map (kc_commit 0) (history_commits core_live kc_new ops))
        (rk_state_hash (run (\<lambda>k op. fst (core_live k op)) kc_new ops))) = Inr ()"
  unfolding Let_def
  by (rule replay_reconstructs_state) (simp_all add: core_ok_call_def kc_commit_def comp_def)


text \<open>
  C35. A kill is not replayed: the commits of a kill replay without error, but the replayed kernel
  still has the process, as a zombie, where the live kernel removed it; so the process tables,
  and with them what the state hash covers, differ.
\<close>

theorem kill_is_not_replayed:
  assumes "bt_get (kc_processes k) q \<noteq> None" "kc_kill_process k q ts = (commits, k')"
  shows "\<exists>k2. replay core_replayable k commits = (Inr (), k2)
    \<and> bt_get (kc_processes k2) q \<noteq> None \<and> bt_get (kc_processes k') q = None"
proof -
  obtain d where "du_run (durable_of k) (map cm_commit_type commits) = Some d"
    "bt_contains (du_processes d) q"
    using kill_run [of k q ts] assms by (auto simp: bt_contains_def)
  then obtain k2 where "replay core_replayable k commits = (Inr (), k2)"
    "bt_contains (du_processes (durable_of k2)) q"
    using replay_types_refines [of k "map cm_commit_type commits" d] by (auto simp: replay_by_types)
  moreover have "bt_get (kc_processes k') q = None"
    using kc_kill_process_eq [of k q ts] assms(2) by simp
  ultimately show ?thesis
    by (auto simp: durable_of_def bt_contains_def)
qed

theorem kill_is_not_replayed_witness:
  "\<exists>k2. replay core_replayable example_core (fst (kc_kill_process example_core (ProcessId 2) 5)) = (Inr (), k2)
    \<and> bt_get (kc_processes k2) (ProcessId 2) \<noteq> None
    \<and> bt_get (kc_processes (snd (kc_kill_process example_core (ProcessId 2) 5))) (ProcessId 2) = None"
  by (rule kill_is_not_replayed) (simp_all add: example_core_def)

end
