(* ===== verification/Utf8.thy ===== *)
theory Utf8
  imports Prelude
begin

text \<open>
  \<^verbatim>\<open>core::str::from_utf8\<close>, which the kernel calls on every name and key it gets from a process.
  A Rust \<^verbatim>\<open>str\<close> is the list of its bytes as characters, so decoding is validation.
\<close>

definition utf8_cont :: "u8 \<Rightarrow> bool" where
  "utf8_cont b \<longleftrightarrow> 0x80 \<le> b \<and> b \<le> 0xBF"

text \<open>The bytes after the first encoded scalar value, per the table of well-formed sequences.\<close>

definition utf8_next :: "u8 list \<Rightarrow> u8 list option" where
  "utf8_next bs =
     (case bs of
        [] \<Rightarrow> None
      | b # rest \<Rightarrow>
          if b < 0x80 then Some rest
          else (case rest of
             [] \<Rightarrow> None
           | c # rest2 \<Rightarrow>
               if 0xC2 \<le> b \<and> b \<le> 0xDF then (if utf8_cont c then Some rest2 else None)
               else (case rest2 of
                  [] \<Rightarrow> None
                | d # rest3 \<Rightarrow>
                    if 0xE0 \<le> b \<and> b \<le> 0xEF
                    then (if utf8_cont c \<and> utf8_cont d \<and> (b = 0xE0 \<longrightarrow> 0xA0 \<le> c)
                            \<and> (b = 0xED \<longrightarrow> c \<le> 0x9F)
                          then Some rest3 else None)
                    else (case rest3 of
                       [] \<Rightarrow> None
                     | e # rest4 \<Rightarrow>
                         if 0xF0 \<le> b \<and> b \<le> 0xF4 \<and> utf8_cont c \<and> utf8_cont d \<and> utf8_cont e
                            \<and> (b = 0xF0 \<longrightarrow> 0x90 \<le> c) \<and> (b = 0xF4 \<longrightarrow> c \<le> 0x8F)
                         then Some rest4 else None))))"

lemma utf8_next_shorter: "utf8_next bs = Some rest \<Longrightarrow> length rest < length bs"
  by (auto simp: utf8_next_def split: list.splits if_splits)

function utf8_valid :: "u8 list \<Rightarrow> bool" where
  "utf8_valid bs =
     (if bs = [] then True
      else case utf8_next bs of None \<Rightarrow> False | Some rest \<Rightarrow> utf8_valid rest)"
  by auto
termination
  by (relation "measure length") (auto dest: utf8_next_shorter)

declare utf8_valid.simps [simp del]

definition bytes_str :: "u8 list \<Rightarrow> string" where
  "bytes_str bs = map (\<lambda>b. char_of (unat b)) bs"

definition from_utf8 :: "u8 list \<Rightarrow> string option" where
  "from_utf8 bs = (if utf8_valid bs then Some (bytes_str bs) else None)"

lemma utf8_valid_ascii: "list_all (\<lambda>b. b < 0x80) bs \<Longrightarrow> utf8_valid bs"
  by (induction bs) (simp_all add: utf8_valid.simps utf8_next_def)

lemma utf8_valid_Nil [simp]: "utf8_valid []"
  by (simp add: utf8_valid.simps)

end
