(* ===== verification/System.thy ===== *)
theory System
  imports Core_Replay Utf8
begin

text \<open>
  The system: \<^verbatim>\<open>zos-kernel/src/system/{mod,lifecycle,metrics}.rs\<close>, which puts the runtime kernel
  behind the Axiom logs and dispatches system calls by number. The HAL is the platform, outside
  this model: a record of the functions the kernel calls, with \<open>now\<close> the clock reading a method
  starts with. A method of \<^verbatim>\<open>System\<close> is a function with the prefix \<open>sys_\<close>.
\<close>

section \<open>The platform\<close>

record hal =
  hal_now_nanos :: u64
  hal_wallclock_ms :: u64
  hal_storage_read_async :: "u64 \<Rightarrow> string \<Rightarrow> hal_error + u32"
  hal_storage_write_async :: "u64 \<Rightarrow> string \<Rightarrow> u8 list \<Rightarrow> hal_error + u32"
  hal_storage_delete_async :: "u64 \<Rightarrow> string \<Rightarrow> hal_error + u32"
  hal_storage_list_async :: "u64 \<Rightarrow> string \<Rightarrow> hal_error + u32"
  hal_storage_exists_async :: "u64 \<Rightarrow> string \<Rightarrow> hal_error + u32"
  hal_keystore_read_async :: "u64 \<Rightarrow> string \<Rightarrow> hal_error + u32"
  hal_keystore_write_async :: "u64 \<Rightarrow> string \<Rightarrow> u8 list \<Rightarrow> hal_error + u32"
  hal_keystore_delete_async :: "u64 \<Rightarrow> string \<Rightarrow> hal_error + u32"
  hal_keystore_list_async :: "u64 \<Rightarrow> string \<Rightarrow> hal_error + u32"
  hal_keystore_exists_async :: "u64 \<Rightarrow> string \<Rightarrow> hal_error + u32"
  hal_network_fetch_async :: "u64 \<Rightarrow> u8 list \<Rightarrow> hal_error + u32"
  hal_load_binary :: "string \<Rightarrow> hal_error + u8 list"
  hal_spawn_process_with_pid :: "u64 \<Rightarrow> string \<Rightarrow> u8 list \<Rightarrow> hal_error + unit"

section \<open>The state\<close>

record system =
  sys_axiom :: axiom_gateway
  sys_kernel :: kernel_core
  sys_boot_time :: u64

definition sys_new :: "u64 \<Rightarrow> system" where
  "sys_new now = \<lparr>sys_axiom = gw_new now, sys_kernel = kc_new, sys_boot_time = now\<rparr>"

definition sys_new_for_replay :: system where
  "sys_new_for_replay = \<lparr>sys_axiom = gw_new 0, sys_kernel = kc_new, sys_boot_time = 0\<rparr>"

definition sys_uptime_nanos :: "system \<Rightarrow> u64 \<Rightarrow> u64" where
  "sys_uptime_nanos s now = (if now \<ge> sys_boot_time s then now - sys_boot_time s else 0)"

definition sys_append_types :: "system \<Rightarrow> commit_type list \<Rightarrow> u64 \<Rightarrow> system" where
  "sys_append_types s cts timestamp =
     s\<lparr>sys_axiom := foldl (\<lambda>gw ct. snd (gw_append_internal_commit gw ct timestamp)) (sys_axiom s) cts\<rparr>"

definition sys_record_commits :: "system \<Rightarrow> commit list \<Rightarrow> u64 \<Rightarrow> system" where
  "sys_record_commits s commits timestamp = sys_append_types s (map cm_commit_type commits) timestamp"

section \<open>Life cycle calls\<close>

definition INIT :: u32 where "INIT = 1"

definition syscall_error_INVALID_UTF8 :: i32 where "syscall_error_INVALID_UTF8 = - 1"
definition syscall_error_NOT_FOUND :: i32 where "syscall_error_NOT_FOUND = - 2"
definition syscall_error_NOT_SUPPORTED :: i32 where "syscall_error_NOT_SUPPORTED = - 3"
definition syscall_error_PERMISSION_DENIED :: i32 where "syscall_error_PERMISSION_DENIED = - 4"
definition syscall_error_INVALID_ARGUMENT :: i32 where "syscall_error_INVALID_ARGUMENT = - 5"
definition syscall_error_SPAWN_FAILED :: i32 where "syscall_error_SPAWN_FAILED = - 6"

type_synonym executed = "i64 \<times> commit_type list \<times> kernel_core"
type_synonym executed_data = "i64 \<times> commit_type list \<times> u8 list \<times> kernel_core"

definition execute_exit :: "kernel_core \<Rightarrow> process_id \<Rightarrow> u64 \<Rightarrow> executed" where
  "execute_exit k sender timestamp =
     (let (commits, k) = kc_kill_process k sender timestamp
      in (0, map cm_commit_type commits, k))"

definition execute_kill_with_cap :: "kernel_core \<Rightarrow> process_id \<Rightarrow> args4 \<Rightarrow> u64 \<Rightarrow> executed" where
  "execute_kill_with_cap k sender args timestamp =
     (let target_pid = ProcessId (ucast (fst args))
      in (case kc_kill_process_with_cap_check k sender target_pid timestamp of
            (Inr _, commits, k) \<Rightarrow> (0, map cm_commit_type commits, k)
          | (Inl _, _, k) \<Rightarrow> (- 1, [], k)))"

definition execute_register_process ::
  "kernel_core \<Rightarrow> process_id \<Rightarrow> u8 list \<Rightarrow> u64 \<Rightarrow> executed" where
  "execute_register_process k sender data timestamp =
     (if pid_raw sender \<noteq> 1 then (- 1, [], k)
      else
        let name = (case from_utf8 data of Some n \<Rightarrow> n | None \<Rightarrow> ''unknown'');
            (pid, commits, k) = kc_register_process k name timestamp
        in (pid_raw pid, map cm_commit_type commits, k))"

definition execute_create_endpoint_for :: "kernel_core \<Rightarrow> process_id \<Rightarrow> args4 \<Rightarrow> u64 \<Rightarrow> executed" where
  "execute_create_endpoint_for k sender args timestamp =
     (if pid_raw sender \<noteq> 1 then (- 1, [], k)
      else
        let target_pid = ProcessId (ucast (fst args));
            (result, commits, k) = kc_create_endpoint k target_pid timestamp;
            commit_types = map cm_commit_type commits
        in (case result of
              Inl _ \<Rightarrow> (- 1, commit_types, k)
            | Inr (eid, _) \<Rightarrow>
                let init_pid = ProcessId 1;
                    (cid, k) = kc_alloc_cap_id k;
                    c = \<lparr>cap_id = cid, cap_object_type = ObjEndpoint, cap_object_id = eid_raw eid,
                         cap_permissions = perms_full, cap_generation = 0, cap_expires_at = 0\<rparr>
                in (case bt_get (kc_cap_spaces k) init_pid of
                      None \<Rightarrow> (- 1, commit_types, k)
                    | Some cspace \<Rightarrow>
                        let init_slot = fst (cs_insert cspace c);
                            k = kc_map_cap_space init_pid (\<lambda>cs. snd (cs_insert cs c)) k
                        in (push_bit 32 (ucast init_slot) OR (eid_raw eid AND 0xFFFFFFFF),
                            commit_types, k))))"

definition execute_load_binary ::
  "hal \<Rightarrow> kernel_core \<Rightarrow> process_id \<Rightarrow> u8 list \<Rightarrow> executed_data" where
  "execute_load_binary h k sender data =
     (if pid_raw sender \<noteq> ucast INIT then (scast syscall_error_PERMISSION_DENIED, [], [], k)
      else (case from_utf8 data of
              None \<Rightarrow> (scast syscall_error_INVALID_UTF8, [], [], k)
            | Some name \<Rightarrow>
                (case hal_load_binary h name of
                   Inr binary \<Rightarrow> (word_of_nat (length binary), [], binary, k)
                 | Inl NotFound \<Rightarrow> (scast syscall_error_NOT_FOUND, [], [], k)
                 | Inl NotSupported \<Rightarrow> (scast syscall_error_NOT_SUPPORTED, [], [], k)
                 | Inl _ \<Rightarrow> (scast syscall_error_NOT_FOUND, [], [], k))))"

definition execute_spawn_process ::
  "hal \<Rightarrow> kernel_core \<Rightarrow> process_id \<Rightarrow> u8 list \<Rightarrow> u64 \<Rightarrow> executed" where
  "execute_spawn_process h k sender data timestamp =
     (if pid_raw sender \<noteq> ucast INIT then (scast syscall_error_PERMISSION_DENIED, [], k)
      else if length data < 4 then (scast syscall_error_INVALID_ARGUMENT, [], k)
      else
        let name_len = unat (u32_from_le_bytes (take 4 data))
        in if length data < 4 + name_len then (scast syscall_error_INVALID_ARGUMENT, [], k)
           else (case from_utf8 (take name_len (drop 4 data)) of
                   None \<Rightarrow> (scast syscall_error_INVALID_UTF8, [], k)
                 | Some name \<Rightarrow>
                     let binary = drop (4 + name_len) data
                     in if binary = [] then (scast syscall_error_INVALID_ARGUMENT, [], k)
                        else
                          let (pid, commits, k) = kc_register_process k name timestamp;
                              commit_types = map cm_commit_type commits
                          in (case hal_spawn_process_with_pid h (pid_raw pid) name binary of
                                Inr _ \<Rightarrow> (pid_raw pid, commit_types, k)
                              | Inl _ \<Rightarrow> (scast syscall_error_SPAWN_FAILED, commit_types, k))))"

section \<open>The dispatcher\<close>

text \<open>The low or high half of a clock reading, selected by the first argument.\<close>

definition clock_half :: "u64 \<Rightarrow> args4 \<Rightarrow> i64" where
  "clock_half v args = (if fst args = 0 then v AND 0xFFFFFFFF else drop_bit 32 v AND 0xFFFFFFFF)"

definition execute_basic_syscall ::
  "hal \<Rightarrow> u32 \<Rightarrow> process_id \<Rightarrow> args4 \<Rightarrow> i64 \<times> commit_type list" where
  "execute_basic_syscall h num sender args =
     (if num = 0x00 then (0, [])
      else if num = 0x01 then (0, [])
      else if num = 0x02 then (clock_half (hal_now_nanos h) args, [])
      else if num = 0x03 then (pid_raw sender, [])
      else if num = 0x04 then (0, [])
      else if num = 0x05 then (0, [])
      else if num = 0x06 then (clock_half (hal_wallclock_ms h) args, [])
      else if num = 0x07 then (0, [])
      else (- 1, []))"

definition with_no_data :: "executed \<Rightarrow> executed_data" where
  "with_no_data r = (fst r, fst (snd r), [], snd (snd r))"

definition execute_process_syscall ::
  "hal \<Rightarrow> kernel_core \<Rightarrow> u32 \<Rightarrow> process_id \<Rightarrow> args4 \<Rightarrow> u8 list \<Rightarrow> u64 \<Rightarrow> executed_data" where
  "execute_process_syscall h k num sender args data timestamp =
     (if num = 0x11 then with_no_data (execute_exit k sender timestamp)
      else if num = 0x12 then (0, [], [], k)
      else if num = 0x13 then with_no_data (execute_kill_with_cap k sender args timestamp)
      else if num = 0x14 then with_no_data (execute_register_process k sender data timestamp)
      else if num = 0x15 then with_no_data (execute_create_endpoint_for k sender args timestamp)
      else if num = 0x16 then execute_load_binary h k sender data
      else if num = 0x17 then with_no_data (execute_spawn_process h k sender data timestamp)
      else (- 1, [], [], k))"

definition execute_capability_syscall ::
  "kernel_core \<Rightarrow> u32 \<Rightarrow> process_id \<Rightarrow> args4 \<Rightarrow> u64 \<Rightarrow> executed" where
  "execute_capability_syscall k num sender args timestamp =
     (let (a0, a1, a2, a3) = args
      in if num = 0x30
         then (case kc_grant_capability k sender a0 (ProcessId (ucast a1)) (perms_from_byte (ucast a2))
                      timestamp of
                 (Inr new_slot, commits, k) \<Rightarrow> (ucast new_slot, map cm_commit_type commits, k)
               | (Inl _, _, k) \<Rightarrow> (- 1, [], k))
         else if num = 0x31
         then (case kc_delete_capability k (ProcessId (ucast a0)) a1 timestamp of
                 (Inr _, commits, k) \<Rightarrow> (0, map cm_commit_type commits, k)
               | (Inl _, _, k) \<Rightarrow> (- 1, [], k))
         else if num = 0x35
         then (let (result, commits, k) = kc_create_endpoint k sender timestamp;
                   commit_types = map cm_commit_type commits
               in (case result of
                     Inr (eid, _) \<Rightarrow> (eid_raw eid, commit_types, k)
                   | Inl _ \<Rightarrow> (- 1, commit_types, k)))
         else (- 1, [], k))"

definition serialize_ipc_message :: "core_message \<Rightarrow> u8 list" where
  "serialize_ipc_message msg =
     (let num_caps = word_of_nat (length (cmsg_transferred_caps msg)) :: u8
      in u32_to_le_bytes (ucast (pid_raw (cmsg_from msg))) @ u32_to_le_bytes (cmsg_tag msg) @ [num_caps]
         @ concat (map (\<lambda>c. u32_to_le_bytes (case ct_receiver_slot c of None \<Rightarrow> 0 | Some s \<Rightarrow> s))
             (cmsg_transferred_caps msg))
         @ cmsg_data msg)"

definition execute_ipc_syscall ::
  "kernel_core \<Rightarrow> u32 \<Rightarrow> process_id \<Rightarrow> args4 \<Rightarrow> u8 list \<Rightarrow> u64 \<Rightarrow> executed_data" where
  "execute_ipc_syscall k num sender args data timestamp =
     (let (a0, a1, a2, a3) = args
      in if num = 0x40
         then (let (result, commit, k) = kc_ipc_send k sender a0 a1 data timestamp;
                   commit_types = (case commit of None \<Rightarrow> [] | Some c \<Rightarrow> [cm_commit_type c])
               in (case result of
                     Inr _ \<Rightarrow> (0, commit_types, [], k)
                   | Inl _ \<Rightarrow> (- 1, commit_types, [], k)))
         else if num = 0x41
         then (case kc_ipc_receive k sender a0 timestamp of
                 (Inr (Some msg), k) \<Rightarrow> (1, [], serialize_ipc_message msg, k)
               | (Inr None, k) \<Rightarrow> (0, [], [], k)
               | (Inl _, k) \<Rightarrow> (- 1, [], [], k))
         else (- 1, [], [], k))"

text \<open>A call that passes a key to the platform and returns the request id it gave.\<close>

definition request_result :: "hal_error + u32 \<Rightarrow> i64 \<times> commit_type list" where
  "request_result r = (case r of Inr request_id \<Rightarrow> (ucast request_id, []) | Inl _ \<Rightarrow> (- 1, []))"

definition execute_key_request ::
  "(u64 \<Rightarrow> string \<Rightarrow> hal_error + u32) \<Rightarrow> process_id \<Rightarrow> u8 list \<Rightarrow> i64 \<times> commit_type list" where
  "execute_key_request request sender data =
     (case from_utf8 data of
        None \<Rightarrow> (- 1, [])
      | Some key \<Rightarrow> request_result (request (pid_raw sender) key))"

definition execute_key_write ::
  "(u64 \<Rightarrow> string \<Rightarrow> u8 list \<Rightarrow> hal_error + u32) \<Rightarrow> process_id \<Rightarrow> u8 list \<Rightarrow> i64 \<times> commit_type list" where
  "execute_key_write request sender data =
     (if length data < 4 then (- 1, [])
      else
        let key_len = unat (u32_from_le_bytes (take 4 data))
        in if length data < 4 + key_len then (- 1, [])
           else (case from_utf8 (take key_len (drop 4 data)) of
                   None \<Rightarrow> (- 1, [])
                 | Some key \<Rightarrow>
                     request_result (request (pid_raw sender) key (drop (4 + key_len) data))))"

definition execute_storage_read :: "hal \<Rightarrow> process_id \<Rightarrow> u8 list \<Rightarrow> i64 \<times> commit_type list" where
  "execute_storage_read h = execute_key_request (hal_storage_read_async h)"

definition execute_storage_write :: "hal \<Rightarrow> process_id \<Rightarrow> u8 list \<Rightarrow> i64 \<times> commit_type list" where
  "execute_storage_write h = execute_key_write (hal_storage_write_async h)"

definition execute_storage_delete :: "hal \<Rightarrow> process_id \<Rightarrow> u8 list \<Rightarrow> i64 \<times> commit_type list" where
  "execute_storage_delete h = execute_key_request (hal_storage_delete_async h)"

definition execute_storage_list :: "hal \<Rightarrow> process_id \<Rightarrow> u8 list \<Rightarrow> i64 \<times> commit_type list" where
  "execute_storage_list h = execute_key_request (hal_storage_list_async h)"

definition execute_storage_exists :: "hal \<Rightarrow> process_id \<Rightarrow> u8 list \<Rightarrow> i64 \<times> commit_type list" where
  "execute_storage_exists h = execute_key_request (hal_storage_exists_async h)"

definition execute_storage_syscall ::
  "hal \<Rightarrow> u32 \<Rightarrow> process_id \<Rightarrow> u8 list \<Rightarrow> i64 \<times> commit_type list" where
  "execute_storage_syscall h num sender data =
     (if num = 0x70 then execute_storage_read h sender data
      else if num = 0x71 then execute_storage_write h sender data
      else if num = 0x72 then execute_storage_delete h sender data
      else if num = 0x73 then execute_storage_list h sender data
      else if num = 0x74 then execute_storage_exists h sender data
      else (- 1, []))"

definition execute_keystore_read :: "hal \<Rightarrow> process_id \<Rightarrow> u8 list \<Rightarrow> i64 \<times> commit_type list" where
  "execute_keystore_read h = execute_key_request (hal_keystore_read_async h)"

definition execute_keystore_write :: "hal \<Rightarrow> process_id \<Rightarrow> u8 list \<Rightarrow> i64 \<times> commit_type list" where
  "execute_keystore_write h = execute_key_write (hal_keystore_write_async h)"

definition execute_keystore_delete :: "hal \<Rightarrow> process_id \<Rightarrow> u8 list \<Rightarrow> i64 \<times> commit_type list" where
  "execute_keystore_delete h = execute_key_request (hal_keystore_delete_async h)"

definition execute_keystore_list :: "hal \<Rightarrow> process_id \<Rightarrow> u8 list \<Rightarrow> i64 \<times> commit_type list" where
  "execute_keystore_list h = execute_key_request (hal_keystore_list_async h)"

definition execute_keystore_exists :: "hal \<Rightarrow> process_id \<Rightarrow> u8 list \<Rightarrow> i64 \<times> commit_type list" where
  "execute_keystore_exists h = execute_key_request (hal_keystore_exists_async h)"

definition execute_keystore_syscall ::
  "hal \<Rightarrow> u32 \<Rightarrow> process_id \<Rightarrow> u8 list \<Rightarrow> i64 \<times> commit_type list" where
  "execute_keystore_syscall h num sender data =
     (if num = 0x80 then execute_keystore_read h sender data
      else if num = 0x81 then execute_keystore_write h sender data
      else if num = 0x82 then execute_keystore_delete h sender data
      else if num = 0x83 then execute_keystore_list h sender data
      else if num = 0x84 then execute_keystore_exists h sender data
      else (- 1, []))"

definition execute_network_syscall :: "hal \<Rightarrow> process_id \<Rightarrow> u8 list \<Rightarrow> i64 \<times> commit_type list" where
  "execute_network_syscall h sender data = request_result (hal_network_fetch_async h (pid_raw sender) data)"

definition execute_syscall_kernel_fn ::
  "hal \<Rightarrow> kernel_core \<Rightarrow> u32 \<Rightarrow> process_id \<Rightarrow> args4 \<Rightarrow> u8 list \<Rightarrow> u64 \<Rightarrow> executed_data" where
  "execute_syscall_kernel_fn h k num sender args data timestamp =
     (if num \<le> 0x07
      then (let (r, c) = execute_basic_syscall h num sender args in (r, c, [], k))
      else if 0x11 \<le> num \<and> num \<le> 0x17
      then execute_process_syscall h k num sender args data timestamp
      else if num = 0x30 \<or> num = 0x31 \<or> num = 0x35
      then with_no_data (execute_capability_syscall k num sender args timestamp)
      else if num = 0x40 \<or> num = 0x41
      then execute_ipc_syscall k num sender args data timestamp
      else if num = 0x50 then (0, [], [], k)
      else if 0x70 \<le> num \<and> num \<le> 0x74
      then (let (r, c) = execute_storage_syscall h num sender data in (r, c, [], k))
      else if 0x80 \<le> num \<and> num \<le> 0x84
      then (let (r, c) = execute_keystore_syscall h num sender data in (r, c, [], k))
      else if num = 0x90
      then (let (r, c) = execute_network_syscall h sender data in (r, c, [], k))
      else (- 1, [], [], k))"

section \<open>Rich results\<close>

type_synonym rich = "core_syscall_result \<times> u8 list \<times> commit_type list \<times> kernel_core"

definition caps_list_bytes :: "(u32 \<times> capability) list \<Rightarrow> u8 list" where
  "caps_list_bytes caps =
     u32_to_le_bytes (word_of_nat (length caps))
     @ concat (map (\<lambda>(slot, c). u32_to_le_bytes slot @ [object_type_as_u8 (cap_object_type c)]
                                @ u64_to_le_bytes (cap_object_id c)) caps)"

definition format_caps_list :: "kernel_core \<Rightarrow> process_id \<Rightarrow> i64 \<Rightarrow> u64 \<Rightarrow> rich" where
  "format_caps_list k sender result timestamp =
     (let (rich_result, _, k) = handle_syscall k sender ListCaps timestamp
      in (case rich_result of
            CapList caps \<Rightarrow> (rich_result, caps_list_bytes caps, [], k)
          | _ \<Rightarrow> (Ok result, [], [], k)))"

definition u16_to_le_bytes :: "16 word \<Rightarrow> u8 list" where
  "u16_to_le_bytes w = nat_le_bytes 2 (unat w)"

definition process_list_bytes :: "(process_id \<times> string \<times> process_state) list \<Rightarrow> u8 list" where
  "process_list_bytes procs =
     u32_to_le_bytes (word_of_nat (length procs))
     @ concat (map (\<lambda>(pid, name, _). u32_to_le_bytes (ucast (pid_raw pid))
                     @ u16_to_le_bytes (word_of_nat (length name)) @ str_bytes name) procs)"

definition format_process_list :: "kernel_core \<Rightarrow> process_id \<Rightarrow> i64 \<Rightarrow> u64 \<Rightarrow> rich" where
  "format_process_list k sender result timestamp =
     (let (rich_result, _, k) = handle_syscall k sender ListProcesses timestamp
      in (case rich_result of
            ProcessList procs \<Rightarrow> (rich_result, process_list_bytes procs, [], k)
          | _ \<Rightarrow> (Ok result, [], [], k)))"

definition format_receive_result :: "kernel_core \<Rightarrow> process_id \<Rightarrow> args4 \<Rightarrow> i64 \<Rightarrow> u64 \<Rightarrow> rich" where
  "format_receive_result k sender args result timestamp =
     (if result = 1
      then
        let (recv_result, commits, k) = kc_ipc_receive_with_caps k sender (fst args) timestamp;
            commit_types = map cm_commit_type commits
        in (case recv_result of
              Inr (Some (msg, installed_slots)) \<Rightarrow>
                (Message msg,
                 u32_to_le_bytes (ucast (pid_raw (cmsg_from msg))) @ u32_to_le_bytes (cmsg_tag msg)
                   @ [word_of_nat (length installed_slots)]
                   @ concat (map u32_to_le_bytes installed_slots) @ cmsg_data msg,
                 commit_types, k)
            | _ \<Rightarrow> (Ok result, [], commit_types, k))
      else if result = 0 then (ResWouldBlock, [], [], k)
      else (Err PermissionDenied, [], [], k))"

definition default_rich_result :: "kernel_core \<Rightarrow> i64 \<Rightarrow> rich" where
  "default_rich_result k result =
     (if sint result \<ge> 0 then (Ok result, [], [], k) else (Err PermissionDenied, [], [], k))"

definition get_syscall_rich_result ::
  "kernel_core \<Rightarrow> process_id \<Rightarrow> u32 \<Rightarrow> args4 \<Rightarrow> i64 \<Rightarrow> u64 \<Rightarrow> rich" where
  "get_syscall_rich_result k sender num args result timestamp =
     (if num = 0x35 then format_caps_list k sender result timestamp
      else if num = 0x50 then format_process_list k sender result timestamp
      else if num = 0x41 then format_receive_result k sender args result timestamp
      else default_rich_result k result)"

section \<open>Methods of the system\<close>

definition sys_process_syscall ::
  "hal \<Rightarrow> u64 \<Rightarrow> system \<Rightarrow> process_id \<Rightarrow> u32 \<Rightarrow> args4 \<Rightarrow> u8 list
   \<Rightarrow> (i64 \<times> core_syscall_result \<times> u8 list) \<times> system" where
  "sys_process_syscall h now s sender num args data =
     (let timestamp = sys_uptime_nanos s now;
          (req_id, sl) = sl_log_request (gw_syslog (sys_axiom s)) (pid_raw sender) num args timestamp;
          s = s\<lparr>sys_axiom := (sys_axiom s)\<lparr>gw_syslog := sl\<rparr>\<rparr>;
          (result, commit_types, kernel_response_data, k) =
            execute_syscall_kernel_fn h (sys_kernel s) num sender args data timestamp;
          s = sys_append_types (s\<lparr>sys_kernel := k\<rparr>) commit_types timestamp;
          (rich_result, metrics_response_data, additional_commits, k) =
            get_syscall_rich_result (sys_kernel s) sender num args result timestamp;
          s = sys_append_types (s\<lparr>sys_kernel := k\<rparr>) additional_commits timestamp;
          sl = sl_log_response (gw_syslog (sys_axiom s)) (pid_raw sender) req_id result timestamp;
          s = s\<lparr>sys_axiom := (sys_axiom s)\<lparr>gw_syslog := sl\<rparr>\<rparr>;
          response_data = (if kernel_response_data \<noteq> [] then kernel_response_data
                           else metrics_response_data)
      in ((result, rich_result, response_data), s))"

text \<open>Run a kernel operation at the current time and record its commits.\<close>

definition sys_routed ::
  "u64 \<Rightarrow> system \<Rightarrow> (kernel_core \<Rightarrow> u64 \<Rightarrow> 'a \<times> commit list \<times> kernel_core) \<Rightarrow> 'a \<times> system" where
  "sys_routed now s operation =
     (let timestamp = sys_uptime_nanos s now;
          (result, commits, k) = operation (sys_kernel s) timestamp
      in (result, sys_record_commits (s\<lparr>sys_kernel := k\<rparr>) commits timestamp))"

definition sys_register_process :: "u64 \<Rightarrow> system \<Rightarrow> string \<Rightarrow> process_id \<times> system" where
  "sys_register_process now s name = sys_routed now s (\<lambda>k. kc_register_process k name)"

definition sys_register_process_with_pid ::
  "u64 \<Rightarrow> system \<Rightarrow> process_id \<Rightarrow> string \<Rightarrow> process_id \<times> system" where
  "sys_register_process_with_pid now s pid name =
     sys_routed now s (\<lambda>k. kc_register_process_with_pid k pid name)"

definition sys_kill_process :: "u64 \<Rightarrow> system \<Rightarrow> process_id \<Rightarrow> system" where
  "sys_kill_process now s pid = snd (sys_routed now s (\<lambda>k ts. ((), kc_kill_process k pid ts)))"

definition sys_fault_process :: "u64 \<Rightarrow> system \<Rightarrow> process_id \<Rightarrow> u32 \<Rightarrow> string \<Rightarrow> system" where
  "sys_fault_process now s pid reason description =
     snd (sys_routed now s (\<lambda>k ts. ((), kc_fault_process k pid reason description ts)))"

definition sys_create_endpoint ::
  "u64 \<Rightarrow> system \<Rightarrow> process_id \<Rightarrow> (core_error + endpoint_id \<times> u32) \<times> system" where
  "sys_create_endpoint now s owner = sys_routed now s (\<lambda>k. kc_create_endpoint k owner)"

definition sys_grant_capability ::
  "u64 \<Rightarrow> system \<Rightarrow> process_id \<Rightarrow> u32 \<Rightarrow> process_id \<Rightarrow> permissions \<Rightarrow> (core_error + u32) \<times> system" where
  "sys_grant_capability now s from_pid from_slot to_pid perms =
     sys_routed now s (\<lambda>k. kc_grant_capability k from_pid from_slot to_pid perms)"

definition sys_grant_capability_to_endpoint ::
  "u64 \<Rightarrow> system \<Rightarrow> process_id \<Rightarrow> endpoint_id \<Rightarrow> process_id \<Rightarrow> permissions \<Rightarrow> (core_error + u32) \<times> system" where
  "sys_grant_capability_to_endpoint now s owner_pid eid to_pid perms =
     sys_routed now s (\<lambda>k. kc_grant_capability_to_endpoint k owner_pid eid to_pid perms)"

definition sys_revoke_capability ::
  "u64 \<Rightarrow> system \<Rightarrow> process_id \<Rightarrow> u32 \<Rightarrow> (core_error + unit) \<times> system" where
  "sys_revoke_capability now s pid slot = sys_routed now s (\<lambda>k. kc_revoke_capability k pid slot)"

definition sys_delete_capability ::
  "u64 \<Rightarrow> system \<Rightarrow> process_id \<Rightarrow> u32 \<Rightarrow> (core_error + unit) \<times> system" where
  "sys_delete_capability now s pid slot = sys_routed now s (\<lambda>k. kc_delete_capability k pid slot)"

definition sys_delete_capability_with_notification ::
  "u64 \<Rightarrow> system \<Rightarrow> process_id \<Rightarrow> u32 \<Rightarrow> u8 \<Rightarrow> (core_error + revoke_notification) \<times> system" where
  "sys_delete_capability_with_notification now s pid slot reason =
     (let found = (case kc_get_cap_space (sys_kernel s) pid of
                     None \<Rightarrow> None | Some cs \<Rightarrow> cs_get cs slot)
      in (case sys_delete_capability now s pid slot of
            (Inl e, s) \<Rightarrow> (Inl e, s)
          | (Inr _, s) \<Rightarrow>
              (Inr (case found of
                      Some c \<Rightarrow> \<lparr>rn_pid = pid, rn_slot = slot,
                                 rn_object_type = object_type_as_u8 (cap_object_type c),
                                 rn_object_id = cap_object_id c, rn_reason = reason\<rparr>
                    | None \<Rightarrow> revoke_notification_empty), s)))"

definition sys_derive_capability ::
  "u64 \<Rightarrow> system \<Rightarrow> process_id \<Rightarrow> u32 \<Rightarrow> permissions \<Rightarrow> (core_error + u32) \<times> system" where
  "sys_derive_capability now s pid slot new_perms =
     sys_routed now s (\<lambda>k. kc_derive_capability k pid slot new_perms)"

definition sys_inject_to_init :: "u64 \<Rightarrow> system \<Rightarrow> u32 \<Rightarrow> u8 list \<Rightarrow> (core_error + unit) \<times> system" where
  "sys_inject_to_init now s tag data =
     (let timestamp = sys_uptime_nanos s now;
          init_pid = ProcessId 1
      in (case find (\<lambda>e. ei_owner e = init_pid) (kc_list_endpoints (sys_kernel s)) of
            None \<Rightarrow> (Inl EndpointNotFound, s)
          | Some info \<Rightarrow>
              let init_endpoint = ei_id info;
                  message = \<lparr>cmsg_from = ProcessId 0, cmsg_tag = tag, cmsg_data = data,
                             cmsg_transferred_caps = []\<rparr>
              in (case bt_get (kc_endpoints (sys_kernel s)) init_endpoint of
                    None \<Rightarrow> (Inl EndpointNotFound, s)
                  | Some _ \<Rightarrow>
                      let k = kc_map_endpoint init_endpoint
                                (\<lambda>e. e\<lparr>ep_pending := ep_pending e @ [message]\<rparr>) (sys_kernel s);
                          s = s\<lparr>sys_kernel := k\<rparr>
                      in (Inr (), sys_append_types s
                            [MessageSent 0 (eid_raw init_endpoint) tag (length data)] timestamp))))"

definition sys_ipc_send ::
  "u64 \<Rightarrow> system \<Rightarrow> process_id \<Rightarrow> u32 \<Rightarrow> u32 \<Rightarrow> u8 list \<Rightarrow> (core_error + unit) \<times> system" where
  "sys_ipc_send now s from_pid slot tag data =
     (let timestamp = sys_uptime_nanos s now;
          (result, commit, k) = kc_ipc_send (sys_kernel s) from_pid slot tag data timestamp;
          s = s\<lparr>sys_kernel := k\<rparr>
      in (result, case commit of
                    None \<Rightarrow> s
                  | Some c \<Rightarrow> sys_append_types s [cm_commit_type c] timestamp))"

definition sys_ipc_send_with_caps ::
  "u64 \<Rightarrow> system \<Rightarrow> process_id \<Rightarrow> u32 \<Rightarrow> u32 \<Rightarrow> u8 list \<Rightarrow> u32 list \<Rightarrow> (core_error + unit) \<times> system" where
  "sys_ipc_send_with_caps now s from_pid slot tag data cap_slots =
     sys_routed now s (\<lambda>k. kc_ipc_send_with_caps k from_pid slot tag data cap_slots)"

definition sys_ipc_receive ::
  "u64 \<Rightarrow> system \<Rightarrow> process_id \<Rightarrow> u32 \<Rightarrow> (core_error + core_message option) \<times> system" where
  "sys_ipc_receive now s pid slot =
     (let (result, k) = kc_ipc_receive (sys_kernel s) pid slot (sys_uptime_nanos s now)
      in (result, s\<lparr>sys_kernel := k\<rparr>))"

definition sys_ipc_receive_with_caps ::
  "u64 \<Rightarrow> system \<Rightarrow> process_id \<Rightarrow> u32 \<Rightarrow> (core_error + (core_message \<times> u32 list) option) \<times> system" where
  "sys_ipc_receive_with_caps now s pid slot =
     sys_routed now s (\<lambda>k. kc_ipc_receive_with_caps k pid slot)"

definition sys_handle_syscall ::
  "u64 \<Rightarrow> system \<Rightarrow> process_id \<Rightarrow> core_syscall \<Rightarrow> core_syscall_result \<times> system" where
  "sys_handle_syscall now s pid sc = sys_routed now s (\<lambda>k. handle_syscall k pid sc)"

definition sys_allocate_memory :: "system \<Rightarrow> process_id \<Rightarrow> usize \<Rightarrow> (core_error + usize) \<times> system" where
  "sys_allocate_memory s pid bytes =
     (let (result, k) = kc_allocate_memory (sys_kernel s) pid bytes in (result, s\<lparr>sys_kernel := k\<rparr>))"

definition sys_free_memory :: "system \<Rightarrow> process_id \<Rightarrow> usize \<Rightarrow> (core_error + usize) \<times> system" where
  "sys_free_memory s pid bytes =
     (let (result, k) = kc_free_memory (sys_kernel s) pid bytes in (result, s\<lparr>sys_kernel := k\<rparr>))"

definition sys_update_process_memory :: "system \<Rightarrow> process_id \<Rightarrow> usize \<Rightarrow> system" where
  "sys_update_process_memory s pid new_size =
     s\<lparr>sys_kernel := kc_update_process_memory (sys_kernel s) pid new_size\<rparr>"

definition sys_get_system_metrics :: "u64 \<Rightarrow> system \<Rightarrow> system_metrics" where
  "sys_get_system_metrics now s = kc_get_system_metrics (sys_kernel s) (sys_uptime_nanos s now)"

end
