(* ===== verification/System_Authority.thy ===== *)
theory System_Authority
  imports System
begin

text \<open>
  Authority at the system boundary: what \<^verbatim>\<open>System::process_syscall\<close> can do to the capabilities and
  the processes of the kernel, for every call number, and what only Init may ask for.
\<close>

section \<open>Calls only attenuate\<close>

definition exec_state :: "executed_data \<Rightarrow> kernel_core" where
  "exec_state r = snd (snd (snd r))"

lemma exec_state_simps [simp]:
  "exec_state (r, cts, bytes, k) = k"
  "exec_state (with_no_data e) = snd (snd e)"
  by (simp_all add: exec_state_def with_no_data_def)

lemma exec_state_if [simp]: "exec_state (if b then x else y) = (if b then exec_state x else exec_state y)"
  by simp

lemma register_le: "kc_le k (op_state (kc_register_process k name ts))"
  using space_caps_insert [of "ProcessId (kc_next_pid k)" cs_new "kc_cap_spaces k"]
  by (auto simp: kc_register_process_def kc_register_process_with_parent_def Let_def kc_caps_def
      cs_caps_def cs_new_def intro!: kc_le_sub)

lemma create_endpoint_id:
  "kc_create_endpoint k p ts = (Inr (eid, slot), commits, k') \<Longrightarrow>
     eid_raw eid = kc_next_endpoint_id k \<and> kc_next_endpoint_id k' = kc_next_endpoint_id k + 1"
  using kc_insert_cap_next
  by (fastforce simp: kc_create_endpoint_def kc_grant_owner_endpoint_cap_def Let_def case_prod_unfold
      split: if_splits sum.splits prod.splits)

lemma create_endpoint_for_le: "kc_le k (snd (snd (execute_create_endpoint_for k sender args ts)))"
proof (cases "pid_raw sender = 1")
  case True
  let ?p = "ProcessId (ucast (fst args))"
  obtain r commits k1 where r: "kc_create_endpoint k ?p ts = (r, commits, k1)"
    by (metis prod_cases3)
  have k1: "kc_le k k1"
    using create_endpoint_le [of k ?p ts] r by simp
  show ?thesis
  proof (cases r)
    case (Inr e)
    obtain eid slot where e: "e = (eid, slot)"
      by force
    let ?c = "\<lparr>cap_id = kc_next_cap_id k1, cap_object_type = ObjEndpoint, cap_object_id = eid_raw eid,
               cap_permissions = perms_full, cap_generation = 0, cap_expires_at = 0\<rparr>"
    let ?k2 = "k1\<lparr>kc_next_cap_id := kc_next_cap_id k1 + 1\<rparr>"
    let ?k3 = "snd (kc_insert_cap ?k2 (ProcessId 1) ?c ts)"
    have id: "eid_raw eid = kc_next_endpoint_id k" "kc_next_endpoint_id k1 = kc_next_endpoint_id k + 1"
      using create_endpoint_id [of k ?p ts eid slot commits k1] r Inr e by auto
    obtain n where n: "kc_next_endpoint_id k1 = kc_next_endpoint_id k + word_of_nat n"
      "\<And>c. c \<in> kc_caps k1 \<Longrightarrow> (\<exists>c0 \<in> kc_caps k. cap_le c c0) \<or> new_endpoint_cap (kc_next_endpoint_id k) n c"
      using k1 unfolding kc_le_def by auto
    have "n \<noteq> 0"
      using n(1) id(2) by (intro notI) simp
    then have "new_endpoint_cap (kc_next_endpoint_id k) n ?c"
      using id(1) by (auto simp: new_endpoint_cap_def intro: exI [of _ 0])
    then have "kc_le k ?k3"
      using n kc_insert_cap_caps [of ?k2 "ProcessId 1" ?c ts] unfolding kc_le_def by (intro exI [of _ n]) auto
    moreover have "kc_le k ?k2"
      using k1 by (simp add: kc_le_def)
    ultimately show ?thesis
      using True r Inr e
      by (simp add: execute_create_endpoint_for_def kc_alloc_cap_id_def Let_def kc_insert_cap_def
          case_prod_unfold split: option.splits)
  qed (use True r k1 in \<open>simp add: execute_create_endpoint_for_def Let_def\<close>)
qed (simp add: execute_create_endpoint_for_def kc_le_refl)

lemma spawn_le: "kc_le k (snd (snd (execute_spawn_process h k sender data ts)))"
  using register_le [of k]
  by (simp add: execute_spawn_process_def Let_def case_prod_unfold op_state_def kc_le_refl
      split: option.split sum.split)

lemma process_syscall_le: "kc_le k (exec_state (execute_process_syscall h k num sender args data ts))"
proof -
  have "kc_le k (snd (snd (execute_exit k sender ts)))"
    using kill_le [of k sender ts] by (simp add: execute_exit_def Let_def case_prod_unfold)
  moreover have "kc_le k (snd (snd (execute_kill_with_cap k sender args ts)))"
    using kill_checked_le [of k sender "ProcessId (ucast (fst args))" ts]
    by (simp add: execute_kill_with_cap_def Let_def op_state_def case_prod_unfold split: sum.split)
  moreover have "kc_le k (snd (snd (execute_register_process k sender data ts)))"
    using register_le [of k]
    by (simp add: execute_register_process_def Let_def op_state_def case_prod_unfold kc_le_refl)
  moreover have "exec_state (execute_load_binary h k sender data) = k"
    by (simp add: execute_load_binary_def split: option.split sum.split hal_error.split)
  ultimately show ?thesis
    by (simp add: execute_process_syscall_def create_endpoint_for_le spawn_le kc_le_refl)
qed

lemma capability_syscall_le: "kc_le k (snd (snd (execute_capability_syscall k num sender args ts)))"
  using grant_le [of k sender] delete_le [of k _ _ ts] create_endpoint_le [of k sender ts]
  by (cases args) (simp add: execute_capability_syscall_def Let_def op_state_def case_prod_unfold kc_le_refl
      split: sum.split)

lemma ipc_syscall_le: "kc_le k (exec_state (execute_ipc_syscall k num sender args data ts))"
  using send_le [of k sender _ _ data ts] receive_le [of k sender _ ts]
  by (cases args) (simp add: execute_ipc_syscall_def Let_def op_state_def case_prod_unfold kc_le_refl
      split: sum.split option.split)

lemma execute_le: "kc_le k (exec_state (execute_syscall_kernel_fn h k num sender args data ts))"
  by (simp add: execute_syscall_kernel_fn_def Let_def case_prod_unfold process_syscall_le capability_syscall_le
      ipc_syscall_le kc_le_refl)

lemma rich_le: "kc_le k (snd (snd (snd (get_syscall_rich_result k sender num args result ts))))"
  using handle_syscall_le [of k sender _ ts] receive_with_caps_le [of k sender "fst args" ts]
  by (simp add: get_syscall_rich_result_def format_caps_list_def format_process_list_def
      format_receive_result_def default_rich_result_def Let_def op_state_def case_prod_unfold kc_le_refl
      split: core_syscall_result.split sum.split option.split)

lemma sys_append_types_kernel [simp]: "sys_kernel (sys_append_types s cts ts) = sys_kernel s"
  by (simp add: sys_append_types_def)

lemma process_syscall_kernel:
  "sys_kernel (snd (sys_process_syscall h now s sender num args data)) =
     (let ts = sys_uptime_nanos s now;
          (result, _, _, k) = execute_syscall_kernel_fn h (sys_kernel s) num sender args data ts
      in snd (snd (snd (get_syscall_rich_result k sender num args result ts))))"
  by (simp add: sys_process_syscall_def Let_def case_prod_unfold)

lemma system_le: "kc_le (sys_kernel s) (sys_kernel (snd (sys_process_syscall h now s sender num args data)))"
  using execute_le kc_le_trans rich_le
  by (simp add: process_syscall_kernel Let_def case_prod_unfold exec_state_def) blast

type_synonym system_call = "hal \<times> u64 \<times> process_id \<times> u32 \<times> args4 \<times> u8 list"

fun system_step :: "system \<Rightarrow> system_call \<Rightarrow> system" where
  "system_step s (h, now, sender, num, args, data) = snd (sys_process_syscall h now s sender num args data)"

interpretation system_authority: guarded_machine system_step "\<lambda>_ _. True" "\<lambda>_. True"
  "\<lambda>s s'. kc_le (sys_kernel s) (sys_kernel s')"
proof
  show "kc_le (sys_kernel s) (sys_kernel (system_step s c))" for s c
    by (cases c) (simp add: system_le)
qed (auto intro: kc_le_refl kc_le_trans)

section \<open>Calls that end a process\<close>

lemma register_pids: "kc_pids k \<subseteq> kc_pids (op_state (kc_register_process k name ts))"
  by (auto simp: kc_register_process_def kc_register_process_with_parent_def Let_def kc_pids_def)

lemma create_endpoint_for_shape: "kc_shape (snd (snd (execute_create_endpoint_for k sender args ts))) = kc_shape k"
  using create_endpoint_shape [of k "ProcessId (ucast (fst args))" ts]
  by (auto simp: execute_create_endpoint_for_def kc_alloc_cap_id_def Let_def case_prod_unfold op_state_def
      split: sum.split option.split)

lemma capability_syscall_shape:
  "kc_shape (snd (snd (execute_capability_syscall k num sender args ts))) = kc_shape k"
  using grant_shape [of k sender] remove_shape(2) [of k _ _ ts] create_endpoint_shape [of k sender ts]
  by (cases args) (simp add: execute_capability_syscall_def Let_def op_state_def case_prod_unfold
      split: sum.split)

lemma ipc_syscall_shape: "kc_shape (exec_state (execute_ipc_syscall k num sender args data ts)) = kc_shape k"
  using send_shape [of k sender _ _ data ts] receive_shape [of k sender _ ts]
  by (cases args) (simp add: execute_ipc_syscall_def Let_def op_state_def case_prod_unfold
      split: sum.split option.split)

lemma process_syscall_pids:
  assumes "num \<noteq> 0x11" "num \<noteq> 0x13"
  shows "kc_pids k \<subseteq> kc_pids (exec_state (execute_process_syscall h k num sender args data ts))"
proof -
  have "kc_pids k \<subseteq> kc_pids (snd (snd (execute_register_process k sender data ts)))"
    using register_pids [of k]
    by (simp add: execute_register_process_def Let_def op_state_def case_prod_unfold)
  moreover have "kc_pids k \<subseteq> kc_pids (snd (snd (execute_spawn_process h k sender data ts)))"
    using register_pids [of k]
    by (simp add: execute_spawn_process_def Let_def op_state_def case_prod_unfold split: option.split sum.split)
  moreover have "exec_state (execute_load_binary h k sender data) = k"
    by (simp add: execute_load_binary_def split: option.split sum.split hal_error.split)
  ultimately show ?thesis
    using assms kc_shape_pids [OF create_endpoint_for_shape]
    by (simp add: execute_process_syscall_def)
qed

lemma execute_pids:
  assumes "q \<in> kc_pids k" "q \<notin> kc_pids (exec_state (execute_syscall_kernel_fn h k num sender args data ts))"
  shows "num = 0x11 \<and> q = sender
    \<or> num = 0x13 \<and> q = ProcessId (ucast (fst args)) \<and> (pid_raw sender = 1 \<or> kc_has_kill_permission k sender q)"
proof -
  let ?k' = "exec_state (execute_syscall_kernel_fn h k num sender args data ts)"
  consider "num = 0x11" | "num = 0x13" | "num \<noteq> 0x11" "num \<noteq> 0x13"
    by blast
  then show ?thesis
  proof cases
    case 1
    then have "?k' = snd (kc_kill_process k sender ts)"
      by (simp add: execute_syscall_kernel_fn_def execute_process_syscall_def execute_exit_def Let_def
          case_prod_unfold)
    then show ?thesis
      using assms 1 by (auto simp: kc_kill_process_eq kc_pids_def)
  next
    case 2
    then have "?k' = op_state (kc_kill_process_with_cap_check k sender (ProcessId (ucast (fst args))) ts)"
      by (simp add: execute_syscall_kernel_fn_def execute_process_syscall_def execute_kill_with_cap_def Let_def
          case_prod_unfold op_state_def split: sum.split)
    then show ?thesis
      using assms 2 by (auto simp: kill_pids split: if_splits)
  next
    case 3
    then have "kc_pids k \<subseteq> kc_pids ?k'"
      using process_syscall_pids kc_shape_pids [OF capability_syscall_shape] kc_shape_pids [OF ipc_syscall_shape]
      by (simp add: execute_syscall_kernel_fn_def Let_def case_prod_unfold)
    then show ?thesis
      using assms by blast
  qed
qed

lemma rich_shape:
  "kc_shape (snd (snd (snd (get_syscall_rich_result k sender num args result ts)))) = kc_shape k"
proof -
  have "kc_shape (op_state (handle_syscall k sender ListCaps ts)) = kc_shape k"
    "kc_shape (op_state (handle_syscall k sender ListProcesses ts)) = kc_shape k"
    by (simp_all add: handle_syscall_def dispatch_shape)
  then show ?thesis
    using receive_with_caps_shape [of k sender "fst args" ts]
    by (simp add: get_syscall_rich_result_def format_caps_list_def format_process_list_def
        format_receive_result_def default_rich_result_def Let_def op_state_def case_prod_unfold
        split: core_syscall_result.split sum.split option.split)
qed

section \<open>Properties\<close>


definition example_hal :: hal where
  "example_hal =
     \<lparr>hal_now_nanos = 100, hal_wallclock_ms = 7,
      hal_storage_read_async = (\<lambda>_ _. Inr 1), hal_storage_write_async = (\<lambda>_ _ _. Inr 2),
      hal_storage_delete_async = (\<lambda>_ _. Inr 3), hal_storage_list_async = (\<lambda>_ _. Inr 4),
      hal_storage_exists_async = (\<lambda>_ _. Inr 5), hal_keystore_read_async = (\<lambda>_ _. Inr 6),
      hal_keystore_write_async = (\<lambda>_ _ _. Inr 7), hal_keystore_delete_async = (\<lambda>_ _. Inr 8),
      hal_keystore_list_async = (\<lambda>_ _. Inr 9), hal_keystore_exists_async = (\<lambda>_ _. Inr 10),
      hal_network_fetch_async = (\<lambda>_ _. Inl NotSupported), hal_load_binary = (\<lambda>_. Inl NotFound),
      hal_spawn_process_with_pid = (\<lambda>_ _ _. Inr ())\<rparr>"

definition example_system :: system where
  "example_system = (sys_new 10)\<lparr>sys_kernel := example_core\<rparr>"

lemma example_system_simps [simp]:
  "sys_kernel example_system = example_core"
  "sys_uptime_nanos example_system 20 = 10"
  by (simp_all add: example_system_def sys_new_def sys_uptime_nanos_def)


text \<open>
  C3. Only authority ends a process at the system boundary: if a process is gone from the table
  after a call, then either the process itself made call 0x11, or the call was 0x13 with that
  process as its target, made by Init or by a caller that held a capability to that process
  with the write right.
\<close>

theorem system_ends_processes_by_authority:
  assumes "sys_process_syscall h now s sender num args data = (r, s')"
    and "bt_get (kc_processes (sys_kernel s)) q \<noteq> None" "bt_get (kc_processes (sys_kernel s')) q = None"
  shows "num = 0x11 \<and> q = sender
    \<or> num = 0x13 \<and> q = ProcessId (ucast (fst args)) \<and> (sender = ProcessId 1 \<or>
        (\<exists>cs slot c. bt_get (kc_cap_spaces (sys_kernel s)) sender = Some cs \<and> (slot, c) \<in> set (cs_slots cs)
           \<and> cap_object_type c = ObjProcess \<and> cap_object_id c = pid_raw q
           \<and> perm_write (cap_permissions c)))"
proof -
  let ?ts = "sys_uptime_nanos s now"
  let ?k = "exec_state (execute_syscall_kernel_fn h (sys_kernel s) num sender args data ?ts)"
  have "kc_pids (sys_kernel s') = kc_pids ?k"
    using process_syscall_kernel [of h now s sender num args data] assms(1) kc_shape_pids [OF rich_shape]
    by (simp add: Let_def case_prod_unfold exec_state_def)
  then have q: "q \<in> kc_pids (sys_kernel s)" "q \<notin> kc_pids ?k"
    using assms(2,3) by (auto simp: kc_pids_def)
  from execute_pids [OF this] show ?thesis
    using kill_permission_held [of "sys_kernel s" sender q] by (cases sender) auto
qed

theorem system_ends_processes_by_authority_witness:
  "(0x13 :: u32) = 0x11 \<and> ProcessId 2 = ProcessId 1
    \<or> (0x13 :: u32) = 0x13 \<and> ProcessId 2 = ProcessId (ucast (fst (2 :: u32, 0 :: u32, 0 :: u32, 0 :: u32)))
      \<and> (ProcessId 1 = ProcessId 1 \<or>
        (\<exists>cs slot c. bt_get (kc_cap_spaces (sys_kernel example_system)) (ProcessId 1) = Some cs
           \<and> (slot, c) \<in> set (cs_slots cs)
           \<and> cap_object_type c = ObjProcess \<and> cap_object_id c = pid_raw (ProcessId 2)
           \<and> perm_write (cap_permissions c)))"
proof (rule system_ends_processes_by_authority)
  let ?r = "sys_process_syscall example_hal 20 example_system (ProcessId 1) 0x13 (2, 0, 0, 0) []"
  show "?r = (fst ?r, snd ?r)"
    by simp
  show "bt_get (kc_processes (sys_kernel example_system)) (ProcessId 2) \<noteq> None"
    by (simp add: example_core_def)
  show "bt_get (kc_processes (sys_kernel (snd ?r))) (ProcessId 2) = None"
    unfolding process_syscall_kernel example_system_simps by code_simp
qed

text \<open>
  C8. Registering and spawning processes, creating endpoints for others and loading binaries are
  for Init: when any other process makes calls 0x14 to 0x17, it gets a negative result, an
  error and no data, and the kernel and the commit log are as they were; the refusal is in the
  audit log like any other call.
\<close>

theorem init_only_calls:
  assumes "pid_raw sender \<noteq> 1" "num \<in> {0x14, 0x15, 0x16, 0x17}"
    and "sys_process_syscall h now s sender num args data = ((result, rich, bytes), s')"
  shows "sint result < 0 \<and> rich = Err PermissionDenied \<and> bytes = []
    \<and> sys_kernel s' = sys_kernel s \<and> gw_commitlog (sys_axiom s') = gw_commitlog (sys_axiom s)
    \<and> gw_syslog (sys_axiom s') =
        (let (req, sl) = sl_log_request (gw_syslog (sys_axiom s)) (pid_raw sender) num args (sys_uptime_nanos s now)
         in sl_log_response sl (pid_raw sender) req result (sys_uptime_nanos s now))"
proof -
  let ?ts = "sys_uptime_nanos s now"
  have num: "num = 0x14 \<or> num = 0x15 \<or> num = 0x16 \<or> num = 0x17"
    using assms(2) by simp
  define e :: i64 where "e = (if num = 0x14 \<or> num = 0x15 then - 1 else - 4)"
  with num have "execute_syscall_kernel_fn h (sys_kernel s) num sender args data ?ts = (e, [], [], sys_kernel s)"
    using assms(1)
    by (elim disjE) (simp_all add: execute_syscall_kernel_fn_def execute_process_syscall_def with_no_data_def
        execute_register_process_def execute_create_endpoint_for_def execute_load_binary_def
        execute_spawn_process_def INIT_def syscall_error_PERMISSION_DENIED_def)
  moreover have "sint e < 0"
    by (simp add: e_def)
  ultimately show ?thesis
    using assms(3) num
    by (auto simp: sys_process_syscall_def get_syscall_rich_result_def default_rich_result_def Let_def
        case_prod_unfold sys_append_types_def)
qed

theorem init_only_calls_witness:
  "let ((result, rich, bytes), s') =
       sys_process_syscall example_hal 20 example_system (ProcessId 2) 0x15 (2, 0, 0, 0) []
   in sint result < 0 \<and> rich = Err PermissionDenied \<and> bytes = [] \<and> sys_kernel s' = example_core"
proof -
  let ?r = "sys_process_syscall example_hal 20 example_system (ProcessId 2) 0x15 (2, 0, 0, 0) []"
  have "pid_raw (ProcessId 2) \<noteq> 1" "(0x15 :: u32) \<in> {0x14, 0x15, 0x16, 0x17}"
    "?r = ((fst (fst ?r), fst (snd (fst ?r)), snd (snd (fst ?r))), snd ?r)"
    by simp_all
  from init_only_calls [OF this] show ?thesis
    by (simp add: Let_def case_prod_unfold)
qed

text \<open>
  C30. Call 0x31 asks for no authority: whoever makes it, and whatever it holds, the capability in
  the named slot of the named process is deleted.
\<close>

theorem delete_call_needs_no_authority:
  assumes "bt_get (kc_cap_spaces (sys_kernel s)) (ProcessId (ucast target)) = Some cs"
    and "cs_get cs slot = Some c"
    and "sys_process_syscall h now s sender 0x31 (target, slot, a2, a3) data = ((result, rich, bytes), s')"
  shows "result = 0 \<and> (\<exists>cs'. bt_get (kc_cap_spaces (sys_kernel s')) (ProcessId (ucast target)) = Some cs'
    \<and> cs_get cs' slot = None)"
proof -
  let ?p = "ProcessId (ucast target)" and ?ts = "sys_uptime_nanos s now"
  let ?k' = "kc_map_cap_space ?p (\<lambda>cs. snd (cs_remove cs slot)) (sys_kernel s)"
  have "execute_syscall_kernel_fn h (sys_kernel s) 0x31 sender (target, slot, a2, a3) data ?ts
      = (0, [CapRemoved (pid_raw ?p) slot], [], ?k')"
    using assms(1,2)
    by (simp add: execute_syscall_kernel_fn_def execute_capability_syscall_def kc_delete_capability_def
        with_no_data_def create_cap_removed_commit_def kc_commit_def)
  then have "result = 0" "sys_kernel s' = ?k'"
    using assms(3) process_syscall_kernel [of h now s sender "0x31" "(target, slot, a2, a3)" data]
    by (auto simp: get_syscall_rich_result_def default_rich_result_def sys_process_syscall_def Let_def
        case_prod_unfold)
  then show ?thesis
    using assms(1) by (simp add: kc_map_cap_space_def cs_remove_def cs_get_def)
qed

definition example_endpoint_cap :: capability where
  "example_endpoint_cap =
     \<lparr>cap_id = 1, cap_object_type = ObjEndpoint, cap_object_id = 1, cap_permissions = perms_full,
      cap_generation = 0, cap_expires_at = 0\<rparr>"

definition example_held :: system where
  "example_held =
     example_system\<lparr>sys_kernel := example_core\<lparr>kc_cap_spaces :=
       [(ProcessId 1, snd (cs_insert cs_new example_endpoint_cap)), (ProcessId 2, cs_new)]\<rparr>\<rparr>"

theorem delete_call_needs_no_authority_witness:
  "let ((result, rich, bytes), s') =
       sys_process_syscall example_hal 20 example_held (ProcessId 2) 0x31 (1, 0, 0, 0) []
   in result = 0 \<and> (\<exists>cs'. bt_get (kc_cap_spaces (sys_kernel s')) (ProcessId 1) = Some cs'
        \<and> cs_get cs' 0 = None)"
proof -
  let ?r = "sys_process_syscall example_hal 20 example_held (ProcessId 2) 0x31 (1, 0, 0, 0) []"
  let ?cs = "snd (cs_insert cs_new example_endpoint_cap)"
  have "bt_get (kc_cap_spaces (sys_kernel example_held)) (ProcessId (ucast (1 :: u32))) = Some ?cs"
    by (simp add: example_held_def)
  moreover have "cs_get ?cs 0 = Some example_endpoint_cap"
    by (simp add: cs_get_def cs_insert_def cs_new_def Let_def)
  moreover have "?r = ((fst (fst ?r), fst (snd (fst ?r)), snd (snd (fst ?r))), snd ?r)"
    by simp
  ultimately have "fst (fst ?r) = 0 \<and> (\<exists>cs'. bt_get (kc_cap_spaces (sys_kernel (snd ?r)))
      (ProcessId (ucast (1 :: u32))) = Some cs' \<and> cs_get cs' 0 = None)"
    by (rule delete_call_needs_no_authority)
  then show ?thesis
    by (simp add: Let_def case_prod_unfold)
qed

end
