(* ===== verification/Core_Transfer.thy ===== *)
theory Core_Transfer
  imports Core_Authority "HOL-Library.Multiset"
begin

text \<open>
  Conservation of capabilities in the runtime kernel's message passing. \<open>kc_mset\<close> counts every
  capability, in a space or in flight; a transfer moves capabilities and neither copies nor
  loses one.
\<close>

section \<open>Counting\<close>

definition cs_mset :: "capability_space \<Rightarrow> capability multiset" where
  "cs_mset cs = mset (map snd (cs_slots cs))"

definition tcaps_mset :: "core_transferred_cap list \<Rightarrow> capability multiset" where
  "tcaps_mset tcaps = mset (map ct_capability tcaps)"

definition ep_mset :: "core_endpoint \<Rightarrow> capability multiset" where
  "ep_mset e = sum_list (map (\<lambda>m. tcaps_mset (cmsg_transferred_caps m)) (ep_pending e))"

definition bt_sum :: "('v \<Rightarrow> 'c multiset) \<Rightarrow> ('k, 'v) btree_map \<Rightarrow> 'c multiset" where
  "bt_sum g m = sum_list (map (\<lambda>e. g (snd e)) m)"

definition kc_mset :: "kernel_core \<Rightarrow> capability multiset" where
  "kc_mset k = bt_sum cs_mset (kc_cap_spaces k) + bt_sum ep_mset (kc_endpoints k)"

definition kc_wf :: "kernel_core \<Rightarrow> bool" where
  "kc_wf k \<longleftrightarrow> bt_wf (kc_cap_spaces k) \<and> bt_wf (kc_endpoints k)
     \<and> list_all (\<lambda>e. cs_wf (snd e)) (kc_cap_spaces k)"

lemma bt_sum_modify:
  assumes "distinct (map fst m)" "bt_get m k = Some v"
  shows "bt_sum g (bt_modify k f m) + g v = bt_sum g m + g (f v)"
  using assms
proof (induction m)
  case (Cons e m)
  have "bt_modify k f m = m" if "k \<notin> fst ` set m"
    using that by (intro bt_modify_absent) (simp add: map_of_eq_None_iff)
  with Cons show ?case
    by (cases "fst e = k") (auto simp: bt_sum_def bt_modify_def ac_simps)
qed simp

lemma bt_sum_modify_absent: "bt_get m k = None \<Longrightarrow> bt_sum g (bt_modify k f m) = bt_sum g m"
  by (simp add: bt_modify_absent)

lemma bt_sum_modify_same: "(\<And>v. g (f v) = g v) \<Longrightarrow> bt_sum g (bt_modify k f m) = bt_sum g m"
  by (simp add: bt_sum_def bt_modify_def comp_def if_distrib [of g] cong: if_cong)

lemma mset_insert_fresh:
  "bt_get m k = None \<Longrightarrow> mset (map snd (bt_insert k v m)) = add_mset v (mset (map snd m))"
  by (induction m) (auto split: if_splits)

lemma mset_remove:
  "distinct (map fst m) \<Longrightarrow> bt_get m k = Some v \<Longrightarrow>
     add_mset v (mset (map snd (bt_remove k m))) = mset (map snd m)"
proof (induction m)
  case (Cons e m)
  have "bt_remove k m = m" if "k \<notin> fst ` set m"
    using that by (intro bt_remove_absent) (simp add: map_of_eq_None_iff)
  with Cons show ?case
    by (cases "fst e = k") (auto simp: bt_remove_def)
qed simp

lemma cs_mset_insert: "cs_wf cs \<Longrightarrow> cs_mset (snd (cs_insert cs c)) = add_mset c (cs_mset cs)"
  using mset_insert_fresh [of "cs_slots cs" "cs_next_slot cs" c] cs_wf_fresh [of cs]
  by (simp add: cs_mset_def cs_insert_def cs_get_def Let_def)

lemma cs_mset_remove:
  "cs_wf cs \<Longrightarrow> cs_get cs s = Some c \<Longrightarrow> add_mset c (cs_mset (snd (cs_remove cs s))) = cs_mset cs"
  using mset_remove [of "cs_slots cs" s c]
  by (simp add: cs_mset_def cs_remove_def cs_get_def cs_wf_def bt_wf_distinct)

section \<open>The loops\<close>

lemma remove_caps_conserve:
  "cs_wf cs \<Longrightarrow> cs_mset (snd (snd (remove_caps cs pid slots ts)))
     + tcaps_mset (fst (remove_caps cs pid slots ts)) = cs_mset cs"
proof (induction slots arbitrary: cs)
  case (Cons slot slots)
  have IH: "cs_mset (snd (snd (remove_caps (snd (cs_remove cs slot)) pid slots ts)))
      + tcaps_mset (fst (remove_caps (snd (cs_remove cs slot)) pid slots ts))
      = cs_mset (snd (cs_remove cs slot))"
    using Cons by (intro Cons.IH) (rule cs_wf_remove)
  show ?case
  proof (cases "cs_get cs slot")
    case None
    then have "snd (cs_remove cs slot) = cs"
      by (simp add: cs_remove_def cs_get_def bt_remove_absent)
    with IH None show ?thesis
      by (simp add: transfer_loops Let_def)
  next
    case (Some c)
    with IH cs_mset_remove [OF Cons.prems Some] show ?thesis
      by (simp add: transfer_loops Let_def tcaps_mset_def)
  qed
qed (simp add: tcaps_mset_def)

lemma install_caps_conserve:
  "cs_wf cs \<Longrightarrow> unat (cs_next_slot cs) + length tcaps < 2 ^ 32 \<Longrightarrow>
     cs_mset (snd (snd (install_caps cs pid tcaps ts))) = cs_mset cs + tcaps_mset tcaps"
proof (induction tcaps arbitrary: cs)
  case (Cons t tcaps)
  have "unat (- 1 :: u32) = 4294967295"
    by (simp add: unsigned_minus_1_eq_mask mask_eq_exp_minus_1)
  then have ne: "cs_next_slot cs \<noteq> - 1"
    using Cons.prems(2) by auto
  let ?cs = "snd (cs_insert cs (ct_capability t))"
  have "cs_mset (snd (snd (install_caps ?cs pid tcaps ts))) = cs_mset ?cs + tcaps_mset tcaps"
    using Cons.prems ne by (intro Cons.IH cs_wf_insert) (simp_all add: unat_succ)
  then show ?case
    using cs_mset_insert [OF Cons.prems(1)] by (simp add: transfer_loops Let_def tcaps_mset_def)
qed (simp add: tcaps_mset_def)

section \<open>Messages\<close>

lemma ep_mset_append:
  "ep_mset (e\<lparr>ep_pending := ep_pending e @ [m]\<rparr>) = ep_mset e + tcaps_mset (cmsg_transferred_caps m)"
  by (simp add: ep_mset_def)

lemma ep_mset_count [simp]: "ep_mset (count_sent n e) = ep_mset e"
  by (simp add: ep_mset_def count_sent_def Let_def)

lemma ep_mset_dequeue:
  "ep_mset (snd (core_dequeue e)) +
     (case fst (core_dequeue e) of None \<Rightarrow> {#} | Some m \<Rightarrow> tcaps_mset (cmsg_transferred_caps m))
   = ep_mset e"
  by (simp add: ep_mset_def core_dequeue_def split: list.split)

lemma kc_mset_frame [simp]:
  "kc_mset (kc_map_process p f k) = kc_mset k"
  "kc_mset (k\<lparr>kc_total_ipc_count := n\<rparr>) = kc_mset k"
  by (simp_all add: kc_mset_def)

lemma kc_mset_endpoint:
  assumes "kc_wf k" "bt_get (kc_endpoints k) eid = Some e"
  shows "kc_mset (kc_map_endpoint eid f k) + ep_mset e = kc_mset k + ep_mset (f e)"
  using bt_sum_modify [OF _ assms(2), of ep_mset f] assms(1)
  by (simp add: kc_mset_def kc_map_endpoint_def kc_wf_def bt_wf_distinct ac_simps)

lemma kc_mset_space:
  assumes "kc_wf k" "bt_get (kc_cap_spaces k) p = Some cs"
  shows "kc_mset (kc_map_cap_space p (\<lambda>_. cs') k) + cs_mset cs = kc_mset k + cs_mset cs'"
  using bt_sum_modify [OF _ assms(2), of cs_mset "\<lambda>_. cs'"] assms(1)
  by (simp add: kc_mset_def kc_map_cap_space_def kc_wf_def bt_wf_distinct ac_simps)

lemma kc_mset_metrics [simp]: "kc_mset (kc_update_send_metrics k p eid n ts) = kc_mset k"
  by (simp add: kc_update_send_metrics_def Let_def kc_mset_def kc_map_endpoint_def bt_sum_modify_same)

lemma kc_wf_space: "kc_wf k \<Longrightarrow> bt_get (kc_cap_spaces k) p = Some cs \<Longrightarrow> cs_wf cs"
  by (force simp: kc_wf_def list_all_iff dest: map_of_SomeD)

lemma kc_wf_shrunk:
  "kc_wf k \<Longrightarrow> cs_wf cs \<Longrightarrow> kc_wf (kc_map_cap_space p (\<lambda>_. cs) k)"
  using bt_wf_modify [of p "\<lambda>_. cs" "kc_cap_spaces k"]
  by (simp add: kc_wf_def kc_map_cap_space_def list_all_iff) (auto simp: bt_modify_def)

lemma remove_caps_wf: "cs_wf cs \<Longrightarrow> cs_wf (snd (snd (remove_caps cs pid slots ts)))"
proof (induction slots arbitrary: cs)
  case (Cons slot slots)
  then have "cs_wf (snd (snd (remove_caps (snd (cs_remove cs slot)) pid slots ts)))"
    by (intro Cons.IH cs_wf_remove)
  then show ?case
    by (simp add: transfer_loops Let_def split: option.split)
qed simp

lemma queue_message_conserve:
  assumes "kc_wf k" "kc_queue_message k eid m = (Inr (), k')"
  shows "kc_mset k' = kc_mset k + tcaps_mset (cmsg_transferred_caps m)"
proof -
  obtain e where e: "bt_get (kc_endpoints k) eid = Some e"
    and k': "k' = kc_map_endpoint eid (\<lambda>e. e\<lparr>ep_pending := ep_pending e @ [m]\<rparr>) k"
    using assms(2) by (auto simp: kc_queue_message_def split: option.splits)
  show ?thesis
    using kc_mset_endpoint [OF assms(1) e, of "\<lambda>e. e\<lparr>ep_pending := ep_pending e @ [m]\<rparr>"]
    by (simp add: k' ep_mset_append add.commute add.left_commute)
qed

lemma transfer_conserve:
  assumes "kc_wf k" "kc_remove_and_transfer_caps k p slots ts = (Inr (tcaps, cs), k')"
  shows "kc_mset k' + tcaps_mset tcaps = kc_mset k" "kc_wf k'" "kc_endpoints k' = kc_endpoints k"
proof -
  obtain sp where sp: "bt_get (kc_cap_spaces k) p = Some sp"
    using assms(2) by (auto simp: kc_remove_and_transfer_caps_def split: option.splits)
  let ?r = "remove_caps sp p slots ts"
  have r: "tcaps = fst ?r" "k' = kc_map_cap_space p (\<lambda>_. snd (snd ?r)) k"
    using assms(2) sp by (auto simp: kc_remove_and_transfer_caps_def case_prod_unfold Let_def)
  note wf = kc_wf_space [OF assms(1) sp]
  have "kc_mset k' + (cs_mset (snd (snd ?r)) + tcaps_mset tcaps) = kc_mset k + cs_mset (snd (snd ?r))"
    using kc_mset_space [OF assms(1) sp, of "snd (snd ?r)"]
    by (simp only: r remove_caps_conserve [OF wf])
  then have "(kc_mset k' + tcaps_mset tcaps) + cs_mset (snd (snd ?r)) = kc_mset k + cs_mset (snd (snd ?r))"
    by (simp only: ac_simps)
  then show "kc_mset k' + tcaps_mset tcaps = kc_mset k"
    by (rule add_right_imp_eq)
  show "kc_wf k'"
    using kc_wf_shrunk [OF assms(1) remove_caps_wf [OF wf]] by (simp add: r)
  show "kc_endpoints k' = kc_endpoints k"
    by (simp add: r kc_map_cap_space_def)
qed

lemma contained_queue: "bt_contains (kc_endpoints k) eid \<Longrightarrow> kc_queue_message k eid m \<noteq> (Inl e, k')"
  by (auto simp: kc_queue_message_def bt_contains_def)

lemma send_with_caps_conserve:
  assumes "kc_wf k"
  shows "kc_mset (op_state (kc_ipc_send_with_caps k p s tag data slots ts)) = kc_mset k"
proof -
  have queued: "kc_mset k'' = kc_mset k"
    if "kc_remove_and_transfer_caps k p slots ts = (Inr (tcaps, cs), k')"
      "kc_queue_message k' eid \<lparr>cmsg_from = p, cmsg_tag = tag, cmsg_data = data,
          cmsg_transferred_caps = tcaps\<rparr> = (Inr (), k'')" for tcaps cs k' eid k''
    using transfer_conserve [OF assms that(1)] queue_message_conserve [OF _ that(2)] by simp
  have failed: False
    if "kc_remove_and_transfer_caps k p slots ts = (Inr (tcaps, cs), k')"
      "kc_queue_message k' eid m = (Inl e, k'')" "bt_contains (kc_endpoints k) eid" for tcaps cs k' eid m e k''
    using transfer_conserve(3) [OF assms that(1)] contained_queue [of k' eid] that(2,3) by auto
  have fail: "k' = k" if "kc_remove_and_transfer_caps k p slots ts = (Inl e, k')" for e k'
    using that by (auto simp: kc_remove_and_transfer_caps_def case_prod_unfold Let_def split: option.splits)
  show ?thesis
    by (auto simp: kc_ipc_send_with_caps_def Let_def queued dest: failed fail
        split: sum.split prod.split)
qed

text \<open>Receiving without installing takes the message's capabilities out of the kernel.\<close>

lemma receive_loses:
  assumes "kc_wf k" "kc_ipc_receive k p s ts = (Inr r, k')"
  shows "kc_mset k' + (case r of None \<Rightarrow> {#} | Some m \<Rightarrow> tcaps_mset (cmsg_transferred_caps m)) = kc_mset k"
proof -
  obtain eid e where e: "bt_get (kc_endpoints k) eid = Some e" and r: "r = fst (core_dequeue e)"
    and k': "kc_mset k' = kc_mset (kc_map_endpoint eid (\<lambda>e. snd (core_dequeue e)) k)"
    using assms(2) by (auto simp: kc_ipc_receive_def Let_def split: sum.splits option.splits)
  let ?m = "case r of None \<Rightarrow> {#} | Some m \<Rightarrow> tcaps_mset (cmsg_transferred_caps m)"
  have "kc_mset k' + (ep_mset (snd (core_dequeue e)) + ?m) = kc_mset k + ep_mset (snd (core_dequeue e))"
    using kc_mset_endpoint [OF assms(1) e, of "\<lambda>e. snd (core_dequeue e)"] ep_mset_dequeue [of e]
    by (simp only: k' r)
  then have "(kc_mset k' + ?m) + ep_mset (snd (core_dequeue e)) = kc_mset k + ep_mset (snd (core_dequeue e))"
    by (simp only: ac_simps)
  then show ?thesis
    by (rule add_right_imp_eq)
qed

lemma receive_keeps:
  assumes "kc_wf k" "kc_ipc_receive k p s ts = (r, k')"
  shows "kc_wf k'" "kc_cap_spaces k' = kc_cap_spaces k"
  using assms
  by (auto simp: kc_ipc_receive_def kc_wf_def kc_map_endpoint_def kc_map_process_def Let_def
      split: sum.splits option.splits)

definition slot_room :: "kernel_core \<Rightarrow> process_id \<Rightarrow> nat \<Rightarrow> bool" where
  "slot_room k p n \<longleftrightarrow>
     (\<forall>cs. bt_get (kc_cap_spaces k) p = Some cs \<longrightarrow> unat (cs_next_slot cs) + n < 2 ^ 32)"

lemma receive_with_caps_conserve:
  assumes "kc_wf k"
    and room: "\<And>m k'. kc_ipc_receive k p s ts = (Inr (Some m), k') \<Longrightarrow>
      slot_room k p (length (cmsg_transferred_caps m))"
  shows "kc_mset (op_state (kc_ipc_receive_with_caps k p s ts)) = kc_mset k"
proof -
  have refused: "k' = k" if "kc_ipc_receive k p s ts = (Inl e, k')" for e k'
    using that by (auto simp: kc_ipc_receive_def Let_def split: sum.splits option.splits)
  have installed: "kc_mset k'' = kc_mset k" 
    if m: "kc_ipc_receive k p s ts = (Inr (Some m), k')"
      and i: "kc_install_transferred_caps k' p (cmsg_transferred_caps m) ts = (r, k'')" for m k' r k''
  proof -
    note keeps = receive_keeps [OF assms(1) m]
    have "bt_get (kc_cap_spaces k) p \<noteq> None"
      using m by (auto simp: kc_ipc_receive_def kc_validate_receive_cap_def kc_check_def
          split: sum.splits option.splits)
    then obtain sp where sp: "bt_get (kc_cap_spaces k') p = Some sp"
      by (auto simp: keeps(2))
    let ?r = "install_caps sp p (cmsg_transferred_caps m) ts"
    have k'': "k'' = kc_map_cap_space p (\<lambda>_. snd (snd ?r)) k'"
      using i sp by (auto simp: kc_install_transferred_caps_def case_prod_unfold Let_def)
    have "cs_mset (snd (snd ?r)) = cs_mset sp + tcaps_mset (cmsg_transferred_caps m)"
      using room [OF m] sp keeps(2)
      by (intro install_caps_conserve kc_wf_space [OF keeps(1) sp]) (simp add: slot_room_def)
    then have "kc_mset k'' + cs_mset sp = kc_mset k' + (cs_mset sp + tcaps_mset (cmsg_transferred_caps m))"
      using kc_mset_space [OF keeps(1) sp, of "snd (snd ?r)"] by (simp add: k'')
    then have "kc_mset k'' + cs_mset sp = (kc_mset k' + tcaps_mset (cmsg_transferred_caps m)) + cs_mset sp"
      by (simp only: ac_simps)
    then show ?thesis
      using receive_loses [OF assms(1) m] by simp
  qed
  show ?thesis
    by (simp add: kc_ipc_receive_with_caps_def split: sum.split prod.split option.split)
      (auto dest: refused receive_loses [OF assms(1)] installed simp: tcaps_mset_def)
qed

section \<open>Delivery\<close>

text \<open>What a successful send does to the endpoint it names.\<close>

definition core_enqueue :: "core_endpoint \<Rightarrow> core_message \<Rightarrow> core_endpoint" where
  "core_enqueue e m = count_sent (length (cmsg_data m)) (e\<lparr>ep_pending := ep_pending e @ [m]\<rparr>)"

interpretation core_ep: message_queue ep_pending core_enqueue core_dequeue
  by unfold_locales (simp_all add: core_enqueue_def count_sent_def core_dequeue_def Let_def)

lemma core_metrics_ok:
  "ep_metrics_ok (core_enqueue e m)" "ep_metrics_ok e \<Longrightarrow> ep_metrics_ok (snd (core_dequeue e))"
  by (auto simp: ep_metrics_ok_def core_enqueue_def count_sent_def core_dequeue_def Let_def
      split: list.splits)

lemma kc_check_cong:
  "kc_cap_spaces k' = kc_cap_spaces k \<Longrightarrow> kc_check k' p s req ot ts = kc_check k p s req ot ts"
  by (simp add: kc_check_def)

lemma send_effect:
  assumes "kc_validate_send_cap k p s ts = Inr eid" "bt_get (kc_endpoints k) eid = Some e"
  shows "fst (kc_ipc_send k p s tag data ts) = Inr ()"
    "kc_cap_spaces (op_state (kc_ipc_send k p s tag data ts)) = kc_cap_spaces k"
    "bt_get (kc_endpoints (op_state (kc_ipc_send k p s tag data ts))) eid = Some (core_enqueue e
       \<lparr>cmsg_from = p, cmsg_tag = tag, cmsg_data = data, cmsg_transferred_caps = []\<rparr>)"
  using assms
  by (simp_all add: kc_ipc_send_def kc_queue_message_def kc_update_send_metrics_def kc_map_endpoint_def
      core_enqueue_def Let_def)

lemma receive_effect:
  assumes "kc_validate_receive_cap k q s ts = Inr eid" "bt_get (kc_endpoints k) eid = Some e"
  shows "fst (kc_ipc_receive k q s ts) = Inr (fst (core_dequeue e))"
    "kc_cap_spaces (snd (kc_ipc_receive k q s ts)) = kc_cap_spaces k"
    "bt_get (kc_endpoints (snd (kc_ipc_receive k q s ts))) eid = Some (snd (core_dequeue e))"
  using assms by (simp_all add: kc_ipc_receive_def kc_map_endpoint_def Let_def split: option.split)

fun send_all :: "kernel_core \<Rightarrow> process_id \<Rightarrow> u32 \<Rightarrow> u64 \<Rightarrow> (u32 \<times> u8 list) list \<Rightarrow> kernel_core" where
  "send_all k p s ts [] = k"
| "send_all k p s ts (m # ms) = send_all (op_state (kc_ipc_send k p s (fst m) (snd m) ts)) p s ts ms"

fun receive_n :: "kernel_core \<Rightarrow> process_id \<Rightarrow> u32 \<Rightarrow> u64 \<Rightarrow> nat \<Rightarrow> (core_error + core_message option) list" where
  "receive_n k q s ts 0 = []"
| "receive_n k q s ts (Suc n) =
     fst (kc_ipc_receive k q s ts) # receive_n (snd (kc_ipc_receive k q s ts)) q s ts n"

lemma send_all_effect:
  assumes "kc_validate_send_cap k p s ts = Inr eid" "bt_get (kc_endpoints k) eid = Some e"
  shows "kc_cap_spaces (send_all k p s ts ms) = kc_cap_spaces k
    \<and> bt_get (kc_endpoints (send_all k p s ts ms)) eid = Some (foldl core_enqueue e
        (map (\<lambda>m. \<lparr>cmsg_from = p, cmsg_tag = fst m, cmsg_data = snd m, cmsg_transferred_caps = []\<rparr>) ms))"
  using assms
proof (induction ms arbitrary: k e)
  case (Cons m ms)
  note eff = send_effect [OF Cons.prems, of "fst m" "snd m"]
  have "kc_validate_send_cap (op_state (kc_ipc_send k p s (fst m) (snd m) ts)) p s ts = Inr eid"
    using Cons.prems(1) kc_check_cong [OF eff(2)] by (simp add: kc_validate_send_cap_def)
  from Cons.IH [OF this eff(3)] show ?case
    by (simp add: eff(2))
qed simp

lemma receive_n_effect:
  assumes "kc_validate_receive_cap k q s ts = Inr eid" "bt_get (kc_endpoints k) eid = Some e"
  shows "receive_n k q s ts n = map Inr (fst (drain core_dequeue n e))"
  using assms
proof (induction n arbitrary: k e)
  case (Suc n)
  note eff = receive_effect [OF Suc.prems]
  have "kc_validate_receive_cap (snd (kc_ipc_receive k q s ts)) q s ts = Inr eid"
    using Suc.prems(1) kc_check_cong [OF eff(2)] by (simp add: kc_validate_receive_cap_def)
  from Suc.IH [OF this eff(3)] show ?case
    by (simp add: eff(1) case_prod_unfold Let_def)
qed simp

section \<open>Properties\<close>

definition example_cap :: "u64 \<Rightarrow> object_type \<Rightarrow> u64 \<Rightarrow> capability" where
  "example_cap cid ot oid = \<lparr>cap_id = cid, cap_object_type = ot, cap_object_id = oid,
     cap_permissions = perms_full, cap_generation = 0, cap_expires_at = 0\<rparr>"

definition example_message :: core_message where
  "example_message = \<lparr>cmsg_from = ProcessId 1, cmsg_tag = 9, cmsg_data = [],
     cmsg_transferred_caps = [\<lparr>ct_capability = example_cap 4 ObjConsole 0, ct_receiver_slot = None\<rparr>]\<rparr>"

text \<open>Two processes that share endpoint 1, in whose queue a console capability is in flight.\<close>

definition example_transfer :: kernel_core where
  "example_transfer = example_core\<lparr>kc_cap_spaces :=
       [(ProcessId 1, \<lparr>cs_slots = [(0, example_cap 1 ObjEndpoint 1), (1, example_cap 2 ObjMemory 5)],
                       cs_next_slot = 2\<rparr>),
        (ProcessId 2, \<lparr>cs_slots = [(0, example_cap 3 ObjEndpoint 1)], cs_next_slot = 1\<rparr>)],
     kc_endpoints := [(EndpointId 1, \<lparr>ep_id = EndpointId 1, ep_owner = ProcessId 1,
       ep_pending = [example_message], ep_metrics = endpoint_metrics_default\<rparr>)]\<rparr>"

lemma example_transfer_wf: "kc_wf example_transfer"
  by (auto simp: kc_wf_def example_transfer_def bt_wf_def cs_wf_def cs_get_def split: if_splits)

lemma example_transfer_check:
  "kc_check example_transfer (ProcessId 1) 0 perms_write_only (Some ObjEndpoint) ts
     = Inr (example_cap 1 ObjEndpoint 1)"
  "kc_check example_transfer (ProcessId 2) 0 perms_read_only (Some ObjEndpoint) ts
     = Inr (example_cap 3 ObjEndpoint 1)"
  by (simp_all add: kc_check_def example_transfer_def axiom_check_ax_def cs_get_def example_cap_def
      perms_write_only_def perms_read_only_def perms_full_def is_expired_def)

lemma example_transfer_receive:
  "kc_ipc_receive example_transfer (ProcessId 2) 0 ts =
     (Inr (Some example_message), snd (kc_ipc_receive example_transfer (ProcessId 2) 0 ts))"
proof -
  have "kc_validate_receive_cap example_transfer (ProcessId 2) 0 ts = Inr (EndpointId 1)"
    by (simp add: kc_validate_receive_cap_def example_transfer_check) (simp add: example_cap_def)
  moreover have "bt_get (kc_endpoints example_transfer) (EndpointId 1) = Some
      \<lparr>ep_id = EndpointId 1, ep_owner = ProcessId 1, ep_pending = [example_message],
       ep_metrics = endpoint_metrics_default\<rparr>"
    by (simp add: example_transfer_def)
  ultimately have "fst (kc_ipc_receive example_transfer (ProcessId 2) 0 ts) = Inr (Some example_message)"
    by (simp add: receive_effect(1) core_dequeue_def)
  then show ?thesis
    by (simp add: prod_eq_iff)
qed

text \<open>
  C17. Capabilities are moved, never copied or lost: sending a message with capabilities and
  receiving one with them keep the multiset of all capabilities, held and in flight, whatever
  slots the caller names (an unknown slot, a slot named twice) and whether the call succeeds.
  The receiver's slot counter is assumed not to run out.
\<close>

theorem capabilities_are_conserved:
  assumes "kc_wf k"
    and "\<And>m k'. kc_ipc_receive k q s' ts' = (Inr (Some m), k') \<Longrightarrow>
      slot_room k q (length (cmsg_transferred_caps m))"
  shows "kc_mset (snd (snd (kc_ipc_send_with_caps k p s tag data slots ts))) = kc_mset k
    \<and> kc_mset (snd (snd (kc_ipc_receive_with_caps k q s' ts'))) = kc_mset k"
  using send_with_caps_conserve [OF assms(1)] receive_with_caps_conserve [OF assms]
  by (simp add: op_state_def)

theorem capabilities_are_conserved_witness:
  "kc_mset (snd (snd (kc_ipc_send_with_caps example_transfer (ProcessId 1) 0 7 [1] [1, 1] 5)))
     = kc_mset example_transfer
   \<and> kc_mset (snd (snd (kc_ipc_receive_with_caps example_transfer (ProcessId 2) 0 5)))
     = kc_mset example_transfer"
proof (rule capabilities_are_conserved [OF example_transfer_wf])
  fix m k'
  assume "kc_ipc_receive example_transfer (ProcessId 2) 0 5 = (Inr (Some m), k')"
  then have "length (cmsg_transferred_caps m) = 1"
    using example_transfer_receive [of 5] by (simp add: example_message_def)
  then show "slot_room example_transfer (ProcessId 2) (length (cmsg_transferred_caps m))"
    by (simp add: slot_room_def example_transfer_def)
qed

text \<open>
  C36. A plain receive destroys capabilities: when \<^verbatim>\<open>Syscall::Receive\<close> delivers a message, the
  capabilities it carries leave the kernel: no space has them, no queue, and no commit says so.
\<close>

theorem plain_receive_drops_capabilities:
  assumes "kc_wf k" "handle_receive k p s ts = (Message m, commits, k')"
  shows "kc_mset k = kc_mset k' + mset (map ct_capability (cmsg_transferred_caps m)) \<and> commits = []"
proof -
  have "kc_ipc_receive k p s ts = (Inr (Some m), k')"
    using assms(2) by (auto simp: handle_receive_def case_prod_unfold Let_def prod_eq_iff
        elim!: sys_result.elims split: option.splits)
  from receive_loses [OF assms(1) this] show ?thesis
    using assms(2) by (auto simp: tcaps_mset_def handle_receive_def case_prod_unfold Let_def)
qed

theorem plain_receive_drops_capabilities_witness:
  "\<exists>k'. kc_mset example_transfer = kc_mset k' + {#example_cap 4 ObjConsole 0#}"
proof -
  let ?r = "handle_receive example_transfer (ProcessId 2) 0 5"
  have "?r = (Message example_message, [], snd (snd ?r))"
    by (subst (1 2) handle_receive_def, subst (1 2) example_transfer_receive) simp
  from plain_receive_drops_capabilities [OF example_transfer_wf this] show ?thesis
    by (auto simp: example_message_def)
qed

text \<open>
  C26. The runtime kernel delivers in order: after a process with a write capability has sent any
  messages to an endpoint, a process with a read capability receives what was pending and then
  those messages, in order, each naming the true sender.
\<close>

theorem runtime_delivers_in_order:
  assumes "kc_check k p s perms_write_only (Some ObjEndpoint) ts = Inr c"
    and "kc_check k q s' perms_read_only (Some ObjEndpoint) ts' = Inr c'"
    and "cap_object_id c' = cap_object_id c"
    and "bt_get (kc_endpoints k) (EndpointId (cap_object_id c)) = Some e"
  shows "receive_n (send_all k p s ts ms) q s' ts' (length (ep_pending e) + length ms)
    = map (Inr \<circ> Some) (ep_pending e @ map (\<lambda>m. \<lparr>cmsg_from = p, cmsg_tag = fst m, cmsg_data = snd m,
        cmsg_transferred_caps = []\<rparr>) ms)"
proof -
  let ?msgs = "map (\<lambda>m. \<lparr>cmsg_from = p, cmsg_tag = fst m, cmsg_data = snd m,
      cmsg_transferred_caps = []\<rparr>) ms"
  have "kc_validate_send_cap k p s ts = Inr (EndpointId (cap_object_id c))"
    using assms(1) by (simp add: kc_validate_send_cap_def)
  note sent = send_all_effect [OF this assms(4), of ms]
  have "kc_validate_receive_cap (send_all k p s ts ms) q s' ts' = Inr (EndpointId (cap_object_id c))"
    using assms(2,3) kc_check_cong [of "send_all k p s ts ms" k] sent
    by (simp add: kc_validate_receive_cap_def)
  from receive_n_effect [OF this] sent
  have "receive_n (send_all k p s ts ms) q s' ts' n
      = map Inr (fst (drain core_dequeue n (foldl core_enqueue e ?msgs)))" for n
    by auto
  with core_ep.fifo [of e ?msgs] show ?thesis
    by simp
qed

theorem runtime_delivers_in_order_witness:
  "map (map_sum id (map_option cmsg_tag))
     (receive_n (send_all example_transfer (ProcessId 1) 0 5 [(20, [1]), (21, [2])]) (ProcessId 2) 0 6 3)
   = [Inr (Some 9), Inr (Some 20), Inr (Some 21)]"
proof -
  obtain e where e: "bt_get (kc_endpoints example_transfer)
      (EndpointId (cap_object_id (example_cap 1 ObjEndpoint 1))) = Some e"
    and pending: "map cmsg_tag (ep_pending e) = [9]"
    by (simp add: example_transfer_def example_cap_def example_message_def)
  have "cap_object_id (example_cap 3 ObjEndpoint 1) = cap_object_id (example_cap 1 ObjEndpoint 1)"
    by (simp add: example_cap_def)
  from runtime_delivers_in_order [OF example_transfer_check(1) [of 5]
      example_transfer_check(2) [of 6] this e, of "[(20, [1]), (21, [2])]"] show ?thesis
    using pending by (cases "ep_pending e") (simp_all add: numeral_3_eq_3)
qed

end
