(* ===== verification/System_Replay.thy ===== *)
theory System_Replay
  imports System_Authority Core_Transfer
begin

text \<open>
  The system and its logs: every method of \<^verbatim>\<open>System\<close> leaves the kernel in the state that the
  commit log describes, so the log replays to the live state; every call is in the audit log;
  and the two calls, 0x15 and 0x41, whose effect and record part.
\<close>

section \<open>What the logs get\<close>

definition unattributed :: "u64 \<Rightarrow> commit_type list \<Rightarrow> (commit_type \<times> event_id option \<times> u64) list" where
  "unattributed ts cts = map (\<lambda>ct. (ct, None, ts)) cts"

lemma unattributed_simps [simp]:
  "unattributed ts [] = []"
  "unattributed ts (ct # cts) = (ct, None, ts) # unattributed ts cts"
  "unattributed ts (cts @ cts') = unattributed ts cts @ unattributed ts cts'"
  "map fst (unattributed ts cts) = cts"
  "length (unattributed ts cts) = length cts"
  "map (fst \<circ> snd) (unattributed ts cts) = map (\<lambda>_. None) cts"
  by (simp_all add: unattributed_def comp_def)

lemma sys_append_types_axiom:
  "sys_axiom (sys_append_types s cts ts) = (sys_axiom s)\<lparr>gw_commitlog :=
     run cl_apply (gw_commitlog (sys_axiom s)) (unattributed ts cts)\<rparr>"
proof -
  have "foldl (\<lambda>gw ct. snd (gw_append_internal_commit gw ct ts)) gw cts
      = gw\<lparr>gw_commitlog := run cl_apply (gw_commitlog gw) (unattributed ts cts)\<rparr>" for gw
    by (induction cts arbitrary: gw)
      (simp_all add: gw_append_internal_commit_def cl_append_entry del: cl_apply.simps cl_entry.simps)
  then show ?thesis
    by (simp add: sys_append_types_def)
qed

text \<open>The commits of a call, from its execution and from the formatting of its result.\<close>

definition call_commits ::
  "hal \<Rightarrow> kernel_core \<Rightarrow> process_id \<Rightarrow> u32 \<Rightarrow> args4 \<Rightarrow> u8 list \<Rightarrow> u64 \<Rightarrow> commit_type list" where
  "call_commits h k sender num args data ts =
     (let (result, cts, _, k') = execute_syscall_kernel_fn h k num sender args data ts
      in cts @ fst (snd (snd (get_syscall_rich_result k' sender num args result ts))))"

lemma process_syscall_axiom:
  assumes "sys_process_syscall h now s sender num args data = ((result, rich, bytes), s')"
  shows "sys_axiom s' =
    (let ts = sys_uptime_nanos s now;
         (req, sl) = sl_log_request (gw_syslog (sys_axiom s)) (pid_raw sender) num args ts
     in \<lparr>gw_syslog = sl_log_response sl (pid_raw sender) req result ts,
         gw_commitlog = run cl_apply (gw_commitlog (sys_axiom s))
           (unattributed ts (call_commits h (sys_kernel s) sender num args data ts))\<rparr>)"
  using assms
  by (auto simp: sys_process_syscall_def Let_def case_prod_unfold sys_append_types_axiom call_commits_def
      run_append)

section \<open>What the kernel owes the log\<close>

text \<open>\<open>tracks k cts k'\<close>: the commits \<open>cts\<close> lead from the durable state of \<open>k\<close> to that of \<open>k'\<close>.\<close>

definition tracks :: "kernel_core \<Rightarrow> commit_type list \<Rightarrow> kernel_core \<Rightarrow> bool" where
  "tracks k cts k' \<longleftrightarrow> core_inv k' \<and> du_run (durable_of k) cts = Some (durable_of k')"

lemma tracks_refl: "core_inv k \<Longrightarrow> tracks k [] k"
  by (simp add: tracks_def)

lemma tracks_trans: "tracks k cts k1 \<Longrightarrow> tracks k1 cts' k2 \<Longrightarrow> tracks k (cts @ cts') k2"
  by (simp add: tracks_def)

lemma tracks_inv: "tracks k cts k' \<Longrightarrow> core_inv k'"
  by (simp add: tracks_def)

lemma inv_le:
  assumes "core_inv k" "kc_le k k'" "kc_shape k' = kc_shape k"
  shows "core_inv k'"
  using assms plain_le [of k k'] kc_aligned_shape [of k' k] by (simp add: core_inv_def)

lemma tracks_op:
  assumes "core_inv k" "op_emits k r" "kc_le k (op_state r)" "kc_shape (op_state r) = kc_shape k"
  shows "tracks k (map cm_commit_type (fst (snd r))) (op_state r)"
  using assms inv_le [OF assms(1,3,4)] by (simp add: tracks_def op_emits_def emits_def op_state_def)

lemma tracks_same:
  assumes "core_inv k" "durable_of k' = durable_of k" "kc_le k k'" "kc_shape k' = kc_shape k"
  shows "tracks k [] k'"
  using assms inv_le [OF assms(1,3,4)] by (simp add: tracks_def)

lemma tracks_register:
  assumes "core_inv k"
  shows "tracks k (map cm_commit_type (fst (snd (kc_register_process k name ts))))
    (op_state (kc_register_process k name ts))"
  using register_emits [of k name "ProcessId 0" ts] register_inv [OF assms]
  by (simp add: tracks_def kc_register_process_def op_emits_def emits_def op_state_def)
    (simp add: kc_register_process_with_parent_def Let_def)

lemma tracks_kernel_ops:
  assumes "core_inv k"
  shows "tracks k (map cm_commit_type (fst (snd (kc_grant_capability k p s q perms ts))))
      (op_state (kc_grant_capability k p s q perms ts))"
    and "tracks k (map cm_commit_type (fst (snd (kc_revoke_capability k p s ts))))
      (op_state (kc_revoke_capability k p s ts))"
    and "tracks k (map cm_commit_type (fst (snd (kc_delete_capability k p s ts))))
      (op_state (kc_delete_capability k p s ts))"
    and "tracks k (map cm_commit_type (fst (snd (kc_derive_capability k p s perms ts))))
      (op_state (kc_derive_capability k p s perms ts))"
    and "tracks k (map cm_commit_type (fst (snd (kc_create_endpoint k p ts))))
      (op_state (kc_create_endpoint k p ts))"
    and "tracks k (map cm_commit_type (fst (snd (kc_ipc_send_with_caps k p s tag data slots ts))))
      (op_state (kc_ipc_send_with_caps k p s tag data slots ts))"
    and "tracks k (map cm_commit_type (fst (snd (kc_ipc_receive_with_caps k p s ts))))
      (op_state (kc_ipc_receive_with_caps k p s ts))"
  using assms
  by (simp_all add: tracks_op grant_emits grant_le revoke_emits revoke_le delete_emits delete_le
      derive_emits derive_le create_endpoint_emits create_endpoint_le send_with_caps_emits send_with_caps_le
      receive_with_caps_emits receive_with_caps_le receive_with_caps_shape core_shape)

lemma tracks_send:
  assumes "core_inv k"
  shows "tracks k (case fst (snd (kc_ipc_send k p s tag data ts)) of None \<Rightarrow> [] | Some c \<Rightarrow> [cm_commit_type c])
    (op_state (kc_ipc_send k p s tag data ts))"
  using send_emits [of k p s tag data ts] inv_le [OF assms send_le send_shape]
  by (auto simp: tracks_def emits_def op_state_def split: option.splits)

lemma tracks_receive: "core_inv k \<Longrightarrow> tracks k [] (snd (kc_ipc_receive k p s ts))"
  by (intro tracks_same receive_durable receive_le receive_shape)

lemma refused_silent:
  "fst (kc_grant_capability k p s q perms ts) = Inl e \<Longrightarrow> fst (snd (kc_grant_capability k p s q perms ts)) = []"
  "fst (kc_delete_capability k p s ts) = Inl e \<Longrightarrow> fst (snd (kc_delete_capability k p s ts)) = []"
  "fst (kc_kill_process_with_cap_check k p q ts) = Inl e \<Longrightarrow> op_state (kc_kill_process_with_cap_check k p q ts) = k"
  by (auto simp: kc_grant_capability_def kc_delete_capability_def kc_kill_process_with_cap_check_def Let_def
      case_prod_unfold split: sum.splits option.splits if_splits)

section \<open>Calls by number\<close>

definition replayable_call :: "kernel_core \<Rightarrow> process_id \<Rightarrow> u32 \<Rightarrow> args4 \<Rightarrow> u64 \<Rightarrow> bool" where
  "replayable_call k sender num args ts \<longleftrightarrow>
     num \<noteq> 0x11 \<and> (num = 0x15 \<longrightarrow> pid_raw sender \<noteq> 1)
     \<and> (num = 0x13 \<longrightarrow> isl (fst (kc_kill_process_with_cap_check k sender (ProcessId (ucast (fst args))) ts)))"

definition exec_tracks :: "kernel_core \<Rightarrow> executed_data \<Rightarrow> bool" where
  "exec_tracks k r \<longleftrightarrow> tracks k (fst (snd r)) (exec_state r)"

lemma exec_tracks_simps [simp]:
  "exec_tracks k (r, cts, bytes, k') = tracks k cts k'"
  "exec_tracks k (with_no_data e) = tracks k (fst (snd e)) (snd (snd e))"
  by (simp_all add: exec_tracks_def with_no_data_def exec_state_def)

lemma process_syscall_tracks:
  assumes "core_inv k" "replayable_call k sender num args ts"
  shows "exec_tracks k (execute_process_syscall h k num sender args data ts)"
proof -
  note reg = tracks_register [OF assms(1), of _ ts]
  have "exec_tracks k (execute_load_binary h k sender data)"
    using assms(1) by (simp add: execute_load_binary_def tracks_refl split: option.split sum.split hal_error.split)
  moreover have "exec_tracks k (with_no_data (execute_register_process k sender data ts))"
    using assms(1) reg by (simp add: execute_register_process_def Let_def case_prod_unfold op_state_def tracks_refl)
  moreover have "exec_tracks k (with_no_data (execute_spawn_process h k sender data ts))"
    using assms(1) reg by (simp add: execute_spawn_process_def Let_def case_prod_unfold op_state_def tracks_refl
        split: option.split sum.split)
  moreover have "exec_tracks k (with_no_data (execute_kill_with_cap k sender args ts))" if "num = 0x13"
    using assms that refused_silent(3) [of k sender "ProcessId (ucast (fst args))" ts]
    by (auto simp: execute_kill_with_cap_def replayable_call_def Let_def op_state_def case_prod_unfold tracks_refl
        split: sum.splits)
  moreover have "exec_tracks k (with_no_data (execute_create_endpoint_for k sender args ts))" if "num = 0x15"
    using assms that by (simp add: execute_create_endpoint_for_def replayable_call_def tracks_refl)
  ultimately show ?thesis
    using assms by (simp add: execute_process_syscall_def tracks_refl replayable_call_def)
qed

lemma capability_syscall_tracks:
  assumes "core_inv k"
  shows "exec_tracks k (with_no_data (execute_capability_syscall k num sender args ts))"
proof -
  have "tracks k [] (snd (snd (kc_grant_capability k p s q perms ts)))"
    if "fst (kc_grant_capability k p s q perms ts) = Inl e" for p s q perms e
    using tracks_kernel_ops(1) [OF assms, of p s q perms ts] refused_silent(1) [OF that] by (simp add: op_state_def)
  moreover have "tracks k [] (snd (snd (kc_delete_capability k p s ts)))"
    if "fst (kc_delete_capability k p s ts) = Inl e" for p s e
    using tracks_kernel_ops(3) [OF assms, of p s ts] refused_silent(2) [OF that] by (simp add: op_state_def)
  ultimately show ?thesis
    using tracks_kernel_ops(1,3,5) [OF assms]
    by (cases args) (simp add: execute_capability_syscall_def Let_def case_prod_unfold op_state_def
        tracks_refl [OF assms] split: sum.split)
qed

lemma ipc_syscall_tracks:
  assumes "core_inv k"
  shows "exec_tracks k (execute_ipc_syscall k num sender args data ts)"
  using tracks_send [OF assms] tracks_receive [OF assms]
  by (cases args) (simp add: execute_ipc_syscall_def Let_def case_prod_unfold op_state_def
      tracks_refl [OF assms] split: sum.split option.split)

lemma execute_tracks:
  assumes "core_inv k" "replayable_call k sender num args ts"
  shows "exec_tracks k (execute_syscall_kernel_fn h k num sender args data ts)"
proof -
  have "snd (execute_basic_syscall h num sender args) = []" "snd (execute_storage_syscall h num sender data) = []"
    "snd (execute_keystore_syscall h num sender data) = []" "snd (execute_network_syscall h sender data) = []"
    by (simp_all add: execute_basic_syscall_def execute_storage_syscall_def execute_keystore_syscall_def
        execute_network_syscall_def execute_storage_read_def execute_storage_write_def
        execute_storage_delete_def execute_storage_list_def execute_storage_exists_def
        execute_keystore_read_def execute_keystore_write_def execute_keystore_delete_def
        execute_keystore_list_def execute_keystore_exists_def execute_key_request_def
        execute_key_write_def request_result_def Let_def split: option.split sum.split)
  then show ?thesis
    using assms process_syscall_tracks capability_syscall_tracks ipc_syscall_tracks
    by (simp add: execute_syscall_kernel_fn_def Let_def case_prod_unfold tracks_refl)
qed

lemma rich_tracks:
  assumes "core_inv k"
  shows "tracks k (fst (snd (snd (get_syscall_rich_result k sender num args result ts))))
    (snd (snd (snd (get_syscall_rich_result k sender num args result ts))))"
proof -
  have "tracks k [] (op_state (handle_syscall k sender sc ts))" if "sc = ListCaps \<or> sc = ListProcesses" for sc
  proof -
    have "fst (snd (handle_syscall k sender sc ts)) = []"
      using that by (auto simp: handle_syscall_def Let_def handle_list_caps_def handle_list_processes_def)
    moreover have "core_ok_call k sender sc ts"
      using that by (auto simp: core_ok_call_def)
    ultimately show ?thesis
      using syscall_emits [OF assms, of sender sc ts] syscall_inv [OF assms, of sender sc ts]
      by (simp add: tracks_def op_emits_def emits_def op_state_def)
  qed
  then show ?thesis
    using tracks_kernel_ops(7) [OF assms, of sender "fst args" ts]
    by (simp add: get_syscall_rich_result_def format_caps_list_def format_process_list_def
        format_receive_result_def default_rich_result_def Let_def op_state_def case_prod_unfold
        tracks_refl [OF assms] split: core_syscall_result.split sum.split option.split)
qed

lemma call_tracks:
  assumes "core_inv (sys_kernel s)" "replayable_call (sys_kernel s) sender num args (sys_uptime_nanos s now)"
  shows "tracks (sys_kernel s) (call_commits h (sys_kernel s) sender num args data (sys_uptime_nanos s now))
    (sys_kernel (snd (sys_process_syscall h now s sender num args data)))"
proof -
  let ?r = "execute_syscall_kernel_fn h (sys_kernel s) num sender args data (sys_uptime_nanos s now)"
  have r: "tracks (sys_kernel s) (fst (snd ?r)) (snd (snd (snd ?r)))"
    using execute_tracks [OF assms, of h data] by (simp add: exec_tracks_def exec_state_def)
  from tracks_trans [OF this rich_tracks [OF tracks_inv [OF this]]] show ?thesis
    by (simp add: call_commits_def process_syscall_kernel Let_def case_prod_unfold)
qed

section \<open>The methods of the system\<close>

text \<open>
  The operations of \<^verbatim>\<open>System\<close> that change the kernel, apart from \<^verbatim>\<open>kill_process\<close> and
  \<^verbatim>\<open>fault_process\<close>; the second argument is the clock.
\<close>

datatype sys_op =
    SysCall hal u64 process_id u32 args4 "u8 list"
  | SysRegister u64 string
  | SysRegisterPid u64 process_id string
  | SysCreateEndpoint u64 process_id
  | SysGrant u64 process_id u32 process_id permissions
  | SysGrantEndpoint u64 process_id endpoint_id process_id permissions
  | SysRevoke u64 process_id u32
  | SysDelete u64 process_id u32
  | SysDeleteNotify u64 process_id u32 u8
  | SysDerive u64 process_id u32 permissions
  | SysInject u64 u32 "u8 list"
  | SysSend u64 process_id u32 u32 "u8 list"
  | SysSendCaps u64 process_id u32 u32 "u8 list" "u32 list"
  | SysReceive u64 process_id u32
  | SysReceiveCaps u64 process_id u32
  | SysHandle u64 process_id core_syscall
  | SysAllocate process_id usize
  | SysFree process_id usize
  | SysMemory process_id usize

fun sys_apply :: "system \<Rightarrow> sys_op \<Rightarrow> system" where
  "sys_apply s (SysCall h now sender num args data) = snd (sys_process_syscall h now s sender num args data)"
| "sys_apply s (SysRegister now name) = snd (sys_register_process now s name)"
| "sys_apply s (SysRegisterPid now pid name) = snd (sys_register_process_with_pid now s pid name)"
| "sys_apply s (SysCreateEndpoint now owner) = snd (sys_create_endpoint now s owner)"
| "sys_apply s (SysGrant now p slot q perms) = snd (sys_grant_capability now s p slot q perms)"
| "sys_apply s (SysGrantEndpoint now p eid q perms) = snd (sys_grant_capability_to_endpoint now s p eid q perms)"
| "sys_apply s (SysRevoke now p slot) = snd (sys_revoke_capability now s p slot)"
| "sys_apply s (SysDelete now p slot) = snd (sys_delete_capability now s p slot)"
| "sys_apply s (SysDeleteNotify now p slot reason) =
     snd (sys_delete_capability_with_notification now s p slot reason)"
| "sys_apply s (SysDerive now p slot perms) = snd (sys_derive_capability now s p slot perms)"
| "sys_apply s (SysInject now tag data) = snd (sys_inject_to_init now s tag data)"
| "sys_apply s (SysSend now p slot tag data) = snd (sys_ipc_send now s p slot tag data)"
| "sys_apply s (SysSendCaps now p slot tag data slots) = snd (sys_ipc_send_with_caps now s p slot tag data slots)"
| "sys_apply s (SysReceive now p slot) = snd (sys_ipc_receive now s p slot)"
| "sys_apply s (SysReceiveCaps now p slot) = snd (sys_ipc_receive_with_caps now s p slot)"
| "sys_apply s (SysHandle now p sc) = snd (sys_handle_syscall now s p sc)"
| "sys_apply s (SysAllocate p n) = snd (sys_allocate_memory s p n)"
| "sys_apply s (SysFree p n) = snd (sys_free_memory s p n)"
| "sys_apply s (SysMemory p n) = sys_update_process_memory s p n"

fun sys_ok :: "system \<Rightarrow> sys_op \<Rightarrow> bool" where
  "sys_ok s (SysCall h now sender num args data) =
     replayable_call (sys_kernel s) sender num args (sys_uptime_nanos s now)"
| "sys_ok s (SysHandle now p sc) = core_ok_call (sys_kernel s) p sc (sys_uptime_nanos s now)"
| "sys_ok s _ = True"

text \<open>\<open>sys_traced boot s\<close>: the log, from its first commit, leads to the durable state of the kernel.\<close>

definition sys_traced :: "u64 \<Rightarrow> system \<Rightarrow> bool" where
  "sys_traced boot s \<longleftrightarrow> (\<exists>ops. gw_commitlog (sys_axiom s) = run cl_apply (cl_new boot) ops
     \<and> tracks kc_new (map fst ops) (sys_kernel s))"

lemma traced_step:
  assumes "sys_traced boot s" "tracks (sys_kernel s) cts (sys_kernel s')"
    and "gw_commitlog (sys_axiom s') = run cl_apply (gw_commitlog (sys_axiom s)) (unattributed ts cts)"
  shows "sys_traced boot s'"
proof -
  obtain ops where "gw_commitlog (sys_axiom s) = run cl_apply (cl_new boot) ops"
    "tracks kc_new (map fst ops) (sys_kernel s)"
    using assms(1) by (auto simp: sys_traced_def)
  then show ?thesis
    using assms(2,3) tracks_trans unfolding sys_traced_def
    by (intro exI [of _ "ops @ unattributed ts cts"]) (auto simp: run_append)
qed

lemma traced_inv: "sys_traced boot s \<Longrightarrow> core_inv (sys_kernel s)"
  by (auto simp: sys_traced_def dest: tracks_inv)

lemma traced_same:
  assumes "sys_traced boot s" "tracks (sys_kernel s) [] k'"
  shows "sys_traced boot (s\<lparr>sys_kernel := k'\<rparr>)"
  by (rule traced_step [OF assms(1), where cts = "[]" and ts = 0]) (use assms(2) in simp_all)

lemma traced_appended:
  assumes "sys_traced boot s" "tracks (sys_kernel s) cts k'"
  shows "sys_traced boot (sys_append_types (s\<lparr>sys_kernel := k'\<rparr>) cts ts)"
  by (rule traced_step [OF assms(1), where cts = cts and ts = ts])
    (use assms(2) in \<open>simp_all add: sys_append_types_axiom\<close>)

lemma traced_routed:
  assumes "sys_traced boot s"
    and "tracks (sys_kernel s) (map cm_commit_type (fst (snd (operation (sys_kernel s) (sys_uptime_nanos s now)))))
      (op_state (operation (sys_kernel s) (sys_uptime_nanos s now)))"
  shows "sys_traced boot (snd (sys_routed now s operation))"
  using traced_appended [OF assms]
  by (simp add: sys_routed_def sys_record_commits_def Let_def case_prod_unfold op_state_def)

lemma traced_call:
  assumes "sys_traced boot s" "sys_ok s (SysCall h now sender num args data)"
  shows "sys_traced boot (snd (sys_process_syscall h now s sender num args data))"
proof (rule traced_step [OF assms(1)])
  show "tracks (sys_kernel s) (call_commits h (sys_kernel s) sender num args data (sys_uptime_nanos s now))
      (sys_kernel (snd (sys_process_syscall h now s sender num args data)))"
    using assms by (intro call_tracks traced_inv) auto
  show "gw_commitlog (sys_axiom (snd (sys_process_syscall h now s sender num args data)))
      = run cl_apply (gw_commitlog (sys_axiom s)) (unattributed (sys_uptime_nanos s now)
          (call_commits h (sys_kernel s) sender num args data (sys_uptime_nanos s now)))"
    using process_syscall_axiom [of h now s sender num args data]
    by (cases "sys_process_syscall h now s sender num args data") (auto simp: Let_def case_prod_unfold)
qed

lemma tracks_live: "core_inv k \<Longrightarrow> core_ok k op \<Longrightarrow> tracks k (snd (core_live k op)) (fst (core_live k op))"
  by (simp add: tracks_def core_live_emits core_live_inv)

lemma traced_inject:
  assumes "sys_traced boot s"
  shows "sys_traced boot (snd (sys_inject_to_init now s tag data))"
proof -
  let ?k = "sys_kernel s"
  let ?m = "\<lparr>cmsg_from = ProcessId 0, cmsg_tag = tag, cmsg_data = data, cmsg_transferred_caps = []\<rparr>"
  have "tracks ?k [MessageSent 0 (eid_raw eid) tag (length data)]
      (kc_map_endpoint eid (\<lambda>e. e\<lparr>ep_pending := ep_pending e @ [?m]\<rparr>) ?k)" (is "tracks _ _ ?k'") for eid
  proof -
    have "kc_caps ?k' \<subseteq> kc_caps ?k \<union> {}"
      by (rule kc_map_endpoint_caps) (simp add: endpoint_caps_append message_caps_def)
    then have "core_inv ?k'"
      by (intro inv_le [OF traced_inv [OF assms]] kc_le_sub) simp_all
    then show ?thesis
      by (simp add: tracks_def durable_map_endpoint)
  qed
  from traced_appended [OF assms this] show ?thesis
    using assms by (simp add: sys_inject_to_init_def Let_def split: option.split)
qed

lemma traced_memory:
  assumes "sys_traced boot s"
  shows "sys_traced boot (s\<lparr>sys_kernel := kc_map_process p (set_memory_size f) (sys_kernel s)\<rparr>)"
proof (rule traced_same [OF assms], rule tracks_same [OF traced_inv [OF assms]])
  show "durable_of (kc_map_process p (set_memory_size f) (sys_kernel s)) = durable_of (sys_kernel s)"
    by (rule durable_map_process) (simp add: proc_view_def set_memory_size_def)
qed (simp_all add: kc_le_refl)

lemma traced_apply:
  assumes "sys_traced boot s" "sys_ok s op"
  shows "sys_traced boot (sys_apply s op)"
proof -
  note inv = traced_inv [OF assms(1)]
  note ops = tracks_kernel_ops [OF inv] and routed = traced_routed [OF assms(1)]
  have delete: "sys_traced boot (snd (sys_delete_capability now s p slot))" for now p slot
    by (simp add: sys_delete_capability_def routed ops)
  show ?thesis
  proof (cases op)
    case (SysCall h now sender num args data)
    then show ?thesis
      using traced_call [of boot s h now sender num args data] assms by simp
  next
    case (SysRegister now name)
    then show ?thesis
      by (simp add: sys_register_process_def routed tracks_register [OF inv])
  next
    case (SysRegisterPid now pid name)
    then show ?thesis
      using tracks_live [OF inv, of "OpRegisterPid pid name (sys_uptime_nanos s now)"]
      by (simp add: sys_register_process_with_pid_def routed live_of_def op_state_def)
  next
    case (SysGrantEndpoint now p eid q perms)
    then show ?thesis
      using tracks_live [OF inv, of "OpGrantEndpoint p eid q perms (sys_uptime_nanos s now)"]
      by (simp add: sys_grant_capability_to_endpoint_def routed live_of_def op_state_def)
  next
    case (SysDeleteNotify now p slot reason)
    then show ?thesis
      using delete [of now p slot]
      by (simp add: sys_delete_capability_with_notification_def Let_def case_prod_unfold split: sum.split)
  next
    case (SysInject now tag data)
    then show ?thesis
      using traced_inject [OF assms(1)] by simp
  next
    case (SysSend now p slot tag data)
    then show ?thesis
      using tracks_send [OF inv, of p slot tag data "sys_uptime_nanos s now"]
      by (auto simp: sys_ipc_send_def Let_def case_prod_unfold op_state_def
          intro: traced_appended [OF assms(1)] traced_same [OF assms(1)] split: option.splits)
  next
    case (SysReceive now p slot)
    then show ?thesis
      using traced_same [OF assms(1) tracks_receive [OF inv]]
      by (simp add: sys_ipc_receive_def Let_def case_prod_unfold)
  next
    case (SysHandle now p sc)
    then show ?thesis
      using tracks_live [OF inv, of "OpSyscall p sc (sys_uptime_nanos s now)"] assms(2)
      by (simp add: sys_handle_syscall_def routed live_of_def op_state_def)
  next
    case (SysAllocate p n)
    then show ?thesis
      using traced_memory [OF assms(1)] assms(1)
      by (simp add: sys_allocate_memory_def kc_allocate_memory_def Let_def split: option.split)
  next
    case (SysFree p n)
    then show ?thesis
      using traced_memory [OF assms(1)] assms(1)
      by (simp add: sys_free_memory_def kc_free_memory_def Let_def split: option.split)
  next
    case (SysMemory p n)
    then show ?thesis
      using traced_memory [OF assms(1)] by (simp add: sys_update_process_memory_def kc_update_process_memory_def)
  qed (simp_all add: sys_create_endpoint_def sys_grant_capability_def sys_revoke_capability_def delete
      sys_derive_capability_def sys_ipc_send_with_caps_def sys_ipc_receive_with_caps_def routed ops)
qed

interpretation system_log: guarded_machine sys_apply sys_ok "sys_traced boot" "\<lambda>_ _. True" for boot
  by unfold_locales (simp_all add: traced_apply)

lemma traced_new: "sys_traced boot (sys_new boot)"
proof -
  have "core_inv kc_new"
    by (simp add: core_inv_def kc_aligned_def kc_new_def kc_pids_def kc_caps_def space_caps_def queue_caps_def)
  then show ?thesis
    unfolding sys_traced_def by (intro exI [of _ "[]"]) (simp add: sys_new_def gw_new_def tracks_refl)
qed

lemma traced_replays:
  assumes "sys_traced boot s" "cl_len (gw_commitlog (sys_axiom s)) < MAX_COMMITLOG_ENTRIES"
  shows "gw_verify_integrity (sys_axiom s)
    \<and> fst (replay_and_verify core_replayable kc_new (cl_commits (gw_commitlog (sys_axiom s)))
             (rk_state_hash (sys_kernel s))) = Inr ()"
proof -
  obtain ops where ops: "gw_commitlog (sys_axiom s) = run cl_apply (cl_new boot) ops"
    "du_run (durable_of kc_new) (map fst ops) = Some (durable_of (sys_kernel s))"
    using assms(1) by (auto simp: sys_traced_def tracks_def)
  have "length (cl_commits (run cl_apply (cl_new boot) ops)) = min MAX_COMMITLOG_ENTRIES (1 + length ops)"
    using commitlog.entries_run [of "cl_new boot" "cl_commits (cl_new boot)" ops]
    by (simp add: keep_last_short length_keep_last MAX_COMMITLOG_ENTRIES_def)
  with assms(2) ops(1) have short: "length ops < MAX_COMMITLOG_ENTRIES"
    by (simp add: cl_len_def min_def split: if_splits)
  then have "cl_commits (gw_commitlog (sys_axiom s))
      = cl_commits (cl_new boot) @ log_history cl_entry cl_apply (cl_new boot) ops"
    unfolding ops(1) by (intro commitlog.entries_complete) simp
  then have "map cm_commit_type (cl_commits (gw_commitlog (sys_axiom s))) = Genesis # map fst ops"
    by (simp add: history_types cl_new_def Let_def)
  then obtain k' where "replay core_replayable kc_new (cl_commits (gw_commitlog (sys_axiom s))) = (Inr (), k')"
    "durable_of k' = durable_of (sys_kernel s)"
    using replay_types_refines [of kc_new "Genesis # map fst ops" "durable_of (sys_kernel s)"] ops(2)
    by (auto simp: replay_by_types)
  then show ?thesis
    using state_hash_durable [of k'] untrimmed_verifies [OF short, of boot] ops(1)
    by (simp add: replay_and_verify_def core_replayable_def gw_verify_integrity_def)
qed

section \<open>Receiving by call 0x41\<close>

lemma receive_with_caps_endpoints:
  "kc_endpoints (op_state (kc_ipc_receive_with_caps k p s ts)) = kc_endpoints (snd (kc_ipc_receive k p s ts))"
proof -
  have "kc_endpoints k'' = kc_endpoints k'" if "kc_install_transferred_caps k' q t ts = (r, k'')" for k' q t r k''
    using that by (auto simp: kc_install_transferred_caps_def case_prod_unfold Let_def kc_map_cap_space_def
        split: option.splits)
  then show ?thesis
    by (auto simp: kc_ipc_receive_with_caps_def split: sum.split prod.split option.split)
qed

lemma receive_call:
  assumes "kc_check k sender slot perms_read_only (Some ObjEndpoint) ts = Inr c"
    and "bt_get (kc_endpoints k) (EndpointId (cap_object_id c)) = Some e" "ep_pending e = m1 # m2 # ms"
  shows "\<exists>k1. kc_ipc_receive k sender slot ts = (Inr (Some m1), k1)
    \<and> (\<exists>e'. bt_get (kc_endpoints (op_state (kc_ipc_receive_with_caps k1 sender slot ts)))
              (EndpointId (cap_object_id c)) = Some e' \<and> ep_pending e' = ms)"
proof -
  let ?eid = "EndpointId (cap_object_id c)"
  have cap: "kc_validate_receive_cap k sender slot ts = Inr ?eid"
    using assms(1) by (simp add: kc_validate_receive_cap_def)
  obtain k1 where k1: "kc_ipc_receive k sender slot ts = (Inr (Some m1), k1)"
    using receive_effect [OF cap assms(2)] assms(3)
    by (cases "kc_ipc_receive k sender slot ts") (auto simp: core_dequeue_def)
  obtain e1 where e1: "bt_get (kc_endpoints k1) ?eid = Some e1" "ep_pending e1 = m2 # ms"
    using receive_effect [OF cap assms(2)] k1 assms(3) by (auto simp: core_dequeue_def)
  have "kc_validate_receive_cap k1 sender slot ts = Inr ?eid"
    using cap receive_effect [OF cap assms(2)] k1 kc_check_cong [of k1 k]
    by (simp add: kc_validate_receive_cap_def)
  from receive_effect [OF this e1(1)] show ?thesis
    using k1 e1(2) by (auto simp: receive_with_caps_endpoints core_dequeue_def)
qed

section \<open>Endpoints made by call 0x15\<close>

definition owner_cap :: "kernel_core \<Rightarrow> capability" where
  "owner_cap k = \<lparr>cap_id = kc_next_cap_id k, cap_object_type = ObjEndpoint,
     cap_object_id = kc_next_endpoint_id k, cap_permissions = perms_full, cap_generation = 0,
     cap_expires_at = 0\<rparr>"

lemma create_endpoint_spaces:
  assumes "core_inv k" "bt_get (kc_processes k) p \<noteq> None"
  shows "\<exists>eid slot commits k1. kc_create_endpoint k p ts = (Inr (eid, slot), commits, k1)
    \<and> kc_next_cap_id k1 = kc_next_cap_id k + 1
    \<and> kc_cap_spaces k1 = bt_modify p (\<lambda>cs. snd (cs_insert cs (owner_cap k))) (kc_cap_spaces k)"
proof -
  have "bt_contains (kc_processes k) p"
    using assms(2) by (auto simp: bt_contains_def)
  then show ?thesis
    using aligned_space [of k p] assms(1)
    by (auto simp: core_inv_def kc_create_endpoint_def kc_grant_owner_endpoint_cap_def kc_insert_cap_def
        kc_alloc_cap_id_def kc_map_cap_space_def owner_cap_def Let_def)
qed

lemma inserted_differs:
  assumes "\<forall>(slot, c') \<in> set (cs_slots cs). cap_id c' \<noteq> cap_id c"
  shows "cs_slots (snd (cs_insert cs c)) \<noteq> cs_slots cs"
proof
  assume same: "cs_slots (snd (cs_insert cs c)) = cs_slots cs"
  have "bt_get (cs_slots (snd (cs_insert cs c))) (cs_next_slot cs) = Some c"
    by (simp add: cs_insert_def Let_def)
  then have "(cs_next_slot cs, c) \<in> set (cs_slots cs)"
    unfolding same by (rule map_of_SomeD)
  then show False
    using assms by blast
qed

section \<open>Properties\<close>

text \<open>
  C1. The log of the system replays to its state: from boot, after any history of the methods of
  the system and of calls by number (where no process ends by call 0x11 or an authorised kill
  and Init does not use call 0x15), as long as the log dropped no commit, the log verifies and
  replaying its commits into a fresh kernel gives a state with the live kernel's state hash.
\<close>

theorem system_log_replays:
  assumes "run_ok sys_apply sys_ok (sys_new boot) ops"
    and "cl_len (gw_commitlog (sys_axiom (run sys_apply (sys_new boot) ops))) < MAX_COMMITLOG_ENTRIES"
  shows "gw_verify_integrity (sys_axiom (run sys_apply (sys_new boot) ops))
    \<and> fst (replay_and_verify core_replayable (sys_kernel sys_new_for_replay)
             (cl_commits (gw_commitlog (sys_axiom (run sys_apply (sys_new boot) ops))))
             (rk_state_hash (sys_kernel (run sys_apply (sys_new boot) ops)))) = Inr ()"
  using traced_replays [OF system_log.run_inv [OF traced_new assms(1)] assms(2)]
  by (simp add: sys_new_for_replay_def)

lemma cl_len_routed:
  assumes "cl_len (gw_commitlog (sys_axiom s)) \<le> n"
    and "length (fst (snd (operation (sys_kernel s) (sys_uptime_nanos s now)))) \<le> m"
  shows "cl_len (gw_commitlog (sys_axiom (snd (sys_routed now s operation)))) \<le> n + m"
proof -
  have "length (cl_commits (run cl_apply l ops)) \<le> length (cl_commits l) + length ops" for l ops
  proof (induction ops arbitrary: l)
    case (Cons op ops)
    have "length (cl_commits (cl_apply l op)) \<le> Suc (length (cl_commits l))"
      by (simp add: commitlog.entries_add length_keep_last)
    with Cons.IH [of "cl_apply l op"] show ?case
      by simp
  qed simp
  from this [of "gw_commitlog (sys_axiom s)" "unattributed (sys_uptime_nanos s now)
      (map cm_commit_type (fst (snd (operation (sys_kernel s) (sys_uptime_nanos s now)))))"]
  show ?thesis
    using assms by (simp add: sys_routed_def sys_record_commits_def Let_def case_prod_unfold
        sys_append_types_axiom cl_len_def)
qed

theorem system_log_replays_witness:
  "let s = run sys_apply (sys_new 10) [SysRegister 11 ''init'', SysRegister 12 ''app'',
       SysCreateEndpoint 13 (ProcessId 1), SysReceive 14 (ProcessId 1) 0]
   in gw_verify_integrity (sys_axiom s)
      \<and> fst (replay_and_verify core_replayable (sys_kernel sys_new_for_replay)
               (cl_commits (gw_commitlog (sys_axiom s))) (rk_state_hash (sys_kernel s))) = Inr ()"
  unfolding Let_def
proof (rule system_log_replays)
  have len: "length (fst (snd (kc_register_process k name ts))) \<le> 1" "length (fst (snd (kc_create_endpoint k p ts))) \<le> 2"
    for k name p ts
    by (auto simp: kc_register_process_def kc_register_process_with_parent_def kc_create_endpoint_def
        kc_grant_owner_endpoint_cap_def kc_insert_cap_def Let_def case_prod_unfold split: option.split)
  have recv: "sys_axiom (snd (sys_ipc_receive now s p slot)) = sys_axiom s" for now s p slot
    by (simp add: sys_ipc_receive_def Let_def case_prod_unfold)
  have "cl_len (gw_commitlog (sys_axiom (sys_new 10))) \<le> 1"
    by (simp add: sys_new_def gw_new_def cl_len_def)
  then have "cl_len (gw_commitlog (sys_axiom (run sys_apply (sys_new 10) [SysRegister 11 ''init'', SysRegister 12 ''app'',
       SysCreateEndpoint 13 (ProcessId 1), SysReceive 14 (ProcessId 1) 0]))) \<le> 1 + 1 + 1 + 2"
    unfolding run.simps sys_apply.simps recv sys_register_process_def sys_create_endpoint_def
    by (intro cl_len_routed len)
  then show "cl_len (gw_commitlog (sys_axiom (run sys_apply (sys_new 10) [SysRegister 11 ''init'', SysRegister 12 ''app'',
       SysCreateEndpoint 13 (ProcessId 1), SysReceive 14 (ProcessId 1) 0]))) < MAX_COMMITLOG_ENTRIES"
    by (simp add: MAX_COMMITLOG_ENTRIES_def)
qed simp



text \<open>
  C29. Call 0x41 takes two messages and delivers one: when the caller's endpoint has at least two
  messages, the call answers with the first, in the bytes the caller reads, and removes the
  second from the queue as well.
\<close>

theorem receive_call_takes_two:
  assumes "kc_check (sys_kernel s) sender slot perms_read_only (Some ObjEndpoint) (sys_uptime_nanos s now) = Inr c"
    and "bt_get (kc_endpoints (sys_kernel s)) (EndpointId (cap_object_id c)) = Some e"
    and "ep_pending e = m1 # m2 # ms"
    and "sys_process_syscall h now s sender 0x41 (slot, a1, a2, a3) data = ((result, rich, bytes), s')"
  shows "result = 1 \<and> bytes = serialize_ipc_message m1
    \<and> (\<exists>e'. bt_get (kc_endpoints (sys_kernel s')) (EndpointId (cap_object_id c)) = Some e' \<and> ep_pending e' = ms)"
proof -
  let ?ts = "sys_uptime_nanos s now"
  obtain k1 e' where k1: "kc_ipc_receive (sys_kernel s) sender slot ?ts = (Inr (Some m1), k1)"
    and e': "bt_get (kc_endpoints (op_state (kc_ipc_receive_with_caps k1 sender slot ?ts)))
      (EndpointId (cap_object_id c)) = Some e'" "ep_pending e' = ms"
    using receive_call [OF assms(1-3)] by blast
  have exec: "execute_syscall_kernel_fn h (sys_kernel s) 0x41 sender (slot, a1, a2, a3) data ?ts
      = (1, [], serialize_ipc_message m1, k1)"
    using k1 by (simp add: execute_syscall_kernel_fn_def execute_ipc_syscall_def)
  have state: "snd (snd (snd (get_syscall_rich_result k1 sender 0x41 (slot, a1, a2, a3) 1 ?ts)))
      = op_state (kc_ipc_receive_with_caps k1 sender slot ?ts)"
    by (simp add: get_syscall_rich_result_def format_receive_result_def Let_def case_prod_unfold op_state_def
        split: sum.split option.split)
  have "serialize_ipc_message m1 \<noteq> []"
    by (simp add: serialize_ipc_message_def Let_def)
  then have "result = 1" "bytes = serialize_ipc_message m1"
    using assms(4) exec by (auto simp: sys_process_syscall_def Let_def case_prod_unfold)
  moreover have "sys_kernel s' = op_state (kc_ipc_receive_with_caps k1 sender slot ?ts)"
    using process_syscall_kernel [of h now s sender "0x41" "(slot, a1, a2, a3)" data] assms(4) exec state
    by (simp add: Let_def)
  ultimately show ?thesis
    using e' by simp
qed

definition example_two :: system where
  "example_two = example_system\<lparr>sys_kernel := example_transfer\<lparr>kc_endpoints :=
     [(EndpointId 1, \<lparr>ep_id = EndpointId 1, ep_owner = ProcessId 1,
        ep_pending = [example_message, example_message\<lparr>cmsg_tag := 10\<rparr>, example_message\<lparr>cmsg_tag := 11\<rparr>],
        ep_metrics = endpoint_metrics_default\<rparr>)]\<rparr>\<rparr>"

theorem receive_call_takes_two_witness:
  "let ((result, rich, bytes), s') = sys_process_syscall example_hal 20 example_two (ProcessId 2) 0x41 (0, 0, 0, 0) []
   in result = 1 \<and> bytes = serialize_ipc_message example_message
      \<and> (\<exists>e'. bt_get (kc_endpoints (sys_kernel s')) (EndpointId 1) = Some e'
           \<and> ep_pending e' = [example_message\<lparr>cmsg_tag := 11\<rparr>])"
proof -
  let ?r = "sys_process_syscall example_hal 20 example_two (ProcessId 2) 0x41 (0, 0, 0, 0) []"
  let ?c = "example_cap 3 ObjEndpoint 1"
  obtain e where e: "bt_get (kc_endpoints (sys_kernel example_two)) (EndpointId (cap_object_id ?c)) = Some e"
    "ep_pending e = example_message # example_message\<lparr>cmsg_tag := 10\<rparr> # [example_message\<lparr>cmsg_tag := 11\<rparr>]"
    by (simp add: example_two_def example_cap_def)
  have "kc_check (sys_kernel example_two) (ProcessId 2) 0 perms_read_only (Some ObjEndpoint)
      (sys_uptime_nanos example_two 20) = Inr ?c"
    using kc_check_cong [of "sys_kernel example_two" example_transfer] example_transfer_check(2)
    by (simp add: example_two_def)
  moreover note e
  moreover have "?r = ((fst (fst ?r), fst (snd (fst ?r)), snd (snd (fst ?r))), snd ?r)"
    by simp
  ultimately have "fst (fst ?r) = 1 \<and> snd (snd (fst ?r)) = serialize_ipc_message example_message
      \<and> (\<exists>e'. bt_get (kc_endpoints (sys_kernel (snd ?r))) (EndpointId (cap_object_id ?c)) = Some e'
           \<and> ep_pending e' = [example_message\<lparr>cmsg_tag := 11\<rparr>])"
    by (rule receive_call_takes_two)
  then show ?thesis
    by (simp add: Let_def case_prod_unfold example_cap_def)
qed

text \<open>
  C31. Call 0x15 is not replayed: when Init creates an endpoint for a process, the commits of the
  call replay without error, but Init's capability space after the replay is not the live one,
  because no commit records the capability that Init got.
\<close>

theorem endpoint_for_is_not_replayed:
  assumes "core_inv k" "bt_get (kc_processes k) (ProcessId (ucast target)) \<noteq> None"
    and "bt_get (kc_cap_spaces k) (ProcessId 1) = Some cs"
    and "\<forall>(slot, c) \<in> set (cs_slots cs). cap_id c \<noteq> kc_next_cap_id k + 1"
    and "execute_create_endpoint_for k (ProcessId 1) (target, a1, a2, a3) ts = (result, cts, k')"
  shows "\<exists>k2. replay_types core_replayable k cts = (Inr (), k2)
    \<and> bt_get (du_caps (durable_of k2)) (ProcessId 1) \<noteq> bt_get (du_caps (durable_of k')) (ProcessId 1)"
proof -
  let ?p = "ProcessId (ucast target)" and ?cts = "map cm_commit_type"
  let ?c0 = "owner_cap k"
  obtain eid slot commits k1 where create: "kc_create_endpoint k ?p ts = (Inr (eid, slot), commits, k1)"
    and k1: "kc_next_cap_id k1 = kc_next_cap_id k + 1"
      "kc_cap_spaces k1 = bt_modify ?p (\<lambda>cs. snd (cs_insert cs ?c0)) (kc_cap_spaces k)"
    using create_endpoint_spaces [OF assms(1,2), of ts] by blast
  define c where "c = \<lparr>cap_id = kc_next_cap_id k1, cap_object_type = ObjEndpoint, cap_object_id = eid_raw eid,
    cap_permissions = perms_full, cap_generation = 0, cap_expires_at = 0\<rparr>"
  define cs1 where "cs1 = (if ?p = ProcessId 1 then snd (cs_insert cs ?c0) else cs)"
  have cs1: "bt_get (kc_cap_spaces k1) (ProcessId 1) = Some cs1"
    using assms(3) by (auto simp: k1(2) cs1_def)
  have "set (cs_slots cs1) \<subseteq> insert (cs_next_slot cs, ?c0) (set (cs_slots cs))"
    using bt_set_insert [of "cs_next_slot cs" ?c0 "cs_slots cs"] by (auto simp: cs1_def cs_insert_def Let_def)
  moreover have "kc_next_cap_id k \<noteq> kc_next_cap_id k + 1"
    by simp
  ultimately have "\<forall>(s, c') \<in> set (cs_slots cs1). cap_id c' \<noteq> cap_id c"
    using assms(4) k1(1) by (auto simp: c_def owner_cap_def)
  note differs = inserted_differs [OF this]
  have cts: "cts = ?cts commits" and k': "k' = kc_map_cap_space (ProcessId 1) (\<lambda>cs. snd (cs_insert cs c))
      (k1\<lparr>kc_next_cap_id := kc_next_cap_id k1 + 1\<rparr>)"
    using assms(5) create cs1
    by (auto simp: execute_create_endpoint_for_def kc_alloc_cap_id_def Let_def c_def)
  have "du_run (durable_of k) cts = Some (durable_of k1)"
    using create_endpoint_emits [OF assms(1), of ?p ts] create cts by (simp add: emits_def)
  from replay_types_refines [OF this] obtain k2
    where "replay_types core_replayable k cts = (Inr (), k2)" "durable_of k2 = durable_of k1"
    by auto
  moreover have "bt_get (du_caps (durable_of k')) (ProcessId 1) = Some (cs_slots (snd (cs_insert cs1 c)))"
    "bt_get (du_caps (durable_of k1)) (ProcessId 1) = Some (cs_slots cs1)"
    using cs1 by (simp_all add: durable_of_def k' kc_map_cap_space_def)
  ultimately show ?thesis
    using differs by auto
qed

theorem endpoint_for_is_not_replayed_witness:
  "\<exists>k2. replay_types core_replayable example_core
      (fst (snd (execute_create_endpoint_for example_core (ProcessId 1) (2, 0, 0, 0) 5))) = (Inr (), k2)
    \<and> bt_get (du_caps (durable_of k2)) (ProcessId 1) \<noteq> bt_get (du_caps (durable_of
        (snd (snd (execute_create_endpoint_for example_core (ProcessId 1) (2, 0, 0, 0) 5))))) (ProcessId 1)"
proof (rule endpoint_for_is_not_replayed)
  let ?r = "execute_create_endpoint_for example_core (ProcessId 1) (2, 0, 0, 0) 5"
  show "core_inv example_core"
    by (auto simp: core_inv_def kc_aligned_def example_core_def kc_new_def kc_pids_def kc_caps_def space_caps_def
        queue_caps_def cs_caps_def cs_new_def bt_wf_def split: if_splits)
  show "bt_get (kc_processes example_core) (ProcessId (ucast (2 :: u32))) \<noteq> None"
    "bt_get (kc_cap_spaces example_core) (ProcessId 1) = Some cs_new"
    by (simp_all add: example_core_def)
  show "\<forall>(slot, c) \<in> set (cs_slots cs_new). cap_id c \<noteq> kc_next_cap_id example_core + 1"
    by (simp add: cs_new_def)
  show "?r = (fst ?r, fst (snd ?r), snd (snd ?r))"
    by simp
qed

end
