(* ===== verification/Vfs_Path.thy ===== *)
theory Vfs_Path
  imports Utf8
begin

text \<open>
  Paths of the file system: \<^verbatim>\<open>zos-vfs/src/core/{error,path}.rs\<close> and the path functions of the file
  service, \<^verbatim>\<open>zos-services/src/services/vfs/mod.rs\<close>. A path is a string of UTF-8 bytes; the
  separator is a one-byte character, so splitting bytes and splitting characters agree.
\<close>

section \<open>Errors\<close>

datatype storage_error_kind =
    ConnectionFailed
  | Timeout string
  | ChunkCorrupt "u32 option" "string option"
  | KindQuotaExceeded u64 u64
  | KindPermissionDenied string string
  | KeyNotFound
  | Unavailable
  | UnknownKind string

datatype vfs_error =
    VfsNotFound
  | AlreadyExists
  | NotADirectory
  | NotAFile
  | DirectoryNotEmpty
  | VfsPermissionDenied
  | InvalidPath string
  | InvalidRequest string
  | Storage storage_error_kind "string option"
  | StorageError string
  | QuotaExceeded
  | FileTooLarge
  | EncryptionError string
  | DecryptionError string
  | IoError string
  | VfsNotSupported string

definition vfs_is_not_found :: "vfs_error \<Rightarrow> bool" where
  "vfs_is_not_found e = (case e of VfsNotFound \<Rightarrow> True | Storage KeyNotFound _ \<Rightarrow> True | _ \<Rightarrow> False)"

definition vfs_is_permission_denied :: "vfs_error \<Rightarrow> bool" where
  "vfs_is_permission_denied e =
     (case e of VfsPermissionDenied \<Rightarrow> True | Storage (KindPermissionDenied _ _) _ \<Rightarrow> True | _ \<Rightarrow> False)"

section \<open>Strings\<close>

abbreviation slash :: char where "slash \<equiv> CHR ''/''"

fun split_slash :: "string \<Rightarrow> string list" where
  "split_slash [] = [[]]"
| "split_slash (c # cs) =
     (if c = slash then [] # split_slash cs
      else (case split_slash cs of [] \<Rightarrow> [[c]] | w # ws \<Rightarrow> (c # w) # ws))"

fun rfind :: "char \<Rightarrow> string \<Rightarrow> nat option" where
  "rfind c [] = None"
| "rfind c (x # xs) =
     (case rfind c xs of Some n \<Rightarrow> Some (Suc n) | None \<Rightarrow> if x = c then Some 0 else None)"

definition starts_with :: "string \<Rightarrow> string \<Rightarrow> bool" where
  "starts_with s p \<longleftrightarrow> take (length p) s = p"

fun double_slash :: "string \<Rightarrow> bool" where
  "double_slash (a # b # cs) = (a = slash \<and> b = slash \<or> double_slash (b # cs))"
| "double_slash _ = False"

definition join_components :: "string list \<Rightarrow> string" where
  "join_components cs = concat (map (\<lambda>c. slash # c) cs)"

section \<open>Paths of zos-vfs\<close>

definition vfs_validate_path :: "string \<Rightarrow> vfs_error + unit" where
  "vfs_validate_path path =
     (if path = [] then Inl (InvalidPath ''Empty path'')
      else if hd path \<noteq> slash then Inl (InvalidPath ''Path must be absolute (start with /)'')
      else if CHR 0x00 \<in> set path then Inl (InvalidPath ''Path contains null character'')
      else Inr ())"

fun normalize_components :: "string list \<Rightarrow> string list \<Rightarrow> vfs_error + string list" where
  "normalize_components acc [] = Inr acc"
| "normalize_components acc (c # cs) =
     (if c = [] \<or> c = ''.'' then normalize_components acc cs
      else if c = ''..'' then
        (if acc = [] then Inl (InvalidPath ''Path escapes root directory'')
         else normalize_components (butlast acc) cs)
      else normalize_components (acc @ [c]) cs)"

definition normalize_path :: "string \<Rightarrow> vfs_error + string" where
  "normalize_path path =
     (case vfs_validate_path path of
        Inl e \<Rightarrow> Inl e
      | Inr _ \<Rightarrow>
          (case normalize_components [] (split_slash path) of
             Inl e \<Rightarrow> Inl e
           | Inr cs \<Rightarrow> Inr (if cs = [] then ''/'' else join_components cs)))"

definition parent_path :: "string \<Rightarrow> string" where
  "parent_path path =
     (if path = ''/'' then ''/''
      else (case rfind slash path of
              Some n \<Rightarrow> if n = 0 then ''/'' else take n path
            | None \<Rightarrow> ''/''))"

definition filename :: "string \<Rightarrow> string" where
  "filename path =
     (if path = ''/'' then []
      else (case rfind slash path of Some n \<Rightarrow> drop (n + 1) path | None \<Rightarrow> path))"

definition join_path :: "string \<Rightarrow> string \<Rightarrow> string" where
  "join_path base name = (if base = ''/'' then ''/'' @ name else base @ ''/'' @ name)"

definition is_under :: "string \<Rightarrow> string \<Rightarrow> bool" where
  "is_under path base \<longleftrightarrow>
     base = ''/'' \<or> starts_with path base \<and> (length path = length base \<or> path ! length base = slash)"

text \<open>
  Unsigned numbers as \<^verbatim>\<open>from_str_radix\<close> and \<^verbatim>\<open>parse\<close> of the standard library read them: an optional
  plus sign, at least one digit, and no overflow.
\<close>

definition digit_value :: "nat \<Rightarrow> char \<Rightarrow> nat option" where
  "digit_value radix c =
     (let n = of_char c :: nat;
          d = (if 48 \<le> n \<and> n \<le> 57 then Some (n - 48)
               else if 97 \<le> n \<and> n \<le> 122 then Some (n - 87)
               else if 65 \<le> n \<and> n \<le> 90 then Some (n - 55)
               else None)
      in (case d of Some v \<Rightarrow> if v < radix then Some v else None | None \<Rightarrow> None))"

fun digits_value :: "nat \<Rightarrow> nat \<Rightarrow> string \<Rightarrow> nat option" where
  "digits_value radix acc [] = Some acc"
| "digits_value radix acc (c # cs) =
     (case digit_value radix c of
        None \<Rightarrow> None
      | Some d \<Rightarrow>
          let v = acc * radix + d
          in if v < 2 ^ 128 then digits_value radix v cs else None)"

definition u128_from_str_radix :: "nat \<Rightarrow> string \<Rightarrow> 128 word option" where
  "u128_from_str_radix radix s =
     (let digits = (case s of c # cs \<Rightarrow> if c = CHR ''+'' then cs else s | [] \<Rightarrow> [])
      in if digits = [] then None else map_option word_of_nat (digits_value radix 0 digits))"

definition extract_user_id :: "string \<Rightarrow> 128 word option" where
  "extract_user_id path =
     (if \<not> starts_with path ''/home/'' then None
      else u128_from_str_radix 16 (hd (split_slash (drop 6 path))))"

section \<open>Paths of the file service\<close>

definition validate_path :: "string \<Rightarrow> string + unit" where
  "validate_path path =
     (if path = [] then Inl ''Path cannot be empty''
      else if hd path \<noteq> slash then Inl ''Path must be absolute (start with '/')''
      else if CHR 0x00 \<in> set path then Inl ''Path cannot contain null bytes''
      else if path = ''/'' then Inr ()
      else if last path = slash then Inl ''Path cannot have trailing slash (except root)''
      else (case find (\<lambda>c. c = ''..'' \<or> c = ''.'') (split_slash path) of
              Some c \<Rightarrow> if c = ''..'' then Inl ''Path cannot contain '..' traversal''
                        else Inl ''Path cannot contain '.' (use normalized path)''
            | None \<Rightarrow> if double_slash path then Inl ''Path cannot contain double slashes'' else Inr ()))"

fun parent_paths :: "string \<Rightarrow> string list \<Rightarrow> string list" where
  "parent_paths current [] = []"
| "parent_paths current (c # cs) =
     (let current = current @ slash # c in current # parent_paths current cs)"

definition build_parent_paths :: "string \<Rightarrow> string list" where
  "build_parent_paths path =
     (if path = ''/'' \<or> path = [] then []
      else parent_paths [] (filter (\<lambda>c. c \<noteq> []) (split_slash path)))"

fun user_id_of_parts :: "string list \<Rightarrow> 128 word option" where
  "user_id_of_parts (p # q # ps) =
     (if p = ''users'' \<or> p = ''home'' \<or> p = ''identity''
      then (case u128_from_str_radix 10 q of Some uid \<Rightarrow> Some uid | None \<Rightarrow> user_id_of_parts (q # ps))
      else user_id_of_parts (q # ps))"
| "user_id_of_parts _ = None"

definition extract_user_id_from_path :: "string \<Rightarrow> 128 word option" where
  "extract_user_id_from_path path = user_id_of_parts (split_slash path)"

text \<open>\<^verbatim>\<open>path.rsplit('/').next()\<close>, the last component.\<close>

definition last_component :: "string \<Rightarrow> string" where
  "last_component path = last (split_slash path)"

section \<open>Splitting and joining\<close>

lemma split_slash_not_Nil [simp]: "split_slash s \<noteq> []"
  by (cases s) (auto split: list.split)

lemma join_split: "slash # s = join_components (split_slash s)"
  by (induction s) (auto simp: join_components_def split: list.split)

lemma split_no_slash: "c \<in> set (split_slash s) \<Longrightarrow> slash \<notin> set c"
  by (induction s arbitrary: c) (fastforce split: if_splits list.splits)+

lemma split_append_slash: "slash \<notin> set c \<Longrightarrow> split_slash (c @ slash # s) = c # split_slash s"
  by (induction c) auto

lemma split_plain: "slash \<notin> set c \<Longrightarrow> split_slash c = [c]"
  by (induction c) auto

lemma split_join: "\<forall>c \<in> set cs. slash \<notin> set c \<Longrightarrow> split_slash (join_components cs) = [] # cs"
proof -
  have "split_slash (c @ join_components cs) = c # cs"
    if "slash \<notin> set c" "\<forall>c \<in> set cs. slash \<notin> set c" for c cs
    using that
  proof (induction cs arbitrary: c)
    case (Cons d cs)
    then show ?case
      using split_append_slash [of c "d @ join_components cs"] by (simp add: join_components_def)
  qed (simp add: join_components_def split_plain)
  from this [of "[]"] show "\<forall>c \<in> set cs. slash \<notin> set c \<Longrightarrow> split_slash (join_components cs) = [] # cs"
    by simp
qed

lemma double_slash_Cons: "double_slash (c # s) \<longleftrightarrow> c = slash \<and> s \<noteq> [] \<and> hd s = slash \<or> double_slash s"
  by (cases s) auto

lemma split_empty_component:
  "[] \<in> set (split_slash s) \<longleftrightarrow> s = [] \<or> hd s = slash \<or> double_slash s \<or> last s = slash"
proof (induction s rule: length_induct)
  case (1 s)
  show ?case
  proof (cases s)
    case (Cons c t)
    have *: "[] \<in> set (split_slash t) \<longleftrightarrow> t = [] \<or> hd t = slash \<or> double_slash t \<or> last t = slash"
      using 1 Cons by simp
    show ?thesis
    proof (cases t)
      case (Cons d u)
      have **: "[] \<in> set (split_slash u) \<longleftrightarrow> u = [] \<or> hd u = slash \<or> double_slash u \<or> last u = slash"
        using 1 Cons \<open>s = c # t\<close> by simp
      show ?thesis
        using * ** Cons \<open>s = c # t\<close> by (auto simp: double_slash_Cons split: list.splits if_splits)
    qed (use Cons in auto)
  qed simp
qed

lemma split_set: "c \<in> set (split_slash s) \<Longrightarrow> set c \<subseteq> set s"
  by (induction s arbitrary: c) (fastforce split: if_splits list.splits)+

section \<open>Normal forms\<close>

definition component_ok :: "string \<Rightarrow> bool" where
  "component_ok c \<longleftrightarrow> c \<noteq> [] \<and> c \<noteq> ''.'' \<and> c \<noteq> ''..'' \<and> slash \<notin> set c \<and> CHR 0x00 \<notin> set c"

definition path_of :: "string list \<Rightarrow> string" where
  "path_of cs = (if cs = [] then ''/'' else join_components cs)"

lemma join_components_simps [simp]:
  "join_components [] = []"
  "join_components (c # cs) = slash # c @ join_components cs"
  "join_components (cs @ ds) = join_components cs @ join_components ds"
  by (simp_all add: join_components_def)

lemma path_of_not_Nil [simp]: "path_of cs \<noteq> []" and hd_path_of [simp]: "hd (path_of cs) = slash"
  by (cases cs; simp add: path_of_def)+

lemma split_path_of:
  "list_all component_ok cs \<Longrightarrow> split_slash (path_of cs) = [] # (if cs = [] then [[]] else cs)"
  by (auto simp: path_of_def list_all_iff component_ok_def intro!: split_join)

lemma path_of_no_nul: "list_all component_ok cs \<Longrightarrow> CHR 0x00 \<notin> set (path_of cs)"
  by (auto simp: path_of_def list_all_iff component_ok_def join_components_def)

lemma normalize_clean:
  "list_all component_ok cs \<Longrightarrow> normalize_components acc cs = Inr (acc @ cs)"
  by (induction cs arbitrary: acc) (auto simp: component_ok_def)

lemma normalize_result:
  "normalize_components acc cs = Inr r \<Longrightarrow> list_all component_ok acc \<Longrightarrow>
     \<forall>c \<in> set cs. slash \<notin> set c \<and> CHR 0x00 \<notin> set c \<Longrightarrow> list_all component_ok r"
proof (induction acc cs rule: normalize_components.induct)
  case (2 acc c cs)
  have "list_all component_ok (butlast acc)"
    using 2(5) by (auto simp: list_all_iff dest: in_set_butlastD)
  moreover have "component_ok c" if "c \<noteq> []" "c \<noteq> ''.''" "c \<noteq> ''..''"
    using 2(6) that by (simp add: component_ok_def)
  ultimately show ?case
    using 2 by (auto split: if_splits)
qed simp

lemma normalize_path_of: "list_all component_ok cs \<Longrightarrow> normalize_path (path_of cs) = Inr (path_of cs)"
  using path_of_no_nul [of cs] normalize_clean [of cs "[]"]
  by (simp add: normalize_path_def vfs_validate_path_def split_path_of) (simp add: path_of_def)

lemma normalized:
  assumes "normalize_path p = Inr q"
  obtains cs where "list_all component_ok cs" "q = path_of cs"
proof -
  obtain cs where cs: "normalize_components [] (split_slash p) = Inr cs" "q = path_of cs" "CHR 0x00 \<notin> set p"
    using assms by (auto simp: normalize_path_def vfs_validate_path_def path_of_def split: sum.splits if_splits)
  have "list_all component_ok cs"
    using normalize_result [OF cs(1)] cs(3) split_no_slash [of _ p] split_set [of _ p] by fastforce
  with cs(2) that show thesis
    by blast
qed

lemma find_dots: "find (\<lambda>c. c = ''..'' \<or> c = ''.'') cs = None \<longleftrightarrow> ''.'' \<notin> set cs \<and> ''..'' \<notin> set cs"
  by (auto simp: find_None_iff)

lemma validate_path_iff: "validate_path p = Inr () \<longleftrightarrow> (\<exists>cs. list_all component_ok cs \<and> p = path_of cs)"
proof
  assume valid: "validate_path p = Inr ()"
  show "\<exists>cs. list_all component_ok cs \<and> p = path_of cs"
  proof (cases "p = ''/''")
    case True
    then show ?thesis
      by (intro exI [of _ "[]"]) (simp add: path_of_def)
  next
    case False
    obtain q where p: "p = slash # q"
      using valid by (cases p) (auto simp: validate_path_def split: if_splits)
    have v: "CHR 0x00 \<notin> set p" "last p \<noteq> slash" "''.'' \<notin> set (split_slash p)" "''..'' \<notin> set (split_slash p)"
      "\<not> double_slash p" "q \<noteq> []"
      using valid p False by (auto simp: validate_path_def find_dots split: if_splits option.splits)
    have "[] \<notin> set (split_slash q)"
      using v p by (auto simp: split_empty_component double_slash_Cons)
    moreover have "c \<noteq> ''.''" "c \<noteq> ''..''" "CHR 0x00 \<notin> set c" if "c \<in> set (split_slash q)" for c
      using that v p split_set [of c q] by auto
    ultimately have "list_all component_ok (split_slash q)"
      using split_no_slash [of _ q] by (auto simp: list_all_iff component_ok_def)
    moreover have "p = path_of (split_slash q)"
      using join_split [of q] p by (simp add: path_of_def)
    ultimately show ?thesis
      by blast
  qed
next
  assume "\<exists>cs. list_all component_ok cs \<and> p = path_of cs"
  then obtain cs where cs: "list_all component_ok cs" "p = path_of cs"
    by blast
  show "validate_path p = Inr ()"
  proof (cases "cs = []")
    case True
    then show ?thesis
      using cs by (simp add: validate_path_def path_of_def)
  next
    case False
    obtain q where q: "p = slash # q"
      using cs False by (cases cs) (auto simp: path_of_def)
    have "split_slash p = [] # cs"
      using split_path_of [OF cs(1)] cs(2) False by simp
    then have split: "split_slash q = cs"
      using q by simp
    have "[] \<notin> set cs" "''.'' \<notin> set cs" "''..'' \<notin> set cs"
      using cs(1) by (auto simp: list_all_iff component_ok_def)
    then have "q \<noteq> [] \<and> hd q \<noteq> slash \<and> \<not> double_slash q \<and> last q \<noteq> slash"
      using split_empty_component [of q] split by simp
    moreover have "CHR 0x00 \<notin> set p"
      using path_of_no_nul [OF cs(1)] cs(2) by simp
    moreover have "find (\<lambda>c. c = ''..'' \<or> c = ''.'') ([] # split_slash q) = None"
      using \<open>''.'' \<notin> set cs\<close> \<open>''..'' \<notin> set cs\<close> split unfolding find_dots by simp
    ultimately show ?thesis
      by (simp add: q validate_path_def double_slash_Cons)
  qed
qed

lemma valid_path_cases:
  assumes "validate_path p = Inr ()"
  obtains (root) "p = ''/''"
  | (child) cs c where "list_all component_ok cs" "component_ok c" "p = path_of (cs @ [c])"
proof -
  obtain cs where cs: "list_all component_ok cs" "p = path_of cs"
    using assms validate_path_iff by blast
  show thesis
  proof (cases cs rule: rev_cases)
    case Nil
    with cs root show thesis
      by (simp add: path_of_def)
  next
    case (snoc ds d)
    with cs show thesis
      using child [of ds d] by simp
  qed
qed

lemma rfind_absent: "c \<notin> set s \<Longrightarrow> rfind c s = None"
  by (induction s) auto

lemma rfind_last: "c \<notin> set t \<Longrightarrow> rfind c (s @ c # t) = Some (length s)"
  by (induction s) (auto simp: rfind_absent)

lemma path_of_snoc: "path_of (cs @ [c]) = join_components cs @ slash # c"
  by (simp add: path_of_def)

lemma child_not_root: "component_ok c \<Longrightarrow> path_of (cs @ [c]) \<noteq> ''/''"
  unfolding path_of_snoc by (auto simp: component_ok_def append_eq_Cons_conv)

lemma parent_of_child: "component_ok c \<Longrightarrow> parent_path (path_of (cs @ [c])) = path_of cs"
  using child_not_root [of c cs] rfind_last [of slash c "join_components cs"]
  by (auto simp: parent_path_def path_of_snoc component_ok_def) (auto simp: path_of_def join_components_def)

lemma filename_of_child: "component_ok c \<Longrightarrow> filename (path_of (cs @ [c])) = c"
  using child_not_root [of c cs] rfind_last [of slash c "join_components cs"]
  by (auto simp: filename_def path_of_snoc component_ok_def)

lemma last_component_of_child:
  "list_all component_ok (cs @ [c]) \<Longrightarrow> last_component (path_of (cs @ [c])) = c"
  using split_path_of [of "cs @ [c]"] by (simp add: last_component_def)

lemma join_to_child: "join_path (path_of cs) c = path_of (cs @ [c])" if "list_all component_ok cs"
proof (cases cs rule: rev_cases)
  case (snoc ds d)
  with that child_not_root [of d ds] show ?thesis
    by (simp add: join_path_def) (simp add: path_of_def)
qed (simp add: join_path_def path_of_def)

lemma parent_steps: "list_all component_ok cs \<Longrightarrow> (parent_path ^^ length cs) (path_of cs) = ''/''"
proof (induction cs rule: rev_induct)
  case (snoc c cs)
  then show ?case
    by (simp add: funpow_swap1 parent_of_child)
qed (simp add: path_of_def)

lemma parent_paths_eq:
  "parent_paths (join_components ds) cs = map (\<lambda>n. join_components (ds @ take (Suc n) cs)) [0..<length cs]"
proof (induction cs arbitrary: ds)
  case (Cons c cs)
  have "[0..<length (c # cs)] = 0 # map Suc [0..<length cs]"
    by (simp add: map_Suc_upt upt_conv_Cons del: upt_Suc)
  with Cons [of "ds @ [c]"] show ?case
    by (simp add: Let_def comp_def del: upt_Suc)
qed simp

section \<open>Properties\<close>

text \<open>
  C32. The validator of the file service accepts exactly the normal forms of the path library: a
  path is accepted if and only if normalising it succeeds and changes nothing. So two accepted
  paths that differ are different locations, and no accepted path climbs above its prefix.
\<close>

theorem validator_accepts_normal_forms:
  "validate_path p = Inr () \<longleftrightarrow> normalize_path p = Inr p"
  using validate_path_iff normalize_path_of normalized by metis

text \<open>
  Normalising is a projection: its result is accepted by the validator of the file service and
  is its own normal form, and it fails only on paths that are not absolute, contain a null
  byte or climb above the root.
\<close>

theorem normalize_is_projection:
  assumes "normalize_path p = Inr q"
  shows "validate_path q = Inr () \<and> normalize_path q = Inr q"
  using normalized [OF assms] normalize_path_of validate_path_iff by metis

theorem normalize_is_projection_witness:
  "validate_path ''/a/d'' = Inr () \<and> normalize_path ''/a/d'' = Inr ''/a/d''"
proof (rule normalize_is_projection)
  show "normalize_path ''/a/b/./c/..//../d'' = Inr ''/a/d''"
    by code_simp
qed

text \<open>
  C33. Parent and file name take a path apart: for an accepted path other than the root, the
  parent is again accepted, joining it with the file name gives the path back, and the file
  name is the last component.
\<close>

theorem parent_and_filename:
  assumes "validate_path p = Inr ()" "p \<noteq> ''/''"
  shows "validate_path (parent_path p) = Inr () \<and> join_path (parent_path p) (filename p) = p
    \<and> filename p = last_component p"
  using assms(1)
proof (cases rule: valid_path_cases)
  case (child cs c)
  then show ?thesis
    using validate_path_iff [of "path_of cs"] join_to_child
    by (auto simp: parent_of_child filename_of_child last_component_of_child)
qed (use assms in simp)

theorem parent_and_filename_witness:
  "validate_path (parent_path ''/home/1/doc'') = Inr ()
    \<and> join_path (parent_path ''/home/1/doc'') (filename ''/home/1/doc'') = ''/home/1/doc''
    \<and> filename ''/home/1/doc'' = last_component ''/home/1/doc''"
  by (rule parent_and_filename) (code_simp, simp)

text \<open>
  C34. Climbing ends: from every accepted path, taking the parent repeatedly reaches the root
  after at most as many steps as the path has bytes, and stays there.
\<close>

theorem climbing_ends:
  assumes "validate_path p = Inr ()"
  shows "\<exists>n \<le> length p. \<forall>m \<ge> n. (parent_path ^^ m) p = ''/''"
proof -
  obtain cs where cs: "list_all component_ok cs" "p = path_of cs"
    using assms validate_path_iff by blast
  have "length cs \<le> length (join_components cs)"
    by (induction cs) auto
  then have "length cs \<le> length p"
    using cs(2) by (auto simp: path_of_def)
  moreover have "(parent_path ^^ m) p = ''/''" if "m \<ge> length cs" for m
  proof -
    have "m = (m - length cs) + length cs"
      using that by simp
    then obtain k where "m = k + length cs" ..
    moreover have "(parent_path ^^ k) ''/'' = ''/''"
      by (induction k) (simp_all add: parent_path_def)
    ultimately show ?thesis
      using parent_steps [OF cs(1)] cs(2) by (simp add: funpow_add)
  qed
  ultimately show ?thesis
    by blast
qed

theorem climbing_ends_witness:
  "\<exists>n \<le> length ''/home/1/doc''. \<forall>m \<ge> n. (parent_path ^^ m) ''/home/1/doc'' = ''/''"
  by (rule climbing_ends) code_simp

end
