(* ===== verification/Vfs_Types.thy ===== *)
theory Vfs_Types
  imports Vfs_Path
begin

text \<open>
  Inodes, permissions and the messages of the file system: \<^verbatim>\<open>zos-vfs/src/core/types.rs\<close>,
  \<^verbatim>\<open>service/permissions.rs\<close>, \<^verbatim>\<open>storage.rs\<close> and \<^verbatim>\<open>ipc/types.rs\<close>.
\<close>

section \<open>Inodes\<close>

type_synonym user_id = "128 word"

datatype inode_type = File | Directory | SymLink string

record file_permissions =
  fp_owner_read :: bool
  fp_owner_write :: bool
  fp_owner_execute :: bool
  fp_system_read :: bool
  fp_system_write :: bool
  fp_world_read :: bool
  fp_world_write :: bool

definition fp_user_default :: file_permissions where
  "fp_user_default =
     \<lparr>fp_owner_read = True, fp_owner_write = True, fp_owner_execute = False, fp_system_read = True,
      fp_system_write = False, fp_world_read = False, fp_world_write = False\<rparr>"

definition fp_user_dir_default :: file_permissions where
  "fp_user_dir_default =
     \<lparr>fp_owner_read = True, fp_owner_write = True, fp_owner_execute = True, fp_system_read = True,
      fp_system_write = False, fp_world_read = False, fp_world_write = False\<rparr>"

definition fp_system_only :: file_permissions where
  "fp_system_only =
     \<lparr>fp_owner_read = False, fp_owner_write = False, fp_owner_execute = False, fp_system_read = True,
      fp_system_write = True, fp_world_read = False, fp_world_write = False\<rparr>"

definition fp_world_readable :: file_permissions where
  "fp_world_readable =
     \<lparr>fp_owner_read = True, fp_owner_write = True, fp_owner_execute = False, fp_system_read = True,
      fp_system_write = False, fp_world_read = True, fp_world_write = False\<rparr>"

definition fp_world_rw :: file_permissions where
  "fp_world_rw =
     \<lparr>fp_owner_read = True, fp_owner_write = True, fp_owner_execute = True, fp_system_read = True,
      fp_system_write = True, fp_world_read = True, fp_world_write = True\<rparr>"

definition fp_read_only :: file_permissions where
  "fp_read_only =
     \<lparr>fp_owner_read = True, fp_owner_write = False, fp_owner_execute = False, fp_system_read = True,
      fp_system_write = False, fp_world_read = True, fp_world_write = False\<rparr>"

definition fp_identity_dir :: file_permissions where
  "fp_identity_dir =
     \<lparr>fp_owner_read = True, fp_owner_write = True, fp_owner_execute = True, fp_system_read = True,
      fp_system_write = True, fp_world_read = False, fp_world_write = False\<rparr>"

record inode =
  in_path :: string
  in_parent_path :: string
  in_name :: string
  in_type :: inode_type
  in_owner_id :: "user_id option"
  in_permissions :: file_permissions
  in_created_at :: u64
  in_modified_at :: u64
  in_accessed_at :: u64
  in_size :: u64
  in_encrypted :: bool
  in_content_hash :: "u8 list option"

definition inode_new_directory :: "string \<Rightarrow> string \<Rightarrow> string \<Rightarrow> user_id option \<Rightarrow> u64 \<Rightarrow> inode" where
  "inode_new_directory path parent name owner now =
     \<lparr>in_path = path, in_parent_path = parent, in_name = name, in_type = Directory, in_owner_id = owner,
      in_permissions = fp_user_dir_default, in_created_at = now, in_modified_at = now,
      in_accessed_at = now, in_size = 0, in_encrypted = False, in_content_hash = None\<rparr>"

definition inode_new_file ::
  "string \<Rightarrow> string \<Rightarrow> string \<Rightarrow> user_id option \<Rightarrow> u64 \<Rightarrow> u8 list option \<Rightarrow> u64 \<Rightarrow> inode" where
  "inode_new_file path parent name owner sz hash now =
     \<lparr>in_path = path, in_parent_path = parent, in_name = name, in_type = File, in_owner_id = owner,
      in_permissions = fp_user_default, in_created_at = now, in_modified_at = now,
      in_accessed_at = now, in_size = sz, in_encrypted = False, in_content_hash = hash\<rparr>"

definition is_directory :: "inode \<Rightarrow> bool" where
  "is_directory i \<longleftrightarrow> in_type i = Directory"

definition is_file :: "inode \<Rightarrow> bool" where
  "is_file i \<longleftrightarrow> in_type i = File"

definition is_symlink :: "inode \<Rightarrow> bool" where
  "is_symlink i \<longleftrightarrow> (case in_type i of SymLink _ \<Rightarrow> True | _ \<Rightarrow> False)"

record dir_entry =
  de_name :: string
  de_path :: string
  de_is_directory :: bool
  de_is_symlink :: bool
  de_size :: u64
  de_modified_at :: u64

definition dir_entry_from :: "inode \<Rightarrow> dir_entry" where
  "dir_entry_from i =
     \<lparr>de_name = in_name i, de_path = in_path i, de_is_directory = is_directory i,
      de_is_symlink = is_symlink i, de_size = in_size i, de_modified_at = in_modified_at i\<rparr>"

section \<open>Permission checks\<close>

datatype process_class = SystemClass | RuntimeClass | ApplicationClass

record permission_context =
  pc_user_id :: "user_id option"
  pc_process_class :: process_class

definition pc_system :: permission_context where
  "pc_system = \<lparr>pc_user_id = None, pc_process_class = SystemClass\<rparr>"

definition pc_user :: "user_id \<Rightarrow> permission_context" where
  "pc_user uid = \<lparr>pc_user_id = Some uid, pc_process_class = ApplicationClass\<rparr>"

definition owns :: "permission_context \<Rightarrow> inode \<Rightarrow> bool" where
  "owns ctx i = (case pc_user_id ctx of Some uid \<Rightarrow> in_owner_id i = Some uid | None \<Rightarrow> False)"

definition check_read :: "inode \<Rightarrow> permission_context \<Rightarrow> bool" where
  "check_read i ctx =
     (if pc_process_class ctx = SystemClass \<or> pc_process_class ctx = RuntimeClass
      then fp_system_read (in_permissions i)
      else if owns ctx i then fp_owner_read (in_permissions i)
      else fp_world_read (in_permissions i))"

definition check_write :: "inode \<Rightarrow> permission_context \<Rightarrow> bool" where
  "check_write i ctx =
     (if pc_process_class ctx = SystemClass \<or> pc_process_class ctx = RuntimeClass
      then (if in_path i = ''/home'' \<or> starts_with (in_path i) ''/home/'' \<or> in_owner_id i \<noteq> None then True
            else fp_system_write (in_permissions i))
      else if owns ctx i then fp_owner_write (in_permissions i)
      else fp_world_write (in_permissions i))"

definition check_execute :: "inode \<Rightarrow> permission_context \<Rightarrow> bool" where
  "check_execute i ctx =
     (if \<not> is_directory i then False
      else if pc_process_class ctx = SystemClass \<or> pc_process_class ctx = RuntimeClass then True
      else if owns ctx i then fp_owner_execute (in_permissions i)
      else fp_world_read (in_permissions i))"

section \<open>Quotas\<close>

record storage_usage =
  su_used_bytes :: u64
  su_file_count :: u64
  su_directory_count :: u64
  su_encrypted_bytes :: u64

definition su_new :: storage_usage where
  "su_new = \<lparr>su_used_bytes = 0, su_file_count = 0, su_directory_count = 0, su_encrypted_bytes = 0\<rparr>"

definition su_add_file :: "storage_usage \<Rightarrow> u64 \<Rightarrow> bool \<Rightarrow> storage_usage" where
  "su_add_file u sz encrypted =
     u\<lparr>su_file_count := su_file_count u + 1, su_used_bytes := su_used_bytes u + sz,
       su_encrypted_bytes := (if encrypted then su_encrypted_bytes u + sz else su_encrypted_bytes u)\<rparr>"

definition su_add_directory :: "storage_usage \<Rightarrow> storage_usage" where
  "su_add_directory u = u\<lparr>su_directory_count := su_directory_count u + 1\<rparr>"

definition u64_saturating_sub :: "u64 \<Rightarrow> u64 \<Rightarrow> u64" where
  "u64_saturating_sub a b = (if b \<le> a then a - b else 0)"

definition u64_saturating_add :: "u64 \<Rightarrow> u64 \<Rightarrow> u64" where
  "u64_saturating_add a b = (if a \<le> a + b then a + b else - 1)"

definition su_remove_file :: "storage_usage \<Rightarrow> u64 \<Rightarrow> bool \<Rightarrow> storage_usage" where
  "su_remove_file u sz encrypted =
     u\<lparr>su_file_count := u64_saturating_sub (su_file_count u) 1,
       su_used_bytes := u64_saturating_sub (su_used_bytes u) sz,
       su_encrypted_bytes := (if encrypted then u64_saturating_sub (su_encrypted_bytes u) sz
                              else su_encrypted_bytes u)\<rparr>"

definition su_remove_directory :: "storage_usage \<Rightarrow> storage_usage" where
  "su_remove_directory u = u\<lparr>su_directory_count := u64_saturating_sub (su_directory_count u) 1\<rparr>"

record storage_quota =
  sq_user_id :: user_id
  sq_max_bytes :: u64
  sq_used_bytes :: u64
  sq_soft_limit_bytes :: u64
  sq_over_quota :: bool

definition DEFAULT_QUOTA_BYTES :: u64 where
  "DEFAULT_QUOTA_BYTES = 100 * 1024 * 1024"

definition SOFT_LIMIT_PERCENT :: u64 where
  "SOFT_LIMIT_PERCENT = 80"

definition sq_with_limit :: "user_id \<Rightarrow> u64 \<Rightarrow> storage_quota" where
  "sq_with_limit uid max_bytes =
     \<lparr>sq_user_id = uid, sq_max_bytes = max_bytes, sq_used_bytes = 0,
      sq_soft_limit_bytes = max_bytes * SOFT_LIMIT_PERCENT div 100, sq_over_quota = False\<rparr>"

definition sq_new :: "user_id \<Rightarrow> storage_quota" where
  "sq_new uid =
     \<lparr>sq_user_id = uid, sq_max_bytes = DEFAULT_QUOTA_BYTES, sq_used_bytes = 0,
      sq_soft_limit_bytes = DEFAULT_QUOTA_BYTES * SOFT_LIMIT_PERCENT div 100, sq_over_quota = False\<rparr>"

definition sq_would_exceed :: "storage_quota \<Rightarrow> u64 \<Rightarrow> bool" where
  "sq_would_exceed q additional \<longleftrightarrow> sq_used_bytes q + additional > sq_max_bytes q"

definition sq_at_soft_limit :: "storage_quota \<Rightarrow> bool" where
  "sq_at_soft_limit q \<longleftrightarrow> sq_used_bytes q \<ge> sq_soft_limit_bytes q"

definition sq_remaining :: "storage_quota \<Rightarrow> u64" where
  "sq_remaining q = u64_saturating_sub (sq_max_bytes q) (sq_used_bytes q)"

definition sq_update_usage :: "storage_quota \<Rightarrow> i64 \<Rightarrow> storage_quota" where
  "sq_update_usage q delta =
     (let used = (if sint delta \<ge> 0 then u64_saturating_add (sq_used_bytes q) delta
                  else u64_saturating_sub (sq_used_bytes q) (- delta))
      in q\<lparr>sq_used_bytes := used, sq_over_quota := used > sq_max_bytes q\<rparr>)"

definition sq_usage_percent :: "storage_quota \<Rightarrow> u64" where
  "sq_usage_percent q =
     (if sq_max_bytes q = 0 then 0 else (sq_used_bytes q * 100) div sq_max_bytes q)"

section \<open>Requests and responses\<close>

record mkdir_request =
  mk_path :: string
  mk_create_parents :: bool

record rmdir_request =
  rm_path :: string
  rm_recursive :: bool

record readdir_request =
  rd_path :: string

record write_file_request =
  wf_path :: string
  wf_content :: "u8 list"
  wf_encrypt :: bool

record read_file_request =
  rf_path :: string
  rf_offset :: "u64 option"
  rf_length :: "u64 option"

record unlink_request =
  ul_path :: string

record stat_request =
  st_path :: string

record exists_request =
  ex_path :: string

datatype vfs_response =
    MkdirResponse "vfs_error + unit"
  | RmdirResponse "vfs_error + unit"
  | ReaddirResponse "vfs_error + dir_entry list"
  | WriteFileResponse "vfs_error + unit"
  | ReadFileResponse "vfs_error + u8 list"
  | UnlinkResponse "vfs_error + unit"
  | StatResponse "vfs_error + inode"
  | ExistsResponse "vfs_error + bool"

section \<open>Lemmas\<close>

lemma new_directory_simps [simp]:
  "in_path (inode_new_directory path parent name owner now) = path"
  "in_parent_path (inode_new_directory path parent name owner now) = parent"
  "in_name (inode_new_directory path parent name owner now) = name"
  "in_owner_id (inode_new_directory path parent name owner now) = owner"
  "in_permissions (inode_new_directory path parent name owner now) = fp_user_dir_default"
  "is_directory (inode_new_directory path parent name owner now)"
  "\<not> is_file (inode_new_directory path parent name owner now)"
  by (simp_all add: inode_new_directory_def is_directory_def is_file_def)

lemma new_file_simps [simp]:
  "in_path (inode_new_file path parent name owner sz hash now) = path"
  "in_parent_path (inode_new_file path parent name owner sz hash now) = parent"
  "in_name (inode_new_file path parent name owner sz hash now) = name"
  "in_owner_id (inode_new_file path parent name owner sz hash now) = owner"
  "in_permissions (inode_new_file path parent name owner sz hash now) = fp_user_default"
  "in_size (inode_new_file path parent name owner sz hash now) = sz"
  "is_file (inode_new_file path parent name owner sz hash now)"
  "\<not> is_directory (inode_new_file path parent name owner sz hash now)"
  by (simp_all add: inode_new_file_def is_directory_def is_file_def)

lemma type_exclusive: "is_directory i \<Longrightarrow> \<not> is_file i" "is_file i \<Longrightarrow> \<not> is_directory i"
  by (simp_all add: is_directory_def is_file_def)

end
