(* ===== verification/Vfs_Service.thy ===== *)
theory Vfs_Service
  imports Vfs_Types
begin

text \<open>
  The file service, \<^verbatim>\<open>zos-services/src/services/vfs/{mod,handlers/read,handlers/write,
  handlers/delete}.rs\<close>: requests arrive as messages, every storage access is a call that returns a
  request id at once and whose result arrives as a later message, and an operation in progress is
  an entry of the table of pending operations.

  A handler returns its result, the effects it had in order (storage calls, replies, lines on the
  debug channel that carry a response) and the new state. Log lines without a reader are left out.
  What lies outside, the system calls and the JSON library, is the record \<open>vfs_env\<close>.
\<close>

section \<open>The outside\<close>

datatype storage_call =
    StorageRead string
  | StorageWrite string "u8 list"
  | StorageDelete string
  | StorageList string
  | StorageExists string

datatype vfs_effect =
    CallStorage storage_call
  | SendMessage u32 u32 "u8 list"
  | DebugLine string

record vfs_env =
  env_storage :: "storage_call \<Rightarrow> i64 + i64"
  env_send :: "u32 \<Rightarrow> u32 \<Rightarrow> u8 list \<Rightarrow> u32 + unit"
  env_wallclock :: u64
  json_mkdir_request :: "u8 list \<Rightarrow> string + mkdir_request"
  json_rmdir_request :: "u8 list \<Rightarrow> string + rmdir_request"
  json_readdir_request :: "u8 list \<Rightarrow> string + readdir_request"
  json_write_request :: "u8 list \<Rightarrow> string + write_file_request"
  json_read_request :: "u8 list \<Rightarrow> string + read_file_request"
  json_unlink_request :: "u8 list \<Rightarrow> string + unlink_request"
  json_stat_request :: "u8 list \<Rightarrow> string + stat_request"
  json_exists_request :: "u8 list \<Rightarrow> string + exists_request"
  json_inode :: "u8 list \<Rightarrow> string + inode"
  json_keys :: "u8 list \<Rightarrow> string + string list"
  json_inode_to_vec :: "inode \<Rightarrow> string + u8 list"
  json_response_to_vec :: "vfs_response \<Rightarrow> string + u8 list"

text \<open>
  \<^verbatim>\<open>AppError\<close> with the one constructor the service uses. \<open>Aborted\<close> is not an error value of the code:
  it stands for a panic, which ends the process.
\<close>

datatype app_error = IpcError string | Aborted

record app_message =
  am_tag :: u32
  am_from_pid :: u32
  am_cap_slots :: "u32 list"
  am_data :: "u8 list"

section \<open>Numbers in messages\<close>

fun show_nat :: "nat \<Rightarrow> string" where
  "show_nat n = (if n < 10 then [char_of (48 + n)] else show_nat (n div 10) @ [char_of (48 + n mod 10)])"

declare show_nat.simps [simp del]

definition show_i64 :: "i64 \<Rightarrow> string" where
  "show_i64 w = (if sint w < 0 then ''-'' @ show_nat (nat (- sint w)) else show_nat (nat (sint w)))"

definition hex_digit :: "nat \<Rightarrow> char" where
  "hex_digit n = char_of (if n < 10 then 48 + n else 87 + n)"

definition hex_byte :: "u8 \<Rightarrow> string" where
  "hex_byte b = [hex_digit (unat b div 16), hex_digit (unat b mod 16)]"

definition hex_u32 :: "u32 \<Rightarrow> string" where
  "hex_u32 w = concat (map hex_byte (rev (u32_to_le_bytes w)))"

text \<open>
  \<^verbatim>\<open>String::from_utf8_lossy\<close>: every maximal part of an ill-formed sequence becomes one replacement
  character. The number of bytes of such a part:
\<close>

definition utf8_bad_length :: "u8 list \<Rightarrow> nat" where
  "utf8_bad_length bs =
     (case bs of
        [] \<Rightarrow> 0
      | b # rest \<Rightarrow>
          let second_ok = (\<lambda>c. utf8_cont c \<and> (b = 0xE0 \<longrightarrow> 0xA0 \<le> c) \<and> (b = 0xED \<longrightarrow> c \<le> 0x9F)
                             \<and> (b = 0xF0 \<longrightarrow> 0x90 \<le> c) \<and> (b = 0xF4 \<longrightarrow> c \<le> 0x8F))
          in if 0xE0 \<le> b \<and> b \<le> 0xEF
             then (case rest of c # _ \<Rightarrow> if second_ok c then 2 else 1 | [] \<Rightarrow> 1)
             else if 0xF0 \<le> b \<and> b \<le> 0xF4
             then (case rest of
                     c # d # _ \<Rightarrow> if second_ok c then (if utf8_cont d then 3 else 2) else 1
                   | [c] \<Rightarrow> if second_ok c then 2 else 1
                   | [] \<Rightarrow> 1)
             else 1)"

function from_utf8_lossy :: "u8 list \<Rightarrow> u8 list" where
  "from_utf8_lossy bs =
     (if bs = [] then []
      else case utf8_next bs of
             Some rest \<Rightarrow> take (length bs - length rest) bs @ from_utf8_lossy rest
           | None \<Rightarrow> [0xEF, 0xBF, 0xBD] @ from_utf8_lossy (drop (max 1 (utf8_bad_length bs)) bs))"
  by auto
termination
  by (relation "measure length") (auto dest: utf8_next_shorter)

declare from_utf8_lossy.simps [simp del]

section \<open>State\<close>

record client_context =
  cc_pid :: u32
  cc_reply_caps :: "u32 list"

definition client_context_from_message :: "app_message \<Rightarrow> client_context" where
  "client_context_from_message msg = \<lparr>cc_pid = am_from_pid msg, cc_reply_caps = am_cap_slots msg\<rparr>"

datatype write_file_stage =
    WriteCheckingParent "u8 list"
  | WritingContent u64
  | WriteWritingInode

datatype mkdir_stage =
    MkdirCheckingExists
  | MkdirCheckingParent
  | MkdirWritingInode
  | CreatingParents "string list" nat bool

datatype readdir_stage = ReaddirReadingInode | ListingChildren

datatype unlink_stage = UnlinkReadingInode | DeletingContent | DeletingInode

datatype inode_op_type =
    OpStat
  | OpExists
  | OpReadFile
  | OpMkdirCheckParent bool
  | OpWriteFileCheckParent "u8 list"
  | OpRmdir bool
  | OpUnlink
  | OpReaddir

datatype pending_op =
    GetInode client_context string inode_op_type permission_context
  | GetContent client_context string permission_context
  | PutInode "client_context option" u32
  | PutContent client_context string
  | DeleteInode "client_context option" u32
  | DeleteContent string
  | ListChildren client_context string permission_context
  | ExistsCheck client_context string
  | CheckExistsForMkdir client_context string bool permission_context
  | WriteFileOp client_context string permission_context write_file_stage
  | MkdirOp client_context string permission_context mkdir_stage bool
  | ReaddirOp client_context string permission_context readdir_stage
  | UnlinkOp client_context string permission_context unlink_stage

record vfs_service =
  vs_registered :: bool
  vs_pending_ops :: "(u32, pending_op) btree_map"

definition vfs_default :: vfs_service where
  "vfs_default = \<lparr>vs_registered = False, vs_pending_ops = []\<rparr>"

type_synonym outcome = "(app_error + unit) \<times> vfs_effect list \<times> vfs_service"

section \<open>Constants\<close>

definition MAX_PENDING_OPS :: usize where "MAX_PENDING_OPS = 1024"
definition MAX_CONTENT_SIZE :: usize where "MAX_CONTENT_SIZE = 16 * 1024 * 1024"

definition MSG_STORAGE_RESULT :: u32 where "MSG_STORAGE_RESULT = 0x80"
definition READ_OK :: u8 where "READ_OK = 0"
definition WRITE_OK :: u8 where "WRITE_OK = 1"
definition NOT_FOUND :: u8 where "NOT_FOUND = 2"
definition STORAGE_ERROR :: u8 where "STORAGE_ERROR = 3"
definition LIST_OK :: u8 where "LIST_OK = 4"
definition EXISTS_OK :: u8 where "EXISTS_OK = 5"

definition MSG_VFS_MKDIR :: u32 where "MSG_VFS_MKDIR = 0x8000"
definition MSG_VFS_MKDIR_RESPONSE :: u32 where "MSG_VFS_MKDIR_RESPONSE = 0x8001"
definition MSG_VFS_RMDIR :: u32 where "MSG_VFS_RMDIR = 0x8002"
definition MSG_VFS_RMDIR_RESPONSE :: u32 where "MSG_VFS_RMDIR_RESPONSE = 0x8003"
definition MSG_VFS_READDIR :: u32 where "MSG_VFS_READDIR = 0x8004"
definition MSG_VFS_READDIR_RESPONSE :: u32 where "MSG_VFS_READDIR_RESPONSE = 0x8005"
definition MSG_VFS_WRITE :: u32 where "MSG_VFS_WRITE = 0x8010"
definition MSG_VFS_WRITE_RESPONSE :: u32 where "MSG_VFS_WRITE_RESPONSE = 0x8011"
definition MSG_VFS_READ :: u32 where "MSG_VFS_READ = 0x8012"
definition MSG_VFS_READ_RESPONSE :: u32 where "MSG_VFS_READ_RESPONSE = 0x8013"
definition MSG_VFS_UNLINK :: u32 where "MSG_VFS_UNLINK = 0x8014"
definition MSG_VFS_UNLINK_RESPONSE :: u32 where "MSG_VFS_UNLINK_RESPONSE = 0x8015"
definition MSG_VFS_STAT :: u32 where "MSG_VFS_STAT = 0x8020"
definition MSG_VFS_STAT_RESPONSE :: u32 where "MSG_VFS_STAT_RESPONSE = 0x8021"
definition MSG_VFS_EXISTS :: u32 where "MSG_VFS_EXISTS = 0x8022"
definition MSG_VFS_EXISTS_RESPONSE :: u32 where "MSG_VFS_EXISTS_RESPONSE = 0x8023"

lemmas msg_defs = MSG_STORAGE_RESULT_def MSG_VFS_MKDIR_def MSG_VFS_MKDIR_RESPONSE_def MSG_VFS_RMDIR_def
  MSG_VFS_RMDIR_RESPONSE_def MSG_VFS_READDIR_def MSG_VFS_READDIR_RESPONSE_def MSG_VFS_WRITE_def
  MSG_VFS_WRITE_RESPONSE_def MSG_VFS_READ_def MSG_VFS_READ_RESPONSE_def MSG_VFS_UNLINK_def
  MSG_VFS_UNLINK_RESPONSE_def MSG_VFS_STAT_def MSG_VFS_STAT_RESPONSE_def MSG_VFS_EXISTS_def
  MSG_VFS_EXISTS_RESPONSE_def

lemmas result_defs = READ_OK_def WRITE_OK_def NOT_FOUND_def STORAGE_ERROR_def LIST_OK_def EXISTS_OK_def

definition inode_key :: "string \<Rightarrow> string" where
  "inode_key path = ''inode:'' @ path"

definition content_key :: "string \<Rightarrow> string" where
  "content_key path = ''content:'' @ path"

definition result_type_name :: "u8 \<Rightarrow> string" where
  "result_type_name rt =
     (if rt = READ_OK then ''READ_OK''
      else if rt = WRITE_OK then ''WRITE_OK''
      else if rt = NOT_FOUND then ''NOT_FOUND''
      else if rt = STORAGE_ERROR then ''ERROR''
      else if rt = LIST_OK then ''LIST_OK''
      else if rt = EXISTS_OK then ''EXISTS_OK''
      else ''UNKNOWN'')"

text \<open>The text \<^verbatim>\<open>"{} ({})"\<close> of a result type and its name.\<close>

definition result_text :: "u8 \<Rightarrow> string" where
  "result_text rt = show_nat (unat rt) @ '' ('' @ result_type_name rt @ '')''"

definition derive_permission_context :: "u32 \<Rightarrow> string \<Rightarrow> permission_context" where
  "derive_permission_context from_pid path =
     (let uid = extract_user_id_from_path path
      in if from_pid < 10 then \<lparr>pc_user_id = uid, pc_process_class = SystemClass\<rparr>
         else \<lparr>pc_user_id = uid, pc_process_class = ApplicationClass\<rparr>)"

section \<open>Storage calls\<close>

text \<open>The body the five \<^verbatim>\<open>start_storage_*\<close> methods share.\<close>

definition start_storage :: "vfs_env \<Rightarrow> vfs_service \<Rightarrow> string \<Rightarrow> storage_call \<Rightarrow> pending_op \<Rightarrow> outcome" where
  "start_storage E s label call pending =
     (if length (vs_pending_ops s) \<ge> MAX_PENDING_OPS
      then (Inl (IpcError ''Too many pending operations''), [], s)
      else (case env_storage E call of
              Inr request_id \<Rightarrow>
                (Inr (), [CallStorage call],
                 s\<lparr>vs_pending_ops := bt_insert (ucast request_id) pending (vs_pending_ops s)\<rparr>)
            | Inl e \<Rightarrow>
                (Inl (IpcError (''Storage '' @ label @ '' failed: '' @ show_i64 e)), [CallStorage call], s)))"

definition start_storage_read :: "vfs_env \<Rightarrow> vfs_service \<Rightarrow> string \<Rightarrow> pending_op \<Rightarrow> outcome" where
  "start_storage_read E s key pending = start_storage E s ''read'' (StorageRead key) pending"

definition start_storage_write :: "vfs_env \<Rightarrow> vfs_service \<Rightarrow> string \<Rightarrow> u8 list \<Rightarrow> pending_op \<Rightarrow> outcome" where
  "start_storage_write E s key v pending = start_storage E s ''write'' (StorageWrite key v) pending"

definition start_storage_delete :: "vfs_env \<Rightarrow> vfs_service \<Rightarrow> string \<Rightarrow> pending_op \<Rightarrow> outcome" where
  "start_storage_delete E s key pending = start_storage E s ''delete'' (StorageDelete key) pending"

definition start_storage_list :: "vfs_env \<Rightarrow> vfs_service \<Rightarrow> string \<Rightarrow> pending_op \<Rightarrow> outcome" where
  "start_storage_list E s prefix pending = start_storage E s ''list'' (StorageList prefix) pending"

definition start_storage_exists :: "vfs_env \<Rightarrow> vfs_service \<Rightarrow> string \<Rightarrow> pending_op \<Rightarrow> outcome" where
  "start_storage_exists E s key pending = start_storage E s ''exists'' (StorageExists key) pending"

section \<open>Responses\<close>

definition response_line :: "u32 \<Rightarrow> u32 \<Rightarrow> u8 list \<Rightarrow> string" where
  "response_line pid tag data =
     ''VFS:RESPONSE:'' @ show_nat (unat pid) @ '':'' @ hex_u32 tag @ '':'' @ concat (map hex_byte data)"

definition send_response :: "vfs_env \<Rightarrow> vfs_service \<Rightarrow> client_context \<Rightarrow> u32 \<Rightarrow> vfs_response \<Rightarrow> outcome" where
  "send_response E s ctx tag response =
     (case json_response_to_vec E response of
        Inl e \<Rightarrow> (Inl (IpcError (''Serialization failed: '' @ e)), [], s)
      | Inr data \<Rightarrow>
          let line = DebugLine (response_line (cc_pid ctx) tag data)
          in (case cc_reply_caps ctx of
                [] \<Rightarrow> (Inr (), [line], s)
              | reply_slot # _ \<Rightarrow>
                  (case env_send E reply_slot tag data of
                     Inr _ \<Rightarrow> (Inr (), [SendMessage reply_slot tag data], s)
                   | Inl _ \<Rightarrow> (Inr (), [SendMessage reply_slot tag data, line], s))))"

definition send_response_via_debug :: "vfs_env \<Rightarrow> vfs_service \<Rightarrow> u32 \<Rightarrow> u32 \<Rightarrow> vfs_response \<Rightarrow> outcome" where
  "send_response_via_debug E s to_pid tag response =
     (case json_response_to_vec E response of
        Inl e \<Rightarrow> (Inl (IpcError (''Serialization failed: '' @ e)), [], s)
      | Inr data \<Rightarrow> (Inr (), [DebugLine (response_line to_pid tag data)], s))"

end
