(* ===== verification/Vfs_Handlers.thy ===== *)
theory Vfs_Handlers
  imports Vfs_Service
begin

text \<open>
  The handlers of the file service: \<^verbatim>\<open>handlers/read.rs\<close>, \<^verbatim>\<open>handlers/write.rs\<close>, \<^verbatim>\<open>handlers/delete.rs\<close>
  and the dispatch of \<^verbatim>\<open>vfs/mod.rs\<close>. One definition per method, in the order of the sources.
\<close>

section \<open>Reading\<close>

definition handle_stat :: "vfs_env \<Rightarrow> vfs_service \<Rightarrow> app_message \<Rightarrow> outcome" where
  "handle_stat E s msg =
     (case json_stat_request E (am_data msg) of
        Inl e \<Rightarrow>
          send_response_via_debug E s (am_from_pid msg) MSG_VFS_STAT_RESPONSE
            (StatResponse (Inl (InvalidRequest (''Failed to parse request: '' @ e))))
      | Inr request \<Rightarrow>
          (case validate_path (st_path request) of
             Inl reason \<Rightarrow>
               send_response_via_debug E s (am_from_pid msg) MSG_VFS_STAT_RESPONSE
                 (StatResponse (Inl (InvalidPath reason)))
           | Inr _ \<Rightarrow>
               start_storage_read E s (inode_key (st_path request))
                 (GetInode (client_context_from_message msg) (st_path request) OpStat
                    (derive_permission_context (am_from_pid msg) (st_path request)))))"

definition handle_exists :: "vfs_env \<Rightarrow> vfs_service \<Rightarrow> app_message \<Rightarrow> outcome" where
  "handle_exists E s msg =
     (case json_exists_request E (am_data msg) of
        Inl e \<Rightarrow>
          send_response_via_debug E s (am_from_pid msg) MSG_VFS_EXISTS_RESPONSE
            (ExistsResponse (Inl (InvalidRequest (''Failed to parse request: '' @ e))))
      | Inr request \<Rightarrow>
          (case validate_path (ex_path request) of
             Inl reason \<Rightarrow>
               send_response_via_debug E s (am_from_pid msg) MSG_VFS_EXISTS_RESPONSE
                 (ExistsResponse (Inl (InvalidPath reason)))
           | Inr _ \<Rightarrow>
               start_storage_exists E s (inode_key (ex_path request))
                 (ExistsCheck (client_context_from_message msg) (ex_path request))))"

definition handle_read :: "vfs_env \<Rightarrow> vfs_service \<Rightarrow> app_message \<Rightarrow> outcome" where
  "handle_read E s msg =
     (case json_read_request E (am_data msg) of
        Inl e \<Rightarrow>
          send_response_via_debug E s (am_from_pid msg) MSG_VFS_READ_RESPONSE
            (ReadFileResponse (Inl (InvalidRequest (''Failed to parse request: '' @ e))))
      | Inr request \<Rightarrow>
          (case validate_path (rf_path request) of
             Inl reason \<Rightarrow>
               send_response_via_debug E s (am_from_pid msg) MSG_VFS_READ_RESPONSE
                 (ReadFileResponse (Inl (InvalidPath reason)))
           | Inr _ \<Rightarrow>
               start_storage_read E s (inode_key (rf_path request))
                 (GetInode (client_context_from_message msg) (rf_path request) OpReadFile
                    (derive_permission_context (am_from_pid msg) (rf_path request)))))"

definition handle_readdir :: "vfs_env \<Rightarrow> vfs_service \<Rightarrow> app_message \<Rightarrow> outcome" where
  "handle_readdir E s msg =
     (case json_readdir_request E (am_data msg) of
        Inl e \<Rightarrow>
          send_response_via_debug E s (am_from_pid msg) MSG_VFS_READDIR_RESPONSE
            (ReaddirResponse (Inl (InvalidRequest (''Failed to parse request: '' @ e))))
      | Inr request \<Rightarrow>
          (case validate_path (rd_path request) of
             Inl reason \<Rightarrow>
               send_response_via_debug E s (am_from_pid msg) MSG_VFS_READDIR_RESPONSE
                 (ReaddirResponse (Inl (InvalidPath reason)))
           | Inr _ \<Rightarrow>
               start_storage_read E s (inode_key (rd_path request))
                 (ReaddirOp (client_context_from_message msg) (rd_path request)
                    (derive_permission_context (am_from_pid msg) (rd_path request)) ReaddirReadingInode)))"

definition handle_stat_inode_result ::
  "vfs_env \<Rightarrow> vfs_service \<Rightarrow> client_context \<Rightarrow> permission_context \<Rightarrow> u8 \<Rightarrow> u8 list \<Rightarrow> outcome" where
  "handle_stat_inode_result E s ctx perm rt data =
     send_response E s ctx MSG_VFS_STAT_RESPONSE
       (if rt = READ_OK
        then (case json_inode E data of
                Inr i \<Rightarrow> if \<not> check_read i perm then StatResponse (Inl VfsPermissionDenied)
                         else StatResponse (Inr i)
              | Inl e \<Rightarrow> StatResponse (Inl (StorageError (''Failed to parse inode: '' @ e))))
        else if rt = NOT_FOUND then StatResponse (Inl VfsNotFound)
        else StatResponse (Inl (StorageError (''Inode read failed: '' @ result_text rt))))"

definition handle_exists_inode_result ::
  "vfs_env \<Rightarrow> vfs_service \<Rightarrow> client_context \<Rightarrow> u8 \<Rightarrow> outcome" where
  "handle_exists_inode_result E s ctx rt =
     send_response E s ctx MSG_VFS_EXISTS_RESPONSE (ExistsResponse (Inr (rt = READ_OK)))"

definition handle_read_file_inode_result ::
  "vfs_env \<Rightarrow> vfs_service \<Rightarrow> client_context \<Rightarrow> string \<Rightarrow> permission_context \<Rightarrow> u8 \<Rightarrow> u8 list \<Rightarrow> outcome" where
  "handle_read_file_inode_result E s ctx path perm rt data =
     (let reply = (\<lambda>e. send_response E s ctx MSG_VFS_READ_RESPONSE (ReadFileResponse (Inl e)))
      in if rt = READ_OK
         then (case json_inode E data of
                 Inr i \<Rightarrow>
                   if is_file i
                   then (if \<not> check_read i perm then reply VfsPermissionDenied
                         else start_storage_read E s (content_key path) (GetContent ctx path perm))
                   else reply NotAFile
               | Inl e \<Rightarrow> reply (StorageError e))
         else if rt = NOT_FOUND then reply VfsNotFound
         else reply (StorageError (bytes_str (from_utf8_lossy data))))"

definition handle_content_result ::
  "vfs_env \<Rightarrow> vfs_service \<Rightarrow> client_context \<Rightarrow> string \<Rightarrow> u8 \<Rightarrow> u8 list \<Rightarrow> outcome" where
  "handle_content_result E s ctx path rt data =
     send_response E s ctx MSG_VFS_READ_RESPONSE
       (if rt = READ_OK then ReadFileResponse (Inr data)
        else if rt = NOT_FOUND
        then ReadFileResponse (Inl (StorageError ''Content missing for existing inode''))
        else ReadFileResponse (Inl (StorageError (''Content read failed: '' @ result_text rt))))"

text \<open>The directory entries both listings build from the keys.\<close>

definition key_entries :: "string list \<Rightarrow> dir_entry list" where
  "key_entries keys =
     map (\<lambda>path. \<lparr>de_name = last_component path, de_path = path, de_is_directory = False,
                  de_is_symlink = False, de_size = 0, de_modified_at = 0\<rparr>) keys"

definition handle_list_children_result ::
  "vfs_env \<Rightarrow> vfs_service \<Rightarrow> client_context \<Rightarrow> u8 \<Rightarrow> u8 list \<Rightarrow> outcome" where
  "handle_list_children_result E s ctx rt data =
     send_response E s ctx MSG_VFS_READDIR_RESPONSE
       (if rt = LIST_OK
        then (case json_keys E data of
                Inr keys \<Rightarrow> ReaddirResponse (Inr (key_entries keys))
              | Inl e \<Rightarrow> ReaddirResponse (Inl (StorageError e)))
        else if rt = NOT_FOUND then ReaddirResponse (Inl VfsNotFound)
        else ReaddirResponse (Inl (StorageError (''List failed: '' @ result_text rt))))"

definition exists_flag :: "u8 list \<Rightarrow> bool" where
  "exists_flag data \<longleftrightarrow> (case data of [] \<Rightarrow> False | b # _ \<Rightarrow> b = 1)"

definition handle_exists_result ::
  "vfs_env \<Rightarrow> vfs_service \<Rightarrow> client_context \<Rightarrow> u8 \<Rightarrow> u8 list \<Rightarrow> outcome" where
  "handle_exists_result E s ctx rt data =
     send_response E s ctx MSG_VFS_EXISTS_RESPONSE
       (if rt = EXISTS_OK then ExistsResponse (Inr (exists_flag data))
        else if rt = NOT_FOUND then ExistsResponse (Inr False)
        else ExistsResponse (Inl (StorageError
               (''Exists check failed: unexpected result type '' @ show_nat (unat rt)))))"

definition handle_readdir_reading_inode ::
  "vfs_env \<Rightarrow> vfs_service \<Rightarrow> client_context \<Rightarrow> string \<Rightarrow> permission_context \<Rightarrow> u8 \<Rightarrow> u8 list \<Rightarrow> outcome" where
  "handle_readdir_reading_inode E s ctx path perm rt data =
     (let reply = (\<lambda>e. send_response E s ctx MSG_VFS_READDIR_RESPONSE (ReaddirResponse (Inl e)))
      in if rt = NOT_FOUND then reply VfsNotFound
         else if rt \<noteq> READ_OK then reply (StorageError (''Inode read failed: '' @ result_text rt))
         else (case json_inode E data of
                 Inl e \<Rightarrow> reply (StorageError (''Inode corrupt or invalid: '' @ e))
               | Inr i \<Rightarrow>
                   if \<not> is_directory i then reply NotADirectory
                   else if \<not> check_read i perm then reply VfsPermissionDenied
                   else start_storage_list E s (inode_key path) (ReaddirOp ctx path perm ListingChildren)))"

definition handle_readdir_listing_children ::
  "vfs_env \<Rightarrow> vfs_service \<Rightarrow> client_context \<Rightarrow> u8 \<Rightarrow> u8 list \<Rightarrow> outcome" where
  "handle_readdir_listing_children E s ctx rt data =
     send_response E s ctx MSG_VFS_READDIR_RESPONSE
       (if rt = LIST_OK
        then (case json_keys E data of
                Inr keys \<Rightarrow> ReaddirResponse (Inr (key_entries keys))
              | Inl e \<Rightarrow> ReaddirResponse (Inl (StorageError e)))
        else if rt = NOT_FOUND then ReaddirResponse (Inr [])
        else ReaddirResponse (Inl (StorageError (''List failed: '' @ result_text rt))))"

definition handle_readdir_op_result ::
  "vfs_env \<Rightarrow> vfs_service \<Rightarrow> client_context \<Rightarrow> string \<Rightarrow> permission_context \<Rightarrow> readdir_stage \<Rightarrow> u8 \<Rightarrow> u8 list
    \<Rightarrow> outcome" where
  "handle_readdir_op_result E s ctx path perm stage rt data =
     (case stage of
        ReaddirReadingInode \<Rightarrow> handle_readdir_reading_inode E s ctx path perm rt data
      | ListingChildren \<Rightarrow> handle_readdir_listing_children E s ctx rt data)"

section \<open>Writing\<close>

definition send_write_error :: "vfs_env \<Rightarrow> vfs_service \<Rightarrow> client_context \<Rightarrow> vfs_error \<Rightarrow> outcome" where
  "send_write_error E s ctx e = send_response E s ctx MSG_VFS_WRITE_RESPONSE (WriteFileResponse (Inl e))"

definition send_write_error_via_debug :: "vfs_env \<Rightarrow> vfs_service \<Rightarrow> u32 \<Rightarrow> vfs_error \<Rightarrow> outcome" where
  "send_write_error_via_debug E s pid e =
     send_response_via_debug E s pid MSG_VFS_WRITE_RESPONSE (WriteFileResponse (Inl e))"

definition send_mkdir_error :: "vfs_env \<Rightarrow> vfs_service \<Rightarrow> client_context \<Rightarrow> vfs_error \<Rightarrow> outcome" where
  "send_mkdir_error E s ctx e = send_response E s ctx MSG_VFS_MKDIR_RESPONSE (MkdirResponse (Inl e))"

definition send_mkdir_error_via_debug :: "vfs_env \<Rightarrow> vfs_service \<Rightarrow> u32 \<Rightarrow> vfs_error \<Rightarrow> outcome" where
  "send_mkdir_error_via_debug E s pid e =
     send_response_via_debug E s pid MSG_VFS_MKDIR_RESPONSE (MkdirResponse (Inl e))"

definition handle_write :: "vfs_env \<Rightarrow> vfs_service \<Rightarrow> app_message \<Rightarrow> outcome" where
  "handle_write E s msg =
     (case json_write_request E (am_data msg) of
        Inl e \<Rightarrow>
          send_write_error_via_debug E s (am_from_pid msg)
            (InvalidRequest (''Failed to parse request: '' @ e))
      | Inr request \<Rightarrow>
          (case validate_path (wf_path request) of
             Inl reason \<Rightarrow> send_write_error_via_debug E s (am_from_pid msg) (InvalidPath reason)
           | Inr _ \<Rightarrow>
               if length (wf_content request) > MAX_CONTENT_SIZE
               then send_write_error_via_debug E s (am_from_pid msg)
                      (InvalidRequest (''Content too large: '' @ show_nat (length (wf_content request))
                         @ '' bytes exceeds limit of '' @ show_nat MAX_CONTENT_SIZE @ '' bytes''))
               else if wf_path request = ''/''
               then send_write_error_via_debug E s (am_from_pid msg)
                      (InvalidPath ''Cannot write to root directory'')
               else start_storage_read E s (inode_key (parent_path (wf_path request)))
                      (WriteFileOp (client_context_from_message msg) (wf_path request)
                         (derive_permission_context (am_from_pid msg) (wf_path request))
                         (WriteCheckingParent (wf_content request)))))"

definition handle_mkdir :: "vfs_env \<Rightarrow> vfs_service \<Rightarrow> app_message \<Rightarrow> outcome" where
  "handle_mkdir E s msg =
     (case json_mkdir_request E (am_data msg) of
        Inl e \<Rightarrow>
          send_mkdir_error_via_debug E s (am_from_pid msg)
            (InvalidRequest (''Failed to parse request: '' @ e))
      | Inr request \<Rightarrow>
          (case validate_path (mk_path request) of
             Inl reason \<Rightarrow> send_mkdir_error_via_debug E s (am_from_pid msg) (InvalidPath reason)
           | Inr _ \<Rightarrow>
               start_storage_exists E s (inode_key (mk_path request))
                 (MkdirOp (client_context_from_message msg) (mk_path request)
                    (derive_permission_context (am_from_pid msg) (mk_path request))
                    MkdirCheckingExists (mk_create_parents request))))"

text \<open>
  The tail the two older mkdir handlers share: they write the inode of a directory without an owner.
\<close>

definition put_directory_inode :: "vfs_env \<Rightarrow> vfs_service \<Rightarrow> client_context \<Rightarrow> string \<Rightarrow> outcome" where
  "put_directory_inode E s ctx path =
     (case json_inode_to_vec E
             (inode_new_directory path (parent_path path) (last_component path) None (env_wallclock E)) of
        Inl e \<Rightarrow> send_mkdir_error E s ctx (StorageError (''Failed to serialize inode: '' @ e))
      | Inr inode_json \<Rightarrow>
          start_storage_write E s (inode_key path) inode_json (PutInode (Some ctx) MSG_VFS_MKDIR_RESPONSE))"

definition handle_check_exists_for_mkdir_result ::
  "vfs_env \<Rightarrow> vfs_service \<Rightarrow> client_context \<Rightarrow> string \<Rightarrow> bool \<Rightarrow> u8 \<Rightarrow> u8 list \<Rightarrow> outcome" where
  "handle_check_exists_for_mkdir_result E s ctx path create_parents rt data =
     (if rt = EXISTS_OK \<and> exists_flag data then send_mkdir_error E s ctx AlreadyExists
      else if rt \<noteq> EXISTS_OK \<and> rt \<noteq> NOT_FOUND
      then send_mkdir_error E s ctx
             (StorageError (''Exists check failed: unexpected result type '' @ result_text rt))
      else put_directory_inode E s ctx path)"

definition handle_mkdir_inode_result ::
  "vfs_env \<Rightarrow> vfs_service \<Rightarrow> client_context \<Rightarrow> string \<Rightarrow> u8 \<Rightarrow> u8 list \<Rightarrow> outcome" where
  "handle_mkdir_inode_result E s ctx path rt data =
     (if rt = EXISTS_OK \<and> exists_flag data then send_mkdir_error E s ctx AlreadyExists
      else if rt = READ_OK then send_mkdir_error E s ctx AlreadyExists
      else if rt \<noteq> EXISTS_OK \<and> rt \<noteq> NOT_FOUND
      then send_mkdir_error E s ctx
             (StorageError (''Check exists failed: unexpected result type '' @ result_text rt))
      else put_directory_inode E s ctx path)"

definition handle_write_checking_parent ::
  "vfs_env \<Rightarrow> vfs_service \<Rightarrow> client_context \<Rightarrow> string \<Rightarrow> permission_context \<Rightarrow> u8 \<Rightarrow> u8 list \<Rightarrow> u8 list
    \<Rightarrow> outcome" where
  "handle_write_checking_parent E s ctx path perm rt data content =
     (if rt = NOT_FOUND then send_write_error E s ctx VfsNotFound
      else if rt \<noteq> READ_OK
      then send_write_error E s ctx
             (StorageError (''Parent read failed: unexpected result type '' @ result_text rt))
      else (case json_inode E data of
              Inl e \<Rightarrow> send_write_error E s ctx (StorageError (''Parent inode corrupt or invalid: '' @ e))
            | Inr parent_inode \<Rightarrow>
                if \<not> is_directory parent_inode then send_write_error E s ctx NotADirectory
                else if \<not> check_write parent_inode perm then send_write_error E s ctx VfsPermissionDenied
                else start_storage_write E s (content_key path) content
                       (WriteFileOp ctx path perm (WritingContent (of_nat (length content))))))"

definition handle_write_content_done ::
  "vfs_env \<Rightarrow> vfs_service \<Rightarrow> client_context \<Rightarrow> string \<Rightarrow> permission_context \<Rightarrow> u64 \<Rightarrow> u8 \<Rightarrow> outcome" where
  "handle_write_content_done E s ctx path perm content_len rt =
     (if rt \<noteq> WRITE_OK
      then send_write_error E s ctx (StorageError (''Content write failed: '' @ result_text rt))
      else (case json_inode_to_vec E
                   (inode_new_file path (parent_path path) (last_component path) (pc_user_id perm)
                      content_len None (env_wallclock E)) of
              Inl e \<Rightarrow> send_write_error E s ctx (StorageError (''Failed to serialize inode: '' @ e))
            | Inr inode_json \<Rightarrow>
                start_storage_write E s (inode_key path) inode_json
                  (WriteFileOp ctx path perm WriteWritingInode)))"

definition handle_write_inode_done ::
  "vfs_env \<Rightarrow> vfs_service \<Rightarrow> client_context \<Rightarrow> string \<Rightarrow> u8 \<Rightarrow> outcome" where
  "handle_write_inode_done E s ctx path rt =
     (if rt \<noteq> WRITE_OK
      then send_write_error E s ctx (StorageError (''Inode write failed: '' @ result_text rt))
      else send_response E s ctx MSG_VFS_WRITE_RESPONSE (WriteFileResponse (Inr ())))"

definition handle_write_file_op_result ::
  "vfs_env \<Rightarrow> vfs_service \<Rightarrow> client_context \<Rightarrow> string \<Rightarrow> permission_context \<Rightarrow> write_file_stage \<Rightarrow> u8 \<Rightarrow> u8 list
    \<Rightarrow> outcome" where
  "handle_write_file_op_result E s ctx path perm stage rt data =
     (case stage of
        WriteCheckingParent content \<Rightarrow> handle_write_checking_parent E s ctx path perm rt data content
      | WritingContent content_len \<Rightarrow> handle_write_content_done E s ctx path perm content_len rt
      | WriteWritingInode \<Rightarrow> handle_write_inode_done E s ctx path rt)"

definition handle_write_file_inode_result ::
  "vfs_env \<Rightarrow> vfs_service \<Rightarrow> client_context \<Rightarrow> string \<Rightarrow> permission_context \<Rightarrow> u8 \<Rightarrow> u8 list \<Rightarrow> u8 list
    \<Rightarrow> outcome" where
  "handle_write_file_inode_result E s ctx path perm rt data content =
     handle_write_checking_parent E s ctx path perm rt data content"

definition handle_put_inode_result ::
  "vfs_env \<Rightarrow> vfs_service \<Rightarrow> client_context option \<Rightarrow> u32 \<Rightarrow> u8 \<Rightarrow> outcome" where
  "handle_put_inode_result E s ctx response_tag rt =
     (case ctx of
        None \<Rightarrow> (Inr (), [], s)
      | Some c \<Rightarrow>
          if response_tag = MSG_VFS_MKDIR_RESPONSE
          then send_response E s c response_tag
                 (MkdirResponse (if rt = WRITE_OK then Inr ()
                    else Inl (StorageError (''Mkdir inode write failed: '' @ result_text rt))))
          else (Inr (), [], s))"

definition handle_put_content_result ::
  "vfs_env \<Rightarrow> vfs_service \<Rightarrow> client_context \<Rightarrow> string \<Rightarrow> u8 \<Rightarrow> outcome" where
  "handle_put_content_result E s ctx path rt =
     (if rt \<noteq> WRITE_OK
      then send_write_error E s ctx (StorageError (''Content write failed: '' @ result_text rt))
      else send_response E s ctx MSG_VFS_WRITE_RESPONSE (WriteFileResponse (Inr ())))"

text \<open>The machine of mkdir.\<close>

definition create_directory_inode ::
  "vfs_env \<Rightarrow> vfs_service \<Rightarrow> client_context \<Rightarrow> string \<Rightarrow> permission_context \<Rightarrow> bool \<Rightarrow> outcome" where
  "create_directory_inode E s ctx path perm create_parents =
     (case json_inode_to_vec E
             (inode_new_directory path (parent_path path) (last_component path) (pc_user_id perm)
                (env_wallclock E)) of
        Inl e \<Rightarrow> send_mkdir_error E s ctx (StorageError (''Failed to serialize inode: '' @ e))
      | Inr inode_json \<Rightarrow>
          start_storage_write E s (inode_key path) inode_json
            (MkdirOp ctx path perm MkdirWritingInode create_parents))"

definition handle_mkdir_checking_exists ::
  "vfs_env \<Rightarrow> vfs_service \<Rightarrow> client_context \<Rightarrow> string \<Rightarrow> permission_context \<Rightarrow> bool \<Rightarrow> u8 \<Rightarrow> u8 list
    \<Rightarrow> outcome" where
  "handle_mkdir_checking_exists E s ctx path perm create_parents rt data =
     (if rt = EXISTS_OK \<and> exists_flag data
      then (if create_parents then send_response E s ctx MSG_VFS_MKDIR_RESPONSE (MkdirResponse (Inr ()))
            else send_mkdir_error E s ctx AlreadyExists)
      else if rt \<noteq> EXISTS_OK \<and> rt \<noteq> NOT_FOUND
      then send_mkdir_error E s ctx
             (StorageError (''Exists check failed: unexpected result type '' @ result_text rt))
      else if create_parents
      then (case build_parent_paths path of
              [] \<Rightarrow> create_directory_inode E s ctx path perm False
            | first_path # rest \<Rightarrow>
                start_storage_exists E s (inode_key first_path)
                  (MkdirOp ctx path perm (CreatingParents (first_path # rest) 0 False) True))
      else start_storage_read E s (inode_key (parent_path path))
             (MkdirOp ctx path perm MkdirCheckingParent False))"

definition handle_mkdir_checking_parent ::
  "vfs_env \<Rightarrow> vfs_service \<Rightarrow> client_context \<Rightarrow> string \<Rightarrow> permission_context \<Rightarrow> bool \<Rightarrow> u8 \<Rightarrow> u8 list
    \<Rightarrow> outcome" where
  "handle_mkdir_checking_parent E s ctx path perm create_parents rt data =
     (if rt = NOT_FOUND then send_mkdir_error E s ctx VfsNotFound
      else if rt \<noteq> READ_OK
      then send_mkdir_error E s ctx
             (StorageError (''Parent read failed: unexpected result type '' @ result_text rt))
      else (case json_inode E data of
              Inl e \<Rightarrow> send_mkdir_error E s ctx (StorageError (''Parent inode corrupt or invalid: '' @ e))
            | Inr parent_inode \<Rightarrow>
                if \<not> is_directory parent_inode then send_mkdir_error E s ctx NotADirectory
                else if \<not> check_write parent_inode perm then send_mkdir_error E s ctx VfsPermissionDenied
                else create_directory_inode E s ctx path perm create_parents))"

definition mkdir_creating_parents_next ::
  "vfs_env \<Rightarrow> vfs_service \<Rightarrow> client_context \<Rightarrow> string \<Rightarrow> permission_context \<Rightarrow> string list \<Rightarrow> nat \<Rightarrow> outcome" where
  "mkdir_creating_parents_next E s ctx target perm paths current_index =
     (let next_index = current_index + 1
      in if next_index \<ge> length paths then create_directory_inode E s ctx target perm True
         else start_storage_exists E s (inode_key (paths ! next_index))
                (MkdirOp ctx target perm (CreatingParents paths next_index False) True))"

definition handle_mkdir_creating_parents ::
  "vfs_env \<Rightarrow> vfs_service \<Rightarrow> client_context \<Rightarrow> string \<Rightarrow> permission_context \<Rightarrow> string list \<Rightarrow> nat \<Rightarrow> u8
    \<Rightarrow> outcome" where
  "handle_mkdir_creating_parents E s ctx target perm paths index rt =
     (if index \<ge> length paths then (Inl Aborted, [], s)
      else if rt = EXISTS_OK then mkdir_creating_parents_next E s ctx target perm paths index
      else if rt \<noteq> NOT_FOUND
      then send_mkdir_error E s ctx
             (StorageError (''Parent check failed: unexpected result type '' @ result_text rt))
      else let current_path = paths ! index
           in (case json_inode_to_vec E
                      (inode_new_directory current_path (parent_path current_path)
                         (last_component current_path) (pc_user_id perm) (env_wallclock E)) of
                 Inl e \<Rightarrow> send_mkdir_error E s ctx (StorageError (''Failed to serialize inode: '' @ e))
               | Inr inode_json \<Rightarrow>
                   start_storage_write E s (inode_key current_path) inode_json
                     (MkdirOp ctx target perm (CreatingParents paths index True) True)))"

definition handle_mkdir_creating_parents_write_done ::
  "vfs_env \<Rightarrow> vfs_service \<Rightarrow> client_context \<Rightarrow> string \<Rightarrow> permission_context \<Rightarrow> string list \<Rightarrow> nat \<Rightarrow> u8
    \<Rightarrow> outcome" where
  "handle_mkdir_creating_parents_write_done E s ctx target perm paths index rt =
     (if rt \<noteq> WRITE_OK
      then send_mkdir_error E s ctx (StorageError (''Parent directory write failed: '' @ result_text rt))
      else mkdir_creating_parents_next E s ctx target perm paths index)"

definition handle_mkdir_writing_inode ::
  "vfs_env \<Rightarrow> vfs_service \<Rightarrow> client_context \<Rightarrow> string \<Rightarrow> u8 \<Rightarrow> outcome" where
  "handle_mkdir_writing_inode E s ctx path rt =
     (if rt \<noteq> WRITE_OK
      then send_mkdir_error E s ctx (StorageError (''Inode write failed: '' @ result_text rt))
      else send_response E s ctx MSG_VFS_MKDIR_RESPONSE (MkdirResponse (Inr ())))"

definition handle_mkdir_op_result ::
  "vfs_env \<Rightarrow> vfs_service \<Rightarrow> client_context \<Rightarrow> string \<Rightarrow> permission_context \<Rightarrow> mkdir_stage \<Rightarrow> bool \<Rightarrow> u8
    \<Rightarrow> u8 list \<Rightarrow> outcome" where
  "handle_mkdir_op_result E s ctx path perm stage create_parents rt data =
     (case stage of
        MkdirCheckingExists \<Rightarrow> handle_mkdir_checking_exists E s ctx path perm create_parents rt data
      | MkdirCheckingParent \<Rightarrow> handle_mkdir_checking_parent E s ctx path perm create_parents rt data
      | MkdirWritingInode \<Rightarrow> handle_mkdir_writing_inode E s ctx path rt
      | CreatingParents paths index writing \<Rightarrow>
          if writing then handle_mkdir_creating_parents_write_done E s ctx path perm paths index rt
          else handle_mkdir_creating_parents E s ctx path perm paths index rt)"

section \<open>Deleting\<close>

definition send_rmdir_error :: "vfs_env \<Rightarrow> vfs_service \<Rightarrow> client_context \<Rightarrow> vfs_error \<Rightarrow> outcome" where
  "send_rmdir_error E s ctx e = send_response E s ctx MSG_VFS_RMDIR_RESPONSE (RmdirResponse (Inl e))"

definition send_rmdir_error_via_debug :: "vfs_env \<Rightarrow> vfs_service \<Rightarrow> u32 \<Rightarrow> vfs_error \<Rightarrow> outcome" where
  "send_rmdir_error_via_debug E s pid e =
     send_response_via_debug E s pid MSG_VFS_RMDIR_RESPONSE (RmdirResponse (Inl e))"

definition send_unlink_error :: "vfs_env \<Rightarrow> vfs_service \<Rightarrow> client_context \<Rightarrow> vfs_error \<Rightarrow> outcome" where
  "send_unlink_error E s ctx e = send_response E s ctx MSG_VFS_UNLINK_RESPONSE (UnlinkResponse (Inl e))"

definition send_unlink_error_via_debug :: "vfs_env \<Rightarrow> vfs_service \<Rightarrow> u32 \<Rightarrow> vfs_error \<Rightarrow> outcome" where
  "send_unlink_error_via_debug E s pid e =
     send_response_via_debug E s pid MSG_VFS_UNLINK_RESPONSE (UnlinkResponse (Inl e))"

definition handle_rmdir :: "vfs_env \<Rightarrow> vfs_service \<Rightarrow> app_message \<Rightarrow> outcome" where
  "handle_rmdir E s msg =
     (case json_rmdir_request E (am_data msg) of
        Inl e \<Rightarrow>
          send_rmdir_error_via_debug E s (am_from_pid msg)
            (InvalidRequest (''Failed to parse request: '' @ e))
      | Inr request \<Rightarrow>
          (case validate_path (rm_path request) of
             Inl reason \<Rightarrow> send_rmdir_error_via_debug E s (am_from_pid msg) (InvalidPath reason)
           | Inr _ \<Rightarrow>
               start_storage_read E s (inode_key (rm_path request))
                 (GetInode (client_context_from_message msg) (rm_path request)
                    (OpRmdir (rm_recursive request))
                    (derive_permission_context (am_from_pid msg) (rm_path request)))))"

definition handle_unlink :: "vfs_env \<Rightarrow> vfs_service \<Rightarrow> app_message \<Rightarrow> outcome" where
  "handle_unlink E s msg =
     (case json_unlink_request E (am_data msg) of
        Inl e \<Rightarrow>
          send_unlink_error_via_debug E s (am_from_pid msg)
            (InvalidRequest (''Failed to parse request: '' @ e))
      | Inr request \<Rightarrow>
          (case validate_path (ul_path request) of
             Inl reason \<Rightarrow> send_unlink_error_via_debug E s (am_from_pid msg) (InvalidPath reason)
           | Inr _ \<Rightarrow>
               start_storage_read E s (inode_key (ul_path request))
                 (UnlinkOp (client_context_from_message msg) (ul_path request)
                    (derive_permission_context (am_from_pid msg) (ul_path request))
                    UnlinkReadingInode)))"

definition handle_rmdir_inode_result ::
  "vfs_env \<Rightarrow> vfs_service \<Rightarrow> client_context \<Rightarrow> string \<Rightarrow> permission_context \<Rightarrow> u8 \<Rightarrow> u8 list \<Rightarrow> outcome" where
  "handle_rmdir_inode_result E s ctx path perm rt data =
     (if rt = NOT_FOUND then send_rmdir_error E s ctx VfsNotFound
      else if rt \<noteq> READ_OK
      then send_rmdir_error E s ctx (StorageError (''Inode read failed: '' @ result_text rt))
      else (case json_inode E data of
              Inr i \<Rightarrow>
                if is_directory i
                then (if \<not> check_write i perm then send_rmdir_error E s ctx VfsPermissionDenied
                      else start_storage_delete E s (inode_key path)
                             (DeleteInode (Some ctx) MSG_VFS_RMDIR_RESPONSE))
                else send_rmdir_error E s ctx NotADirectory
            | Inl e \<Rightarrow> send_rmdir_error E s ctx (StorageError (''Failed to parse inode: '' @ e))))"

definition handle_unlink_inode_result ::
  "vfs_env \<Rightarrow> vfs_service \<Rightarrow> client_context \<Rightarrow> string \<Rightarrow> permission_context \<Rightarrow> u8 \<Rightarrow> u8 list \<Rightarrow> outcome" where
  "handle_unlink_inode_result E s ctx path perm rt data =
     (if rt = NOT_FOUND then send_unlink_error E s ctx VfsNotFound
      else if rt \<noteq> READ_OK
      then send_unlink_error E s ctx (StorageError (''Inode read failed: '' @ result_text rt))
      else (case json_inode E data of
              Inr i \<Rightarrow>
                if is_file i
                then (if \<not> check_write i perm then send_unlink_error E s ctx VfsPermissionDenied
                      else let (_, fx1, s1) = start_storage_delete E s (content_key path) (DeleteContent path);
                               (r, fx2, s2) = start_storage_delete E s1 (inode_key path)
                                                (DeleteInode (Some ctx) MSG_VFS_UNLINK_RESPONSE)
                           in (r, fx1 @ fx2, s2))
                else send_unlink_error E s ctx NotAFile
            | Inl e \<Rightarrow> send_unlink_error E s ctx (StorageError (''Failed to parse inode: '' @ e))))"

definition handle_delete_inode_result ::
  "vfs_env \<Rightarrow> vfs_service \<Rightarrow> client_context option \<Rightarrow> u32 \<Rightarrow> u8 \<Rightarrow> outcome" where
  "handle_delete_inode_result E s ctx response_tag rt =
     (case ctx of
        None \<Rightarrow> (Inr (), [], s)
      | Some c \<Rightarrow>
          if response_tag = MSG_VFS_RMDIR_RESPONSE
          then send_response E s c response_tag
                 (RmdirResponse (if rt = WRITE_OK then Inr ()
                    else Inl (StorageError (''Rmdir inode delete failed: '' @ result_text rt))))
          else if response_tag = MSG_VFS_UNLINK_RESPONSE
          then send_response E s c response_tag
                 (UnlinkResponse (if rt = WRITE_OK then Inr ()
                    else Inl (StorageError (''Unlink inode delete failed: '' @ result_text rt))))
          else (Inr (), [], s))"

definition handle_delete_content_result :: "vfs_service \<Rightarrow> string \<Rightarrow> u8 \<Rightarrow> outcome" where
  "handle_delete_content_result s path rt = (Inr (), [], s)"

definition handle_unlink_reading_inode ::
  "vfs_env \<Rightarrow> vfs_service \<Rightarrow> client_context \<Rightarrow> string \<Rightarrow> permission_context \<Rightarrow> u8 \<Rightarrow> u8 list \<Rightarrow> outcome" where
  "handle_unlink_reading_inode E s ctx path perm rt data =
     (if rt = NOT_FOUND then send_unlink_error E s ctx VfsNotFound
      else if rt \<noteq> READ_OK
      then send_unlink_error E s ctx (StorageError (''Inode read failed: '' @ result_text rt))
      else (case json_inode E data of
              Inl e \<Rightarrow> send_unlink_error E s ctx (StorageError (''Failed to parse inode: '' @ e))
            | Inr i \<Rightarrow>
                if \<not> is_file i then send_unlink_error E s ctx NotAFile
                else if \<not> check_write i perm then send_unlink_error E s ctx VfsPermissionDenied
                else start_storage_delete E s (content_key path) (UnlinkOp ctx path perm DeletingContent)))"

definition handle_unlink_deleting_content ::
  "vfs_env \<Rightarrow> vfs_service \<Rightarrow> client_context \<Rightarrow> string \<Rightarrow> permission_context \<Rightarrow> u8 \<Rightarrow> outcome" where
  "handle_unlink_deleting_content E s ctx path perm rt =
     (if rt \<noteq> WRITE_OK \<and> rt \<noteq> NOT_FOUND
      then send_unlink_error E s ctx (StorageError (''Content delete failed: '' @ result_text rt))
      else start_storage_delete E s (inode_key path) (UnlinkOp ctx path perm DeletingInode))"

definition handle_unlink_deleting_inode ::
  "vfs_env \<Rightarrow> vfs_service \<Rightarrow> client_context \<Rightarrow> string \<Rightarrow> u8 \<Rightarrow> outcome" where
  "handle_unlink_deleting_inode E s ctx path rt =
     (if rt \<noteq> WRITE_OK
      then send_unlink_error E s ctx (StorageError (''Inode delete failed: '' @ result_text rt))
      else send_response E s ctx MSG_VFS_UNLINK_RESPONSE (UnlinkResponse (Inr ())))"

definition handle_unlink_op_result ::
  "vfs_env \<Rightarrow> vfs_service \<Rightarrow> client_context \<Rightarrow> string \<Rightarrow> permission_context \<Rightarrow> unlink_stage \<Rightarrow> u8 \<Rightarrow> u8 list
    \<Rightarrow> outcome" where
  "handle_unlink_op_result E s ctx path perm stage rt data =
     (case stage of
        UnlinkReadingInode \<Rightarrow> handle_unlink_reading_inode E s ctx path perm rt data
      | DeletingContent \<Rightarrow> handle_unlink_deleting_content E s ctx path perm rt
      | DeletingInode \<Rightarrow> handle_unlink_deleting_inode E s ctx path rt)"

section \<open>Dispatch\<close>

definition handle_inode_result ::
  "vfs_env \<Rightarrow> vfs_service \<Rightarrow> client_context \<Rightarrow> string \<Rightarrow> inode_op_type \<Rightarrow> permission_context \<Rightarrow> u8 \<Rightarrow> u8 list
    \<Rightarrow> outcome" where
  "handle_inode_result E s ctx path op_type perm rt data =
     (case op_type of
        OpStat \<Rightarrow> handle_stat_inode_result E s ctx perm rt data
      | OpExists \<Rightarrow> handle_exists_inode_result E s ctx rt
      | OpReadFile \<Rightarrow> handle_read_file_inode_result E s ctx path perm rt data
      | OpMkdirCheckParent _ \<Rightarrow> handle_mkdir_inode_result E s ctx path rt data
      | OpWriteFileCheckParent content \<Rightarrow> handle_write_file_inode_result E s ctx path perm rt data content
      | OpRmdir _ \<Rightarrow> handle_rmdir_inode_result E s ctx path perm rt data
      | OpUnlink \<Rightarrow> handle_unlink_inode_result E s ctx path perm rt data
      | OpReaddir \<Rightarrow> (Inr (), [], s))"

definition dispatch_result :: "vfs_env \<Rightarrow> vfs_service \<Rightarrow> pending_op \<Rightarrow> u8 \<Rightarrow> u8 list \<Rightarrow> outcome" where
  "dispatch_result E s op rt data =
     (case op of
        GetInode ctx path op_type perm \<Rightarrow> handle_inode_result E s ctx path op_type perm rt data
      | GetContent ctx path _ \<Rightarrow> handle_content_result E s ctx path rt data
      | PutInode ctx tag \<Rightarrow> handle_put_inode_result E s ctx tag rt
      | PutContent ctx path \<Rightarrow> handle_put_content_result E s ctx path rt
      | DeleteInode ctx tag \<Rightarrow> handle_delete_inode_result E s ctx tag rt
      | DeleteContent path \<Rightarrow> handle_delete_content_result s path rt
      | ListChildren ctx _ _ \<Rightarrow> handle_list_children_result E s ctx rt data
      | ExistsCheck ctx _ \<Rightarrow> handle_exists_result E s ctx rt data
      | CheckExistsForMkdir ctx path create_parents _ \<Rightarrow>
          handle_check_exists_for_mkdir_result E s ctx path create_parents rt data
      | WriteFileOp ctx path perm stage \<Rightarrow> handle_write_file_op_result E s ctx path perm stage rt data
      | MkdirOp ctx path perm stage create_parents \<Rightarrow>
          handle_mkdir_op_result E s ctx path perm stage create_parents rt data
      | ReaddirOp ctx path perm stage \<Rightarrow> handle_readdir_op_result E s ctx path perm stage rt data
      | UnlinkOp ctx path perm stage \<Rightarrow> handle_unlink_op_result E s ctx path perm stage rt data)"

text \<open>
  The payload of a result: \<^verbatim>\<open>msg.data[9..9 + data_len]\<close>. The service is compiled for a 32-bit target
  in release mode, so \<^verbatim>\<open>9 + data_len\<close> wraps; a slice whose end is below its start aborts.
\<close>

definition result_data :: "u8 list \<Rightarrow> u8 list option" where
  "result_data d =
     (let data_len = u32_from_le_bytes (take 4 (drop 5 d));
          stop = unat (9 + data_len)
      in if data_len > 0 \<and> length d \<ge> stop
         then (if stop < 9 then None else Some (drop 9 (take stop d)))
         else Some [])"

definition handle_storage_result :: "vfs_env \<Rightarrow> vfs_service \<Rightarrow> app_message \<Rightarrow> outcome" where
  "handle_storage_result E s msg =
     (let d = am_data msg
      in if length d < 9 then (Inr (), [], s)
         else let request_id = u32_from_le_bytes (take 4 d);
                  result_type = d ! 4
              in (case result_data d of
                    None \<Rightarrow> (Inl Aborted, [], s)
                  | Some data \<Rightarrow>
                      (case bt_get (vs_pending_ops s) request_id of
                         None \<Rightarrow> (Inr (), [], s)
                       | Some op \<Rightarrow>
                           dispatch_result E (s\<lparr>vs_pending_ops := bt_remove request_id (vs_pending_ops s)\<rparr>)
                             op result_type data)))"

definition INIT_ENDPOINT_SLOT :: u32 where "INIT_ENDPOINT_SLOT = 2"
definition MSG_REGISTER_SERVICE :: u32 where "MSG_REGISTER_SERVICE = 0x1000"

definition vfs_init :: "vfs_service \<Rightarrow> outcome" where
  "vfs_init s =
     (let name_bytes = map of_char ''vfs'';
          data = [of_nat (length name_bytes)] @ name_bytes @ u32_to_le_bytes 0 @ u32_to_le_bytes 0
      in (Inr (), [SendMessage INIT_ENDPOINT_SLOT MSG_REGISTER_SERVICE data], s\<lparr>vs_registered := True\<rparr>))"

definition on_message :: "vfs_env \<Rightarrow> vfs_service \<Rightarrow> app_message \<Rightarrow> outcome" where
  "on_message E s msg =
     (let tag = am_tag msg
      in if tag = MSG_STORAGE_RESULT then handle_storage_result E s msg
         else if tag = MSG_VFS_MKDIR then handle_mkdir E s msg
         else if tag = MSG_VFS_RMDIR then handle_rmdir E s msg
         else if tag = MSG_VFS_READDIR then handle_readdir E s msg
         else if tag = MSG_VFS_WRITE then handle_write E s msg
         else if tag = MSG_VFS_READ then handle_read E s msg
         else if tag = MSG_VFS_UNLINK then handle_unlink E s msg
         else if tag = MSG_VFS_STAT then handle_stat E s msg
         else if tag = MSG_VFS_EXISTS then handle_exists E s msg
         else (Inr (), [], s))"

end
