(* ===== verification/Vfs_Machine.thy ===== *)
theory Vfs_Machine
  imports Vfs_Handlers
begin

text \<open>
  The file service as a protocol: which storage call follows which result, stated as two inductive
  relations, and the proof that the handlers of \<^theory_text>\<open>Vfs_Handlers\<close> implement them. Every message is
  either answered or turned into one storage call (\<open>first_call\<close> for requests, \<open>next_call\<close> for results).
\<close>

section \<open>The protocol\<close>

text \<open>The client an operation is for and the tag of the response it gets.\<close>

fun awaited :: "pending_op \<Rightarrow> client_context \<times> u32" where
  "awaited (GetInode ctx path op_type perm) =
     (ctx, case op_type of
             OpStat \<Rightarrow> MSG_VFS_STAT_RESPONSE
           | OpExists \<Rightarrow> MSG_VFS_EXISTS_RESPONSE
           | OpReadFile \<Rightarrow> MSG_VFS_READ_RESPONSE
           | OpMkdirCheckParent _ \<Rightarrow> MSG_VFS_MKDIR_RESPONSE
           | OpWriteFileCheckParent _ \<Rightarrow> MSG_VFS_WRITE_RESPONSE
           | OpRmdir _ \<Rightarrow> MSG_VFS_RMDIR_RESPONSE
           | OpUnlink \<Rightarrow> MSG_VFS_UNLINK_RESPONSE
           | OpReaddir \<Rightarrow> MSG_VFS_READDIR_RESPONSE)"
| "awaited (GetContent ctx path perm) = (ctx, MSG_VFS_READ_RESPONSE)"
| "awaited (PutInode ctx tag) = (case ctx of Some c \<Rightarrow> (c, tag) | None \<Rightarrow> (\<lparr>cc_pid = 0, cc_reply_caps = []\<rparr>, 0))"
| "awaited (PutContent ctx path) = (ctx, MSG_VFS_WRITE_RESPONSE)"
| "awaited (DeleteInode ctx tag) = (case ctx of Some c \<Rightarrow> (c, tag) | None \<Rightarrow> (\<lparr>cc_pid = 0, cc_reply_caps = []\<rparr>, 0))"
| "awaited (DeleteContent path) = (\<lparr>cc_pid = 0, cc_reply_caps = []\<rparr>, 0)"
| "awaited (ListChildren ctx path perm) = (ctx, MSG_VFS_READDIR_RESPONSE)"
| "awaited (ExistsCheck ctx path) = (ctx, MSG_VFS_EXISTS_RESPONSE)"
| "awaited (CheckExistsForMkdir ctx path create_parents perm) = (ctx, MSG_VFS_MKDIR_RESPONSE)"
| "awaited (WriteFileOp ctx path perm stage) = (ctx, MSG_VFS_WRITE_RESPONSE)"
| "awaited (MkdirOp ctx path perm stage create_parents) = (ctx, MSG_VFS_MKDIR_RESPONSE)"
| "awaited (ReaddirOp ctx path perm stage) = (ctx, MSG_VFS_READDIR_RESPONSE)"
| "awaited (UnlinkOp ctx path perm stage) = (ctx, MSG_VFS_UNLINK_RESPONSE)"

text \<open>
  The operations the request handlers start and their successors. The other constructors are the
  deprecated ones of the sources: nothing creates them.
\<close>

fun live_op :: "pending_op \<Rightarrow> bool" where
  "live_op (GetInode ctx path op_type perm) \<longleftrightarrow>
     validate_path path = Inr () \<and> (case op_type of OpStat \<Rightarrow> True | OpReadFile \<Rightarrow> True | OpRmdir _ \<Rightarrow> True | _ \<Rightarrow> False)"
| "live_op (GetContent ctx path perm) \<longleftrightarrow> validate_path path = Inr ()"
| "live_op (DeleteInode ctx tag) \<longleftrightarrow> ctx \<noteq> None \<and> tag = MSG_VFS_RMDIR_RESPONSE"
| "live_op (ExistsCheck ctx path) \<longleftrightarrow> validate_path path = Inr ()"
| "live_op (WriteFileOp ctx path perm stage) \<longleftrightarrow> validate_path path = Inr () \<and> path \<noteq> ''/''"
| "live_op (MkdirOp ctx path perm stage create_parents) \<longleftrightarrow>
     validate_path path = Inr ()
     \<and> (case stage of
          CreatingParents paths index _ \<Rightarrow> paths = build_parent_paths path \<and> index < length paths
        | MkdirCheckingParent \<Rightarrow> \<not> create_parents
        | _ \<Rightarrow> True)"
| "live_op (ReaddirOp ctx path perm stage) \<longleftrightarrow> validate_path path = Inr ()"
| "live_op (UnlinkOp ctx path perm stage) \<longleftrightarrow> validate_path path = Inr ()"
| "live_op _ = False"

text \<open>A bound on the number of results an operation still needs.\<close>

fun rank :: "pending_op \<Rightarrow> nat" where
  "rank (GetInode ctx path op_type perm) = (case op_type of OpStat \<Rightarrow> 1 | _ \<Rightarrow> 2)"
| "rank (WriteFileOp ctx path perm stage) =
     (case stage of WriteCheckingParent _ \<Rightarrow> 3 | WritingContent _ \<Rightarrow> 2 | WriteWritingInode \<Rightarrow> 1)"
| "rank (MkdirOp ctx path perm stage create_parents) =
     (case stage of
        MkdirCheckingExists \<Rightarrow> 3 + (if create_parents then 2 * length (build_parent_paths path) else 0)
      | MkdirCheckingParent \<Rightarrow> 2
      | MkdirWritingInode \<Rightarrow> 1
      | CreatingParents paths index writing \<Rightarrow> 1 + 2 * (length paths - index) - (if writing then 1 else 0))"
| "rank (ReaddirOp ctx path perm stage) = (case stage of ReaddirReadingInode \<Rightarrow> 2 | ListingChildren \<Rightarrow> 1)"
| "rank (UnlinkOp ctx path perm stage) =
     (case stage of UnlinkReadingInode \<Rightarrow> 3 | DeletingContent \<Rightarrow> 2 | DeletingInode \<Rightarrow> 1)"
| "rank _ = 1"

text \<open>The inodes the service writes.\<close>

definition file_inode :: "vfs_env \<Rightarrow> permission_context \<Rightarrow> string \<Rightarrow> u64 \<Rightarrow> inode" where
  "file_inode E perm path n =
     inode_new_file path (parent_path path) (last_component path) (pc_user_id perm) n None (env_wallclock E)"

definition dir_inode :: "vfs_env \<Rightarrow> permission_context \<Rightarrow> string \<Rightarrow> inode" where
  "dir_inode E perm path =
     inode_new_directory path (parent_path path) (last_component path) (pc_user_id perm) (env_wallclock E)"

text \<open>
  \<open>next_call E op rt data call op'\<close>: the result \<open>rt\<close> with payload \<open>data\<close> takes the operation \<open>op\<close> on to
  \<open>op'\<close> by the storage call \<open>call\<close>.
\<close>

inductive next_call :: "vfs_env \<Rightarrow> pending_op \<Rightarrow> u8 \<Rightarrow> u8 list \<Rightarrow> storage_call \<Rightarrow> pending_op \<Rightarrow> bool" where
  read_content:
    "json_inode E data = Inr i \<Longrightarrow> is_file i \<Longrightarrow> check_read i perm
     \<Longrightarrow> next_call E (GetInode ctx path OpReadFile perm) READ_OK data
           (StorageRead (content_key path)) (GetContent ctx path perm)"
| list_children:
    "json_inode E data = Inr i \<Longrightarrow> is_directory i \<Longrightarrow> check_read i perm
     \<Longrightarrow> next_call E (ReaddirOp ctx path perm ReaddirReadingInode) READ_OK data
           (StorageList (inode_key path)) (ReaddirOp ctx path perm ListingChildren)"
| write_content:
    "json_inode E data = Inr i \<Longrightarrow> is_directory i \<Longrightarrow> check_write i perm
     \<Longrightarrow> next_call E (WriteFileOp ctx path perm (WriteCheckingParent content)) READ_OK data
           (StorageWrite (content_key path) content)
           (WriteFileOp ctx path perm (WritingContent (of_nat (length content))))"
| write_inode:
    "json_inode_to_vec E (file_inode E perm path n) = Inr json
     \<Longrightarrow> next_call E (WriteFileOp ctx path perm (WritingContent n)) WRITE_OK data
           (StorageWrite (inode_key path) json) (WriteFileOp ctx path perm WriteWritingInode)"
| mkdir_parent:
    "rt = EXISTS_OK \<and> \<not> exists_flag data \<or> rt = NOT_FOUND
     \<Longrightarrow> next_call E (MkdirOp ctx path perm MkdirCheckingExists False) rt data
           (StorageRead (inode_key (parent_path path))) (MkdirOp ctx path perm MkdirCheckingParent False)"
| mkdir_root:
    "rt = EXISTS_OK \<and> \<not> exists_flag data \<or> rt = NOT_FOUND \<Longrightarrow> build_parent_paths path = []
     \<Longrightarrow> json_inode_to_vec E (dir_inode E perm path) = Inr json
     \<Longrightarrow> next_call E (MkdirOp ctx path perm MkdirCheckingExists True) rt data
           (StorageWrite (inode_key path) json) (MkdirOp ctx path perm MkdirWritingInode False)"
| mkdir_first:
    "rt = EXISTS_OK \<and> \<not> exists_flag data \<or> rt = NOT_FOUND \<Longrightarrow> build_parent_paths path = first # rest
     \<Longrightarrow> next_call E (MkdirOp ctx path perm MkdirCheckingExists True) rt data
           (StorageExists (inode_key first))
           (MkdirOp ctx path perm (CreatingParents (first # rest) 0 False) True)"
| mkdir_granted:
    "json_inode E data = Inr i \<Longrightarrow> is_directory i \<Longrightarrow> check_write i perm
     \<Longrightarrow> json_inode_to_vec E (dir_inode E perm path) = Inr json
     \<Longrightarrow> next_call E (MkdirOp ctx path perm MkdirCheckingParent create_parents) READ_OK data
           (StorageWrite (inode_key path) json) (MkdirOp ctx path perm MkdirWritingInode create_parents)"
| mkdir_next:
    "\<not> writing \<and> rt = EXISTS_OK \<or> writing \<and> rt = WRITE_OK \<Longrightarrow> index + 1 < length paths
     \<Longrightarrow> next_call E (MkdirOp ctx path perm (CreatingParents paths index writing) create_parents) rt data
           (StorageExists (inode_key (paths ! (index + 1))))
           (MkdirOp ctx path perm (CreatingParents paths (index + 1) False) True)"
| mkdir_last:
    "\<not> writing \<and> rt = EXISTS_OK \<or> writing \<and> rt = WRITE_OK \<Longrightarrow> index + 1 \<ge> length paths
     \<Longrightarrow> json_inode_to_vec E (dir_inode E perm path) = Inr json
     \<Longrightarrow> next_call E (MkdirOp ctx path perm (CreatingParents paths index writing) create_parents) rt data
           (StorageWrite (inode_key path) json) (MkdirOp ctx path perm MkdirWritingInode True)"
| mkdir_create:
    "json_inode_to_vec E (dir_inode E perm (paths ! index)) = Inr json
     \<Longrightarrow> next_call E (MkdirOp ctx path perm (CreatingParents paths index False) create_parents) NOT_FOUND data
           (StorageWrite (inode_key (paths ! index)) json)
           (MkdirOp ctx path perm (CreatingParents paths index True) True)"
| delete_directory:
    "json_inode E data = Inr i \<Longrightarrow> is_directory i \<Longrightarrow> check_write i perm
     \<Longrightarrow> next_call E (GetInode ctx path (OpRmdir recursive) perm) READ_OK data
           (StorageDelete (inode_key path)) (DeleteInode (Some ctx) MSG_VFS_RMDIR_RESPONSE)"
| delete_content:
    "json_inode E data = Inr i \<Longrightarrow> is_file i \<Longrightarrow> check_write i perm
     \<Longrightarrow> next_call E (UnlinkOp ctx path perm UnlinkReadingInode) READ_OK data
           (StorageDelete (content_key path)) (UnlinkOp ctx path perm DeletingContent)"
| delete_inode:
    "rt = WRITE_OK \<or> rt = NOT_FOUND
     \<Longrightarrow> next_call E (UnlinkOp ctx path perm DeletingContent) rt data
           (StorageDelete (inode_key path)) (UnlinkOp ctx path perm DeletingInode)"

text \<open>\<open>first_call E msg call op\<close>: the request \<open>msg\<close> starts the operation \<open>op\<close> by the storage call \<open>call\<close>.\<close>

inductive first_call :: "vfs_env \<Rightarrow> app_message \<Rightarrow> storage_call \<Rightarrow> pending_op \<Rightarrow> bool" where
  first_stat:
    "am_tag msg = MSG_VFS_STAT \<Longrightarrow> json_stat_request E (am_data msg) = Inr req \<Longrightarrow> path = st_path req
     \<Longrightarrow> validate_path path = Inr ()
     \<Longrightarrow> first_call E msg (StorageRead (inode_key path))
           (GetInode (client_context_from_message msg) path OpStat
              (derive_permission_context (am_from_pid msg) path))"
| first_exists:
    "am_tag msg = MSG_VFS_EXISTS \<Longrightarrow> json_exists_request E (am_data msg) = Inr req \<Longrightarrow> path = ex_path req
     \<Longrightarrow> validate_path path = Inr ()
     \<Longrightarrow> first_call E msg (StorageExists (inode_key path)) (ExistsCheck (client_context_from_message msg) path)"
| first_read:
    "am_tag msg = MSG_VFS_READ \<Longrightarrow> json_read_request E (am_data msg) = Inr req \<Longrightarrow> path = rf_path req
     \<Longrightarrow> validate_path path = Inr ()
     \<Longrightarrow> first_call E msg (StorageRead (inode_key path))
           (GetInode (client_context_from_message msg) path OpReadFile
              (derive_permission_context (am_from_pid msg) path))"
| first_readdir:
    "am_tag msg = MSG_VFS_READDIR \<Longrightarrow> json_readdir_request E (am_data msg) = Inr req \<Longrightarrow> path = rd_path req
     \<Longrightarrow> validate_path path = Inr ()
     \<Longrightarrow> first_call E msg (StorageRead (inode_key path))
           (ReaddirOp (client_context_from_message msg) path
              (derive_permission_context (am_from_pid msg) path) ReaddirReadingInode)"
| first_write:
    "am_tag msg = MSG_VFS_WRITE \<Longrightarrow> json_write_request E (am_data msg) = Inr req \<Longrightarrow> path = wf_path req
     \<Longrightarrow> validate_path path = Inr () \<Longrightarrow> length (wf_content req) \<le> MAX_CONTENT_SIZE \<Longrightarrow> path \<noteq> ''/''
     \<Longrightarrow> first_call E msg (StorageRead (inode_key (parent_path path)))
           (WriteFileOp (client_context_from_message msg) path
              (derive_permission_context (am_from_pid msg) path) (WriteCheckingParent (wf_content req)))"
| first_mkdir:
    "am_tag msg = MSG_VFS_MKDIR \<Longrightarrow> json_mkdir_request E (am_data msg) = Inr req \<Longrightarrow> path = mk_path req
     \<Longrightarrow> validate_path path = Inr ()
     \<Longrightarrow> first_call E msg (StorageExists (inode_key path))
           (MkdirOp (client_context_from_message msg) path
              (derive_permission_context (am_from_pid msg) path) MkdirCheckingExists (mk_create_parents req))"
| first_rmdir:
    "am_tag msg = MSG_VFS_RMDIR \<Longrightarrow> json_rmdir_request E (am_data msg) = Inr req \<Longrightarrow> path = rm_path req
     \<Longrightarrow> validate_path path = Inr ()
     \<Longrightarrow> first_call E msg (StorageRead (inode_key path))
           (GetInode (client_context_from_message msg) path (OpRmdir (rm_recursive req))
              (derive_permission_context (am_from_pid msg) path))"
| first_unlink:
    "am_tag msg = MSG_VFS_UNLINK \<Longrightarrow> json_unlink_request E (am_data msg) = Inr req \<Longrightarrow> path = ul_path req
     \<Longrightarrow> validate_path path = Inr ()
     \<Longrightarrow> first_call E msg (StorageRead (inode_key path))
           (UnlinkOp (client_context_from_message msg) path
              (derive_permission_context (am_from_pid msg) path) UnlinkReadingInode)"

inductive_cases next_callE: "next_call E op rt data call op'"
inductive_cases first_callE: "first_call E msg call op"

section \<open>The handlers implement the protocol\<close>

fun response_tag :: "vfs_response \<Rightarrow> u32" where
  "response_tag (MkdirResponse _) = MSG_VFS_MKDIR_RESPONSE"
| "response_tag (RmdirResponse _) = MSG_VFS_RMDIR_RESPONSE"
| "response_tag (ReaddirResponse _) = MSG_VFS_READDIR_RESPONSE"
| "response_tag (WriteFileResponse _) = MSG_VFS_WRITE_RESPONSE"
| "response_tag (ReadFileResponse _) = MSG_VFS_READ_RESPONSE"
| "response_tag (UnlinkResponse _) = MSG_VFS_UNLINK_RESPONSE"
| "response_tag (StatResponse _) = MSG_VFS_STAT_RESPONSE"
| "response_tag (ExistsResponse _) = MSG_VFS_EXISTS_RESPONSE"

definition answers :: "vfs_env \<Rightarrow> vfs_service \<Rightarrow> client_context \<Rightarrow> u32 \<Rightarrow> outcome \<Rightarrow> bool" where
  "answers E s ctx tag r \<longleftrightarrow> (\<exists>resp. r = send_response E s ctx tag resp \<and> response_tag resp = tag)"

definition starts :: "vfs_env \<Rightarrow> vfs_service \<Rightarrow> (storage_call \<Rightarrow> pending_op \<Rightarrow> bool) \<Rightarrow> outcome \<Rightarrow> bool" where
  "starts E s P r \<longleftrightarrow> (\<exists>label call op. r = start_storage E s label call op \<and> P call op)"

lemma results_distinct [simp]:
  "READ_OK \<noteq> WRITE_OK" "READ_OK \<noteq> NOT_FOUND" "READ_OK \<noteq> STORAGE_ERROR" "READ_OK \<noteq> LIST_OK" "READ_OK \<noteq> EXISTS_OK"
  "WRITE_OK \<noteq> READ_OK" "WRITE_OK \<noteq> NOT_FOUND" "WRITE_OK \<noteq> STORAGE_ERROR" "WRITE_OK \<noteq> LIST_OK" "WRITE_OK \<noteq> EXISTS_OK"
  "NOT_FOUND \<noteq> READ_OK" "NOT_FOUND \<noteq> WRITE_OK" "NOT_FOUND \<noteq> STORAGE_ERROR" "NOT_FOUND \<noteq> LIST_OK" "NOT_FOUND \<noteq> EXISTS_OK"
  "STORAGE_ERROR \<noteq> READ_OK" "STORAGE_ERROR \<noteq> WRITE_OK" "STORAGE_ERROR \<noteq> NOT_FOUND" "STORAGE_ERROR \<noteq> LIST_OK" "STORAGE_ERROR \<noteq> EXISTS_OK"
  "LIST_OK \<noteq> READ_OK" "LIST_OK \<noteq> WRITE_OK" "LIST_OK \<noteq> NOT_FOUND" "LIST_OK \<noteq> STORAGE_ERROR" "LIST_OK \<noteq> EXISTS_OK"
  "EXISTS_OK \<noteq> READ_OK" "EXISTS_OK \<noteq> WRITE_OK" "EXISTS_OK \<noteq> NOT_FOUND" "EXISTS_OK \<noteq> STORAGE_ERROR" "EXISTS_OK \<noteq> LIST_OK"
  by (simp_all add: result_defs)

lemma answersI: "response_tag resp = tag \<Longrightarrow> answers E s ctx tag (send_response E s ctx tag resp)"
  by (auto simp: answers_def)

lemma startsI:
  "P (StorageRead k) op \<Longrightarrow> starts E s P (start_storage_read E s k op)"
  "P (StorageWrite k v) op \<Longrightarrow> starts E s P (start_storage_write E s k v op)"
  "P (StorageDelete k) op \<Longrightarrow> starts E s P (start_storage_delete E s k op)"
  "P (StorageList k) op \<Longrightarrow> starts E s P (start_storage_list E s k op)"
  "P (StorageExists k) op \<Longrightarrow> starts E s P (start_storage_exists E s k op)"
  by (auto simp: starts_def start_storage_read_def start_storage_write_def start_storage_delete_def
      start_storage_list_def start_storage_exists_def)

lemmas error_defs = send_write_error_def send_mkdir_error_def send_rmdir_error_def send_unlink_error_def

lemma read_outcome:
  "answers E s ctx MSG_VFS_READ_RESPONSE (handle_read_file_inode_result E s ctx path perm rt data)
   \<or> starts E s (next_call E (GetInode ctx path OpReadFile perm) rt data)
       (handle_read_file_inode_result E s ctx path perm rt data)"
  by (auto simp: handle_read_file_inode_result_def Let_def split: sum.split
      intro!: answersI startsI intro: next_call.intros)

lemma readdir_outcome:
  "answers E s ctx MSG_VFS_READDIR_RESPONSE (handle_readdir_op_result E s ctx path perm stage rt data)
   \<or> starts E s (next_call E (ReaddirOp ctx path perm stage) rt data)
       (handle_readdir_op_result E s ctx path perm stage rt data)"
  by (cases stage)
    (auto simp: handle_readdir_op_result_def handle_readdir_reading_inode_def
      handle_readdir_listing_children_def Let_def split: sum.split
      intro!: answersI startsI intro: next_call.intros)

lemma write_outcome:
  "answers E s ctx MSG_VFS_WRITE_RESPONSE (handle_write_file_op_result E s ctx path perm stage rt data)
   \<or> starts E s (next_call E (WriteFileOp ctx path perm stage) rt data)
       (handle_write_file_op_result E s ctx path perm stage rt data)"
  by (cases stage)
    (auto simp: handle_write_file_op_result_def handle_write_checking_parent_def
      handle_write_content_done_def handle_write_inode_done_def error_defs file_inode_def [symmetric]
      split: sum.split intro!: answersI startsI intro: next_call.intros)

lemma rmdir_outcome:
  "answers E s ctx MSG_VFS_RMDIR_RESPONSE (handle_rmdir_inode_result E s ctx path perm rt data)
   \<or> starts E s (next_call E (GetInode ctx path (OpRmdir recursive) perm) rt data)
       (handle_rmdir_inode_result E s ctx path perm rt data)"
  by (auto simp: handle_rmdir_inode_result_def error_defs split: sum.split
      intro!: answersI startsI intro: next_call.intros)

lemma unlink_outcome:
  "answers E s ctx MSG_VFS_UNLINK_RESPONSE (handle_unlink_op_result E s ctx path perm stage rt data)
   \<or> starts E s (next_call E (UnlinkOp ctx path perm stage) rt data)
       (handle_unlink_op_result E s ctx path perm stage rt data)"
  by (cases stage)
    (auto simp: handle_unlink_op_result_def handle_unlink_reading_inode_def
      handle_unlink_deleting_content_def handle_unlink_deleting_inode_def error_defs
      split: sum.split intro!: answersI startsI intro: next_call.intros)

lemma create_directory_outcome:
  assumes "\<And>json. json_inode_to_vec E (dir_inode E perm path) = Inr json
    \<Longrightarrow> P (StorageWrite (inode_key path) json) (MkdirOp ctx path perm MkdirWritingInode create_parents)"
  shows "answers E s ctx MSG_VFS_MKDIR_RESPONSE (create_directory_inode E s ctx path perm create_parents)
    \<or> starts E s P (create_directory_inode E s ctx path perm create_parents)"
  using assms
  by (auto simp: create_directory_inode_def error_defs dir_inode_def [symmetric] split: sum.split
      intro!: answersI startsI)

lemma mkdir_next_outcome:
  assumes "\<not> writing \<and> rt = EXISTS_OK \<or> writing \<and> rt = WRITE_OK"
  shows "answers E s ctx MSG_VFS_MKDIR_RESPONSE (mkdir_creating_parents_next E s ctx path perm paths index)
    \<or> starts E s (next_call E (MkdirOp ctx path perm (CreatingParents paths index writing) cp) rt data)
        (mkdir_creating_parents_next E s ctx path perm paths index)"
proof (cases "index + 1 < length paths")
  case True
  then show ?thesis
    using assms by (auto simp: mkdir_creating_parents_next_def intro!: startsI mkdir_next [simplified])
next
  case False
  have "answers E s ctx MSG_VFS_MKDIR_RESPONSE (create_directory_inode E s ctx path perm True)
    \<or> starts E s (next_call E (MkdirOp ctx path perm (CreatingParents paths index writing) cp) rt data)
        (create_directory_inode E s ctx path perm True)"
    by (rule create_directory_outcome) (use assms False in \<open>auto intro!: mkdir_last\<close>)
  then show ?thesis
    using False by (simp add: mkdir_creating_parents_next_def)
qed

lemma mkdir_outcome:
  assumes "live_op (MkdirOp ctx path perm stage cp)"
  shows "answers E s ctx MSG_VFS_MKDIR_RESPONSE (handle_mkdir_op_result E s ctx path perm stage cp rt data)
   \<or> starts E s (next_call E (MkdirOp ctx path perm stage cp) rt data)
       (handle_mkdir_op_result E s ctx path perm stage cp rt data)"
proof (cases stage)
  case MkdirCheckingExists
  have root: "build_parent_paths path = [] \<Longrightarrow> rt = EXISTS_OK \<and> \<not> exists_flag data \<or> rt = NOT_FOUND \<Longrightarrow>
      answers E s ctx MSG_VFS_MKDIR_RESPONSE (create_directory_inode E s ctx path perm False)
      \<or> starts E s (next_call E (MkdirOp ctx path perm MkdirCheckingExists True) rt data)
          (create_directory_inode E s ctx path perm False)"
    by (rule create_directory_outcome) (auto intro: mkdir_root)
  show ?thesis
    using MkdirCheckingExists root
    by (cases cp)
      (auto simp: handle_mkdir_op_result_def handle_mkdir_checking_exists_def error_defs
        split: list.split intro!: answersI startsI intro: next_call.intros)
next
  case MkdirCheckingParent
  have *: "json_inode E data = Inr i \<Longrightarrow> is_directory i \<Longrightarrow> check_write i perm \<Longrightarrow>
      answers E s ctx MSG_VFS_MKDIR_RESPONSE (create_directory_inode E s ctx path perm cp)
      \<or> starts E s (next_call E (MkdirOp ctx path perm MkdirCheckingParent cp) READ_OK data)
          (create_directory_inode E s ctx path perm cp)" for i
    by (rule create_directory_outcome) (auto intro: mkdir_granted)
  show ?thesis
    using MkdirCheckingParent *
    by (auto simp: handle_mkdir_op_result_def handle_mkdir_checking_parent_def error_defs
        split: sum.split intro!: answersI)
next
  case MkdirWritingInode
  then show ?thesis
    by (auto simp: handle_mkdir_op_result_def handle_mkdir_writing_inode_def error_defs intro!: answersI)
next
  case (CreatingParents paths index writing)
  have next_path: "\<not> writing \<and> rt = EXISTS_OK \<or> writing \<and> rt = WRITE_OK \<Longrightarrow>
      answers E s ctx MSG_VFS_MKDIR_RESPONSE (mkdir_creating_parents_next E s ctx path perm paths index)
      \<or> starts E s (next_call E (MkdirOp ctx path perm (CreatingParents paths index writing) cp) rt data)
          (mkdir_creating_parents_next E s ctx path perm paths index)"
    by (rule mkdir_next_outcome)
  have "index < length paths"
    using assms unfolding CreatingParents by auto
  then show ?thesis
    using CreatingParents next_path
    by (auto simp: handle_mkdir_op_result_def handle_mkdir_creating_parents_def Let_def
        handle_mkdir_creating_parents_write_done_def error_defs dir_inode_def [symmetric]
        split: sum.split intro!: answersI startsI intro: next_call.intros)
qed

lemma dispatch_outcome:
  assumes "live_op op"
  shows "answers E s (fst (awaited op)) (snd (awaited op)) (dispatch_result E s op rt data)
    \<or> starts E s (next_call E op rt data) (dispatch_result E s op rt data)"
proof (cases op)
  case (GetInode ctx path op_type perm)
  then show ?thesis
    using assms read_outcome rmdir_outcome
    by (cases op_type)
      (auto simp: dispatch_result_def handle_inode_result_def handle_stat_inode_result_def
        split: sum.split intro!: answersI)
next
  case (MkdirOp ctx path perm stage cp)
  then show ?thesis
    using assms mkdir_outcome [of ctx path perm stage cp E s rt data] by (simp add: dispatch_result_def)
next
  case (WriteFileOp ctx path perm stage)
  then show ?thesis
    using write_outcome [of E s ctx path perm stage rt data] by (simp add: dispatch_result_def)
next
  case (ReaddirOp ctx path perm stage)
  then show ?thesis
    using readdir_outcome [of E s ctx path perm stage rt data] by (simp add: dispatch_result_def)
next
  case (UnlinkOp ctx path perm stage)
  then show ?thesis
    using unlink_outcome [of E s ctx path perm stage rt data] by (simp add: dispatch_result_def)
qed (use assms in \<open>auto simp: dispatch_result_def handle_content_result_def handle_delete_inode_result_def
      handle_exists_result_def msg_defs intro!: answersI\<close>)

text \<open>The requests, and the tag of the response to each.\<close>

definition is_request :: "u32 \<Rightarrow> bool" where
  "is_request tag \<longleftrightarrow>
     tag \<in> {MSG_VFS_MKDIR, MSG_VFS_RMDIR, MSG_VFS_READDIR, MSG_VFS_WRITE, MSG_VFS_READ, MSG_VFS_UNLINK,
            MSG_VFS_STAT, MSG_VFS_EXISTS}"

lemma via_debug: "send_response_via_debug E s pid tag resp
    = send_response E s \<lparr>cc_pid = pid, cc_reply_caps = []\<rparr> tag resp"
  by (simp add: send_response_via_debug_def send_response_def Let_def split: sum.split)

lemmas request_defs = handle_stat_def handle_exists_def handle_read_def handle_readdir_def handle_write_def
  handle_mkdir_def handle_rmdir_def handle_unlink_def send_write_error_via_debug_def
  send_mkdir_error_via_debug_def send_rmdir_error_via_debug_def send_unlink_error_via_debug_def via_debug

lemma request_outcomes:
  fixes msg :: app_message
  defines "c \<equiv> \<lparr>cc_pid = am_from_pid msg, cc_reply_caps = []\<rparr>"
  shows
  "am_tag msg = MSG_VFS_STAT \<Longrightarrow> answers E s c MSG_VFS_STAT_RESPONSE (handle_stat E s msg)
     \<or> starts E s (first_call E msg) (handle_stat E s msg)"
  "am_tag msg = MSG_VFS_EXISTS \<Longrightarrow> answers E s c MSG_VFS_EXISTS_RESPONSE (handle_exists E s msg)
     \<or> starts E s (first_call E msg) (handle_exists E s msg)"
  "am_tag msg = MSG_VFS_READ \<Longrightarrow> answers E s c MSG_VFS_READ_RESPONSE (handle_read E s msg)
     \<or> starts E s (first_call E msg) (handle_read E s msg)"
  "am_tag msg = MSG_VFS_READDIR \<Longrightarrow> answers E s c MSG_VFS_READDIR_RESPONSE (handle_readdir E s msg)
     \<or> starts E s (first_call E msg) (handle_readdir E s msg)"
  "am_tag msg = MSG_VFS_WRITE \<Longrightarrow> answers E s c MSG_VFS_WRITE_RESPONSE (handle_write E s msg)
     \<or> starts E s (first_call E msg) (handle_write E s msg)"
  "am_tag msg = MSG_VFS_MKDIR \<Longrightarrow> answers E s c MSG_VFS_MKDIR_RESPONSE (handle_mkdir E s msg)
     \<or> starts E s (first_call E msg) (handle_mkdir E s msg)"
  "am_tag msg = MSG_VFS_RMDIR \<Longrightarrow> answers E s c MSG_VFS_RMDIR_RESPONSE (handle_rmdir E s msg)
     \<or> starts E s (first_call E msg) (handle_rmdir E s msg)"
  "am_tag msg = MSG_VFS_UNLINK \<Longrightarrow> answers E s c MSG_VFS_UNLINK_RESPONSE (handle_unlink E s msg)
     \<or> starts E s (first_call E msg) (handle_unlink E s msg)"
  unfolding c_def request_defs
  by (auto split: sum.split intro!: answersI startsI intro: first_call.intros)

lemma response_tags:
  "MSG_VFS_MKDIR + 1 = MSG_VFS_MKDIR_RESPONSE" "MSG_VFS_RMDIR + 1 = MSG_VFS_RMDIR_RESPONSE"
  "MSG_VFS_READDIR + 1 = MSG_VFS_READDIR_RESPONSE" "MSG_VFS_WRITE + 1 = MSG_VFS_WRITE_RESPONSE"
  "MSG_VFS_READ + 1 = MSG_VFS_READ_RESPONSE" "MSG_VFS_UNLINK + 1 = MSG_VFS_UNLINK_RESPONSE"
  "MSG_VFS_STAT + 1 = MSG_VFS_STAT_RESPONSE" "MSG_VFS_EXISTS + 1 = MSG_VFS_EXISTS_RESPONSE"
  by (simp_all add: msg_defs)

lemma on_message_simps:
  "am_tag msg = MSG_STORAGE_RESULT \<Longrightarrow> on_message E s msg = handle_storage_result E s msg"
  "am_tag msg = MSG_VFS_MKDIR \<Longrightarrow> on_message E s msg = handle_mkdir E s msg"
  "am_tag msg = MSG_VFS_RMDIR \<Longrightarrow> on_message E s msg = handle_rmdir E s msg"
  "am_tag msg = MSG_VFS_READDIR \<Longrightarrow> on_message E s msg = handle_readdir E s msg"
  "am_tag msg = MSG_VFS_WRITE \<Longrightarrow> on_message E s msg = handle_write E s msg"
  "am_tag msg = MSG_VFS_READ \<Longrightarrow> on_message E s msg = handle_read E s msg"
  "am_tag msg = MSG_VFS_UNLINK \<Longrightarrow> on_message E s msg = handle_unlink E s msg"
  "am_tag msg = MSG_VFS_STAT \<Longrightarrow> on_message E s msg = handle_stat E s msg"
  "am_tag msg = MSG_VFS_EXISTS \<Longrightarrow> on_message E s msg = handle_exists E s msg"
  "\<not> is_request (am_tag msg) \<Longrightarrow> am_tag msg \<noteq> MSG_STORAGE_RESULT \<Longrightarrow> on_message E s msg = (Inr (), [], s)"
  by (simp_all add: on_message_def msg_defs is_request_def)

lemma request_outcome:
  assumes "is_request (am_tag msg)"
  shows "answers E s \<lparr>cc_pid = am_from_pid msg, cc_reply_caps = []\<rparr> (am_tag msg + 1) (on_message E s msg)
    \<or> starts E s (first_call E msg) (on_message E s msg)"
  using assms request_outcomes [of msg E s]
  by (auto simp: is_request_def on_message_simps response_tags)

lemma first_call_live:
  assumes "first_call E msg call op"
  shows "live_op op" "awaited op = (client_context_from_message msg, am_tag msg + 1)"
    "is_request (am_tag msg)"
  using assms by (auto elim!: first_callE simp: response_tags is_request_def)

lemma next_call_live:
  assumes "next_call E op rt data call op'" and "live_op op"
  shows "live_op op'" "awaited op' = awaited op" "rank op' < rank op"
  using assms by (auto elim!: next_callE)

lemma rank_pos: "live_op op \<Longrightarrow> 0 < rank op"
  by (cases op rule: rank.cases) (auto split: inode_op_type.splits write_file_stage.splits mkdir_stage.splits
      readdir_stage.splits unlink_stage.splits)

section \<open>Reachable states\<close>

text \<open>
  A history is the messages the service handled since it was initialised, each with the outside it saw.
  An abort ends the history.
\<close>

type_synonym history = "(vfs_env \<times> app_message) list"

inductive vfs_reach :: "history \<Rightarrow> vfs_service \<Rightarrow> bool" where
  reach_init: "vfs_reach [] (snd (snd (vfs_init vfs_default)))"
| reach_message:
    "vfs_reach h s \<Longrightarrow> on_message E s msg = (r, fx, s') \<Longrightarrow> r \<noteq> Inl Aborted \<Longrightarrow> vfs_reach (h @ [(E, msg)]) s'"

definition service_ok :: "vfs_service \<Rightarrow> bool" where
  "service_ok s \<longleftrightarrow>
     bt_wf (vs_pending_ops s) \<and> length (vs_pending_ops s) \<le> MAX_PENDING_OPS
     \<and> (\<forall>op \<in> snd ` set (vs_pending_ops s). live_op op)"

lemma send_response_state [simp]: "snd (snd (send_response E s ctx tag resp)) = s"
  by (auto simp: send_response_def Let_def split: sum.split list.split)

lemma send_response_no_abort: "fst (send_response E s ctx tag resp) \<noteq> Inl Aborted"
  by (auto simp: send_response_def Let_def split: sum.split list.split)

lemma start_storage_no_abort: "fst (start_storage E s label call op) \<noteq> Inl Aborted"
  by (auto simp: start_storage_def split: sum.split)

text \<open>The table without the entry a result is for.\<close>

definition without :: "u32 \<Rightarrow> vfs_service \<Rightarrow> vfs_service" where
  "without k s = s\<lparr>vs_pending_ops := bt_remove k (vs_pending_ops s)\<rparr>"

definition result_id :: "app_message \<Rightarrow> u32" where
  "result_id msg = u32_from_le_bytes (take 4 (am_data msg))"

definition result_type :: "app_message \<Rightarrow> u8" where
  "result_type msg = am_data msg ! 4"

lemma storage_result_cases:
  assumes "am_tag msg = MSG_STORAGE_RESULT"
  obtains (ignored) "on_message E s msg = (Inr (), [], s)"
      "length (am_data msg) < 9 \<or> bt_get (vs_pending_ops s) (result_id msg) = None"
    | (aborted) "on_message E s msg = (Inl Aborted, [], s)" "9 \<le> length (am_data msg)"
        "result_data (am_data msg) = None"
    | (found) op data where "bt_get (vs_pending_ops s) (result_id msg) = Some op"
        "9 \<le> length (am_data msg)" "result_data (am_data msg) = Some data"
        "on_message E s msg = dispatch_result E (without (result_id msg) s) op (result_type msg) data"
proof -
  have *: "on_message E s msg = handle_storage_result E s msg"
    using assms by (simp add: on_message_simps)
  show thesis
  proof (cases "length (am_data msg) < 9")
    case True
    then show thesis
      using * by (intro ignored) (auto simp: handle_storage_result_def)
  next
    case False
    show thesis
    proof (cases "result_data (am_data msg)")
      case None
      then show thesis
        using False * by (intro aborted) (auto simp: handle_storage_result_def)
    next
      case (Some data)
      then show thesis
        using False * ignored found
        by (cases "bt_get (vs_pending_ops s) (result_id msg)")
          (auto simp: handle_storage_result_def Let_def result_id_def result_type_def without_def)
    qed
  qed
qed

lemma length_bt_insert: "length (bt_insert k v m) \<le> Suc (length m)"
  by (induction m) auto

lemma length_bt_remove: "length (bt_remove k m) \<le> length m"
  by (simp add: bt_remove_def)

lemma service_ok_without: "service_ok s \<Longrightarrow> service_ok (without k s)"
  using length_bt_remove [of k "vs_pending_ops s"]
  by (force simp: service_ok_def without_def dest: bt_values_remove [OF imageI])

lemma service_ok_start:
  assumes "service_ok s" "live_op op"
  shows "service_ok (snd (snd (start_storage E s label call op)))"
proof -
  have "length (bt_insert k op (vs_pending_ops s)) \<le> MAX_PENDING_OPS"
    if "\<not> MAX_PENDING_OPS \<le> length (vs_pending_ops s)" for k
    using length_bt_insert [of k op "vs_pending_ops s"] that by linarith
  then show ?thesis
    using assms
    by (auto simp: service_ok_def start_storage_def split: sum.split dest!: bt_set_insert [THEN subsetD])
qed

lemma outcome_ok:
  assumes "service_ok s"
    and "answers E s ctx tag r \<or> starts E s P r" "\<And>call op. P call op \<Longrightarrow> live_op op"
  shows "service_ok (snd (snd r))" "fst r \<noteq> Inl Aborted"
  using assms service_ok_start send_response_no_abort start_storage_no_abort
  by (auto simp: answers_def starts_def)

lemma on_message_ok:
  assumes "service_ok s"
  shows "service_ok (snd (snd (on_message E s msg)))"
    "fst (on_message E s msg) = Inl Aborted \<Longrightarrow> am_tag msg = MSG_STORAGE_RESULT
       \<and> 9 \<le> length (am_data msg) \<and> result_data (am_data msg) = None"
proof -
  consider "is_request (am_tag msg)" | "am_tag msg = MSG_STORAGE_RESULT"
    | "\<not> is_request (am_tag msg)" "am_tag msg \<noteq> MSG_STORAGE_RESULT"
    by blast
  then have "service_ok (snd (snd (on_message E s msg)))
    \<and> (fst (on_message E s msg) = Inl Aborted \<longrightarrow> am_tag msg = MSG_STORAGE_RESULT
         \<and> 9 \<le> length (am_data msg) \<and> result_data (am_data msg) = None)"
  proof cases
    case 1
    then show ?thesis
      using outcome_ok [OF assms request_outcome [OF 1, of E s]] first_call_live(1) [of E msg] by simp
  next
    case 2
    then show ?thesis
    proof (cases rule: storage_result_cases [of msg E s])
      case (found op data)
      have "live_op op"
        using assms found(1) by (force simp: service_ok_def dest: map_of_SomeD)
      with found(4) show ?thesis
        using outcome_ok [OF service_ok_without [OF assms, of "result_id msg"]
            dispatch_outcome [of op E _ "result_type msg" data]]
          next_call_live(1) [of E op "result_type msg" data] by simp
    qed (use assms 2 in auto)
  next
    case 3
    then show ?thesis
      using assms by (simp add: on_message_simps)
  qed
  then show "service_ok (snd (snd (on_message E s msg)))"
    "fst (on_message E s msg) = Inl Aborted \<Longrightarrow> am_tag msg = MSG_STORAGE_RESULT
       \<and> 9 \<le> length (am_data msg) \<and> result_data (am_data msg) = None"
    by auto
qed

lemma init_ok: "service_ok (snd (snd (vfs_init vfs_default)))"
  by (simp add: service_ok_def vfs_init_def vfs_default_def Let_def)

lemma reach_ok: "vfs_reach h s \<Longrightarrow> service_ok s"
proof (induction rule: vfs_reach.induct)
  case (reach_message h s E msg r fx s')
  then show ?case
    using on_message_ok(1) [of s E msg] by simp
qed (rule init_ok)

end
