(* ===== verification/Vfs_Runs.thy ===== *)
theory Vfs_Runs
  imports Vfs_Machine
begin

text \<open>
  What the file service does over a whole history of messages, whatever the storage and the clients
  do: why it makes a storage call, and when a message can stop it.
\<close>

section \<open>Why a call is made\<close>

text \<open>Requests of the history, by kind, with the client and the permission context they give.\<close>

definition asked :: "history \<Rightarrow> (vfs_env \<Rightarrow> app_message \<Rightarrow> bool) \<Rightarrow> client_context \<Rightarrow> string \<Rightarrow> permission_context \<Rightarrow> bool" where
  "asked h R ctx path perm \<longleftrightarrow>
     (\<exists>(E, msg) \<in> set h. R E msg \<and> ctx = client_context_from_message msg
        \<and> perm = derive_permission_context (am_from_pid msg) path)"

definition read_of :: "string \<Rightarrow> vfs_env \<Rightarrow> app_message \<Rightarrow> bool" where
  "read_of path E msg \<longleftrightarrow>
     am_tag msg = MSG_VFS_READ \<and> (\<exists>req. json_read_request E (am_data msg) = Inr req \<and> rf_path req = path)"

definition readdir_of :: "string \<Rightarrow> vfs_env \<Rightarrow> app_message \<Rightarrow> bool" where
  "readdir_of path E msg \<longleftrightarrow>
     am_tag msg = MSG_VFS_READDIR \<and> (\<exists>req. json_readdir_request E (am_data msg) = Inr req \<and> rd_path req = path)"

definition write_of :: "string \<Rightarrow> u8 list \<Rightarrow> vfs_env \<Rightarrow> app_message \<Rightarrow> bool" where
  "write_of path content E msg \<longleftrightarrow>
     am_tag msg = MSG_VFS_WRITE
     \<and> (\<exists>req. json_write_request E (am_data msg) = Inr req \<and> wf_path req = path \<and> wf_content req = content)"

definition mkdir_of :: "string \<Rightarrow> bool \<Rightarrow> vfs_env \<Rightarrow> app_message \<Rightarrow> bool" where
  "mkdir_of path parents E msg \<longleftrightarrow>
     am_tag msg = MSG_VFS_MKDIR
     \<and> (\<exists>req. json_mkdir_request E (am_data msg) = Inr req \<and> mk_path req = path \<and> mk_create_parents req = parents)"

definition rmdir_of :: "string \<Rightarrow> vfs_env \<Rightarrow> app_message \<Rightarrow> bool" where
  "rmdir_of path E msg \<longleftrightarrow>
     am_tag msg = MSG_VFS_RMDIR \<and> (\<exists>req. json_rmdir_request E (am_data msg) = Inr req \<and> rm_path req = path)"

definition unlink_of :: "string \<Rightarrow> vfs_env \<Rightarrow> app_message \<Rightarrow> bool" where
  "unlink_of path E msg \<longleftrightarrow>
     am_tag msg = MSG_VFS_UNLINK \<and> (\<exists>req. json_unlink_request E (am_data msg) = Inr req \<and> ul_path req = path)"

text \<open>A successful read of an inode with the property \<open>Q\<close> was reported to the service.\<close>

definition saw :: "history \<Rightarrow> (inode \<Rightarrow> bool) \<Rightarrow> bool" where
  "saw h Q \<longleftrightarrow>
     (\<exists>(E, msg) \<in> set h. am_tag msg = MSG_STORAGE_RESULT \<and> result_type msg = READ_OK
        \<and> (\<exists>d i. result_data (am_data msg) = Some d \<and> json_inode E d = Inr i \<and> Q i))"

definition writable_dir :: "permission_context \<Rightarrow> inode \<Rightarrow> bool" where
  "writable_dir perm i \<longleftrightarrow> is_directory i \<and> check_write i perm"

definition writable_file :: "permission_context \<Rightarrow> inode \<Rightarrow> bool" where
  "writable_file perm i \<longleftrightarrow> is_file i \<and> check_write i perm"

definition readable_dir :: "permission_context \<Rightarrow> inode \<Rightarrow> bool" where
  "readable_dir perm i \<longleftrightarrow> is_directory i \<and> check_read i perm"

definition readable_file :: "permission_context \<Rightarrow> inode \<Rightarrow> bool" where
  "readable_file perm i \<longleftrightarrow> is_file i \<and> check_read i perm"

lemmas right_defs = writable_dir_def writable_file_def readable_dir_def readable_file_def

text \<open>
  A call is justified by a request for it and, except for a mkdir that asks for the parents, by an inode
  that grants it to the process that sent the request.
\<close>

fun justified :: "history \<Rightarrow> storage_call \<Rightarrow> bool" where
  "justified h (StorageRead k) \<longleftrightarrow>
     (\<exists>path. k = inode_key path)
     \<or> (\<exists>path ctx perm. k = content_key path \<and> asked h (read_of path) ctx path perm \<and> saw h (readable_file perm))"
| "justified h (StorageList k) \<longleftrightarrow>
     (\<exists>path ctx perm. k = inode_key path \<and> asked h (readdir_of path) ctx path perm \<and> saw h (readable_dir perm))"
| "justified h (StorageExists k) \<longleftrightarrow> (\<exists>path. k = inode_key path)"
| "justified h (StorageWrite k v) \<longleftrightarrow>
     (\<exists>path content ctx perm. asked h (write_of path content) ctx path perm \<and> saw h (writable_dir perm)
        \<and> (k = content_key path \<and> v = content
           \<or> k = inode_key path
             \<and> (\<exists>E. json_inode_to_vec E (file_inode E perm path (of_nat (length content))) = Inr v)))
     \<or> (\<exists>path ctx perm. asked h (mkdir_of path False) ctx path perm \<and> saw h (writable_dir perm)
          \<and> k = inode_key path \<and> (\<exists>E. json_inode_to_vec E (dir_inode E perm path) = Inr v))
     \<or> (\<exists>path ctx perm dir. asked h (mkdir_of path True) ctx path perm
          \<and> dir \<in> insert path (set (build_parent_paths path))
          \<and> k = inode_key dir \<and> (\<exists>E. json_inode_to_vec E (dir_inode E perm dir) = Inr v))"
| "justified h (StorageDelete k) \<longleftrightarrow>
     (\<exists>path ctx perm. asked h (unlink_of path) ctx path perm \<and> saw h (writable_file perm)
        \<and> (k = content_key path \<or> k = inode_key path))
     \<or> (\<exists>path ctx perm. asked h (rmdir_of path) ctx path perm \<and> saw h (writable_dir perm) \<and> k = inode_key path)"

text \<open>The same for the operations in progress.\<close>

fun entitled :: "history \<Rightarrow> pending_op \<Rightarrow> bool" where
  "entitled h (GetInode ctx path op_type perm) =
     (case op_type of
        OpReadFile \<Rightarrow> asked h (read_of path) ctx path perm
      | OpRmdir _ \<Rightarrow> asked h (rmdir_of path) ctx path perm
      | _ \<Rightarrow> True)"
| "entitled h (WriteFileOp ctx path perm stage) =
     (case stage of
        WriteCheckingParent content \<Rightarrow> asked h (write_of path content) ctx path perm
      | WritingContent n \<Rightarrow>
          (\<exists>content. n = of_nat (length content) \<and> asked h (write_of path content) ctx path perm)
          \<and> saw h (writable_dir perm)
      | WriteWritingInode \<Rightarrow> True)"
| "entitled h (MkdirOp ctx path perm stage parents) =
     (case stage of
        MkdirCheckingExists \<Rightarrow> asked h (mkdir_of path parents) ctx path perm
      | MkdirCheckingParent \<Rightarrow> asked h (mkdir_of path False) ctx path perm
      | CreatingParents paths index writing \<Rightarrow> asked h (mkdir_of path True) ctx path perm
      | MkdirWritingInode \<Rightarrow> True)"
| "entitled h (ReaddirOp ctx path perm stage) = asked h (readdir_of path) ctx path perm"
| "entitled h (UnlinkOp ctx path perm stage) =
     (asked h (unlink_of path) ctx path perm \<and> (stage = UnlinkReadingInode \<or> saw h (writable_file perm)))"
| "entitled h op = True"

lemma asked_mono: "asked h R ctx path perm \<Longrightarrow> asked (h @ h') R ctx path perm"
  by (auto simp: asked_def)

lemma saw_mono: "saw h Q \<Longrightarrow> saw (h @ h') Q"
  by (auto simp: saw_def)

lemma entitled_mono: "entitled h op \<Longrightarrow> entitled (h @ h') op"
  by (cases op)
    (auto intro: asked_mono saw_mono split: inode_op_type.splits write_file_stage.splits mkdir_stage.splits)

lemma first_call_entitled:
  assumes "first_call E msg call op"
  shows "entitled (h @ [(E, msg)]) op" "justified (h @ [(E, msg)]) call"
  using assms
  by (auto elim!: first_callE
      simp: asked_def read_of_def readdir_of_def write_of_def mkdir_of_def rmdir_of_def unlink_of_def)

lemma saw_now:
  assumes "am_tag msg = MSG_STORAGE_RESULT" "result_type msg = READ_OK"
    "result_data (am_data msg) = Some d" "json_inode E d = Inr i" "Q i"
  shows "saw (h @ [(E, msg)]) Q"
  using assms by (auto simp: saw_def)

lemma justified_write:
  assumes "asked h (write_of path content) ctx path perm" "saw h (writable_dir perm)"
    and "k = content_key path \<and> v = content
      \<or> k = inode_key path
        \<and> (\<exists>E. json_inode_to_vec E (file_inode E perm path (of_nat (length content))) = Inr v)"
  shows "justified h (StorageWrite k v)"
  unfolding justified.simps by (rule disjI1, intro exI conjI) (rule assms)+

lemma justified_mkdir:
  assumes "asked h (mkdir_of path False) ctx path perm" "saw h (writable_dir perm)"
    and "k = inode_key path" "json_inode_to_vec E (dir_inode E perm path) = Inr v"
  shows "justified h (StorageWrite k v)"
  unfolding justified.simps by (rule disjI2, rule disjI1, intro exI conjI) (rule assms)+

lemma justified_mkdir_parents:
  assumes "asked h (mkdir_of path True) ctx path perm" "dir \<in> insert path (set (build_parent_paths path))"
    and "k = inode_key dir" "json_inode_to_vec E (dir_inode E perm dir) = Inr v"
  shows "justified h (StorageWrite k v)"
  unfolding justified.simps by (rule disjI2, rule disjI2, intro exI conjI) (rule assms)+

lemma justified_unlink:
  assumes "asked h (unlink_of path) ctx path perm" "saw h (writable_file perm)"
    and "k = content_key path \<or> k = inode_key path"
  shows "justified h (StorageDelete k)"
  unfolding justified.simps by (rule disjI1, intro exI conjI) (rule assms)+

lemma justified_rmdir:
  assumes "asked h (rmdir_of path) ctx path perm" "saw h (writable_dir perm)" "k = inode_key path"
  shows "justified h (StorageDelete k)"
  unfolding justified.simps by (rule disjI2, intro exI conjI) (rule assms)+

lemma next_call_entitled:
  assumes step: "next_call E op (result_type msg) data call op'" and "live_op op" "entitled h op"
    and msg: "am_tag msg = MSG_STORAGE_RESULT" "result_data (am_data msg) = Some data"
  shows "entitled (h @ [(E, msg)]) op'" "justified (h @ [(E, msg)]) call"
proof -
  have old: "entitled (h @ [(E, msg)]) op"
    using assms(3) by (rule entitled_mono)
  have now: "saw (h @ [(E, msg)]) Q" if "result_type msg = READ_OK" "json_inode E data = Inr i" "Q i" for Q i
    using saw_now [OF msg(1) that(1) msg(2) that(2), of Q h] that(3) by simp
  have "entitled (h @ [(E, msg)]) op' \<and> justified (h @ [(E, msg)]) call"
    using step
  proof (cases rule: next_call.cases)
    case (read_content i perm ctx path)
    then show ?thesis
      using old now [of i "readable_file perm"] by (auto simp: right_defs)
  next
    case (list_children i perm ctx path)
    then show ?thesis
      using old now [of i "readable_dir perm"] by (auto simp: right_defs)
  next
    case (write_content i perm ctx path content)
    then have "asked (h @ [(E, msg)]) (write_of path content) ctx path perm"
      "saw (h @ [(E, msg)]) (writable_dir perm)"
      using old now [of i "writable_dir perm"] by (auto simp: right_defs)
    then show ?thesis
      using write_content by (auto simp del: justified.simps intro!: justified_write)
  next
    case (write_inode perm path n json ctx)
    then show ?thesis
      using old by (auto simp del: justified.simps intro!: justified_write)
  next
    case (mkdir_granted i perm path json ctx parents)
    then have "asked (h @ [(E, msg)]) (mkdir_of path False) ctx path perm"
      "saw (h @ [(E, msg)]) (writable_dir perm)"
      using old now [of i "writable_dir perm"] by (auto simp: right_defs)
    then show ?thesis
      using mkdir_granted by (auto simp del: justified.simps intro!: justified_mkdir)
  next
    case (mkdir_root path perm json ctx)
    then show ?thesis
      using old by (auto simp del: justified.simps intro!: justified_mkdir_parents)
  next
    case (mkdir_last writing index paths perm path json ctx parents)
    then show ?thesis
      using old by (auto simp del: justified.simps intro!: justified_mkdir_parents)
  next
    case (mkdir_create perm paths index json ctx path parents)
    then have "paths ! index \<in> insert path (set (build_parent_paths path))"
      using assms(2) by auto
    then show ?thesis
      using mkdir_create old justified_mkdir_parents [of _ path ctx perm "paths ! index"]
      by (auto simp del: justified.simps)
  next
    case (delete_directory i perm ctx path recursive)
    then show ?thesis
      using old now [of i "writable_dir perm"]
      by (auto simp: right_defs simp del: justified.simps intro!: justified_rmdir)
  next
    case (delete_content i perm ctx path)
    then show ?thesis
      using old now [of i "writable_file perm"]
      by (auto simp: right_defs simp del: justified.simps intro!: justified_unlink)
  next
    case (delete_inode ctx path perm)
    then show ?thesis
      using old by (auto simp del: justified.simps intro!: justified_unlink)
  qed (use old in auto)
  then show "entitled (h @ [(E, msg)]) op'" "justified (h @ [(E, msg)]) call"
    by blast+
qed

text \<open>The invariant over histories.\<close>

definition all_entitled :: "history \<Rightarrow> vfs_service \<Rightarrow> bool" where
  "all_entitled h s \<longleftrightarrow> (\<forall>op \<in> snd ` set (vs_pending_ops s). entitled h op)"

lemma all_entitled_mono: "all_entitled h s \<Longrightarrow> all_entitled (h @ h') s"
  by (auto simp: all_entitled_def intro: entitled_mono)

lemma all_entitled_without: "all_entitled h s \<Longrightarrow> all_entitled h (without k s)"
  by (auto simp: all_entitled_def without_def bt_remove_def)

lemma send_response_calls: "CallStorage call \<notin> set (fst (snd (send_response E s ctx tag resp)))"
  by (auto simp: send_response_def Let_def split: sum.split list.split)

lemma start_storage_calls:
  "CallStorage call' \<in> set (fst (snd (start_storage E s label call op))) \<Longrightarrow> call' = call"
  by (auto simp: start_storage_def split: sum.splits if_splits)

lemma outcome_entitled:
  assumes "all_entitled h s"
    and "answers E s ctx tag r \<or> starts E s P r"
    and "\<And>call op. P call op \<Longrightarrow> entitled h op \<and> justified h call"
  shows "all_entitled h (snd (snd r))" "CallStorage call \<in> set (fst (snd r)) \<Longrightarrow> justified h call"
proof -
  have "all_entitled h (snd (snd (start_storage E s label call op)))" if "entitled h op" for label call op
    using assms(1) that
    by (auto simp: all_entitled_def start_storage_def split: sum.split dest!: bt_set_insert [THEN subsetD])
  then show "all_entitled h (snd (snd r))" "CallStorage call \<in> set (fst (snd r)) \<Longrightarrow> justified h call"
    using assms send_response_calls
    by (auto simp: answers_def starts_def simp del: justified.simps dest!: start_storage_calls)
qed

lemma on_message_entitled:
  assumes "service_ok s" "all_entitled h s"
  shows "all_entitled (h @ [(E, msg)]) (snd (snd (on_message E s msg)))"
    "CallStorage call \<in> set (fst (snd (on_message E s msg))) \<Longrightarrow> justified (h @ [(E, msg)]) call"
proof -
  note now = all_entitled_mono [OF assms(2), of "[(E, msg)]"]
  consider "is_request (am_tag msg)" | "am_tag msg = MSG_STORAGE_RESULT"
    | "\<not> is_request (am_tag msg)" "am_tag msg \<noteq> MSG_STORAGE_RESULT"
    by blast
  then have "all_entitled (h @ [(E, msg)]) (snd (snd (on_message E s msg)))
    \<and> (\<forall>call. CallStorage call \<in> set (fst (snd (on_message E s msg))) \<longrightarrow> justified (h @ [(E, msg)]) call)"
  proof cases
    case 1
    then show ?thesis
      using outcome_entitled [OF now request_outcome [OF 1, of E s]] first_call_entitled [of E msg _ _ h]
      by (simp del: justified.simps)
  next
    case 2
    then show ?thesis
    proof (cases rule: storage_result_cases [of msg E s])
      case (found op data)
      have op: "live_op op" "entitled h op"
        using assms found(1) by (force simp: service_ok_def all_entitled_def dest: map_of_SomeD)+
      show ?thesis
        using found(4) outcome_entitled [OF all_entitled_without [OF now, of "result_id msg"]
            dispatch_outcome [OF op(1), of E _ "result_type msg" data]]
          next_call_entitled [OF _ op 2 found(3)] by (simp del: justified.simps)
    qed (use now in auto)
  next
    case 3
    then show ?thesis
      using now by (simp add: on_message_simps)
  qed
  then show "all_entitled (h @ [(E, msg)]) (snd (snd (on_message E s msg)))"
    "CallStorage call \<in> set (fst (snd (on_message E s msg))) \<Longrightarrow> justified (h @ [(E, msg)]) call"
    by blast+
qed

lemma reach_entitled: "vfs_reach h s \<Longrightarrow> all_entitled h s"
proof (induction rule: vfs_reach.induct)
  case (reach_message h s E msg r fx s')
  then show ?case
    using on_message_entitled(1) [OF reach_ok [OF reach_message.hyps(1)], of h E msg] by simp
qed (simp add: all_entitled_def vfs_init_def vfs_default_def Let_def)

section \<open>Lengths that wrap\<close>

lemma wrapped_stop: "unat (9 + w :: u32) < 9 \<longleftrightarrow> 0xFFFFFFF7 \<le> w"
proof -
  have w: "unat w < 2 ^ 32"
    using unsigned_less [of w] by simp
  have "unat (9 + w) = (9 + unat w) mod 2 ^ 32"
    by (simp add: unat_word_ariths)
  moreover have "(9 + unat w) mod 2 ^ 32 = (if 9 + unat w < 2 ^ 32 then 9 + unat w else 9 + unat w - 2 ^ 32)"
    using w by (simp add: mod_if)
  moreover have "0xFFFFFFF7 \<le> w \<longleftrightarrow> 4294967287 \<le> unat w"
    by (simp add: word_le_nat_alt)
  ultimately show ?thesis
    using w by auto
qed

lemma result_data_None:
  assumes "9 \<le> length d"
  shows "result_data d = None \<longleftrightarrow> 0xFFFFFFF7 \<le> u32_from_le_bytes (take 4 (drop 5 d))"
  using assms wrapped_stop [of "u32_from_le_bytes (take 4 (drop 5 d))"]
  by (auto simp: result_data_def Let_def word_gt_0)

section \<open>When everything outside works\<close>

text \<open>What a response puts out: a message on the reply slot, or the line the supervisor routes.\<close>

definition delivery :: "vfs_env \<Rightarrow> client_context \<Rightarrow> u32 \<Rightarrow> u8 list \<Rightarrow> vfs_effect list" where
  "delivery E ctx tag data =
     (case cc_reply_caps ctx of
        [] \<Rightarrow> [DebugLine (response_line (cc_pid ctx) tag data)]
      | slot # _ \<Rightarrow>
          SendMessage slot tag data
          # (case env_send E slot tag data of
               Inr _ \<Rightarrow> []
             | Inl _ \<Rightarrow> [DebugLine (response_line (cc_pid ctx) tag data)]))"

definition serializes :: "vfs_env \<Rightarrow> bool" where
  "serializes E \<longleftrightarrow> (\<forall>resp. \<exists>data. json_response_to_vec E resp = Inr data)"

lemma answers_delivery:
  assumes "serializes E" "answers E s ctx tag r"
  shows "\<exists>resp data. r = (Inr (), delivery E ctx tag data, s) \<and> json_response_to_vec E resp = Inr data
    \<and> response_tag resp = tag"
proof -
  obtain resp where "r = send_response E s ctx tag resp" "response_tag resp = tag"
    using assms(2) by (auto simp: answers_def)
  moreover obtain data where "json_response_to_vec E resp = Inr data"
    using assms(1) by (auto simp: serializes_def)
  ultimately show ?thesis
    by (intro exI [of _ resp] exI [of _ data])
      (auto simp: send_response_def delivery_def Let_def split: list.split sum.split)
qed

lemma starts_call:
  assumes "starts E s P r" "length (vs_pending_ops s) < MAX_PENDING_OPS"
    "\<And>call. env_storage E call = Inr i"
  shows "\<exists>call op. P call op
    \<and> r = (Inr (), [CallStorage call], s\<lparr>vs_pending_ops := bt_insert (ucast i) op (vs_pending_ops s)\<rparr>)"
  using assms by (auto simp: starts_def start_storage_def)

section \<open>Properties\<close>

text \<open>The outside of the examples: every request is the same write, every inode the same directory.\<close>

definition example_dir :: inode where
  "example_dir = (inode_new_directory ''/a'' ''/'' ''a'' None 0)\<lparr>in_permissions := fp_world_rw\<rparr>"

definition example_env :: vfs_env where
  "example_env =
     \<lparr>env_storage = (\<lambda>_. Inr 7), env_send = (\<lambda>_ _ _. Inr ()), env_wallclock = 0,
      json_mkdir_request = (\<lambda>_. Inr \<lparr>mk_path = ''/a/b'', mk_create_parents = True\<rparr>),
      json_rmdir_request = (\<lambda>_. Inr \<lparr>rm_path = ''/a'', rm_recursive = False\<rparr>),
      json_readdir_request = (\<lambda>_. Inr \<lparr>rd_path = ''/a''\<rparr>),
      json_write_request = (\<lambda>_. Inr \<lparr>wf_path = ''/a/f'', wf_content = [1, 2, 3], wf_encrypt = False\<rparr>),
      json_read_request = (\<lambda>_. Inr \<lparr>rf_path = ''/a/f'', rf_offset = None, rf_length = None\<rparr>),
      json_unlink_request = (\<lambda>_. Inr \<lparr>ul_path = ''/a/f''\<rparr>),
      json_stat_request = (\<lambda>_. Inr \<lparr>st_path = ''/a''\<rparr>),
      json_exists_request = (\<lambda>_. Inr \<lparr>ex_path = ''/a''\<rparr>),
      json_inode = (\<lambda>_. Inr example_dir), json_keys = (\<lambda>_. Inr []),
      json_inode_to_vec = (\<lambda>_. Inr []), json_response_to_vec = (\<lambda>_. Inr [])\<rparr>"

definition example_request :: "u32 \<Rightarrow> app_message" where
  "example_request tag = \<lparr>am_tag = tag, am_from_pid = 12, am_cap_slots = [], am_data = []\<rparr>"

text \<open>A result for request 7 with an empty payload and the given length field.\<close>

definition example_result :: "u8 \<Rightarrow> u8 list \<Rightarrow> app_message" where
  "example_result rt len =
     \<lparr>am_tag = MSG_STORAGE_RESULT, am_from_pid = 12, am_cap_slots = [], am_data = [7, 0, 0, 0, rt] @ len\<rparr>"

definition example_start :: vfs_service where
  "example_start = snd (snd (vfs_init vfs_default))"

definition example_client :: client_context where
  "example_client = \<lparr>cc_pid = 12, cc_reply_caps = []\<rparr>"

definition example_writing :: vfs_service where
  "example_writing =
     \<lparr>vs_registered = True,
      vs_pending_ops = [(7, WriteFileOp example_client ''/a/f'' \<lparr>pc_user_id = None, pc_process_class = ApplicationClass\<rparr>
                              (WriteCheckingParent [1, 2, 3]))]\<rparr>"

lemma example_paths:
  "validate_path ''/a/f'' = Inr ()" "parent_path ''/a/f'' = ''/a''"
  "derive_permission_context 12 ''/a/f'' = \<lparr>pc_user_id = None, pc_process_class = ApplicationClass\<rparr>"
  by code_simp+

lemma example_write_request:
  "on_message example_env example_start (example_request MSG_VFS_WRITE)
     = (Inr (), [CallStorage (StorageRead (inode_key ''/a''))], example_writing)"
  by (simp add: on_message_simps example_request_def handle_write_def example_env_def example_paths
      MAX_CONTENT_SIZE_def MAX_PENDING_OPS_def start_storage_read_def start_storage_def example_start_def
      vfs_init_def vfs_default_def Let_def client_context_from_message_def example_writing_def
      example_client_def)

lemma example_parent_result:
  "on_message example_env example_writing (example_result READ_OK [0, 0, 0, 0])
     = (Inr (), [CallStorage (StorageWrite (content_key ''/a/f'') [1, 2, 3])],
        example_writing\<lparr>vs_pending_ops :=
          [(7, WriteFileOp example_client ''/a/f'' \<lparr>pc_user_id = None, pc_process_class = ApplicationClass\<rparr>
                 (WritingContent 3))]\<rparr>)"
proof -
  have "result_data (am_data (example_result READ_OK [0, 0, 0, 0])) = Some []"
    "result_id (example_result READ_OK [0, 0, 0, 0]) = 7" "result_type (example_result READ_OK [0, 0, 0, 0]) = READ_OK"
    "is_directory example_dir" "check_write example_dir \<lparr>pc_user_id = None, pc_process_class = ApplicationClass\<rparr>"
    by code_simp+
  then show ?thesis
    by (simp add: on_message_simps handle_storage_result_def example_result_def Let_def
        result_id_def result_type_def example_writing_def dispatch_result_def handle_write_file_op_result_def
        handle_write_checking_parent_def example_env_def start_storage_write_def start_storage_def
        MAX_PENDING_OPS_def bt_remove_def)
qed

lemma example_reach: "vfs_reach [(example_env, example_request MSG_VFS_WRITE)] example_writing"
  using reach_message [OF reach_init example_write_request [unfolded example_start_def]] by simp



text \<open>
  C6. In every state the service reaches the table of pending operations is in key order, within its
  limit, and holds only operations its request handlers start, with a valid path and, while parents are
  created, an index within the list of paths. A message aborts the service iff it is tagged as a storage
  result, has at least nine bytes and a length field of 0xFFFFFFF7 or more: the end of the slice wraps on
  the 32-bit target. Neither the sender nor the request id matters.
\<close>

theorem service_aborts_iff:
  assumes "vfs_reach h s"
  shows "service_ok s
    \<and> (fst (on_message E s msg) = Inl Aborted \<longleftrightarrow>
         am_tag msg = MSG_STORAGE_RESULT \<and> 9 \<le> length (am_data msg)
         \<and> 0xFFFFFFF7 \<le> u32_from_le_bytes (take 4 (drop 5 (am_data msg))))"
proof
  show ok: "service_ok s"
    using assms by (rule reach_ok)
  have "am_tag msg = MSG_STORAGE_RESULT \<Longrightarrow> 9 \<le> length (am_data msg) \<Longrightarrow> result_data (am_data msg) = None
      \<Longrightarrow> fst (on_message E s msg) = Inl Aborted"
    by (simp add: on_message_simps handle_storage_result_def Let_def)
  then show "fst (on_message E s msg) = Inl Aborted \<longleftrightarrow>
      am_tag msg = MSG_STORAGE_RESULT \<and> 9 \<le> length (am_data msg)
      \<and> 0xFFFFFFF7 \<le> u32_from_le_bytes (take 4 (drop 5 (am_data msg)))"
    using on_message_ok(2) [OF ok, of E msg] result_data_None [of "am_data msg"] by auto
qed

theorem service_aborts_iff_witness:
  "service_ok example_writing
   \<and> fst (on_message example_env example_writing (example_result READ_OK [0xFF, 0xFF, 0xFF, 0xFF])) = Inl Aborted
   \<and> fst (on_message example_env example_writing (example_result READ_OK [0, 0, 0, 0])) \<noteq> Inl Aborted"
proof -
  have "u32_from_le_bytes (take 4 (drop 5 (am_data (example_result READ_OK [0xFF, 0xFF, 0xFF, 0xFF])))) = 0xFFFFFFFF"
    "u32_from_le_bytes (take 4 (drop 5 (am_data (example_result READ_OK [0, 0, 0, 0])))) = 0"
    by (simp_all add: example_result_def u32_from_le_bytes_def)
  then show ?thesis
    using service_aborts_iff [OF example_reach] by (simp add: example_result_def)
qed

text \<open>
  C7. The rights of a file's owner go to every application. For a path below the home of a user, the
  service checks a request of any process that is not a system process as if that user had made it:
  the owner comes from the path that is asked for, not from the process that asks.
\<close>

theorem owner_rights_from_path:
  assumes "10 \<le> pid" and "extract_user_id_from_path path = Some uid" and "in_owner_id i = Some uid"
  shows "check_write i (derive_permission_context pid path) = fp_owner_write (in_permissions i)
    \<and> check_read i (derive_permission_context pid path) = fp_owner_read (in_permissions i)"
  using assms
  by (auto simp: derive_permission_context_def check_write_def check_read_def owns_def Let_def linorder_not_less)

theorem owner_rights_from_path_witness:
  "let home = inode_new_directory ''/home/7'' ''/home'' ''7'' (Some 7) 0
   in check_write home (derive_permission_context 12 ''/home/7/secret'')
      \<and> check_write home (derive_permission_context 34 ''/home/7/secret'')"
proof -
  have "extract_user_id_from_path ''/home/7/secret'' = Some 7"
    by (simp add: extract_user_id_from_path_def u128_from_str_radix_def digit_value_def)
  then show ?thesis
    using owner_rights_from_path [of 12 "''/home/7/secret''" 7 "inode_new_directory ''/home/7'' ''/home'' ''7'' (Some 7) 0"]
      owner_rights_from_path [of 34 "''/home/7/secret''" 7 "inode_new_directory ''/home/7'' ''/home'' ''7'' (Some 7) 0"]
    by (simp add: fp_user_dir_default_def)
qed

text \<open>A request that finds the table full gets no response of any kind.\<close>

lemma full_table_no_response:
  assumes "starts E s P r" "length (vs_pending_ops s) \<ge> MAX_PENDING_OPS"
  shows "r = (Inl (IpcError ''Too many pending operations''), [], s)"
  using assms by (auto simp: starts_def start_storage_def)

end
