(* ===== verification/Process_Lib.thy ===== *)
theory Process_Lib
  imports System_Authority
begin

text \<open>
  The system call library of the processes, \<^verbatim>\<open>zos-process/src/{lib,types}.rs\<close> and
  \<^verbatim>\<open>zos-process/src/syscalls/*.rs\<close> (prefix \<open>zp_\<close>), over the mailbox through which a process in a browser
  worker calls the kernel (\<^verbatim>\<open>web/src/workers/mailbox.ts\<close>). What happens to a call between the worker's
  waiting and its waking up is a parameter, the \<open>host\<close>: it gets the number, the arguments and the data
  area of the mailbox and leaves a 32-bit result and a new data area. The state of a process, as far as
  calls are concerned, is the data area together with the state of the host.
\<close>

section \<open>The mailbox\<close>

type_synonym 's host = "u32 \<Rightarrow> u32 \<times> u32 \<times> u32 \<Rightarrow> u8 list \<Rightarrow> 's \<Rightarrow> i32 \<times> u8 list \<times> 's"
type_synonym 's caller = "u8 list \<times> 's"

definition MAILBOX_MAX_DATA_LEN :: usize where "MAILBOX_MAX_DATA_LEN = 16356"

definition zos_syscall :: "'s host \<Rightarrow> u32 \<Rightarrow> u32 \<Rightarrow> u32 \<Rightarrow> u32 \<Rightarrow> 's caller \<Rightarrow> i64 \<times> 's caller" where
  "zos_syscall host num arg0 arg1 arg2 st =
     (let (result, mailbox, s) = host num (arg0, arg1, arg2) (fst st) (snd st)
      in (scast result, mailbox, s))"

definition zos_send_bytes :: "u8 list \<Rightarrow> 's caller \<Rightarrow> 's caller" where
  "zos_send_bytes data st = (take (min (length data) MAILBOX_MAX_DATA_LEN) data, snd st)"

definition zos_recv_bytes :: "usize \<Rightarrow> 's caller \<Rightarrow> u8 list" where
  "zos_recv_bytes max_len st = take (min (length (fst st)) max_len) (fst st)"

section \<open>Call numbers\<close>

definition SYS_DEBUG :: u32 where "SYS_DEBUG = 0x01"
definition SYS_EXIT :: u32 where "SYS_EXIT = 0x03"
definition SYS_TIME :: u32 where "SYS_TIME = 0x04"
definition SYS_WALLCLOCK :: u32 where "SYS_WALLCLOCK = 0x06"
definition SYS_CONSOLE_WRITE :: u32 where "SYS_CONSOLE_WRITE = 0x07"
definition SYS_CREATE_ENDPOINT :: u32 where "SYS_CREATE_ENDPOINT = 0x11"
definition SYS_KILL :: u32 where "SYS_KILL = 0x13"
definition SYS_REGISTER_PROCESS :: u32 where "SYS_REGISTER_PROCESS = 0x14"
definition SYS_CREATE_ENDPOINT_FOR :: u32 where "SYS_CREATE_ENDPOINT_FOR = 0x15"
definition SYS_LOAD_BINARY :: u32 where "SYS_LOAD_BINARY = 0x16"
definition SYS_SPAWN_PROCESS :: u32 where "SYS_SPAWN_PROCESS = 0x17"
definition SYS_CAP_GRANT :: u32 where "SYS_CAP_GRANT = 0x30"
definition SYS_CAP_REVOKE :: u32 where "SYS_CAP_REVOKE = 0x31"
definition SYS_CAP_DELETE :: u32 where "SYS_CAP_DELETE = 0x32"
definition SYS_CAP_INSPECT :: u32 where "SYS_CAP_INSPECT = 0x33"
definition SYS_CAP_DERIVE :: u32 where "SYS_CAP_DERIVE = 0x34"
definition SYS_CAP_LIST :: u32 where "SYS_CAP_LIST = 0x35"
definition SYS_SEND :: u32 where "SYS_SEND = 0x40"
definition SYS_RECV :: u32 where "SYS_RECV = 0x41"
definition SYS_REPLY :: u32 where "SYS_REPLY = 0x43"
definition SYS_SEND_CAP :: u32 where "SYS_SEND_CAP = 0x44"
definition SYS_PS :: u32 where "SYS_PS = 0x50"
definition SYS_STORAGE_READ :: u32 where "SYS_STORAGE_READ = 0x70"
definition SYS_STORAGE_WRITE :: u32 where "SYS_STORAGE_WRITE = 0x71"
definition SYS_STORAGE_DELETE :: u32 where "SYS_STORAGE_DELETE = 0x72"
definition SYS_STORAGE_LIST :: u32 where "SYS_STORAGE_LIST = 0x73"
definition SYS_STORAGE_EXISTS :: u32 where "SYS_STORAGE_EXISTS = 0x74"
definition SYS_STORAGE_BATCH_WRITE :: u32 where "SYS_STORAGE_BATCH_WRITE = 0x79"
definition SYS_KEYSTORE_READ :: u32 where "SYS_KEYSTORE_READ = 0x80"
definition SYS_KEYSTORE_WRITE :: u32 where "SYS_KEYSTORE_WRITE = 0x81"
definition SYS_KEYSTORE_DELETE :: u32 where "SYS_KEYSTORE_DELETE = 0x82"
definition SYS_KEYSTORE_LIST :: u32 where "SYS_KEYSTORE_LIST = 0x83"
definition SYS_KEYSTORE_EXISTS :: u32 where "SYS_KEYSTORE_EXISTS = 0x84"
definition SYS_NETWORK_FETCH :: u32 where "SYS_NETWORK_FETCH = 0x90"

lemmas call_numbers =
  SYS_DEBUG_def SYS_EXIT_def SYS_TIME_def SYS_WALLCLOCK_def SYS_CONSOLE_WRITE_def
  SYS_CREATE_ENDPOINT_def SYS_KILL_def SYS_REGISTER_PROCESS_def SYS_CREATE_ENDPOINT_FOR_def
  SYS_LOAD_BINARY_def SYS_SPAWN_PROCESS_def SYS_CAP_GRANT_def SYS_CAP_REVOKE_def SYS_CAP_DELETE_def
  SYS_CAP_INSPECT_def SYS_CAP_DERIVE_def SYS_CAP_LIST_def SYS_SEND_def SYS_RECV_def SYS_REPLY_def
  SYS_SEND_CAP_def SYS_PS_def SYS_STORAGE_READ_def SYS_STORAGE_WRITE_def SYS_STORAGE_DELETE_def
  SYS_STORAGE_LIST_def SYS_STORAGE_EXISTS_def SYS_STORAGE_BATCH_WRITE_def SYS_KEYSTORE_READ_def
  SYS_KEYSTORE_WRITE_def SYS_KEYSTORE_DELETE_def SYS_KEYSTORE_LIST_def SYS_KEYSTORE_EXISTS_def
  SYS_NETWORK_FETCH_def

section \<open>Types and errors\<close>

record received_message =
  rv_from_pid :: u32
  rv_tag :: u32
  rv_cap_slots :: "u32 list"
  rv_data :: "u8 list"

record cap_view =
  cv_slot :: u32
  cv_object_type :: u8
  cv_object_id :: u64
  cv_can_read :: bool
  cv_can_write :: bool
  cv_can_grant :: bool

record process_view =
  pv_pid :: u32
  pv_name :: string
  pv_state :: u8

definition E_PERM :: u32 where "E_PERM = 1"
definition E_BADF :: u32 where "E_BADF = 7"
definition E_OVERFLOW :: u32 where "E_OVERFLOW = 10"

datatype recv_error =
    NoMessage
  | RecvPermissionDenied
  | InvalidEndpoint
  | BufferOverflow
  | ParseError

definition recv_error_from_code :: "i32 \<Rightarrow> recv_error" where
  "recv_error_from_code code =
     (if code = 0 then NoMessage
      else if code = - E_PERM then RecvPermissionDenied
      else if code = - E_BADF then InvalidEndpoint
      else if code = - E_OVERFLOW then BufferOverflow
      else InvalidEndpoint)"

section \<open>Basic calls\<close>

definition zp_debug :: "'s host \<Rightarrow> string \<Rightarrow> 's caller \<Rightarrow> 's caller" where
  "zp_debug host msg st =
     snd (zos_syscall host SYS_DEBUG (of_nat (length msg)) 0 0 (zos_send_bytes (str_bytes msg) st))"

definition zp_console_write :: "'s host \<Rightarrow> string \<Rightarrow> 's caller \<Rightarrow> 's caller" where
  "zp_console_write host text st =
     snd (zos_syscall host SYS_CONSOLE_WRITE (of_nat (length text)) 0 0
            (zos_send_bytes (str_bytes text) st))"

definition zp_get_time :: "'s host \<Rightarrow> 's caller \<Rightarrow> u64 \<times> 's caller" where
  "zp_get_time host st =
     (let (low, st) = zos_syscall host SYS_TIME 0 0 0 st;
          (high, st) = zos_syscall host SYS_TIME 1 0 0 st
      in (push_bit 32 high OR low, st))"

definition zp_get_wallclock :: "'s host \<Rightarrow> 's caller \<Rightarrow> u64 \<times> 's caller" where
  "zp_get_wallclock host st =
     (let (low, st) = zos_syscall host SYS_WALLCLOCK 0 0 0 st;
          (high, st) = zos_syscall host SYS_WALLCLOCK 1 0 0 st
      in (push_bit 32 high OR low, st))"

text \<open>\<^verbatim>\<open>exit\<close> makes its call and, if the call returns, yields forever: this is the state it loops in.\<close>

definition zp_exit :: "'s host \<Rightarrow> i32 \<Rightarrow> 's caller \<Rightarrow> 's caller" where
  "zp_exit host code st = snd (zos_syscall host SYS_EXIT code 0 0 st)"

text \<open>The test at the end of every call whose only success result is zero.\<close>

definition zero_result :: "i64 \<Rightarrow> u32 + unit" where
  "zero_result result = (if result = 0 then Inr () else Inl (ucast result))"

definition zp_kill :: "'s host \<Rightarrow> u32 \<Rightarrow> 's caller \<Rightarrow> (u32 + unit) \<times> 's caller" where
  "zp_kill host target_pid st =
     (let (result, st) = zos_syscall host SYS_KILL target_pid 0 0 st in (zero_result result, st))"

section \<open>Messages\<close>

definition zp_send :: "'s host \<Rightarrow> u32 \<Rightarrow> u32 \<Rightarrow> u8 list \<Rightarrow> 's caller \<Rightarrow> (u32 + unit) \<times> 's caller" where
  "zp_send host endpoint_slot tag data st =
     (let (result, st) = zos_syscall host SYS_SEND endpoint_slot tag (of_nat (length data))
                           (zos_send_bytes data st)
      in (zero_result result, st))"

text \<open>The loop of \<^verbatim>\<open>receive\<close> over the capability slots, on the bytes from the current offset on.\<close>

fun read_u32s :: "nat \<Rightarrow> u8 list \<Rightarrow> u32 list" where
  "read_u32s 0 bs = []"
| "read_u32s (Suc n) bs = u32_from_le_bytes (take 4 bs) # read_u32s n (drop 4 bs)"

definition parse_message :: "u8 list \<Rightarrow> recv_error + received_message" where
  "parse_message buffer =
     (let len = length buffer
      in if len = 0 then Inl ParseError
         else if len < 9 then Inl ParseError
         else
           let num_caps = unat (buffer ! 8);
               data_start = 9 + num_caps * 4
           in if len < data_start then Inl ParseError
              else Inr \<lparr>rv_from_pid = u32_from_le_bytes (take 4 buffer),
                        rv_tag = u32_from_le_bytes (take 4 (drop 4 buffer)),
                        rv_cap_slots = read_u32s num_caps (drop 9 buffer),
                        rv_data = drop data_start buffer\<rparr>)"

definition zp_receive :: "'s host \<Rightarrow> u32 \<Rightarrow> 's caller \<Rightarrow> (recv_error + received_message) \<times> 's caller" where
  "zp_receive host endpoint_slot st =
     (let (r, st) = zos_syscall host SYS_RECV endpoint_slot 0 0 st;
          result = ucast r :: i32
      in if sint result \<le> 0 then (Inl (recv_error_from_code result), st)
         else (parse_message (zos_recv_bytes 16384 st), st))"

definition zp_receive_opt :: "'s host \<Rightarrow> u32 \<Rightarrow> 's caller \<Rightarrow> received_message option \<times> 's caller" where
  "zp_receive_opt host endpoint_slot st =
     (let (r, st) = zp_receive host endpoint_slot st
      in (case r of Inr msg \<Rightarrow> Some msg | Inl _ \<Rightarrow> None, st))"

text \<open>
  The two polling loops. While the process yields the rest of the system runs, which \<open>yield_now\<close>
  stands for; a loop that never gets a message has no value.
\<close>

partial_function (option) zp_receive_blocking ::
  "'s host \<Rightarrow> ('s \<Rightarrow> 's) \<Rightarrow> u32 \<Rightarrow> 's caller \<Rightarrow> ((recv_error + received_message) \<times> 's caller) option" where
  "zp_receive_blocking host yield_now endpoint_slot st =
     (case zp_receive host endpoint_slot st of
        (Inr msg, st) \<Rightarrow> Some (Inr msg, st)
      | (Inl e, st) \<Rightarrow>
          if e = NoMessage
          then zp_receive_blocking host yield_now endpoint_slot (fst st, yield_now (snd st))
          else Some (Inl e, st))"

partial_function (option) zp_await_reply ::
  "'s host \<Rightarrow> ('s \<Rightarrow> 's) \<Rightarrow> u32 \<Rightarrow> 's caller \<Rightarrow> ((u32 + received_message) \<times> 's caller) option" where
  "zp_await_reply host yield_now endpoint_slot st =
     (case zp_receive host endpoint_slot st of
        (Inr msg, st) \<Rightarrow> Some (Inr msg, st)
      | (Inl e, st) \<Rightarrow> zp_await_reply host yield_now endpoint_slot (fst st, yield_now (snd st)))"

definition zp_call ::
  "'s host \<Rightarrow> ('s \<Rightarrow> 's) \<Rightarrow> u32 \<Rightarrow> u32 \<Rightarrow> u8 list \<Rightarrow> 's caller
    \<Rightarrow> ((u32 + received_message) \<times> 's caller) option" where
  "zp_call host yield_now endpoint_slot tag data st =
     (case zp_send host endpoint_slot tag data st of
        (Inl e, st) \<Rightarrow> Some (Inl e, st)
      | (Inr _, st) \<Rightarrow> zp_await_reply host yield_now endpoint_slot st)"

definition zp_send_with_caps ::
  "'s host \<Rightarrow> u32 \<Rightarrow> u32 \<Rightarrow> u8 list \<Rightarrow> u32 list \<Rightarrow> 's caller \<Rightarrow> (u32 + unit) \<times> 's caller" where
  "zp_send_with_caps host endpoint_slot tag data cap_slots st =
     (let st = zos_send_bytes data st;
          st = (if cap_slots \<noteq> [] then zos_send_bytes (concat (map u32_to_le_bytes cap_slots)) st else st);
          (result, st) = zos_syscall host SYS_SEND_CAP endpoint_slot tag
                           (of_nat (length data) OR push_bit 16 (of_nat (length cap_slots))) st
      in (zero_result result, st))"

definition zp_reply :: "'s host \<Rightarrow> u32 \<Rightarrow> u32 \<Rightarrow> u8 list \<Rightarrow> 's caller \<Rightarrow> (u32 + unit) \<times> 's caller" where
  "zp_reply host caller_pid tag data st =
     (let (result, st) = zos_syscall host SYS_REPLY caller_pid tag (of_nat (length data))
                           (zos_send_bytes data st)
      in (zero_result result, st))"

section \<open>Capabilities\<close>

text \<open>The sign test on the 32nd bit that \<^verbatim>\<open>cap_grant\<close> and \<^verbatim>\<open>cap_derive\<close> share.\<close>

definition slot_result :: "i64 \<Rightarrow> u32 + u32" where
  "slot_result result =
     (if result AND 0x80000000 = 0 then Inr (ucast result) else Inl (ucast (result AND 0x7FFFFFFF)))"

definition zp_cap_grant ::
  "'s host \<Rightarrow> u32 \<Rightarrow> u32 \<Rightarrow> permissions \<Rightarrow> 's caller \<Rightarrow> (u32 + u32) \<times> 's caller" where
  "zp_cap_grant host from_slot to_pid perms st =
     (let (result, st) = zos_syscall host SYS_CAP_GRANT from_slot to_pid (ucast (perms_to_byte perms)) st
      in (slot_result result, st))"

definition zp_cap_revoke :: "'s host \<Rightarrow> u32 \<Rightarrow> 's caller \<Rightarrow> (u32 + unit) \<times> 's caller" where
  "zp_cap_revoke host slot st =
     (let (result, st) = zos_syscall host SYS_CAP_REVOKE slot 0 0 st in (zero_result result, st))"

definition zp_cap_revoke_from :: "'s host \<Rightarrow> u32 \<Rightarrow> u32 \<Rightarrow> 's caller \<Rightarrow> (u32 + unit) \<times> 's caller" where
  "zp_cap_revoke_from host target_pid slot st =
     (let (result, st) = zos_syscall host SYS_CAP_REVOKE target_pid slot 0 st in (zero_result result, st))"

definition zp_cap_delete :: "'s host \<Rightarrow> u32 \<Rightarrow> 's caller \<Rightarrow> (u32 + unit) \<times> 's caller" where
  "zp_cap_delete host slot st =
     (let (result, st) = zos_syscall host SYS_CAP_DELETE slot 0 0 st in (zero_result result, st))"

definition u64_from_le_bytes :: "u8 list \<Rightarrow> u64" where
  "u64_from_le_bytes bs = word_of_nat (le_bytes_nat bs)"

definition zp_cap_inspect :: "'s host \<Rightarrow> u32 \<Rightarrow> 's caller \<Rightarrow> cap_view option \<times> 's caller" where
  "zp_cap_inspect host slot st =
     (let (result, st) = zos_syscall host SYS_CAP_INSPECT slot 0 0 st
      in if result = 0 then (None, st)
         else
           let buffer = zos_recv_bytes 32 st
           in if length buffer < 16 then (None, st)
              else (Some \<lparr>cv_slot = slot, cv_object_type = buffer ! 0,
                          cv_object_id = u64_from_le_bytes (take 8 (drop 8 buffer)),
                          cv_can_read = (buffer ! 1 AND 0x01 \<noteq> 0),
                          cv_can_write = (buffer ! 1 AND 0x02 \<noteq> 0),
                          cv_can_grant = (buffer ! 1 AND 0x04 \<noteq> 0)\<rparr>, st))"

definition zp_cap_derive :: "'s host \<Rightarrow> u32 \<Rightarrow> permissions \<Rightarrow> 's caller \<Rightarrow> (u32 + u32) \<times> 's caller" where
  "zp_cap_derive host slot new_perms st =
     (let (result, st) = zos_syscall host SYS_CAP_DERIVE slot (ucast (perms_to_byte new_perms)) 0 st
      in (slot_result result, st))"

text \<open>The packed word \<^verbatim>\<open>(slot << 32) | endpoint_id\<close>.\<close>

definition unpack_endpoint :: "i64 \<Rightarrow> u64 \<times> u32" where
  "unpack_endpoint result = (result AND 0xFFFFFFFF, ucast (signed_drop_bit 32 result))"

definition zp_create_endpoint :: "'s host \<Rightarrow> 's caller \<Rightarrow> (u32 + u64 \<times> u32) \<times> 's caller" where
  "zp_create_endpoint host st =
     (let (result, st) = zos_syscall host SYS_CREATE_ENDPOINT 0 0 0 st
      in (if sint result \<ge> 0 then Inr (unpack_endpoint result) else Inl (ucast (- result)), st))"

section \<open>Calls of Init\<close>

definition zp_register_process :: "'s host \<Rightarrow> string \<Rightarrow> 's caller \<Rightarrow> (u32 + u32) \<times> 's caller" where
  "zp_register_process host name st =
     (let (r, st) = zos_syscall host SYS_REGISTER_PROCESS (of_nat (length name)) 0 0
                      (zos_send_bytes (str_bytes name) st);
          result = ucast r :: i32
      in (if sint result \<ge> 0 then Inr result else Inl E_PERM, st))"

definition zp_create_endpoint_for :: "'s host \<Rightarrow> u32 \<Rightarrow> 's caller \<Rightarrow> (u32 + u64 \<times> u32) \<times> 's caller" where
  "zp_create_endpoint_for host target_pid st =
     (let (result, st) = zos_syscall host SYS_CREATE_ENDPOINT_FOR target_pid 0 0 st
      in (if sint result \<ge> 0 then Inr (unpack_endpoint result) else Inl E_PERM, st))"

definition zp_load_binary :: "'s host \<Rightarrow> string \<Rightarrow> 's caller \<Rightarrow> (i32 + u8 list) \<times> 's caller" where
  "zp_load_binary host name st =
     (let (r, st) = zos_syscall host SYS_LOAD_BINARY (of_nat (length name)) 0 0
                      (zos_send_bytes (str_bytes name) st);
          result = ucast r :: i32
      in if sint result < 0 then (Inl result, st)
         else (Inr (zos_recv_bytes (unat result) st), st))"

text \<open>A length, a string of that length and bytes to the end.\<close>

definition named_payload :: "string \<Rightarrow> u8 list \<Rightarrow> u8 list" where
  "named_payload name bytes = u32_to_le_bytes (of_nat (length name)) @ str_bytes name @ bytes"

definition zp_spawn_process :: "'s host \<Rightarrow> string \<Rightarrow> u8 list \<Rightarrow> 's caller \<Rightarrow> (i32 + u32) \<times> 's caller" where
  "zp_spawn_process host name binary st =
     (let payload = named_payload name binary;
          (r, st) = zos_syscall host SYS_SPAWN_PROCESS (of_nat (length payload)) 0 0
                      (zos_send_bytes payload st);
          result = ucast r :: i32
      in (if sint result < 0 then Inl result else Inr result, st))"

section \<open>Lists\<close>

text \<open>The loops of \<^verbatim>\<open>list_caps\<close> and \<^verbatim>\<open>list_processes\<close>, on the bytes from the current offset on.\<close>

fun read_caps :: "nat \<Rightarrow> u8 list \<Rightarrow> cap_view list" where
  "read_caps 0 bs = []"
| "read_caps (Suc n) bs =
     (if length bs < 13 then []
      else \<lparr>cv_slot = u32_from_le_bytes (take 4 bs), cv_object_type = bs ! 4,
            cv_object_id = u64_from_le_bytes (take 8 (drop 5 bs)),
            cv_can_read = True, cv_can_write = True, cv_can_grant = False\<rparr> # read_caps n (drop 13 bs))"

definition zp_list_caps :: "'s host \<Rightarrow> 's caller \<Rightarrow> cap_view list \<times> 's caller" where
  "zp_list_caps host st =
     (let (result, st) = zos_syscall host SYS_CAP_LIST 0 0 0 st
      in if result \<noteq> 0 then ([], st)
         else
           let buffer = zos_recv_bytes 4096 st
           in if length buffer < 4 then ([], st)
              else (read_caps (unat (u32_from_le_bytes (take 4 buffer))) (drop 4 buffer), st))"

fun read_processes :: "nat \<Rightarrow> u8 list \<Rightarrow> process_view list" where
  "read_processes 0 bs = []"
| "read_processes (Suc n) bs =
     (if length bs < 6 then []
      else let name_len = le_bytes_nat (take 2 (drop 4 bs));
               rest = drop 6 bs
           in if length rest < name_len then []
              else \<lparr>pv_pid = u32_from_le_bytes (take 4 bs),
                    pv_name = (case from_utf8 (take name_len rest) of Some s \<Rightarrow> s | None \<Rightarrow> ''???''),
                    pv_state = 0\<rparr> # read_processes n (drop name_len rest))"

definition zp_list_processes :: "'s host \<Rightarrow> 's caller \<Rightarrow> process_view list \<times> 's caller" where
  "zp_list_processes host st =
     (let (result, st) = zos_syscall host SYS_PS 0 0 0 st
      in if result \<noteq> 0 then ([], st)
         else
           let buffer = zos_recv_bytes 4096 st
           in if length buffer < 4 then ([], st)
              else (read_processes (unat (u32_from_le_bytes (take 4 buffer))) (drop 4 buffer), st))"

section \<open>Asynchronous calls\<close>

text \<open>A call that returns a request id, or a negative error.\<close>

definition request_call ::
  "'s host \<Rightarrow> u32 \<Rightarrow> u32 \<Rightarrow> u32 \<Rightarrow> u8 list \<Rightarrow> 's caller \<Rightarrow> (i64 + i64) \<times> 's caller" where
  "request_call host num arg1 arg2 data st =
     (let (result, st) = zos_syscall host num arg1 arg2 0 (zos_send_bytes data st)
      in (if sint result \<ge> 0 then Inr result else Inl result, st))"

definition key_call :: "'s host \<Rightarrow> u32 \<Rightarrow> string \<Rightarrow> 's caller \<Rightarrow> (i64 + i64) \<times> 's caller" where
  "key_call host num key = request_call host num (of_nat (length key)) 0 (str_bytes key)"

definition zp_storage_read_async :: "'s host \<Rightarrow> string \<Rightarrow> 's caller \<Rightarrow> (i64 + i64) \<times> 's caller" where
  "zp_storage_read_async host = key_call host SYS_STORAGE_READ"

definition zp_storage_delete_async :: "'s host \<Rightarrow> string \<Rightarrow> 's caller \<Rightarrow> (i64 + i64) \<times> 's caller" where
  "zp_storage_delete_async host = key_call host SYS_STORAGE_DELETE"

definition zp_storage_list_async :: "'s host \<Rightarrow> string \<Rightarrow> 's caller \<Rightarrow> (i64 + i64) \<times> 's caller" where
  "zp_storage_list_async host = key_call host SYS_STORAGE_LIST"

definition zp_storage_exists_async :: "'s host \<Rightarrow> string \<Rightarrow> 's caller \<Rightarrow> (i64 + i64) \<times> 's caller" where
  "zp_storage_exists_async host = key_call host SYS_STORAGE_EXISTS"

definition zp_storage_write_async ::
  "'s host \<Rightarrow> string \<Rightarrow> u8 list \<Rightarrow> 's caller \<Rightarrow> (i64 + i64) \<times> 's caller" where
  "zp_storage_write_async host key v =
     request_call host SYS_STORAGE_WRITE (of_nat (length key)) (of_nat (length v)) (named_payload key v)"

definition zp_keystore_read_async :: "'s host \<Rightarrow> string \<Rightarrow> 's caller \<Rightarrow> (i64 + i64) \<times> 's caller" where
  "zp_keystore_read_async host = key_call host SYS_KEYSTORE_READ"

definition zp_keystore_delete_async :: "'s host \<Rightarrow> string \<Rightarrow> 's caller \<Rightarrow> (i64 + i64) \<times> 's caller" where
  "zp_keystore_delete_async host = key_call host SYS_KEYSTORE_DELETE"

definition zp_keystore_list_async :: "'s host \<Rightarrow> string \<Rightarrow> 's caller \<Rightarrow> (i64 + i64) \<times> 's caller" where
  "zp_keystore_list_async host = key_call host SYS_KEYSTORE_LIST"

definition zp_keystore_exists_async :: "'s host \<Rightarrow> string \<Rightarrow> 's caller \<Rightarrow> (i64 + i64) \<times> 's caller" where
  "zp_keystore_exists_async host = key_call host SYS_KEYSTORE_EXISTS"

definition zp_keystore_write_async ::
  "'s host \<Rightarrow> string \<Rightarrow> u8 list \<Rightarrow> 's caller \<Rightarrow> (i64 + i64) \<times> 's caller" where
  "zp_keystore_write_async host key v =
     request_call host SYS_KEYSTORE_WRITE (of_nat (length key)) (of_nat (length v)) (named_payload key v)"

definition batch_payload :: "(string \<times> u8 list) list \<Rightarrow> u8 list" where
  "batch_payload items =
     u32_to_le_bytes (of_nat (length items))
     @ concat (map (\<lambda>(key, v). u32_to_le_bytes (of_nat (length key)) @ str_bytes key
                              @ u32_to_le_bytes (of_nat (length v)) @ v) items)"

definition zp_storage_batch_write_async ::
  "'s host \<Rightarrow> (string \<times> u8 list) list \<Rightarrow> 's caller \<Rightarrow> (i64 + i64) \<times> 's caller" where
  "zp_storage_batch_write_async host items =
     request_call host SYS_STORAGE_BATCH_WRITE (of_nat (length items)) 0 (batch_payload items)"

definition zp_network_fetch_async :: "'s host \<Rightarrow> u8 list \<Rightarrow> 's caller \<Rightarrow> (i64 + i64) \<times> 's caller" where
  "zp_network_fetch_async host request_json =
     request_call host SYS_NETWORK_FETCH (of_nat (length request_json)) 0 request_json"

section \<open>Codecs\<close>

lemma read_u32s_inverse [simp]:
  "read_u32s (length xs) (concat (map u32_to_le_bytes xs) @ rest) = xs"
  by (induction xs) auto

lemma length_concat_u32 [simp]: "length (concat (map u32_to_le_bytes xs)) = 4 * length xs"
  by (induction xs) auto

text \<open>The bytes a receiver finds in its mailbox, and what it reads when the tail was cut off.\<close>

definition message_bytes :: "u32 \<Rightarrow> u32 \<Rightarrow> u32 list \<Rightarrow> u8 list \<Rightarrow> u8 list" where
  "message_bytes from_pid tag slots data =
     u32_to_le_bytes from_pid @ u32_to_le_bytes tag @ [of_nat (length slots)]
     @ concat (map u32_to_le_bytes slots) @ data"

lemma length_message_bytes [simp]:
  "length (message_bytes from_pid tag slots data) = 9 + 4 * length slots + length data"
  by (simp add: message_bytes_def)

lemma take_message_bytes:
  assumes "9 + 4 * length slots \<le> n"
  shows "take n (message_bytes from_pid tag slots data)
       = message_bytes from_pid tag slots (take (n - (9 + 4 * length slots)) data)"
  using assms by (auto simp: message_bytes_def take_Cons' Suc_diff_Suc)

lemma parse_message_bytes:
  assumes "length slots < 256"
  shows "parse_message (message_bytes from_pid tag slots data)
       = Inr \<lparr>rv_from_pid = from_pid, rv_tag = tag, rv_cap_slots = slots, rv_data = data\<rparr>"
proof -
  let ?b = "message_bytes from_pid tag slots data"
  have rest: "drop 9 ?b = concat (map u32_to_le_bytes slots) @ data"
    by (simp add: message_bytes_def)
  then have slots: "read_u32s (length slots) (drop 9 ?b) = slots"
    by simp
  have "drop (9 + length slots * 4) ?b = drop (length slots * 4) (drop 9 ?b)"
    by (simp add: add.commute)
  with rest have data: "drop (9 + length slots * 4) ?b = data"
    by simp
  have "?b ! 8 = of_nat (length slots)"
    by (simp add: message_bytes_def nth_append)
  then have n: "unat (?b ! 8) = length slots"
    using assms by (simp add: unat_of_nat)
  have "take 4 ?b = u32_to_le_bytes from_pid" "take 4 (drop 4 ?b) = u32_to_le_bytes tag"
    by (simp_all add: message_bytes_def)
  with slots data n show ?thesis
    by (simp add: parse_message_def Let_def)
qed

text \<open>
  A message whose serialised form is longer than the data area of the mailbox loses the end of its
  data; all the rest arrives.
\<close>

lemma received_through_mailbox:
  assumes "length slots < 256"
  shows "parse_message (zos_recv_bytes 16384 (take 16356 (message_bytes from_pid tag slots data), s))
       = Inr \<lparr>rv_from_pid = from_pid, rv_tag = tag, rv_cap_slots = slots,
              rv_data = take (16347 - 4 * length slots) data\<rparr>"
proof -
  have "zos_recv_bytes 16384 (take 16356 (message_bytes from_pid tag slots data), s)
      = message_bytes from_pid tag slots (take (16347 - 4 * length slots) data)"
    using assms by (simp add: zos_recv_bytes_def take_message_bytes min_def)
  then show ?thesis
    using assms by (simp add: parse_message_bytes)
qed

lemma char_of_byte: "char_of (unat (of_char c :: u8)) = c"
proof -
  have "unat (of_nat (of_char c :: nat) :: u8) = of_char c"
    by (simp only: unat_of_nat) simp
  then have "unat (of_char c :: u8) = of_char c"
    by (simp only: of_nat_of_char)
  then show ?thesis
    by simp
qed

lemma str_bytes_utf8: "bytes_str (str_bytes s) = s"
  by (simp add: bytes_str_def str_bytes_def comp_def char_of_byte)

lemma from_utf8_str_bytes: "utf8_valid (str_bytes s) \<Longrightarrow> from_utf8 (str_bytes s) = Some s"
  by (simp add: from_utf8_def str_bytes_utf8)

text \<open>The kernel reads the key and the value that the library packed.\<close>

lemma named_payload_decoded:
  assumes "length name < 2 ^ 32"
  shows "unat (u32_from_le_bytes (take 4 (named_payload name bytes))) = length name"
    and "take (length name) (drop 4 (named_payload name bytes)) = str_bytes name"
    and "drop (4 + length name) (named_payload name bytes) = bytes"
    and "length (named_payload name bytes) = 4 + length name + length bytes"
proof -
  have [simp]: "length (str_bytes name) = length name"
    by (simp add: str_bytes_def)
  have "unat (of_nat (length name) :: u32) = length name"
    using assms by (simp add: unat_of_nat)
  then show "unat (u32_from_le_bytes (take 4 (named_payload name bytes))) = length name"
    by (simp add: named_payload_def)
  show "take (length name) (drop 4 (named_payload name bytes)) = str_bytes name"
    "drop (4 + length name) (named_payload name bytes) = bytes"
    "length (named_payload name bytes) = 4 + length name + length bytes"
    by (simp_all add: named_payload_def)
qed

lemma write_payload_accepted:
  assumes "length key < 2 ^ 32" "utf8_valid (str_bytes key)"
  shows "execute_key_write request sender (named_payload key v)
       = request_result (request (pid_raw sender) key v)"
  using assms named_payload_decoded [OF assms(1), of v]
  by (simp add: execute_key_write_def Let_def from_utf8_str_bytes)

end
