(* ===== verification/Text.thy ===== *)
theory Text
  imports Utf8
begin

text \<open>
  The text functions of the Rust standard library that the debug protocol between Init and the
  supervisor uses: printing and parsing of unsigned numbers, \<^verbatim>\<open>split\<close>, \<^verbatim>\<open>strip_prefix\<close> and slices, and
  \<^verbatim>\<open>hex_to_bytes\<close> of \<^verbatim>\<open>zos-supervisor/src/util.rs\<close>. A slice of a \<^verbatim>\<open>str\<close> at an index inside a character is a
  panic, the value \<open>None\<close>.
\<close>

section \<open>Numbers\<close>

definition digit_char :: "nat \<Rightarrow> char" where
  "digit_char d = char_of (if d < 10 then 48 + d else 87 + d)"

text \<open>\<^verbatim>\<open>{}\<close> with radix 10 and \<^verbatim>\<open>{:x}\<close> with radix 16.\<close>

function num_text :: "nat \<Rightarrow> nat \<Rightarrow> string" where
  "num_text radix n =
     (if n < radix \<or> radix < 2 then [digit_char n]
      else num_text radix (n div radix) @ [digit_char (n mod radix)])"
  by auto
termination
  by (relation "measure snd") (auto intro: div_less_dividend)

declare num_text.simps [simp del]

abbreviation dec_text :: "'a::len word \<Rightarrow> string" where
  "dec_text w \<equiv> num_text 10 (unat w)"

text \<open>\<^verbatim>\<open>{:02x}\<close> of a byte, and \<^verbatim>\<open>{:08x}\<close> of a 32-bit word.\<close>

definition hex_byte :: "u8 \<Rightarrow> string" where
  "hex_byte b = [digit_char (unat b div 16), digit_char (unat b mod 16)]"

definition hex_text :: "u8 list \<Rightarrow> string" where
  "hex_text bs = concat (map hex_byte bs)"

definition hex_u32 :: "u32 \<Rightarrow> string" where
  "hex_u32 w = concat (map hex_byte (rev (u32_to_le_bytes w)))"

definition digit_of :: "nat \<Rightarrow> char \<Rightarrow> nat option" where
  "digit_of radix c =
     (let n = of_char c :: nat;
          d = (if 48 \<le> n \<and> n \<le> 57 then Some (n - 48)
               else if 97 \<le> n \<and> n \<le> 122 then Some (n - 87)
               else if 65 \<le> n \<and> n \<le> 90 then Some (n - 55)
               else None)
      in (case d of Some v \<Rightarrow> if v < radix then Some v else None | None \<Rightarrow> None))"

text \<open>\<open>bound\<close> is \<^verbatim>\<open>MAX + 1\<close> of the type that is read.\<close>

fun digits_from :: "nat \<Rightarrow> nat \<Rightarrow> nat \<Rightarrow> string \<Rightarrow> nat option" where
  "digits_from bound radix acc [] = Some acc"
| "digits_from bound radix acc (c # cs) =
     (case digit_of radix c of
        None \<Rightarrow> None
      | Some d \<Rightarrow>
          let v = acc * radix + d
          in if v < bound then digits_from bound radix v cs else None)"

definition from_str_radix :: "nat \<Rightarrow> string \<Rightarrow> 'a::len word option" where
  "from_str_radix radix s =
     (let digits = (case s of c # cs \<Rightarrow> if c = CHR ''+'' then cs else s | [] \<Rightarrow> [])
      in if digits = [] then None
         else map_option word_of_nat (digits_from (2 ^ LENGTH('a)) radix 0 digits))"

abbreviation parse_num :: "string \<Rightarrow> 'a::len word option" where
  "parse_num \<equiv> from_str_radix 10"

section \<open>Strings\<close>

definition strip_prefix :: "string \<Rightarrow> string \<Rightarrow> string option" where
  "strip_prefix s p = (if take (length p) s = p then Some (drop (length p) s) else None)"

fun split_on :: "char \<Rightarrow> string \<Rightarrow> string list" where
  "split_on d [] = [[]]"
| "split_on d (c # cs) =
     (if c = d then [] # split_on d cs
      else (case split_on d cs of [] \<Rightarrow> [[c]] | w # ws \<Rightarrow> (c # w) # ws))"

text \<open>\<^verbatim>\<open>splitn(n + 1, d)\<close>: at most \<open>n\<close> separators are used.\<close>

fun splitn :: "nat \<Rightarrow> char \<Rightarrow> string \<Rightarrow> string list" where
  "splitn n d [] = [[]]"
| "splitn n d (c # cs) =
     (if n = 0 then [c # cs]
      else if c = d then [] # splitn (n - 1) d cs
      else (case splitn n d cs of [] \<Rightarrow> [[c]] | w # ws \<Rightarrow> (c # w) # ws))"

fun contains_str :: "string \<Rightarrow> string \<Rightarrow> bool" where
  "contains_str [] p = (p = [])"
| "contains_str (c # cs) p = (take (length p) (c # cs) = p \<or> contains_str cs p)"

definition is_char_boundary :: "string \<Rightarrow> nat \<Rightarrow> bool" where
  "is_char_boundary s i \<longleftrightarrow>
     i = 0 \<or> i = length s \<or> i < length s \<and> \<not> (0x80 \<le> (of_char (s ! i) :: nat) \<and> (of_char (s ! i) :: nat) \<le> 0xBF)"

definition str_slice :: "string \<Rightarrow> nat \<Rightarrow> nat \<Rightarrow> string option" where
  "str_slice s a b =
     (if a \<le> b \<and> is_char_boundary s a \<and> is_char_boundary s b then Some (take (b - a) (drop a s)) else None)"

text \<open>The collecting loop of \<^verbatim>\<open>hex_to_bytes\<close>; the first invalid pair ends it.\<close>

function hex_pairs :: "string \<Rightarrow> nat \<Rightarrow> (unit + u8 list) option" where
  "hex_pairs hex i =
     (if length hex \<le> i then Some (Inr [])
      else (case str_slice hex i (i + 2) of
              None \<Rightarrow> None
            | Some pair \<Rightarrow>
                (case from_str_radix 16 pair of
                   None \<Rightarrow> Some (Inl ())
                 | Some b \<Rightarrow> map_option (map_sum id ((#) b)) (hex_pairs hex (i + 2)))))"
  by auto
termination
  by (relation "measure (\<lambda>(hex, i). length hex - i)") auto

declare hex_pairs.simps [simp del]

definition hex_to_bytes :: "string \<Rightarrow> (unit + u8 list) option" where
  "hex_to_bytes hex = (if odd (length hex) then Some (Inl ()) else hex_pairs hex 0)"

section \<open>Round trips\<close>

lemma of_char_digit: "d < 36 \<Longrightarrow> (of_char (digit_char d) :: nat) = (if d < 10 then 48 + d else 87 + d)"
  by (simp add: digit_char_def)

lemma digit_of_digit_char [simp]: "d < radix \<Longrightarrow> radix \<le> 36 \<Longrightarrow> digit_of radix (digit_char d) = Some d"
  by (auto simp: digit_of_def of_char_digit Let_def)

lemma digits_from_append:
  "digits_from bound radix acc (xs @ ys)
   = (case digits_from bound radix acc xs of None \<Rightarrow> None | Some v \<Rightarrow> digits_from bound radix v ys)"
  by (induction xs arbitrary: acc) (auto simp: Let_def split: option.split)

lemma num_text_not_empty [simp]: "num_text radix n \<noteq> []"
  by (subst num_text.simps) simp

lemma digits_from_num_text:
  assumes "n < bound" "2 \<le> radix" "radix \<le> 36"
  shows "digits_from bound radix 0 (num_text radix n) = Some n"
  using assms
proof (induction n rule: less_induct)
  case (less n)
  show ?case
  proof (cases "n < radix")
    case True
    with less.prems show ?thesis
      by (subst num_text.simps) simp
  next
    case False
    then have "n div radix < n"
      using less.prems by (auto intro: div_less_dividend)
    moreover from this have "n div radix < bound"
      using less.prems by simp
    ultimately have "digits_from bound radix 0 (num_text radix (n div radix)) = Some (n div radix)"
      using less by blast
    with False less.prems show ?thesis
      by (subst num_text.simps) (simp add: digits_from_append)
  qed
qed

lemma digit_char_not_plus: "d < 36 \<Longrightarrow> digit_char d \<noteq> CHR ''+''"
proof
  assume "d < 36" "digit_char d = CHR ''+''"
  then have "(of_char (digit_char d) :: nat) = 43"
    by simp
  then show False
    using of_char_digit [OF \<open>d < 36\<close>] by (simp split: if_splits)
qed

lemma num_text_head: "2 \<le> radix \<Longrightarrow> radix \<le> 36 \<Longrightarrow> hd (num_text radix n) \<noteq> CHR ''+''"
proof (induction n rule: less_induct)
  case (less n)
  show ?case
  proof (cases "n < radix")
    case True
    with less.prems show ?thesis
      by (subst num_text.simps) (simp add: digit_char_not_plus)
  next
    case False
    then have "n div radix < n"
      using less.prems by (auto intro: div_less_dividend)
    with less False show ?thesis
      by (subst num_text.simps) simp
  qed
qed

text \<open>Reading a printed number gives the number.\<close>

lemma from_str_radix_num_text [simp]:
  fixes w :: "'a::len word"
  assumes "2 \<le> radix" "radix \<le> 36"
  shows "from_str_radix radix (num_text radix (unat w)) = Some w"
proof -
  have "(case num_text radix (unat w) of c # cs \<Rightarrow> if c = CHR ''+'' then cs else num_text radix (unat w)
         | [] \<Rightarrow> []) = num_text radix (unat w)"
    using num_text_head [OF assms, of "unat w"] by (cases "num_text radix (unat w)") auto
  moreover have "unat w < 2 ^ LENGTH('a)"
    by (rule unsigned_less)
  ultimately show ?thesis
    using assms by (simp add: from_str_radix_def digits_from_num_text)
qed

lemma digit_char_ascii: "d < 36 \<Longrightarrow> (of_char (digit_char d) :: nat) < 0x80"
  by (simp add: of_char_digit)

lemma from_hex_byte [simp]: "from_str_radix 16 (hex_byte b) = Some b"
proof -
  have "unat b < 256"
    using unsigned_less [of b] by simp
  then have "unat b div 16 < 16" "unat b mod 16 < 16"
    by (auto intro: less_mult_imp_div_less)
  moreover have "unat b div 16 * 16 + unat b mod 16 = unat b"
    by simp
  ultimately show ?thesis
    using \<open>unat b < 256\<close> by (simp add: from_str_radix_def hex_byte_def digit_char_not_plus Let_def)
qed

lemma hex_byte_ascii: "c \<in> set (hex_byte b) \<Longrightarrow> (of_char c :: nat) < 0x80"
proof -
  have "unat b < 256"
    using unsigned_less [of b] by simp
  then have "unat b div 16 < 16" "unat b mod 16 < 16"
    by (auto intro: less_mult_imp_div_less)
  then show "c \<in> set (hex_byte b) \<Longrightarrow> (of_char c :: nat) < 0x80"
    by (auto simp: hex_byte_def intro: digit_char_ascii)
qed

lemma length_hex_text [simp]: "length (hex_text bs) = 2 * length bs"
  by (induction bs) (auto simp: hex_text_def hex_byte_def)

lemma ascii_boundary: "(\<And>c. c \<in> set s \<Longrightarrow> (of_char c :: nat) < 0x80) \<Longrightarrow> i \<le> length s \<Longrightarrow> is_char_boundary s i"
  by (cases "i < length s") (fastforce simp: is_char_boundary_def dest: nth_mem)+

lemma hex_pairs_text: "hex_pairs (hex_text (as @ bs)) (2 * length as) = Some (Inr bs)"
proof (induction bs arbitrary: as)
  case Nil
  then show ?case
    by (subst hex_pairs.simps) simp
next
  case (Cons b bs)
  let ?h = "hex_text (as @ b # bs)"
  have "\<And>c. c \<in> set ?h \<Longrightarrow> (of_char c :: nat) < 0x80"
    by (auto simp: hex_text_def intro: hex_byte_ascii)
  then have "is_char_boundary ?h i" if "i \<le> length ?h" for i
    using ascii_boundary that by blast
  moreover have "take 2 (drop (2 * length as) ?h) = hex_byte b"
  proof -
    have "drop (2 * length as) ?h = hex_text (b # bs)"
      using length_hex_text [of as] by (simp add: hex_text_def)
    then show ?thesis
      by (simp add: hex_text_def hex_byte_def)
  qed
  ultimately have slice: "str_slice ?h (2 * length as) (2 * length as + 2) = Some (hex_byte b)"
    by (simp add: str_slice_def)
  have "hex_pairs ?h (2 * length as + 2) = Some (Inr bs)"
    using Cons [of "as @ [b]"] by (simp add: add.commute)
  with slice show ?case
    by (subst hex_pairs.simps) simp
qed

lemma hex_to_bytes_text [simp]: "hex_to_bytes (hex_text bs) = Some (Inr bs)"
  using hex_pairs_text [of "[]" bs] by (simp add: hex_to_bytes_def)

end
