(* ===== verification/Init_Process.thy ===== *)
theory Init_Process
  imports Process_Lib Text "HOL-Library.Char_ord" "HOL-Library.List_Lexorder"
begin

text \<open>
  Init, the first process: \<^verbatim>\<open>zos-init/src/{lib,registry,bootstrap}.rs\<close> and
  \<^verbatim>\<open>zos-init/src/handlers/{service,supervisor}.rs\<close>. It keeps the registry of services, spawns them at
  boot and delivers messages for the supervisor with the capabilities it has been granted. It runs
  over the call library, so an operation takes a host and maps the state of Init and of its caller
  side to the new ones. Its console log is not modelled; the messages it writes to the debug channel
  as answers to the supervisor are.
\<close>

section \<open>Message tags\<close>

definition MSG_CONSOLE_INPUT :: u32 where "MSG_CONSOLE_INPUT = 0x0002"
definition INIT_MSG_REGISTER_SERVICE :: u32 where "INIT_MSG_REGISTER_SERVICE = 0x1000"
definition MSG_LOOKUP_SERVICE :: u32 where "MSG_LOOKUP_SERVICE = 0x1001"
definition MSG_SPAWN_SERVICE :: u32 where "MSG_SPAWN_SERVICE = 0x1003"
definition MSG_SERVICE_READY :: u32 where "MSG_SERVICE_READY = 0x1005"
definition MSG_SERVICE_CAP_GRANTED :: u32 where "MSG_SERVICE_CAP_GRANTED = 0x1006"
definition MSG_VFS_RESPONSE_CAP_GRANTED :: u32 where "MSG_VFS_RESPONSE_CAP_GRANTED = 0x1007"
definition MSG_SERVICE_CAP_PREREGISTER :: u32 where "MSG_SERVICE_CAP_PREREGISTER = 0x1008"
definition MSG_SUPERVISOR_CONSOLE_INPUT :: u32 where "MSG_SUPERVISOR_CONSOLE_INPUT = 0x2001"
definition MSG_SUPERVISOR_KILL_PROCESS :: u32 where "MSG_SUPERVISOR_KILL_PROCESS = 0x2002"
definition MSG_SUPERVISOR_IPC_DELIVERY :: u32 where "MSG_SUPERVISOR_IPC_DELIVERY = 0x2003"
definition MSG_SUPERVISOR_SPAWN_PROCESS :: u32 where "MSG_SUPERVISOR_SPAWN_PROCESS = 0x2004"
definition MSG_SUPERVISOR_CREATE_ENDPOINT :: u32 where "MSG_SUPERVISOR_CREATE_ENDPOINT = 0x2006"
definition MSG_SUPERVISOR_GRANT_CAP :: u32 where "MSG_SUPERVISOR_GRANT_CAP = 0x2008"

lemmas init_tags =
  MSG_CONSOLE_INPUT_def INIT_MSG_REGISTER_SERVICE_def MSG_LOOKUP_SERVICE_def MSG_SPAWN_SERVICE_def
  MSG_SERVICE_READY_def MSG_SERVICE_CAP_GRANTED_def MSG_VFS_RESPONSE_CAP_GRANTED_def
  MSG_SERVICE_CAP_PREREGISTER_def MSG_SUPERVISOR_CONSOLE_INPUT_def MSG_SUPERVISOR_KILL_PROCESS_def
  MSG_SUPERVISOR_IPC_DELIVERY_def MSG_SUPERVISOR_SPAWN_PROCESS_def MSG_SUPERVISOR_CREATE_ENDPOINT_def
  MSG_SUPERVISOR_GRANT_CAP_def

section \<open>State\<close>

record service_info =
  si_pid :: u32
  si_endpoint_id :: u64
  si_ready :: bool

record pending_delivery =
  pd_target_pid :: u32
  pd_endpoint_slot :: u32
  pd_tag :: u32
  pd_data :: "u8 list"

record init =
  it_services :: "(string, service_info) btree_map"
  it_service_cap_slots :: "(u32, u32) btree_map"
  it_service_vfs_slots :: "(u32, u32) btree_map"
  it_pending_deliveries :: "(u32, pending_delivery list) btree_map"
  it_endpoint_slot :: u32
  it_boot_complete :: bool

definition init_new :: init where
  "init_new = \<lparr>it_services = [], it_service_cap_slots = [], it_service_vfs_slots = [],
     it_pending_deliveries = [], it_endpoint_slot = 1, it_boot_complete = False\<rparr>"

type_synonym 's init_state = "init \<times> 's caller"

section \<open>Service registry\<close>

definition init_register :: "received_message \<Rightarrow> init \<Rightarrow> init" where
  "init_register msg i =
     (let d = rv_data msg
      in if length d < 9 then i
         else
           let name_len = unat (d ! 0)
           in if length d < 1 + name_len + 8 then i
              else (case from_utf8 (take name_len (drop 1 d)) of
                      None \<Rightarrow> i
                    | Some name \<Rightarrow>
                        let endpoint_id_low = u32_from_le_bytes (take 4 (drop (1 + name_len) d));
                            endpoint_id_high = u32_from_le_bytes (take 4 (drop (5 + name_len) d));
                            info = \<lparr>si_pid = rv_from_pid msg,
                                    si_endpoint_id = push_bit 32 (ucast endpoint_id_high)
                                                     OR ucast endpoint_id_low,
                                    si_ready = False\<rparr>
                        in i\<lparr>it_services := bt_insert name info (it_services i)\<rparr>))"

definition init_lookup :: "'s host \<Rightarrow> received_message \<Rightarrow> 's init_state \<Rightarrow> 's init_state" where
  "init_lookup host msg = (\<lambda>(i, st).
     let d = rv_data msg
     in if d = [] then (i, st)
        else
          let name_len = unat (d ! 0)
          in if length d < 1 + name_len then (i, st)
             else (case from_utf8 (take name_len (drop 1 d)) of
                     None \<Rightarrow> (i, st)
                   | Some name \<Rightarrow>
                       let (found, endpoint_id) =
                             (case bt_get (it_services i) name of
                                Some info \<Rightarrow> (1 :: u8, si_endpoint_id info)
                              | None \<Rightarrow> (0, 0))
                       in (i, zp_debug host (''INIT:LOOKUP_RESPONSE:'' @ dec_text (rv_from_pid msg) @ '':''
                                 @ dec_text found @ '':'' @ dec_text endpoint_id) st)))"

text \<open>The loop of \<^verbatim>\<open>handle_ready\<close>: the first service of the process is marked.\<close>

fun mark_ready :: "u32 \<Rightarrow> (string \<times> service_info) list \<Rightarrow> (string \<times> service_info) list" where
  "mark_ready pid [] = []"
| "mark_ready pid ((name, info) # rest) =
     (if si_pid info = pid then (name, info\<lparr>si_ready := True\<rparr>) # rest
      else (name, info) # mark_ready pid rest)"

definition init_ready :: "received_message \<Rightarrow> init \<Rightarrow> init" where
  "init_ready msg i = i\<lparr>it_services := mark_ready (rv_from_pid msg) (it_services i)\<rparr>"

section \<open>Boot\<close>

definition init_spawn_service :: "'s host \<Rightarrow> string \<Rightarrow> 's init_state \<Rightarrow> 's init_state" where
  "init_spawn_service host name = (\<lambda>(i, st).
     case zp_load_binary host name st of
       (Inr binary, st) \<Rightarrow>
         (case zp_spawn_process host name binary st of
            (Inr pid, st) \<Rightarrow>
              (case zp_create_endpoint_for host pid st of
                 (Inr (endpoint_id, slot), st) \<Rightarrow>
                   (i\<lparr>it_service_cap_slots := bt_insert pid slot (it_service_cap_slots i)\<rparr>, st)
               | (Inl _, st) \<Rightarrow> (i, st))
          | (Inl _, st) \<Rightarrow> (i, st))
     | (Inl e, st) \<Rightarrow>
         if e = syscall_error_NOT_SUPPORTED then (i, zp_debug host (''INIT:SPAWN:'' @ name) st)
         else (i, st))"

definition init_try_spawn_qemu_terminal :: "'s host \<Rightarrow> 's init_state \<Rightarrow> 's init_state" where
  "init_try_spawn_qemu_terminal host = (\<lambda>(i, st).
     case zp_load_binary host ''terminal'' st of
       (Inr binary, st) \<Rightarrow>
         (case zp_spawn_process host ''terminal'' binary st of
            (Inr pid, st) \<Rightarrow>
              (case zp_create_endpoint_for host pid st of
                 (Inr (endpoint_id, slot), st) \<Rightarrow>
                   (i\<lparr>it_service_cap_slots := bt_insert pid slot (it_service_cap_slots i)\<rparr>, st)
               | (Inl _, st) \<Rightarrow> (i, st))
          | (Inl _, st) \<Rightarrow> (i, st))
     | (Inl e, st) \<Rightarrow> (i, st))"

definition init_boot_sequence :: "'s host \<Rightarrow> 's init_state \<Rightarrow> 's init_state" where
  "init_boot_sequence host s =
     (let s = init_spawn_service host ''permission'' s;
          s = init_spawn_service host ''vfs'' s;
          s = init_spawn_service host ''keystore'' s;
          s = init_spawn_service host ''identity'' s;
          s = init_spawn_service host ''time'' s;
          (i, st) = init_try_spawn_qemu_terminal host s
      in (i\<lparr>it_boot_complete := True\<rparr>, st))"

section \<open>Service protocol\<close>

definition init_spawn_request :: "'s host \<Rightarrow> received_message \<Rightarrow> 's init_state \<Rightarrow> 's init_state" where
  "init_spawn_request host msg = (\<lambda>(i, st).
     let d = rv_data msg
     in if d = [] then (i, st)
        else
          let name_len = unat (d ! 0)
          in if length d < 1 + name_len then (i, st)
             else (case from_utf8 (take name_len (drop 1 d)) of
                     None \<Rightarrow> (i, st)
                   | Some name \<Rightarrow> (i, zp_debug host (''INIT:SPAWN:'' @ name) st)))"

definition init_service_cap_preregister :: "received_message \<Rightarrow> init \<Rightarrow> init" where
  "init_service_cap_preregister msg i =
     (let d = rv_data msg
      in if rv_from_pid msg \<noteq> 0 then i
         else if length d < 8 then i
         else
           let service_pid = u32_from_le_bytes (take 4 d);
               cap_slot = u32_from_le_bytes (take 4 (drop 4 d))
           in i\<lparr>it_service_cap_slots := bt_insert service_pid cap_slot (it_service_cap_slots i)\<rparr>)"

fun retry_sends :: "'s host \<Rightarrow> u32 \<Rightarrow> pending_delivery list \<Rightarrow> 's caller \<Rightarrow> 's caller" where
  "retry_sends host cap_slot [] st = st"
| "retry_sends host cap_slot (delivery # rest) st =
     retry_sends host cap_slot rest (snd (zp_send host cap_slot (pd_tag delivery) (pd_data delivery) st))"

definition init_retry_pending_deliveries :: "'s host \<Rightarrow> u32 \<Rightarrow> u32 \<Rightarrow> 's init_state \<Rightarrow> 's init_state" where
  "init_retry_pending_deliveries host service_pid cap_slot = (\<lambda>(i, st).
     case bt_get (it_pending_deliveries i) service_pid of
       None \<Rightarrow> (i, st)
     | Some pending \<Rightarrow>
         (i\<lparr>it_pending_deliveries := bt_remove service_pid (it_pending_deliveries i)\<rparr>,
          retry_sends host cap_slot pending st))"

definition init_service_cap_granted :: "'s host \<Rightarrow> received_message \<Rightarrow> 's init_state \<Rightarrow> 's init_state" where
  "init_service_cap_granted host msg = (\<lambda>(i, st).
     let d = rv_data msg
     in if rv_from_pid msg \<noteq> 0 then (i, st)
        else if length d < 8 then (i, st)
        else
          let service_pid = u32_from_le_bytes (take 4 d);
              cap_slot = u32_from_le_bytes (take 4 (drop 4 d));
              i = i\<lparr>it_service_cap_slots := bt_insert service_pid cap_slot (it_service_cap_slots i)\<rparr>
          in init_retry_pending_deliveries host service_pid cap_slot (i, st))"

definition init_vfs_response_cap_granted :: "received_message \<Rightarrow> init \<Rightarrow> init" where
  "init_vfs_response_cap_granted msg i =
     (let d = rv_data msg
      in if rv_from_pid msg \<noteq> 0 then i
         else if length d < 8 then i
         else
           let service_pid = u32_from_le_bytes (take 4 d);
               cap_slot = u32_from_le_bytes (take 4 (drop 4 d))
           in i\<lparr>it_service_vfs_slots := bt_insert service_pid cap_slot (it_service_vfs_slots i)\<rparr>)"

section \<open>Supervisor protocol\<close>

definition init_supervisor_console_input ::
  "'s host \<Rightarrow> received_message \<Rightarrow> 's init_state \<Rightarrow> 's init_state" where
  "init_supervisor_console_input host msg = (\<lambda>(i, st).
     let d = rv_data msg
     in if rv_from_pid msg \<noteq> 0 then (i, st)
        else if length d < 10 then (i, st)
        else
          let target_pid = u32_from_le_bytes (take 4 d);
              data_len = le_bytes_nat (take 2 (drop 8 d))
          in if length d < 10 + data_len then (i, st)
             else
               let input_data = take data_len (drop 10 d)
               in (case bt_get (it_service_cap_slots i) target_pid of
                     Some cap_slot \<Rightarrow> (i, snd (zp_send host cap_slot MSG_CONSOLE_INPUT input_data st))
                   | None \<Rightarrow> (i, st)))"

definition init_supervisor_kill_process ::
  "'s host \<Rightarrow> received_message \<Rightarrow> 's init_state \<Rightarrow> 's init_state" where
  "init_supervisor_kill_process host msg = (\<lambda>(i, st).
     let d = rv_data msg
     in if rv_from_pid msg \<noteq> 0 then (i, st)
        else if length d < 4 then (i, st)
        else
          let target_pid = u32_from_le_bytes (take 4 d)
          in (case zp_kill host target_pid st of
                (Inr _, st) \<Rightarrow> (i, zp_debug host (''INIT:KILL_OK:'' @ dec_text target_pid) st)
              | (Inl e, st) \<Rightarrow>
                  (i, zp_debug host (''INIT:KILL_FAIL:'' @ dec_text target_pid @ '':'' @ dec_text e) st)))"

definition init_supervisor_ipc_delivery ::
  "'s host \<Rightarrow> received_message \<Rightarrow> 's init_state \<Rightarrow> 's init_state" where
  "init_supervisor_ipc_delivery host msg = (\<lambda>(i, st).
     let d = rv_data msg
     in if rv_from_pid msg \<noteq> 0 then (i, st)
        else if length d < 14 then (i, st)
        else
          let target_pid = u32_from_le_bytes (take 4 d);
              endpoint_slot = u32_from_le_bytes (take 4 (drop 4 d));
              tag = u32_from_le_bytes (take 4 (drop 8 d));
              data_len = le_bytes_nat (take 2 (drop 12 d))
          in if length d < 14 + data_len then (i, st)
             else
               let ipc_data = take data_len (drop 14 d);
                   cap_slot = (if endpoint_slot = 4 then bt_get (it_service_vfs_slots i) target_pid
                               else bt_get (it_service_cap_slots i) target_pid)
               in (case cap_slot of
                     Some cap_slot \<Rightarrow> (i, snd (zp_send host cap_slot tag ipc_data st))
                   | None \<Rightarrow>
                       let pending = \<lparr>pd_target_pid = target_pid, pd_endpoint_slot = endpoint_slot,
                                      pd_tag = tag, pd_data = ipc_data\<rparr>;
                           waiting = (case bt_get (it_pending_deliveries i) target_pid of
                                        Some v \<Rightarrow> v | None \<Rightarrow> [])
                       in (i\<lparr>it_pending_deliveries :=
                               bt_insert target_pid (waiting @ [pending]) (it_pending_deliveries i)\<rparr>,
                           zp_debug host (''ERROR:IPC_DELIVERY_FAILED:no_capability:pid='' @ dec_text target_pid
                             @ '':slot='' @ dec_text endpoint_slot @ '':tag=0x'' @ num_text 16 (unat tag)) st)))"

definition init_send_spawn_response :: "'s host \<Rightarrow> u8 \<Rightarrow> u32 \<Rightarrow> 's caller \<Rightarrow> 's caller" where
  "init_send_spawn_response host success pid =
     zp_debug host (''SPAWN:RESPONSE:'' @ hex_text (success # u32_to_le_bytes pid))"

definition init_supervisor_spawn_process ::
  "'s host \<Rightarrow> received_message \<Rightarrow> 's init_state \<Rightarrow> 's init_state" where
  "init_supervisor_spawn_process host msg = (\<lambda>(i, st).
     let d = rv_data msg
     in if rv_from_pid msg \<noteq> 0 then (i, st)
        else if d = [] then (i, init_send_spawn_response host 0 0 st)
        else
          let name_len = unat (d ! 0)
          in if length d < 1 + name_len then (i, init_send_spawn_response host 0 0 st)
             else (case from_utf8 (take name_len (drop 1 d)) of
                     None \<Rightarrow> (i, init_send_spawn_response host 0 0 st)
                   | Some name \<Rightarrow>
                       (case zp_register_process host name st of
                          (Inr pid, st) \<Rightarrow> (i, init_send_spawn_response host 1 pid st)
                        | (Inl _, st) \<Rightarrow> (i, init_send_spawn_response host 0 0 st))))"

definition init_send_endpoint_response :: "'s host \<Rightarrow> u8 \<Rightarrow> u64 \<Rightarrow> u32 \<Rightarrow> 's caller \<Rightarrow> 's caller" where
  "init_send_endpoint_response host success endpoint_id slot =
     zp_debug host (''ENDPOINT:RESPONSE:''
       @ hex_text (success # u64_to_le_bytes endpoint_id @ u32_to_le_bytes slot))"

definition init_supervisor_create_endpoint ::
  "'s host \<Rightarrow> received_message \<Rightarrow> 's init_state \<Rightarrow> 's init_state" where
  "init_supervisor_create_endpoint host msg = (\<lambda>(i, st).
     let d = rv_data msg
     in if rv_from_pid msg \<noteq> 0 then (i, st)
        else if length d < 4 then (i, init_send_endpoint_response host 0 0 0 st)
        else
          let target_pid = u32_from_le_bytes (take 4 d)
          in (case zp_create_endpoint_for host target_pid st of
                (Inr (endpoint_id, slot), st) \<Rightarrow> (i, init_send_endpoint_response host 1 endpoint_id slot st)
              | (Inl _, st) \<Rightarrow> (i, init_send_endpoint_response host 0 0 0 st)))"

definition init_send_cap_response :: "'s host \<Rightarrow> u8 \<Rightarrow> u32 \<Rightarrow> 's caller \<Rightarrow> 's caller" where
  "init_send_cap_response host success new_slot =
     zp_debug host (''CAP:RESPONSE:'' @ hex_text (success # u32_to_le_bytes new_slot))"

definition init_supervisor_grant_cap ::
  "'s host \<Rightarrow> received_message \<Rightarrow> 's init_state \<Rightarrow> 's init_state" where
  "init_supervisor_grant_cap host msg = (\<lambda>(i, st).
     let d = rv_data msg
     in if rv_from_pid msg \<noteq> 0 then (i, st)
        else if length d < 13 then (i, init_send_cap_response host 0 0 st)
        else
          let from_slot = u32_from_le_bytes (take 4 (drop 4 d));
              to_pid = u32_from_le_bytes (take 4 (drop 8 d));
              perms = d ! 12
          in (case zp_cap_grant host from_slot to_pid (perms_from_byte perms) st of
                (Inr new_slot, st) \<Rightarrow> (i, init_send_cap_response host 1 new_slot st)
              | (Inl _, st) \<Rightarrow> (i, init_send_cap_response host 0 0 st)))"

section \<open>The main loop\<close>

definition init_handle_message :: "'s host \<Rightarrow> received_message \<Rightarrow> 's init_state \<Rightarrow> 's init_state" where
  "init_handle_message host msg s =
     (let tag = rv_tag msg
      in if tag = INIT_MSG_REGISTER_SERVICE then (init_register msg (fst s), snd s)
         else if tag = MSG_LOOKUP_SERVICE then init_lookup host msg s
         else if tag = MSG_SERVICE_READY then (init_ready msg (fst s), snd s)
         else if tag = MSG_SPAWN_SERVICE then init_spawn_request host msg s
         else if tag = MSG_SUPERVISOR_CONSOLE_INPUT then init_supervisor_console_input host msg s
         else if tag = MSG_SUPERVISOR_KILL_PROCESS then init_supervisor_kill_process host msg s
         else if tag = MSG_SUPERVISOR_IPC_DELIVERY then init_supervisor_ipc_delivery host msg s
         else if tag = MSG_SERVICE_CAP_GRANTED then init_service_cap_granted host msg s
         else if tag = MSG_SERVICE_CAP_PREREGISTER then (init_service_cap_preregister msg (fst s), snd s)
         else if tag = MSG_VFS_RESPONSE_CAP_GRANTED then (init_vfs_response_cap_granted msg (fst s), snd s)
         else if tag = MSG_SUPERVISOR_SPAWN_PROCESS then init_supervisor_spawn_process host msg s
         else if tag = MSG_SUPERVISOR_CREATE_ENDPOINT then init_supervisor_create_endpoint host msg s
         else if tag = MSG_SUPERVISOR_GRANT_CAP then init_supervisor_grant_cap host msg s
         else s)"

text \<open>
  One round of the loop of \<^verbatim>\<open>run\<close>, up to the yield, and the state after \<open>n\<close> rounds; the loop itself
  does not end.
\<close>

definition init_poll :: "'s host \<Rightarrow> 's init_state \<Rightarrow> 's init_state" where
  "init_poll host = (\<lambda>(i, st).
     case zp_receive host (it_endpoint_slot i) st of
       (Inr msg, st) \<Rightarrow> init_handle_message host msg (i, st)
     | (Inl _, st) \<Rightarrow> (i, st))"

fun init_rounds :: "'s host \<Rightarrow> ('s \<Rightarrow> 's) \<Rightarrow> nat \<Rightarrow> 's init_state \<Rightarrow> 's init_state" where
  "init_rounds host yield_now 0 s = s"
| "init_rounds host yield_now (Suc n) s =
     (let (i, mailbox, h) = init_poll host s in init_rounds host yield_now n (i, mailbox, yield_now h))"

definition init_run :: "'s host \<Rightarrow> ('s \<Rightarrow> 's) \<Rightarrow> nat \<Rightarrow> 's caller \<Rightarrow> 's init_state" where
  "init_run host yield_now n st = init_rounds host yield_now n (init_boot_sequence host (init_new, st))"

lemmas init_handlers =
  init_register_def init_lookup_def init_ready_def init_spawn_request_def
  init_supervisor_console_input_def init_supervisor_kill_process_def init_supervisor_ipc_delivery_def
  init_service_cap_granted_def init_service_cap_preregister_def init_vfs_response_cap_granted_def
  init_supervisor_spawn_process_def init_supervisor_create_endpoint_def init_supervisor_grant_cap_def

section \<open>Who may ask for what\<close>

text \<open>The part of the state of Init that decides where messages go.\<close>

definition init_routes ::
  "init \<Rightarrow> (u32, u32) btree_map \<times> (u32, u32) btree_map \<times> (u32, pending_delivery list) btree_map
         \<times> u32 \<times> bool" where
  "init_routes i = (it_service_cap_slots i, it_service_vfs_slots i, it_pending_deliveries i,
                    it_endpoint_slot i, it_boot_complete i)"


text \<open>A host that records the calls and accepts them all.\<close>

definition example_host :: "(u32 \<times> (u32 \<times> u32 \<times> u32) \<times> u8 list) list host" where
  "example_host num args mailbox calls = (0, [], calls @ [(num, args, mailbox)])"

definition example_intruder :: received_message where
  "example_intruder = \<lparr>rv_from_pid = 7, rv_tag = MSG_SUPERVISOR_KILL_PROCESS, rv_cap_slots = [],
     rv_data = [3, 0, 0, 0]\<rparr>"


section \<open>Delivery\<close>

text \<open>The request the supervisor sends for a message to slot \<open>endpoint_slot\<close> of process \<open>target_pid\<close>.\<close>

definition delivery_payload :: "u64 \<Rightarrow> u32 \<Rightarrow> u32 \<Rightarrow> u8 list \<Rightarrow> u8 list" where
  "delivery_payload target_pid endpoint_slot tag data =
     u32_to_le_bytes (ucast target_pid) @ u32_to_le_bytes endpoint_slot @ u32_to_le_bytes tag
     @ u16_to_le_bytes (of_nat (length data)) @ data"

definition delivery_message :: "u64 \<Rightarrow> u32 \<Rightarrow> u32 \<Rightarrow> u8 list \<Rightarrow> received_message" where
  "delivery_message target_pid endpoint_slot tag data =
     \<lparr>rv_from_pid = 0, rv_tag = MSG_SUPERVISOR_IPC_DELIVERY, rv_cap_slots = [],
      rv_data = delivery_payload target_pid endpoint_slot tag data\<rparr>"

lemma length_u16 [simp]: "length (u16_to_le_bytes w) = 2"
  by (simp add: u16_to_le_bytes_def)

lemma u16_le_bytes_inverse: "le_bytes_nat (u16_to_le_bytes w) = unat w"
proof -
  have "unat w < 2 ^ LENGTH(16)"
    by (rule unsigned_less)
  then show ?thesis
    by (simp add: u16_to_le_bytes_def le_bytes_nat_inverse)
qed

lemma delivery_payload_fields:
  fixes target_pid endpoint_slot tag data
  defines "p \<equiv> delivery_payload target_pid endpoint_slot tag data"
  shows "length p = 14 + length data" "take 4 p = u32_to_le_bytes (ucast target_pid)"
    "take 4 (drop 4 p) = u32_to_le_bytes endpoint_slot" "take 4 (drop 8 p) = u32_to_le_bytes tag"
    "take 2 (drop 12 p) = u16_to_le_bytes (of_nat (length data))" "drop 14 p = data"
  by (simp_all add: p_def delivery_payload_def)

text \<open>
  The length field has 16 bits: a payload of \<open>65536\<close> bytes or more is delivered up to its length
  modulo \<open>65536\<close>, and nothing is reported.
\<close>

lemma delivery_parsed:
  "init_supervisor_ipc_delivery host (delivery_message target_pid endpoint_slot tag data) (i, st)
   = (let ipc_data = take (length data mod 65536) data
      in (case (if endpoint_slot = 4 then bt_get (it_service_vfs_slots i) (ucast target_pid)
                else bt_get (it_service_cap_slots i) (ucast target_pid)) of
            Some cap_slot \<Rightarrow> (i, snd (zp_send host cap_slot tag ipc_data st))
          | None \<Rightarrow>
              (i\<lparr>it_pending_deliveries :=
                   bt_insert (ucast target_pid)
                     ((case bt_get (it_pending_deliveries i) (ucast target_pid) of Some v \<Rightarrow> v | None \<Rightarrow> [])
                      @ [\<lparr>pd_target_pid = ucast target_pid, pd_endpoint_slot = endpoint_slot,
                          pd_tag = tag, pd_data = ipc_data\<rparr>]) (it_pending_deliveries i)\<rparr>,
               zp_debug host (''ERROR:IPC_DELIVERY_FAILED:no_capability:pid='' @ dec_text (ucast target_pid :: u32)
                 @ '':slot='' @ dec_text endpoint_slot @ '':tag=0x'' @ num_text 16 (unat tag)) st)))"
proof -
  have n: "le_bytes_nat (u16_to_le_bytes (of_nat (length data))) = length data mod 65536"
    by (simp add: u16_le_bytes_inverse unat_of_nat)
  have "\<not> length data < length data mod 65536"
    by (simp add: not_less)
  then show ?thesis
    by (simp add: init_supervisor_ipc_delivery_def delivery_message_def delivery_payload_fields n Let_def
        split: option.split)
qed

fun deliver_all :: "'s host \<Rightarrow> u64 \<Rightarrow> (u32 \<times> u8 list) list \<Rightarrow> 's init_state \<Rightarrow> 's init_state" where
  "deliver_all host pid [] s = s"
| "deliver_all host pid ((tag, data) # rest) s =
     deliver_all host pid rest (init_handle_message host (delivery_message pid 1 tag data) s)"

fun send_all :: "'s host \<Rightarrow> u32 \<Rightarrow> (u32 \<times> u8 list) list \<Rightarrow> 's caller \<Rightarrow> 's caller" where
  "send_all host slot [] st = st"
| "send_all host slot ((tag, data) # rest) st = send_all host slot rest (snd (zp_send host slot tag data st))"

definition waiting_for :: "init \<Rightarrow> u32 \<Rightarrow> pending_delivery list" where
  "waiting_for i pid = (case bt_get (it_pending_deliveries i) pid of Some v \<Rightarrow> v | None \<Rightarrow> [])"

lemma deliver_all_waits:
  assumes "bt_get (it_service_cap_slots (fst s)) (ucast pid) = None" "\<forall>(tag, data) \<in> set msgs. length data < 65536"
  shows "\<exists>waiting. map (\<lambda>d. (pd_tag d, pd_data d)) waiting = msgs
          \<and> waiting_for (fst (deliver_all host pid msgs s)) (ucast pid) = waiting_for (fst s) (ucast pid) @ waiting
          \<and> it_service_cap_slots (fst (deliver_all host pid msgs s)) = it_service_cap_slots (fst s)"
  using assms
proof (induction msgs arbitrary: s)
  case Nil
  then show ?case by simp
next
  case (Cons m msgs)
  obtain tag data where m: "m = (tag, data)" by force
  obtain i st where s: "s = (i, st)" by (cases s)
  let ?s = "init_handle_message host (delivery_message pid 1 tag data) s"
  let ?d = "\<lparr>pd_target_pid = ucast pid, pd_endpoint_slot = 1, pd_tag = tag, pd_data = data\<rparr>"
  have "length data < 65536"
    using Cons.prems(2) m by auto
  moreover have "rv_tag (delivery_message pid 1 tag data) = MSG_SUPERVISOR_IPC_DELIVERY"
    by (simp add: delivery_message_def)
  then have "?s = init_supervisor_ipc_delivery host (delivery_message pid 1 tag data) (i, st)"
    by (simp add: init_handle_message_def s init_tags)
  ultimately have step: "waiting_for (fst ?s) (ucast pid) = waiting_for i (ucast pid) @ [?d]"
    "it_service_cap_slots (fst ?s) = it_service_cap_slots i"
    using Cons.prems(1) s by (simp_all add: delivery_parsed waiting_for_def)
  have "\<exists>waiting. map (\<lambda>d. (pd_tag d, pd_data d)) waiting = msgs
          \<and> waiting_for (fst (deliver_all host pid msgs ?s)) (ucast pid) = waiting_for (fst ?s) (ucast pid) @ waiting
          \<and> it_service_cap_slots (fst (deliver_all host pid msgs ?s)) = it_service_cap_slots (fst ?s)"
    using Cons.prems s step by (intro Cons.IH) auto
  then obtain waiting where w: "map (\<lambda>d. (pd_tag d, pd_data d)) waiting = msgs"
    "waiting_for (fst (deliver_all host pid msgs ?s)) (ucast pid) = waiting_for (fst ?s) (ucast pid) @ waiting"
    "it_service_cap_slots (fst (deliver_all host pid msgs ?s)) = it_service_cap_slots (fst ?s)" by blast
  show ?case
    using w step m s by (intro exI [of _ "?d # waiting"]) simp
qed

lemma retry_sends_all: "retry_sends host slot ds st = send_all host slot (map (\<lambda>d. (pd_tag d, pd_data d)) ds) st"
  by (induction ds arbitrary: st) auto

definition cap_granted_message :: "u32 \<Rightarrow> u32 \<Rightarrow> u32 \<Rightarrow> received_message" where
  "cap_granted_message tag pid slot =
     \<lparr>rv_from_pid = 0, rv_tag = tag, rv_cap_slots = [], rv_data = u32_to_le_bytes pid @ u32_to_le_bytes slot\<rparr>"



end
