(* ===== verification/Supervisor_Hal.thy ===== *)
theory Supervisor_Hal
  imports Init_Process
begin

text \<open>
  The platform of the browser, \<^verbatim>\<open>zos-supervisor/src/hal/{mod,storage,network,process}.rs\<close> and
  \<^verbatim>\<open>worker.rs\<close>: the workers with their mailboxes, and the tables of storage, keystore and network
  requests that have been started and not yet answered. JavaScript is outside the model: what it is
  asked to do is recorded in a trace, and what its environment offers is the record \<open>js_env\<close>. A
  \<^verbatim>\<open>HashMap\<close> is an ordered map here; only \<^verbatim>\<open>poll_syscalls\<close> iterates over one, and takes its order from the
  map.
\<close>

section \<open>JavaScript\<close>

record js_env =
  je_now_nanos :: u64
  je_wallclock_ms :: u64
  je_storage :: bool
  je_keystore :: bool
  je_network :: bool
  je_json_parses :: "string \<Rightarrow> bool"
  je_worker_created :: bool
  je_worker_posted :: bool

datatype storage_request =
    ReqRead string
  | ReqWrite string "u8 list"
  | ReqDelete string
  | ReqList string
  | ReqExists string

type_synonym js_function = nat

datatype js_call =
    StartStorage u32 storage_request
  | StartBatchWrite u32 "(string \<times> u8 list) list"
  | StartKeystore u32 storage_request
  | StartFetch u32 u64 string
  | PostInit u64 "u8 list"
  | Terminate u64
  | Invoke js_function "string list"

section \<open>Workers\<close>

definition STATUS_IDLE :: i32 where "STATUS_IDLE = 0"
definition STATUS_PENDING :: i32 where "STATUS_PENDING = 1"
definition STATUS_READY :: i32 where "STATUS_READY = 2"

text \<open>The cells of the mailbox, with \<open>mb_data\<close> the memory from byte 28 on.\<close>

record mailbox =
  mb_status :: i32
  mb_syscall_num :: u32
  mb_args :: "u32 \<times> u32 \<times> u32"
  mb_result :: i32
  mb_data_len :: i32
  mb_data :: "u8 list"

record worker =
  wk_name :: string
  wk_alive :: bool
  wk_memory_size :: usize
  wk_worker_id :: u64
  wk_mailbox :: mailbox

record pending_syscall =
  ps_pid :: u64
  ps_syscall_num :: u32
  ps_args :: "u32 \<times> u32 \<times> u32"

datatype worker_message_type =
    WorkerReady usize
  | MemoryUpdate usize
  | WorkerError string
  | WorkerTerminated
  | WorkerYield

record worker_message =
  wm_pid :: u64
  wm_type :: worker_message_type

record wasm_hal =
  wh_next_pid :: u64
  wh_processes :: "(u64, worker) btree_map"
  wh_incoming :: "worker_message list"
  wh_next_storage_id :: u32
  wh_pending_storage :: "(u32, u64) btree_map"
  wh_next_network_id :: u32
  wh_pending_network :: "(u32, u64) btree_map"
  wh_next_keystore_id :: u32
  wh_pending_keystore :: "(u32, u64) btree_map"
  wh_js :: "js_call list"

definition wasm_hal_new :: wasm_hal where
  "wasm_hal_new = \<lparr>wh_next_pid = 1, wh_processes = [], wh_incoming = [], wh_next_storage_id = 1,
     wh_pending_storage = [], wh_next_network_id = 1, wh_pending_network = [], wh_next_keystore_id = 1,
     wh_pending_keystore = [], wh_js = []\<rparr>"

definition js_ask :: "js_call \<Rightarrow> wasm_hal \<Rightarrow> wasm_hal" where
  "js_ask c h = h\<lparr>wh_js := wh_js h @ [c]\<rparr>"

section \<open>Request tables\<close>

definition MAX_PENDING_STORAGE_REQUESTS :: usize where "MAX_PENDING_STORAGE_REQUESTS = 1000"
definition MAX_PENDING_NETWORK_REQUESTS :: usize where "MAX_PENDING_NETWORK_REQUESTS = 100"
definition MAX_PENDING_KEYSTORE_REQUESTS :: usize where "MAX_PENDING_KEYSTORE_REQUESTS = 1000"

definition next_request_id :: "wasm_hal \<Rightarrow> u32 \<times> wasm_hal" where
  "next_request_id h = (wh_next_storage_id h, h\<lparr>wh_next_storage_id := wh_next_storage_id h + 1\<rparr>)"

definition next_network_request_id :: "wasm_hal \<Rightarrow> u32 \<times> wasm_hal" where
  "next_network_request_id h = (wh_next_network_id h, h\<lparr>wh_next_network_id := wh_next_network_id h + 1\<rparr>)"

definition next_keystore_request_id :: "wasm_hal \<Rightarrow> u32 \<times> wasm_hal" where
  "next_keystore_request_id h = (wh_next_keystore_id h, h\<lparr>wh_next_keystore_id := wh_next_keystore_id h + 1\<rparr>)"

definition record_pending_request :: "u32 \<Rightarrow> u64 \<Rightarrow> wasm_hal \<Rightarrow> bool \<times> wasm_hal" where
  "record_pending_request request_id pid h =
     (if length (wh_pending_storage h) \<ge> MAX_PENDING_STORAGE_REQUESTS then (False, h)
      else (True, h\<lparr>wh_pending_storage := bt_insert request_id pid (wh_pending_storage h)\<rparr>))"

definition record_pending_network_request :: "u32 \<Rightarrow> u64 \<Rightarrow> wasm_hal \<Rightarrow> bool \<times> wasm_hal" where
  "record_pending_network_request request_id pid h =
     (if length (wh_pending_network h) \<ge> MAX_PENDING_NETWORK_REQUESTS then (False, h)
      else (True, h\<lparr>wh_pending_network := bt_insert request_id pid (wh_pending_network h)\<rparr>))"

definition record_pending_keystore_request :: "u32 \<Rightarrow> u64 \<Rightarrow> wasm_hal \<Rightarrow> bool \<times> wasm_hal" where
  "record_pending_keystore_request request_id pid h =
     (if length (wh_pending_keystore h) \<ge> MAX_PENDING_KEYSTORE_REQUESTS then (False, h)
      else (True, h\<lparr>wh_pending_keystore := bt_insert request_id pid (wh_pending_keystore h)\<rparr>))"

text \<open>The calls into \<^verbatim>\<open>window.ZosStorage\<close>, \<^verbatim>\<open>window.ZosKeystore\<close> and \<^verbatim>\<open>window.ZosNetwork\<close>.\<close>

definition wh_start_storage_read :: "js_env \<Rightarrow> u32 \<Rightarrow> string \<Rightarrow> wasm_hal \<Rightarrow> wasm_hal" where
  "wh_start_storage_read E request_id key h =
     (if je_storage E then js_ask (StartStorage request_id (ReqRead key)) h else h)"

definition wh_start_storage_write :: "js_env \<Rightarrow> u32 \<Rightarrow> string \<Rightarrow> u8 list \<Rightarrow> wasm_hal \<Rightarrow> wasm_hal" where
  "wh_start_storage_write E request_id key v h =
     (if je_storage E then js_ask (StartStorage request_id (ReqWrite key v)) h else h)"

definition wh_start_storage_delete :: "js_env \<Rightarrow> u32 \<Rightarrow> string \<Rightarrow> wasm_hal \<Rightarrow> wasm_hal" where
  "wh_start_storage_delete E request_id key h =
     (if je_storage E then js_ask (StartStorage request_id (ReqDelete key)) h else h)"

definition wh_start_storage_list :: "js_env \<Rightarrow> u32 \<Rightarrow> string \<Rightarrow> wasm_hal \<Rightarrow> wasm_hal" where
  "wh_start_storage_list E request_id prefix h =
     (if je_storage E then js_ask (StartStorage request_id (ReqList prefix)) h else h)"

definition wh_start_storage_exists :: "js_env \<Rightarrow> u32 \<Rightarrow> string \<Rightarrow> wasm_hal \<Rightarrow> wasm_hal" where
  "wh_start_storage_exists E request_id key h =
     (if je_storage E then js_ask (StartStorage request_id (ReqExists key)) h else h)"

definition wh_start_storage_batch_write ::
  "js_env \<Rightarrow> u32 \<Rightarrow> (string \<times> u8 list) list \<Rightarrow> wasm_hal \<Rightarrow> wasm_hal" where
  "wh_start_storage_batch_write E request_id items h =
     (if je_storage E then js_ask (StartBatchWrite request_id items) h else h)"

definition wh_start_keystore_read :: "js_env \<Rightarrow> u32 \<Rightarrow> string \<Rightarrow> wasm_hal \<Rightarrow> wasm_hal" where
  "wh_start_keystore_read E request_id key h =
     (if je_keystore E then js_ask (StartKeystore request_id (ReqRead key)) h else h)"

definition wh_start_keystore_write :: "js_env \<Rightarrow> u32 \<Rightarrow> string \<Rightarrow> u8 list \<Rightarrow> wasm_hal \<Rightarrow> wasm_hal" where
  "wh_start_keystore_write E request_id key v h =
     (if je_keystore E then js_ask (StartKeystore request_id (ReqWrite key v)) h else h)"

definition wh_start_keystore_delete :: "js_env \<Rightarrow> u32 \<Rightarrow> string \<Rightarrow> wasm_hal \<Rightarrow> wasm_hal" where
  "wh_start_keystore_delete E request_id key h =
     (if je_keystore E then js_ask (StartKeystore request_id (ReqDelete key)) h else h)"

definition wh_start_keystore_list :: "js_env \<Rightarrow> u32 \<Rightarrow> string \<Rightarrow> wasm_hal \<Rightarrow> wasm_hal" where
  "wh_start_keystore_list E request_id prefix h =
     (if je_keystore E then js_ask (StartKeystore request_id (ReqList prefix)) h else h)"

definition wh_start_keystore_exists :: "js_env \<Rightarrow> u32 \<Rightarrow> string \<Rightarrow> wasm_hal \<Rightarrow> wasm_hal" where
  "wh_start_keystore_exists E request_id key h =
     (if je_keystore E then js_ask (StartKeystore request_id (ReqExists key)) h else h)"

definition wh_start_network_fetch :: "js_env \<Rightarrow> u32 \<Rightarrow> u64 \<Rightarrow> string \<Rightarrow> wasm_hal \<Rightarrow> wasm_hal" where
  "wh_start_network_fetch E request_id pid request_json h =
     (if \<not> je_network E then h
      else if \<not> je_json_parses E request_json then h
      else js_ask (StartFetch request_id pid request_json) h)"

text \<open>Give the request an id, record who made it, and start it.\<close>

definition storage_async ::
  "u64 \<Rightarrow> (u32 \<Rightarrow> wasm_hal \<Rightarrow> wasm_hal) \<Rightarrow> wasm_hal \<Rightarrow> (hal_error + u32) \<times> wasm_hal" where
  "storage_async pid start h =
     (let (request_id, h) = next_request_id h;
          (recorded, h) = record_pending_request request_id pid h
      in if \<not> recorded then (Inl ResourceExhausted, h) else (Inr request_id, start request_id h))"

definition keystore_async ::
  "u64 \<Rightarrow> (u32 \<Rightarrow> wasm_hal \<Rightarrow> wasm_hal) \<Rightarrow> wasm_hal \<Rightarrow> (hal_error + u32) \<times> wasm_hal" where
  "keystore_async pid start h =
     (let (request_id, h) = next_keystore_request_id h;
          (recorded, h) = record_pending_keystore_request request_id pid h
      in if \<not> recorded then (Inl ResourceExhausted, h) else (Inr request_id, start request_id h))"

definition do_storage_read_async :: "js_env \<Rightarrow> u64 \<Rightarrow> string \<Rightarrow> wasm_hal \<Rightarrow> (hal_error + u32) \<times> wasm_hal" where
  "do_storage_read_async E pid key = storage_async pid (\<lambda>i. wh_start_storage_read E i key)"

definition do_storage_write_async ::
  "js_env \<Rightarrow> u64 \<Rightarrow> string \<Rightarrow> u8 list \<Rightarrow> wasm_hal \<Rightarrow> (hal_error + u32) \<times> wasm_hal" where
  "do_storage_write_async E pid key v = storage_async pid (\<lambda>i. wh_start_storage_write E i key v)"

definition do_storage_delete_async :: "js_env \<Rightarrow> u64 \<Rightarrow> string \<Rightarrow> wasm_hal \<Rightarrow> (hal_error + u32) \<times> wasm_hal" where
  "do_storage_delete_async E pid key = storage_async pid (\<lambda>i. wh_start_storage_delete E i key)"

definition do_storage_list_async :: "js_env \<Rightarrow> u64 \<Rightarrow> string \<Rightarrow> wasm_hal \<Rightarrow> (hal_error + u32) \<times> wasm_hal" where
  "do_storage_list_async E pid prefix = storage_async pid (\<lambda>i. wh_start_storage_list E i prefix)"

definition do_storage_exists_async :: "js_env \<Rightarrow> u64 \<Rightarrow> string \<Rightarrow> wasm_hal \<Rightarrow> (hal_error + u32) \<times> wasm_hal" where
  "do_storage_exists_async E pid key = storage_async pid (\<lambda>i. wh_start_storage_exists E i key)"

definition do_storage_batch_write_async ::
  "js_env \<Rightarrow> u64 \<Rightarrow> (string \<times> u8 list) list \<Rightarrow> wasm_hal \<Rightarrow> (hal_error + u32) \<times> wasm_hal" where
  "do_storage_batch_write_async E pid items = storage_async pid (\<lambda>i. wh_start_storage_batch_write E i items)"

definition do_keystore_read_async :: "js_env \<Rightarrow> u64 \<Rightarrow> string \<Rightarrow> wasm_hal \<Rightarrow> (hal_error + u32) \<times> wasm_hal" where
  "do_keystore_read_async E pid key = keystore_async pid (\<lambda>i. wh_start_keystore_read E i key)"

definition do_keystore_write_async ::
  "js_env \<Rightarrow> u64 \<Rightarrow> string \<Rightarrow> u8 list \<Rightarrow> wasm_hal \<Rightarrow> (hal_error + u32) \<times> wasm_hal" where
  "do_keystore_write_async E pid key v = keystore_async pid (\<lambda>i. wh_start_keystore_write E i key v)"

definition do_keystore_delete_async :: "js_env \<Rightarrow> u64 \<Rightarrow> string \<Rightarrow> wasm_hal \<Rightarrow> (hal_error + u32) \<times> wasm_hal" where
  "do_keystore_delete_async E pid key = keystore_async pid (\<lambda>i. wh_start_keystore_delete E i key)"

definition do_keystore_list_async :: "js_env \<Rightarrow> u64 \<Rightarrow> string \<Rightarrow> wasm_hal \<Rightarrow> (hal_error + u32) \<times> wasm_hal" where
  "do_keystore_list_async E pid prefix = keystore_async pid (\<lambda>i. wh_start_keystore_list E i prefix)"

definition do_keystore_exists_async :: "js_env \<Rightarrow> u64 \<Rightarrow> string \<Rightarrow> wasm_hal \<Rightarrow> (hal_error + u32) \<times> wasm_hal" where
  "do_keystore_exists_async E pid key = keystore_async pid (\<lambda>i. wh_start_keystore_exists E i key)"

definition do_network_fetch_async :: "js_env \<Rightarrow> u64 \<Rightarrow> u8 list \<Rightarrow> wasm_hal \<Rightarrow> (hal_error + u32) \<times> wasm_hal" where
  "do_network_fetch_async E pid request h =
     (let (request_id, h) = next_network_request_id h;
          (recorded, h) = record_pending_network_request request_id pid h
      in if \<not> recorded then (Inl ResourceExhausted, h)
         else (case from_utf8 request of
                 None \<Rightarrow> (Inl InvalidArgument, h)
               | Some request_json \<Rightarrow>
                   (Inr request_id, wh_start_network_fetch E request_id pid request_json h)))"

definition do_get_storage_request_pid :: "u32 \<Rightarrow> wasm_hal \<Rightarrow> u64 option" where
  "do_get_storage_request_pid request_id h = bt_get (wh_pending_storage h) request_id"

definition do_get_network_request_pid :: "u32 \<Rightarrow> wasm_hal \<Rightarrow> u64 option" where
  "do_get_network_request_pid request_id h = bt_get (wh_pending_network h) request_id"

definition do_get_keystore_request_pid :: "u32 \<Rightarrow> wasm_hal \<Rightarrow> u64 option" where
  "do_get_keystore_request_pid request_id h = bt_get (wh_pending_keystore h) request_id"

definition do_take_storage_request_pid :: "u32 \<Rightarrow> wasm_hal \<Rightarrow> u64 option \<times> wasm_hal" where
  "do_take_storage_request_pid request_id h =
     (bt_get (wh_pending_storage h) request_id,
      h\<lparr>wh_pending_storage := bt_remove request_id (wh_pending_storage h)\<rparr>)"

definition do_take_network_request_pid :: "u32 \<Rightarrow> wasm_hal \<Rightarrow> u64 option \<times> wasm_hal" where
  "do_take_network_request_pid request_id h =
     (bt_get (wh_pending_network h) request_id,
      h\<lparr>wh_pending_network := bt_remove request_id (wh_pending_network h)\<rparr>)"

definition do_take_keystore_request_pid :: "u32 \<Rightarrow> wasm_hal \<Rightarrow> u64 option \<times> wasm_hal" where
  "do_take_keystore_request_pid request_id h =
     (bt_get (wh_pending_keystore h) request_id,
      h\<lparr>wh_pending_keystore := bt_remove request_id (wh_pending_keystore h)\<rparr>)"

section \<open>Processes\<close>

definition placeholder_mailbox :: mailbox where
  "placeholder_mailbox = \<lparr>mb_status = 0, mb_syscall_num = 0, mb_args = (0, 0, 0), mb_result = 0,
     mb_data_len = 0, mb_data = replicate 16356 0\<rparr>"

definition spawn_with_pid ::
  "js_env \<Rightarrow> u64 \<Rightarrow> string \<Rightarrow> u8 list \<Rightarrow> wasm_hal \<Rightarrow> (hal_error + u64) \<times> wasm_hal" where
  "spawn_with_pid E pid name binary h =
     (if \<not> je_worker_created E then (Inl ProcessSpawnFailed, h)
      else if \<not> je_worker_posted E then (Inl ProcessSpawnFailed, h)
      else
        let h = js_ask (PostInit pid binary) h;
            process = \<lparr>wk_name = name, wk_alive = True, wk_memory_size = 65536, wk_worker_id = 0,
                       wk_mailbox = placeholder_mailbox\<rparr>
        in (Inr pid, h\<lparr>wh_processes := bt_insert pid process (wh_processes h)\<rparr>))"

text \<open>
  \<^verbatim>\<open>spawn_process\<close>, which the default \<^verbatim>\<open>spawn_process_with_pid\<close> of the trait calls with the pid dropped.
\<close>

definition wasm_spawn_process :: "js_env \<Rightarrow> string \<Rightarrow> u8 list \<Rightarrow> wasm_hal \<Rightarrow> (hal_error + u64) \<times> wasm_hal" where
  "wasm_spawn_process E name binary h =
     (let pid = wh_next_pid h
      in spawn_with_pid E pid name binary (h\<lparr>wh_next_pid := pid + 1\<rparr>))"

definition do_kill_process :: "u64 \<Rightarrow> wasm_hal \<Rightarrow> (hal_error + unit) \<times> wasm_hal" where
  "do_kill_process pid h =
     (case bt_get (wh_processes h) pid of
        None \<Rightarrow> (Inl HalProcessNotFound, h)
      | Some proc \<Rightarrow>
          let h = h\<lparr>wh_processes := bt_remove pid (wh_processes h)\<rparr>
          in (Inr (), if wk_alive proc then js_ask (Terminate pid) h else h))"

definition do_is_process_alive :: "u64 \<Rightarrow> wasm_hal \<Rightarrow> bool" where
  "do_is_process_alive pid h = (case bt_get (wh_processes h) pid of Some proc \<Rightarrow> wk_alive proc | None \<Rightarrow> False)"

definition do_get_process_memory_size :: "u64 \<Rightarrow> wasm_hal \<Rightarrow> hal_error + usize" where
  "do_get_process_memory_size pid h =
     (case bt_get (wh_processes h) pid of
        Some proc \<Rightarrow> if wk_alive proc then Inr (wk_memory_size proc) else Inl HalProcessNotFound
      | None \<Rightarrow> Inl HalProcessNotFound)"

definition map_worker :: "u64 \<Rightarrow> (worker \<Rightarrow> worker) \<Rightarrow> wasm_hal \<Rightarrow> wasm_hal" where
  "map_worker pid f h =
     (case bt_get (wh_processes h) pid of
        None \<Rightarrow> h
      | Some proc \<Rightarrow> h\<lparr>wh_processes := bt_insert pid (f proc) (wh_processes h)\<rparr>)"

definition wh_update_process_memory :: "u64 \<Rightarrow> usize \<Rightarrow> wasm_hal \<Rightarrow> wasm_hal" where
  "wh_update_process_memory pid memory_size = map_worker pid (\<lambda>w. w\<lparr>wk_memory_size := memory_size\<rparr>)"

definition get_worker_id :: "u64 \<Rightarrow> wasm_hal \<Rightarrow> u64" where
  "get_worker_id pid h = (case bt_get (wh_processes h) pid of Some proc \<Rightarrow> wk_worker_id proc | None \<Rightarrow> 0)"

text \<open>A worker sends its memory: from now on its mailbox is the one in that memory.\<close>

definition handle_worker_memory :: "u64 \<Rightarrow> u64 \<Rightarrow> mailbox \<Rightarrow> usize \<Rightarrow> wasm_hal \<Rightarrow> wasm_hal" where
  "handle_worker_memory pid worker_id mailbox memory_size h =
     (let is_update = (case bt_get (wh_processes h) pid of Some p \<Rightarrow> wk_worker_id p \<noteq> 0 | None \<Rightarrow> False);
          h = map_worker pid (\<lambda>w. w\<lparr>wk_mailbox := mailbox, wk_worker_id := worker_id,
                                    wk_memory_size := memory_size\<rparr>) h;
          msg_type = (if is_update then MemoryUpdate memory_size else WorkerReady memory_size)
      in h\<lparr>wh_incoming := wh_incoming h @ [\<lparr>wm_pid = pid, wm_type = msg_type\<rparr>]\<rparr>)"

section \<open>Mailboxes\<close>

definition wh_poll_syscalls :: "wasm_hal \<Rightarrow> pending_syscall list" where
  "wh_poll_syscalls h =
     map (\<lambda>(pid, proc). \<lparr>ps_pid = pid, ps_syscall_num = mb_syscall_num (wk_mailbox proc),
                         ps_args = mb_args (wk_mailbox proc)\<rparr>)
       (filter (\<lambda>(pid, proc). wk_alive proc \<and> wk_worker_id proc \<noteq> 0
                              \<and> mb_status (wk_mailbox proc) = STATUS_PENDING) (wh_processes h))"

definition complete_syscall :: "u64 \<Rightarrow> i32 \<Rightarrow> wasm_hal \<Rightarrow> wasm_hal" where
  "complete_syscall pid result =
     map_worker pid (\<lambda>w. if wk_worker_id w = 0 then w
                         else w\<lparr>wk_mailbox := (wk_mailbox w)\<lparr>mb_result := result, mb_status := STATUS_READY\<rparr>\<rparr>)"

definition mailbox_data :: "mailbox \<Rightarrow> u8 list" where
  "mailbox_data m =
     (let data_len = unat (mb_data_len m)
      in if data_len > 0 \<and> data_len \<le> 16356 then take data_len (mb_data m) else [])"

definition read_syscall_data :: "u64 \<Rightarrow> wasm_hal \<Rightarrow> u8 list" where
  "read_syscall_data pid h =
     (case bt_get (wh_processes h) pid of
        None \<Rightarrow> []
      | Some proc \<Rightarrow> if wk_worker_id proc = 0 then [] else mailbox_data (wk_mailbox proc))"

definition mailbox_store :: "u8 list \<Rightarrow> mailbox \<Rightarrow> mailbox" where
  "mailbox_store data m =
     (let len = min (length data) 16356
      in m\<lparr>mb_data := take len data @ drop len (mb_data m), mb_data_len := of_nat len\<rparr>)"

definition write_syscall_data :: "u64 \<Rightarrow> u8 list \<Rightarrow> wasm_hal \<Rightarrow> wasm_hal" where
  "write_syscall_data pid data =
     map_worker pid (\<lambda>w. if wk_worker_id w = 0 then w
                         else w\<lparr>wk_mailbox := mailbox_store data (wk_mailbox w)\<rparr>)"

section \<open>The platform as the kernel sees it\<close>

definition hal_view :: "js_env \<Rightarrow> wasm_hal \<Rightarrow> hal" where
  "hal_view E h =
     \<lparr>hal_now_nanos = je_now_nanos E, hal_wallclock_ms = je_wallclock_ms E,
      hal_storage_read_async = (\<lambda>pid key. fst (do_storage_read_async E pid key h)),
      hal_storage_write_async = (\<lambda>pid key v. fst (do_storage_write_async E pid key v h)),
      hal_storage_delete_async = (\<lambda>pid key. fst (do_storage_delete_async E pid key h)),
      hal_storage_list_async = (\<lambda>pid prefix. fst (do_storage_list_async E pid prefix h)),
      hal_storage_exists_async = (\<lambda>pid key. fst (do_storage_exists_async E pid key h)),
      hal_keystore_read_async = (\<lambda>pid key. fst (do_keystore_read_async E pid key h)),
      hal_keystore_write_async = (\<lambda>pid key v. fst (do_keystore_write_async E pid key v h)),
      hal_keystore_delete_async = (\<lambda>pid key. fst (do_keystore_delete_async E pid key h)),
      hal_keystore_list_async = (\<lambda>pid prefix. fst (do_keystore_list_async E pid prefix h)),
      hal_keystore_exists_async = (\<lambda>pid key. fst (do_keystore_exists_async E pid key h)),
      hal_network_fetch_async = (\<lambda>pid request. fst (do_network_fetch_async E pid request h)),
      hal_load_binary = (\<lambda>_. Inl NotSupported),
      hal_spawn_process_with_pid = (\<lambda>_ name binary. map_sum id (\<lambda>_. ()) (fst (wasm_spawn_process E name binary h)))\<rparr>"

text \<open>
  The record \<open>hal\<close> gives the answers of the platform; what a system call does to the platform is the
  effect of the one request it makes of it.
\<close>

datatype platform_request =
    OnStorage storage_request
  | OnKeystore storage_request
  | OnNetwork "u8 list"
  | OnSpawn string "u8 list"

definition key_request :: "(string \<Rightarrow> storage_request) \<Rightarrow> u8 list \<Rightarrow> storage_request option" where
  "key_request c data = map_option c (from_utf8 data)"

definition key_write_request :: "u8 list \<Rightarrow> storage_request option" where
  "key_write_request data =
     (if length data < 4 then None
      else
        let key_len = unat (u32_from_le_bytes (take 4 data))
        in if length data < 4 + key_len then None
           else map_option (\<lambda>key. ReqWrite key (drop (4 + key_len) data)) (from_utf8 (take key_len (drop 4 data))))"

definition request_of_call :: "u64 \<Rightarrow> u32 \<Rightarrow> u8 list \<Rightarrow> platform_request option" where
  "request_of_call pid num data =
     (if num = 0x70 then map_option OnStorage (key_request ReqRead data)
      else if num = 0x71 then map_option OnStorage (key_write_request data)
      else if num = 0x72 then map_option OnStorage (key_request ReqDelete data)
      else if num = 0x73 then map_option OnStorage (key_request ReqList data)
      else if num = 0x74 then map_option OnStorage (key_request ReqExists data)
      else if num = 0x80 then map_option OnKeystore (key_request ReqRead data)
      else if num = 0x81 then map_option OnKeystore (key_write_request data)
      else if num = 0x82 then map_option OnKeystore (key_request ReqDelete data)
      else if num = 0x83 then map_option OnKeystore (key_request ReqList data)
      else if num = 0x84 then map_option OnKeystore (key_request ReqExists data)
      else if num = 0x90 then Some (OnNetwork data)
      else if num = 0x17 \<and> pid = 1 \<and> \<not> length data < 4
      then (let name_len = unat (u32_from_le_bytes (take 4 data))
            in if length data < 4 + name_len then None
               else (case from_utf8 (take name_len (drop 4 data)) of
                       None \<Rightarrow> None
                     | Some name \<Rightarrow>
                         let binary = drop (4 + name_len) data
                         in if binary = [] then None else Some (OnSpawn name binary)))
      else None)"

fun do_storage_async :: "js_env \<Rightarrow> u64 \<Rightarrow> storage_request \<Rightarrow> wasm_hal \<Rightarrow> (hal_error + u32) \<times> wasm_hal" where
  "do_storage_async E pid (ReqRead key) = do_storage_read_async E pid key"
| "do_storage_async E pid (ReqWrite key v) = do_storage_write_async E pid key v"
| "do_storage_async E pid (ReqDelete key) = do_storage_delete_async E pid key"
| "do_storage_async E pid (ReqList prefix) = do_storage_list_async E pid prefix"
| "do_storage_async E pid (ReqExists key) = do_storage_exists_async E pid key"

fun do_keystore_async :: "js_env \<Rightarrow> u64 \<Rightarrow> storage_request \<Rightarrow> wasm_hal \<Rightarrow> (hal_error + u32) \<times> wasm_hal" where
  "do_keystore_async E pid (ReqRead key) = do_keystore_read_async E pid key"
| "do_keystore_async E pid (ReqWrite key v) = do_keystore_write_async E pid key v"
| "do_keystore_async E pid (ReqDelete key) = do_keystore_delete_async E pid key"
| "do_keystore_async E pid (ReqList prefix) = do_keystore_list_async E pid prefix"
| "do_keystore_async E pid (ReqExists key) = do_keystore_exists_async E pid key"

fun hal_after_request :: "js_env \<Rightarrow> u64 \<Rightarrow> platform_request option \<Rightarrow> wasm_hal \<Rightarrow> wasm_hal" where
  "hal_after_request E pid None h = h"
| "hal_after_request E pid (Some (OnStorage r)) h = snd (do_storage_async E pid r h)"
| "hal_after_request E pid (Some (OnKeystore r)) h = snd (do_keystore_async E pid r h)"
| "hal_after_request E pid (Some (OnNetwork request)) h = snd (do_network_fetch_async E pid request h)"
| "hal_after_request E pid (Some (OnSpawn name binary)) h = snd (wasm_spawn_process E name binary h)"

definition hal_after_call :: "js_env \<Rightarrow> u64 \<Rightarrow> u32 \<Rightarrow> u8 list \<Rightarrow> wasm_hal \<Rightarrow> wasm_hal" where
  "hal_after_call E pid num data = hal_after_request E pid (request_of_call pid num data)"

section \<open>Requests of the kernel\<close>

lemmas platform_requests =
  do_storage_read_async_def do_storage_write_async_def do_storage_delete_async_def
  do_storage_list_async_def do_storage_exists_async_def do_keystore_read_async_def
  do_keystore_write_async_def do_keystore_delete_async_def do_keystore_list_async_def
  do_keystore_exists_async_def

text \<open>
  The kernel returns what the platform answered to the request of \<open>request_of_call\<close>, so \<open>hal_view\<close> and
  \<open>hal_after_call\<close> are the answer and the effect of the same request.
\<close>

lemma storage_call_asks:
  assumes "num \<in> {0x70, 0x71, 0x72, 0x73, 0x74}"
  shows "execute_storage_syscall (hal_view E h) num sender data
       = (case request_of_call (pid_raw sender) num data of
            Some (OnStorage r) \<Rightarrow> request_result (fst (do_storage_async E (pid_raw sender) r h))
          | _ \<Rightarrow> (- 1, []))"
  using assms
  by (auto simp: execute_storage_syscall_def request_of_call_def hal_view_def execute_storage_read_def
      execute_storage_write_def execute_storage_delete_def execute_storage_list_def execute_storage_exists_def
      execute_key_request_def execute_key_write_def key_request_def key_write_request_def Let_def
      split: option.splits)

lemma keystore_call_asks:
  assumes "num \<in> {0x80, 0x81, 0x82, 0x83, 0x84}"
  shows "execute_keystore_syscall (hal_view E h) num sender data
       = (case request_of_call (pid_raw sender) num data of
            Some (OnKeystore r) \<Rightarrow> request_result (fst (do_keystore_async E (pid_raw sender) r h))
          | _ \<Rightarrow> (- 1, []))"
  using assms
  by (auto simp: execute_keystore_syscall_def request_of_call_def hal_view_def execute_keystore_read_def
      execute_keystore_write_def execute_keystore_delete_def execute_keystore_list_def execute_keystore_exists_def
      execute_key_request_def execute_key_write_def key_request_def key_write_request_def Let_def
      split: option.splits)

lemma network_call_asks:
  "execute_network_syscall (hal_view E h) sender data
   = request_result (fst (do_network_fetch_async E (pid_raw sender) data h))"
  "request_of_call (pid_raw sender) 0x90 data = Some (OnNetwork data)"
  by (simp_all add: execute_network_syscall_def hal_view_def request_of_call_def)

section \<open>Tables of requests\<close>

text \<open>
  What the platform promises of its three tables: a request takes the next id and is recorded with
  its process unless the table is full, and an answer takes the entry of its id out.
\<close>

datatype 'r table_event =
    Asked u64 'r
  | Answered u32

fun asked_count :: "'r table_event list \<Rightarrow> nat" where
  "asked_count [] = 0"
| "asked_count (Asked pid r # evs) = Suc (asked_count evs)"
| "asked_count (Answered i # evs) = asked_count evs"

lemma asked_count_append [simp]: "asked_count (xs @ ys) = asked_count xs + asked_count ys"
  by (induction xs rule: asked_count.induct) simp_all

fun table_step ::
  "(u64 \<Rightarrow> 'r \<Rightarrow> 's \<Rightarrow> (hal_error + u32) \<times> 's) \<Rightarrow> (u32 \<Rightarrow> 's \<Rightarrow> u64 option \<times> 's) \<Rightarrow> 's \<Rightarrow> 'r table_event \<Rightarrow> 's"
where
  "table_step start take_pid h (Asked pid r) = snd (start pid r h)"
| "table_step start take_pid h (Answered i) = snd (take_pid i h)"

definition table_run ::
  "(u64 \<Rightarrow> 'r \<Rightarrow> 's \<Rightarrow> (hal_error + u32) \<times> 's) \<Rightarrow> (u32 \<Rightarrow> 's \<Rightarrow> u64 option \<times> 's)
   \<Rightarrow> 's \<Rightarrow> 'r table_event list \<Rightarrow> 's" where
  "table_run start take_pid h evs = foldl (table_step start take_pid) h evs"

locale request_table =
  fixes start :: "u64 \<Rightarrow> 'r \<Rightarrow> 's \<Rightarrow> (hal_error + u32) \<times> 's"
    and take_pid :: "u32 \<Rightarrow> 's \<Rightarrow> u64 option \<times> 's"
    and pending :: "'s \<Rightarrow> (u32, u64) btree_map"
    and next_id :: "'s \<Rightarrow> u32"
    and limit :: usize
  assumes start_next: "next_id (snd (start pid r h)) = next_id h + 1"
    and start_full: "length (pending h) \<ge> limit
                     \<Longrightarrow> pending (snd (start pid r h)) = pending h \<and> fst (start pid r h) = Inl ResourceExhausted"
    and start_room: "length (pending h) < limit
                     \<Longrightarrow> pending (snd (start pid r h)) = bt_insert (next_id h) pid (pending h)"
    and start_id: "fst (start pid r h) = Inr i \<Longrightarrow> i = next_id h"
    and take_found: "fst (take_pid i h) = bt_get (pending h) i"
    and take_pending: "pending (snd (take_pid i h)) = bt_remove i (pending h)"
    and take_next: "next_id (snd (take_pid i h)) = next_id h"
begin

abbreviation run :: "'s \<Rightarrow> 'r table_event list \<Rightarrow> 's" where
  "run \<equiv> table_run start take_pid"

lemma run_simps [simp]:
  "run h [] = h"
  "run h (evs @ [ev]) = table_step start take_pid (run h evs) ev"
  by (simp_all add: table_run_def)

lemma next_id_run: "next_id (run h evs) = next_id h + of_nat (asked_count evs)"
proof (induction evs rule: rev_induct)
  case (snoc ev evs)
  then show ?case
    by (cases ev) (simp_all add: start_next take_next)
qed simp

definition recorded :: "'s \<Rightarrow> 'r table_event list \<Rightarrow> u32 \<Rightarrow> u64 \<Rightarrow> bool" where
  "recorded h evs i p \<longleftrightarrow>
     (\<exists>a r b. evs = a @ Asked p r # b \<and> next_id (run h a) = i
              \<and> length (pending (run h a)) < limit \<and> Answered i \<notin> set b)"

lemma recorded_answered: "recorded h (evs @ [Answered j]) i p \<longleftrightarrow> i \<noteq> j \<and> recorded h evs i p"
proof
  assume "recorded h (evs @ [Answered j]) i p"
  then obtain a r b where *: "evs @ [Answered j] = a @ Asked p r # b" "next_id (run h a) = i"
    "length (pending (run h a)) < limit" "Answered i \<notin> set b"
    unfolding recorded_def by blast
  then obtain b' where "b = b' @ [Answered j]"
    by (cases b rule: rev_cases) auto
  with * show "i \<noteq> j \<and> recorded h evs i p"
    unfolding recorded_def by auto
next
  assume "i \<noteq> j \<and> recorded h evs i p"
  then obtain a r b where *: "evs = a @ Asked p r # b" "next_id (run h a) = i"
    "length (pending (run h a)) < limit" "Answered i \<notin> set b" "i \<noteq> j"
    unfolding recorded_def by blast
  then show "recorded h (evs @ [Answered j]) i p"
    unfolding recorded_def by (intro exI [of _ a] exI [of _ r] exI [of _ "b @ [Answered j]"]) simp
qed

lemma recorded_asked:
  "recorded h (evs @ [Asked q s]) i p \<longleftrightarrow>
     recorded h evs i p
     \<or> q = p \<and> next_id (run h evs) = i \<and> length (pending (run h evs)) < limit"
proof
  assume "recorded h (evs @ [Asked q s]) i p"
  then obtain a r b where *: "evs @ [Asked q s] = a @ Asked p r # b" "next_id (run h a) = i"
    "length (pending (run h a)) < limit" "Answered i \<notin> set b"
    unfolding recorded_def by blast
  then show "recorded h evs i p
     \<or> q = p \<and> next_id (run h evs) = i \<and> length (pending (run h evs)) < limit"
    unfolding recorded_def by (cases b rule: rev_cases) auto
next
  assume "recorded h evs i p
     \<or> q = p \<and> next_id (run h evs) = i \<and> length (pending (run h evs)) < limit"
  then show "recorded h (evs @ [Asked q s]) i p"
  proof
    assume "recorded h evs i p"
    then obtain a r b where "evs = a @ Asked p r # b" "next_id (run h a) = i"
      "length (pending (run h a)) < limit" "Answered i \<notin> set b"
      unfolding recorded_def by blast
    then show ?thesis
      unfolding recorded_def by (intro exI [of _ a] exI [of _ r] exI [of _ "b @ [Asked q s]"]) simp
  next
    assume "q = p \<and> next_id (run h evs) = i \<and> length (pending (run h evs)) < limit"
    then show ?thesis
      unfolding recorded_def by (intro exI [of _ evs] exI [of _ s] exI [of _ "[]"]) simp
  qed
qed

lemma recorded_not_next:
  assumes "asked_count evs < 2 ^ 32" "recorded h evs i p"
  shows "i \<noteq> next_id (run h evs)"
proof
  assume i: "i = next_id (run h evs)"
  obtain a r b where *: "evs = a @ Asked p r # b" "next_id (run h a) = i"
    using assms(2) unfolding recorded_def by blast
  have "(of_nat (asked_count a) :: u32) = of_nat (asked_count evs)"
    using i *(2) by (simp add: next_id_run)
  moreover have "asked_count a < asked_count evs"
    by (simp add: *(1))
  ultimately show False
    using assms(1) by (simp add: word_of_nat_eq_iff take_bit_nat_eq_self)
qed

text \<open>
  Over any history of fewer than \<^term>\<open>2 ^ 32\<close> requests, an answer finds a process exactly when that
  process made the request the id was given to, the table had room for it, and no other answer with
  this id came since.
\<close>

lemma pending_run:
  assumes "pending h = []" "asked_count evs \<le> 2 ^ 32"
  shows "bt_get (pending (run h evs)) i = Some p \<longleftrightarrow> recorded h evs i p"
  using assms(2)
proof (induction evs arbitrary: i p rule: rev_induct)
  case Nil
  show ?case
    by (simp add: assms(1) recorded_def)
next
  case (snoc ev evs)
  show ?case
  proof (cases ev)
    case (Answered j)
    then show ?thesis
      using snoc by (auto simp: recorded_answered take_pending)
  next
    case ev: (Asked q s)
    then have few: "asked_count evs < 2 ^ 32"
      using snoc.prems by simp
    show ?thesis
    proof (cases "length (pending (run h evs)) < limit")
      case True
      have "recorded h evs i p \<Longrightarrow> i \<noteq> next_id (run h evs)"
        by (rule recorded_not_next [OF few])
      then show ?thesis
        using snoc.IH [of i p] few True by (auto simp: ev recorded_asked start_room)
    next
      case False
      then show ?thesis
        using snoc.IH [of i p] few by (simp add: ev recorded_asked start_full not_less)
    qed
  qed
qed

lemma answer_routed:
  assumes "pending h = []" "asked_count evs \<le> 2 ^ 32"
  shows "fst (take_pid i (run h evs)) = Some p
    \<longleftrightarrow> (\<exists>a r b. evs = a @ Asked p r # b \<and> next_id (run h a) = i
          \<and> length (pending (run h a)) < limit \<and> Answered i \<notin> set b)"
  using pending_run [OF assms] by (simp only: take_found recorded_def)

end

lemmas storage_tables =
  next_request_id_def record_pending_request_def storage_async_def next_keystore_request_id_def
  record_pending_keystore_request_def keystore_async_def next_network_request_id_def
  record_pending_network_request_def do_network_fetch_async_def

lemmas js_starts =
  wh_start_storage_read_def wh_start_storage_write_def wh_start_storage_delete_def wh_start_storage_list_def
  wh_start_storage_exists_def wh_start_keystore_read_def wh_start_keystore_write_def wh_start_keystore_delete_def
  wh_start_keystore_list_def wh_start_keystore_exists_def wh_start_network_fetch_def js_ask_def

interpretation st: request_table "do_storage_async E" do_take_storage_request_pid wh_pending_storage
  wh_next_storage_id MAX_PENDING_STORAGE_REQUESTS for E
proof
  fix pid r h i
  show "wh_next_storage_id (snd (do_storage_async E pid r h)) = wh_next_storage_id h + 1"
    by (cases r) (simp_all add: platform_requests storage_tables js_starts Let_def)
  show "MAX_PENDING_STORAGE_REQUESTS \<le> length (wh_pending_storage h) \<Longrightarrow>
    wh_pending_storage (snd (do_storage_async E pid r h)) = wh_pending_storage h
    \<and> fst (do_storage_async E pid r h) = Inl ResourceExhausted"
    by (cases r) (simp_all add: platform_requests storage_tables js_starts Let_def)
  show "length (wh_pending_storage h) < MAX_PENDING_STORAGE_REQUESTS \<Longrightarrow>
    wh_pending_storage (snd (do_storage_async E pid r h))
    = bt_insert (wh_next_storage_id h) pid (wh_pending_storage h)"
    by (cases r) (simp_all add: platform_requests storage_tables js_starts Let_def)
  show "fst (do_storage_async E pid r h) = Inr i \<Longrightarrow> i = wh_next_storage_id h"
    by (cases r) (auto simp: platform_requests storage_tables js_starts Let_def split: if_splits)
qed (simp_all add: do_take_storage_request_pid_def)

interpretation ks: request_table "do_keystore_async E" do_take_keystore_request_pid wh_pending_keystore
  wh_next_keystore_id MAX_PENDING_KEYSTORE_REQUESTS for E
proof
  fix pid r h i
  show "wh_next_keystore_id (snd (do_keystore_async E pid r h)) = wh_next_keystore_id h + 1"
    by (cases r) (simp_all add: platform_requests storage_tables js_starts Let_def)
  show "MAX_PENDING_KEYSTORE_REQUESTS \<le> length (wh_pending_keystore h) \<Longrightarrow>
    wh_pending_keystore (snd (do_keystore_async E pid r h)) = wh_pending_keystore h
    \<and> fst (do_keystore_async E pid r h) = Inl ResourceExhausted"
    by (cases r) (simp_all add: platform_requests storage_tables js_starts Let_def)
  show "length (wh_pending_keystore h) < MAX_PENDING_KEYSTORE_REQUESTS \<Longrightarrow>
    wh_pending_keystore (snd (do_keystore_async E pid r h))
    = bt_insert (wh_next_keystore_id h) pid (wh_pending_keystore h)"
    by (cases r) (simp_all add: platform_requests storage_tables js_starts Let_def)
  show "fst (do_keystore_async E pid r h) = Inr i \<Longrightarrow> i = wh_next_keystore_id h"
    by (cases r) (auto simp: platform_requests storage_tables js_starts Let_def split: if_splits)
qed (simp_all add: do_take_keystore_request_pid_def)

interpretation nt: request_table "do_network_fetch_async E" do_take_network_request_pid wh_pending_network
  wh_next_network_id MAX_PENDING_NETWORK_REQUESTS for E
  by unfold_locales
    (auto simp: storage_tables js_starts do_take_network_request_pid_def Let_def
      split: option.splits if_splits)

text \<open>
  C9. Results reach the process that asked for them. Over any history of requests and answers that starts
  with an empty table and has at most \<^term>\<open>2 ^ 32\<close> requests, an answer with id \<open>i\<close> is
  attributed to process \<open>p\<close> exactly when \<open>p\<close> made the request that was given \<open>i\<close>, the table then had
  fewer than 1000 (for the network, 100) open requests, and no answer with this id came in between:
  no result goes to another process, none is attributed twice, and an accepted request that has not
  been answered is never forgotten. This holds of the storage, keystore and network tables.\<close>

theorem answers_reach_requester:
  "(wh_pending_storage h = [] \<and> asked_count evs \<le> 2 ^ 32 \<longrightarrow>
      (let run = table_run (do_storage_async E) do_take_storage_request_pid
       in fst (do_take_storage_request_pid i (run h evs)) = Some p
          \<longleftrightarrow> (\<exists>a r b. evs = a @ Asked p r # b \<and> wh_next_storage_id (run h a) = i
                \<and> length (wh_pending_storage (run h a)) < 1000 \<and> Answered i \<notin> set b)))
   \<and> (wh_pending_keystore h = [] \<and> asked_count evs \<le> 2 ^ 32 \<longrightarrow>
      (let run = table_run (do_keystore_async E) do_take_keystore_request_pid
       in fst (do_take_keystore_request_pid i (run h evs)) = Some p
          \<longleftrightarrow> (\<exists>a r b. evs = a @ Asked p r # b \<and> wh_next_keystore_id (run h a) = i
                \<and> length (wh_pending_keystore (run h a)) < 1000 \<and> Answered i \<notin> set b)))
   \<and> (wh_pending_network h = [] \<and> asked_count fs \<le> 2 ^ 32 \<longrightarrow>
      (let run = table_run (do_network_fetch_async E) do_take_network_request_pid
       in fst (do_take_network_request_pid i (run h fs)) = Some p
          \<longleftrightarrow> (\<exists>a r b. fs = a @ Asked p r # b \<and> wh_next_network_id (run h a) = i
                \<and> length (wh_pending_network (run h a)) < 100 \<and> Answered i \<notin> set b)))"
  using st.answer_routed [where h = h and evs = evs and E = E and i = i and p = p]
    ks.answer_routed [where h = h and evs = evs and E = E and i = i and p = p]
    nt.answer_routed [where h = h and evs = fs and E = E and i = i and p = p]
  unfolding Let_def MAX_PENDING_STORAGE_REQUESTS_def
    MAX_PENDING_KEYSTORE_REQUESTS_def MAX_PENDING_NETWORK_REQUESTS_def
  by (intro conjI impI; elim conjE) (simp_all only:)

definition example_js :: js_env where
  "example_js = \<lparr>je_now_nanos = 100, je_wallclock_ms = 7, je_storage = True, je_keystore = True,
     je_network = True, je_json_parses = (\<lambda>_. True), je_worker_created = True, je_worker_posted = True\<rparr>"

text \<open>Process 7 reads, process 9 writes, the first result arrives: the second one is still for process 9.\<close>

theorem answers_reach_requester_witness:
  "fst (do_take_storage_request_pid 2
     (table_run (do_storage_async example_js) do_take_storage_request_pid wasm_hal_new
        [Asked 7 (ReqRead ''a''), Asked 9 (ReqWrite ''b'' [1]), Answered 1])) = Some 9"
proof -
  let ?run = "table_run (do_storage_async example_js) do_take_storage_request_pid wasm_hal_new"
  let ?evs = "[Asked 7 (ReqRead ''a''), Asked 9 (ReqWrite ''b'' [1]), Answered 1]"
  have "wh_next_storage_id (?run [Asked 7 (ReqRead ''a'')]) = 2"
    "wh_pending_storage (?run [Asked 7 (ReqRead ''a'')]) = [(1, 7)]"
    by (simp_all add: table_run_def wasm_hal_new_def platform_requests storage_tables js_starts example_js_def
        MAX_PENDING_STORAGE_REQUESTS_def)
  then have "\<exists>a r b. ?evs = a @ Asked 9 r # b \<and> wh_next_storage_id (?run a) = 2
      \<and> length (wh_pending_storage (?run a)) < 1000 \<and> Answered 2 \<notin> set b"
    by (intro exI [of _ "[Asked 7 (ReqRead ''a'')]"] exI [of _ "ReqWrite ''b'' [1]"] exI [of _ "[Answered 1]"])
      simp
  moreover have "wh_pending_storage wasm_hal_new = []" "asked_count ?evs \<le> 2 ^ 32"
    by (simp_all add: wasm_hal_new_def)
  ultimately show ?thesis
    using conjunct1 [OF answers_reach_requester [where h = wasm_hal_new and evs = ?evs and E = example_js and i = 2 and p = 9]] unfolding Let_def by simp
qed

end
