(* ===== verification/Supervisor.thy ===== *)
theory Supervisor
  imports Supervisor_Hal
begin

text \<open>
  The supervisor, \<^verbatim>\<open>zos-supervisor/src/supervisor/*.rs\<close> with \<^verbatim>\<open>syscall/mod.rs\<close>, \<^verbatim>\<open>pingpong.rs\<close> and
  \<^verbatim>\<open>constants.rs\<close> (prefix \<open>sv_\<close>): process 0, which owns the system and the platform, takes the calls out
  of the mailboxes of the workers, routes messages through Init, spawns processes with their first
  capabilities and gives the results of the platform to the processes that asked for them. An operation
  that can panic returns \<^term>\<open>None\<close> for the panic: it traps the module, and the methods of the object
  cannot be called again. The clock of \<open>js_env\<close> stands still within one operation. The browser log is
  not modelled; a panic while a log line is being built is.
\<close>

section \<open>Spawns under way\<close>

datatype spawn_state =
    WaitingForBinary
  | WaitingForPid
  | WaitingForEndpoint u64
  | WaitingForCaps u64 u64
  | SpawnReady u64
  | SpawnFailed string

fun is_terminal :: "spawn_state \<Rightarrow> bool" where
  "is_terminal (SpawnReady _) = True"
| "is_terminal (SpawnFailed _) = True"
| "is_terminal _ = False"

fun spawn_state_pid :: "spawn_state \<Rightarrow> u64 option" where
  "spawn_state_pid (WaitingForEndpoint pid) = Some pid"
| "spawn_state_pid (WaitingForCaps pid _) = Some pid"
| "spawn_state_pid (SpawnReady pid) = Some pid"
| "spawn_state_pid _ = None"

record pending_spawn =
  sp_request_id :: u64
  sp_proc_name :: string
  sp_state :: spawn_state
  sp_started_at :: u64

definition pending_spawn_new :: "u64 \<Rightarrow> string \<Rightarrow> u64 \<Rightarrow> pending_spawn" where
  "pending_spawn_new request_id name started_at =
     \<lparr>sp_request_id = request_id, sp_proc_name = name, sp_state = WaitingForBinary,
      sp_started_at = started_at\<rparr>"

definition binary_received :: "pending_spawn \<Rightarrow> pending_spawn" where
  "binary_received p = (if sp_state p = WaitingForBinary then p\<lparr>sp_state := WaitingForPid\<rparr> else p)"

definition pid_assigned :: "u64 \<Rightarrow> pending_spawn \<Rightarrow> pending_spawn" where
  "pid_assigned pid p =
     (if sp_state p = WaitingForBinary \<or> sp_state p = WaitingForPid
      then p\<lparr>sp_state := WaitingForEndpoint pid\<rparr> else p)"

definition endpoint_created :: "u64 \<Rightarrow> pending_spawn \<Rightarrow> pending_spawn" where
  "endpoint_created endpoint_id p =
     (case sp_state p of WaitingForEndpoint pid \<Rightarrow> p\<lparr>sp_state := WaitingForCaps pid endpoint_id\<rparr> | _ \<Rightarrow> p)"

definition caps_granted :: "pending_spawn \<Rightarrow> pending_spawn" where
  "caps_granted p = (case sp_state p of WaitingForCaps pid _ \<Rightarrow> p\<lparr>sp_state := SpawnReady pid\<rparr> | _ \<Rightarrow> p)"

definition spawn_fail :: "string \<Rightarrow> pending_spawn \<Rightarrow> pending_spawn" where
  "spawn_fail reason p = p\<lparr>sp_state := SpawnFailed reason\<rparr>"

definition saturating_sub :: "u64 \<Rightarrow> u64 \<Rightarrow> u64" where
  "saturating_sub a b = (if a \<ge> b then a - b else 0)"

definition elapsed_ms :: "pending_spawn \<Rightarrow> u64 \<Rightarrow> u64" where
  "elapsed_ms p current_time = saturating_sub current_time (sp_started_at p)"

definition is_timed_out :: "pending_spawn \<Rightarrow> u64 \<Rightarrow> u64 \<Rightarrow> bool" where
  "is_timed_out p current_time timeout \<longleftrightarrow>
     \<not> is_terminal (sp_state p) \<and> saturating_sub current_time (sp_started_at p) > timeout"

record spawn_tracker =
  tk_pending :: "(u64, pending_spawn) btree_map"
  tk_next_request_id :: u64
  tk_timeout_ms :: u64

definition tracker_new :: spawn_tracker where
  "tracker_new = \<lparr>tk_pending = [], tk_next_request_id = 1, tk_timeout_ms = 30000\<rparr>"

definition start_spawn :: "string \<Rightarrow> u64 \<Rightarrow> spawn_tracker \<Rightarrow> u64 \<times> spawn_tracker" where
  "start_spawn name current_time t =
     (let request_id = tk_next_request_id t;
          next_id = request_id + 1;
          next_id = (if next_id = 0 then 1 else next_id)
      in (request_id, t\<lparr>tk_next_request_id := next_id,
            tk_pending := bt_insert request_id (pending_spawn_new request_id name current_time)
                            (tk_pending t)\<rparr>))"

definition tracker_update :: "u64 \<Rightarrow> (pending_spawn \<Rightarrow> pending_spawn) \<Rightarrow> spawn_tracker \<Rightarrow> spawn_tracker" where
  "tracker_update request_id f t = t\<lparr>tk_pending := bt_modify request_id f (tk_pending t)\<rparr>"

definition check_timeouts :: "spawn_tracker \<Rightarrow> u64 \<Rightarrow> u64 list" where
  "check_timeouts t current_time =
     map fst (filter (\<lambda>(_, p). is_timed_out p current_time (tk_timeout_ms t)) (tk_pending t))"

fun remove_timed_out :: "u64 \<Rightarrow> u64 list \<Rightarrow> spawn_tracker \<Rightarrow> pending_spawn list \<times> spawn_tracker" where
  "remove_timed_out current_time [] t = ([], t)"
| "remove_timed_out current_time (i # ids) t =
     (case bt_get (tk_pending t) i of
        None \<Rightarrow> remove_timed_out current_time ids t
      | Some p \<Rightarrow>
          let p = spawn_fail (''Spawn timed out after '' @ dec_text (elapsed_ms p current_time) @ ''ms'') p;
              (ps, t) = remove_timed_out current_time ids (t\<lparr>tk_pending := bt_remove i (tk_pending t)\<rparr>)
          in (p # ps, t))"

definition timeout_spawns :: "u64 \<Rightarrow> spawn_tracker \<Rightarrow> pending_spawn list \<times> spawn_tracker" where
  "timeout_spawns current_time t = remove_timed_out current_time (check_timeouts t current_time) t"

definition cleanup_completed :: "spawn_tracker \<Rightarrow> spawn_tracker" where
  "cleanup_completed t =
     t\<lparr>tk_pending := foldl (\<lambda>m i. bt_remove i m) (tk_pending t)
                      (map fst (filter (\<lambda>(_, p). is_terminal (sp_state p)) (tk_pending t)))\<rparr>"

section \<open>The state\<close>

datatype pingpong_state =
    PpIdle
  | WaitingForPinger u32
  | WaitingForPonger u32 u64
  | SettingUpCaps u32 u64 u64
  | StartingTest u32 u64 u64
  | PpRunning u32 u64 u64 u64
  | PpCleanup u64 u64

text \<open>The platform is a field of the system in the code, and a field beside it here.\<close>

record supervisor =
  sv_system :: system
  sv_hal :: wasm_hal
  sv_console_callbacks :: "(u64, js_function) btree_map"
  sv_spawn_callback :: "js_function option"
  sv_console_buffer :: "string list"
  sv_pingpong_test :: pingpong_state
  sv_last_persisted_axiom_seq :: u64
  sv_axiom_storage_ready :: bool
  sv_init_spawned :: bool
  sv_supervisor_pid :: process_id
  sv_supervisor_initialized :: bool
  sv_ipc_response_callback :: "js_function option"
  sv_init_endpoint_slot :: "u32 option"
  sv_ps_endpoint_slot :: "u32 option"
  sv_terminal_endpoint_slots :: "(u64, u32) btree_map"
  sv_spawn_tracker :: spawn_tracker

definition sv_new :: "js_env \<Rightarrow> supervisor" where
  "sv_new E =
     \<lparr>sv_system = sys_new (je_now_nanos E), sv_hal = wasm_hal_new, sv_console_callbacks = [],
      sv_spawn_callback = None, sv_console_buffer = [], sv_pingpong_test = PpIdle,
      sv_last_persisted_axiom_seq = 0, sv_axiom_storage_ready = False, sv_init_spawned = False,
      sv_supervisor_pid = ProcessId 0, sv_supervisor_initialized = False,
      sv_ipc_response_callback = None, sv_init_endpoint_slot = None, sv_ps_endpoint_slot = None,
      sv_terminal_endpoint_slots = [], sv_spawn_tracker = tracker_new\<rparr>"

text \<open>Run a method of the system at the current time.\<close>

definition sv_sys :: "js_env \<Rightarrow> (u64 \<Rightarrow> system \<Rightarrow> 'a \<times> system) \<Rightarrow> supervisor \<Rightarrow> 'a \<times> supervisor" where
  "sv_sys E f s = (let (r, y) = f (je_now_nanos E) (sv_system s) in (r, s\<lparr>sv_system := y\<rparr>))"

abbreviation sv_kernel :: "supervisor \<Rightarrow> kernel_core" where
  "sv_kernel s \<equiv> sys_kernel (sv_system s)"

definition sv_ipc_send ::
  "js_env \<Rightarrow> process_id \<Rightarrow> u32 \<Rightarrow> u32 \<Rightarrow> u8 list \<Rightarrow> supervisor \<Rightarrow> (core_error + unit) \<times> supervisor" where
  "sv_ipc_send E from_pid slot tag data = sv_sys E (\<lambda>now y. sys_ipc_send now y from_pid slot tag data)"

definition sv_grant_capability ::
  "js_env \<Rightarrow> process_id \<Rightarrow> u32 \<Rightarrow> process_id \<Rightarrow> permissions \<Rightarrow> supervisor \<Rightarrow> (core_error + u32) \<times> supervisor" where
  "sv_grant_capability E from_pid slot to_pid perms =
     sv_sys E (\<lambda>now y. sys_grant_capability now y from_pid slot to_pid perms)"

definition sv_grant_capability_to_endpoint ::
  "js_env \<Rightarrow> process_id \<Rightarrow> endpoint_id \<Rightarrow> process_id \<Rightarrow> permissions \<Rightarrow> supervisor
    \<Rightarrow> (core_error + u32) \<times> supervisor" where
  "sv_grant_capability_to_endpoint E owner eid to_pid perms =
     sv_sys E (\<lambda>now y. sys_grant_capability_to_endpoint now y owner eid to_pid perms)"

definition sv_create_endpoint ::
  "js_env \<Rightarrow> process_id \<Rightarrow> supervisor \<Rightarrow> (core_error + endpoint_id \<times> u32) \<times> supervisor" where
  "sv_create_endpoint E pid = sv_sys E (\<lambda>now y. sys_create_endpoint now y pid)"

text \<open>A system call: the kernel sees the answers of the platform, the platform gets the request.\<close>

definition sv_process_syscall ::
  "js_env \<Rightarrow> process_id \<Rightarrow> u32 \<Rightarrow> args4 \<Rightarrow> u8 list \<Rightarrow> supervisor \<Rightarrow> (i64 \<times> u8 list) \<times> supervisor" where
  "sv_process_syscall E pid num args data s =
     (let ((result, _, response), y) =
            sys_process_syscall (hal_view E (sv_hal s)) (je_now_nanos E) (sv_system s) pid num args data
      in ((result, response),
          s\<lparr>sv_system := y, sv_hal := hal_after_call E (pid_raw pid) num data (sv_hal s)\<rparr>))"

definition sv_on_hal :: "(wasm_hal \<Rightarrow> wasm_hal) \<Rightarrow> supervisor \<Rightarrow> supervisor" where
  "sv_on_hal f s = s\<lparr>sv_hal := f (sv_hal s)\<rparr>"

section \<open>Console and callbacks\<close>

definition sv_register_console_callback :: "u64 \<Rightarrow> js_function \<Rightarrow> supervisor \<Rightarrow> supervisor" where
  "sv_register_console_callback pid f s =
     s\<lparr>sv_console_callbacks := bt_insert pid f (sv_console_callbacks s)\<rparr>"

definition sv_unregister_console_callback :: "u64 \<Rightarrow> supervisor \<Rightarrow> supervisor" where
  "sv_unregister_console_callback pid s = s\<lparr>sv_console_callbacks := bt_remove pid (sv_console_callbacks s)\<rparr>"

definition sv_write_console :: "string \<Rightarrow> supervisor \<Rightarrow> supervisor" where
  "sv_write_console text s = s\<lparr>sv_console_buffer := sv_console_buffer s @ [text]\<rparr>"

definition sv_write_console_to_process :: "u64 \<Rightarrow> string \<Rightarrow> supervisor \<Rightarrow> supervisor" where
  "sv_write_console_to_process pid text s =
     (case bt_get (sv_console_callbacks s) pid of
        Some f \<Rightarrow> sv_on_hal (js_ask (Invoke f [text])) s
      | None \<Rightarrow> s\<lparr>sv_console_buffer := sv_console_buffer s @ [text]\<rparr>)"

definition sv_set_spawn_callback :: "js_function \<Rightarrow> supervisor \<Rightarrow> supervisor" where
  "sv_set_spawn_callback f s = s\<lparr>sv_spawn_callback := Some f\<rparr>"

definition sv_set_ipc_response_callback :: "js_function \<Rightarrow> supervisor \<Rightarrow> supervisor" where
  "sv_set_ipc_response_callback f s = s\<lparr>sv_ipc_response_callback := Some f\<rparr>"

definition sv_request_spawn :: "string \<Rightarrow> string \<Rightarrow> supervisor \<Rightarrow> supervisor" where
  "sv_request_spawn proc_type name s =
     (case sv_spawn_callback s of
        Some f \<Rightarrow> sv_on_hal (js_ask (Invoke f [proc_type, name])) s
      | None \<Rightarrow> sv_write_console (''Error: Spawn callback not set'' @ [CHR 0x0A]) s)"

section \<open>Boot\<close>

definition sv_initialize_supervisor_process :: "js_env \<Rightarrow> supervisor \<Rightarrow> supervisor" where
  "sv_initialize_supervisor_process E s =
     (if sv_supervisor_initialized s then s
      else
        let (pid, s) = sv_sys E (\<lambda>now y. sys_register_process_with_pid now y (ProcessId 0) ''supervisor'') s
        in s\<lparr>sv_supervisor_pid := pid, sv_supervisor_initialized := True\<rparr>)"

definition sv_boot :: "js_env \<Rightarrow> supervisor \<Rightarrow> supervisor" where
  "sv_boot E s =
     sv_initialize_supervisor_process E
       (sv_write_console (''==========================='' @ [CHR 0x0A, CHR 0x0A])
          (sv_write_console (''Zero OS Kernel Bootstrap'' @ [CHR 0x0A]) s))"

definition sv_spawn_init :: "supervisor \<Rightarrow> supervisor" where
  "sv_spawn_init s =
     (if sv_init_spawned s then s
      else sv_request_spawn ''init'' ''init'' (sv_write_console (''Starting init process...'' @ [CHR 0x0A]) s))"

section \<open>Messages through Init\<close>

definition SERVICE_INPUT_SLOT :: u32 where "SERVICE_INPUT_SLOT = 1"
definition VFS_RESPONSE_SLOT :: u32 where "VFS_RESPONSE_SLOT = 4"

definition sv_send_to_init :: "js_env \<Rightarrow> u32 \<Rightarrow> u8 list \<Rightarrow> supervisor \<Rightarrow> supervisor" where
  "sv_send_to_init E tag payload s =
     (case sv_init_endpoint_slot s of
        None \<Rightarrow> s
      | Some init_slot \<Rightarrow> snd (sv_ipc_send E (ProcessId 0) init_slot tag payload s))"

definition sv_route_console_input_via_init :: "js_env \<Rightarrow> u64 \<Rightarrow> string \<Rightarrow> supervisor \<Rightarrow> supervisor" where
  "sv_route_console_input_via_init E target_pid input =
     sv_send_to_init E MSG_SUPERVISOR_CONSOLE_INPUT
       (u32_to_le_bytes (ucast target_pid) @ u32_to_le_bytes 1
        @ u16_to_le_bytes (of_nat (length input + 1)) @ str_bytes input @ [0x0A])"

definition sv_route_ipc_via_init ::
  "js_env \<Rightarrow> u64 \<Rightarrow> u32 \<Rightarrow> u32 \<Rightarrow> u8 list \<Rightarrow> supervisor \<Rightarrow> supervisor" where
  "sv_route_ipc_via_init E target_pid endpoint_slot tag data =
     sv_send_to_init E MSG_SUPERVISOR_IPC_DELIVERY (delivery_payload target_pid endpoint_slot tag data)"

definition sv_find_service_pid :: "supervisor \<Rightarrow> string \<Rightarrow> process_id option" where
  "sv_find_service_pid s name =
     map_option fst (find (\<lambda>(_, p). proc_name p = name) (kc_list_processes (sv_kernel s)))"

definition sv_send_input_to_process :: "js_env \<Rightarrow> u64 \<Rightarrow> string \<Rightarrow> supervisor \<Rightarrow> supervisor" where
  "sv_send_input_to_process E pid input s =
     (if kc_get_process (sv_kernel s) (ProcessId pid) = None then s
      else (case bt_get (sv_terminal_endpoint_slots s) pid of
              None \<Rightarrow> sv_route_console_input_via_init E pid input s
            | Some slot \<Rightarrow>
                snd (sv_ipc_send E (ProcessId 0) slot MSG_CONSOLE_INPUT (str_bytes input @ [0x0A]) s)))"

definition MSG_SUPERVISOR_REVOKE_CAP :: u32 where "MSG_SUPERVISOR_REVOKE_CAP = 0x2020"
definition REVOKE_REASON_EXPLICIT :: u8 where "REVOKE_REASON_EXPLICIT = 1"

definition sv_revoke_capability :: "js_env \<Rightarrow> u64 \<Rightarrow> u32 \<Rightarrow> supervisor \<Rightarrow> bool \<times> supervisor" where
  "sv_revoke_capability E pid slot s =
     (case sv_ps_endpoint_slot s of
        None \<Rightarrow> (False, s)
      | Some ps_slot \<Rightarrow>
          (case sv_ipc_send E (ProcessId 0) ps_slot MSG_SUPERVISOR_REVOKE_CAP
                  (u32_to_le_bytes (ucast pid) @ u32_to_le_bytes slot @ [REVOKE_REASON_EXPLICIT]) s of
             (Inr _, s) \<Rightarrow> (True, s)
           | (Inl _, s) \<Rightarrow> (False, s)))"

fun hal_error_debug :: "hal_error \<Rightarrow> string" where
  "hal_error_debug OutOfMemory = ''OutOfMemory''"
| "hal_error_debug ProcessSpawnFailed = ''ProcessSpawnFailed''"
| "hal_error_debug HalProcessNotFound = ''ProcessNotFound''"
| "hal_error_debug InvalidMessage = ''InvalidMessage''"
| "hal_error_debug NotSupported = ''NotSupported''"
| "hal_error_debug IoError = ''IoError''"
| "hal_error_debug InvalidArgument = ''InvalidArgument''"
| "hal_error_debug StorageError = ''StorageError''"
| "hal_error_debug ResourceExhausted = ''ResourceExhausted''"
| "hal_error_debug NotFound = ''NotFound''"
| "hal_error_debug InvalidBinary = ''InvalidBinary''"

fun kernel_error_debug :: "core_error \<Rightarrow> string" where
  "kernel_error_debug ProcessNotFound = ''ProcessNotFound''"
| "kernel_error_debug EndpointNotFound = ''EndpointNotFound''"
| "kernel_error_debug InvalidCapability = ''InvalidCapability''"
| "kernel_error_debug PermissionDenied = ''PermissionDenied''"
| "kernel_error_debug WouldBlock = ''WouldBlock''"
| "kernel_error_debug (Hal e) = ''Hal('' @ hal_error_debug e @ '')''"

definition sv_send_service_ipc ::
  "js_env \<Rightarrow> string \<Rightarrow> u32 \<Rightarrow> string \<Rightarrow> supervisor \<Rightarrow> string \<times> supervisor" where
  "sv_send_service_ipc E service_name tag data s =
     (case sv_find_service_pid s service_name of
        None \<Rightarrow> (''error:service_not_found:'' @ service_name, s)
      | Some pid \<Rightarrow>
          let response_tag = tag + 1
          in (case sv_init_endpoint_slot s of
                None \<Rightarrow> (''error:no_init_capability'', s)
              | Some init_slot \<Rightarrow>
                  (case sv_ipc_send E (ProcessId 0) init_slot MSG_SUPERVISOR_IPC_DELIVERY
                          (delivery_payload (pid_raw pid) SERVICE_INPUT_SLOT tag (str_bytes data)) s of
                     (Inr _, s) \<Rightarrow> (hex_u32 response_tag, s)
                   | (Inl e, s) \<Rightarrow> (''error:delivery_failed:'' @ kernel_error_debug e, s))))"

section \<open>Killing\<close>

definition sv_cleanup_process_state :: "u64 \<Rightarrow> supervisor \<Rightarrow> supervisor" where
  "sv_cleanup_process_state pid s =
     s\<lparr>sv_console_callbacks := bt_remove pid (sv_console_callbacks s),
       sv_terminal_endpoint_slots := bt_remove pid (sv_terminal_endpoint_slots s)\<rparr>"

definition sv_kill_process_via_init :: "js_env \<Rightarrow> process_id \<Rightarrow> supervisor \<Rightarrow> supervisor" where
  "sv_kill_process_via_init E target_pid =
     sv_send_to_init E MSG_SUPERVISOR_KILL_PROCESS (u32_to_le_bytes (ucast (pid_raw target_pid)))"

definition sv_kill_process_direct :: "js_env \<Rightarrow> process_id \<Rightarrow> supervisor \<Rightarrow> supervisor" where
  "sv_kill_process_direct E pid s =
     (let (_, s) = sv_sys E (\<lambda>now y. ((), sys_kill_process now y pid)) s
      in sv_cleanup_process_state (pid_raw pid) (sv_on_hal (\<lambda>h. snd (do_kill_process (pid_raw pid) h)) s))"

definition sv_kill_process :: "js_env \<Rightarrow> u64 \<Rightarrow> supervisor \<Rightarrow> supervisor" where
  "sv_kill_process E pid s =
     (let s = sv_cleanup_process_state pid s
      in if pid = 1 then sv_kill_process_direct E (ProcessId pid) s
         else sv_kill_process_via_init E (ProcessId pid) s)"

definition sv_kill_all_processes :: "js_env \<Rightarrow> supervisor \<Rightarrow> supervisor" where
  "sv_kill_all_processes E s =
     (let pids = filter (\<lambda>pid. pid_raw pid \<noteq> 0) (map fst (kc_list_processes (sv_kernel s)));
          s = foldl (\<lambda>s pid. if pid_raw pid \<noteq> 1
                             then sv_kill_process_via_init E pid (sv_cleanup_process_state (pid_raw pid) s)
                             else s) s pids
      in foldl (\<lambda>s pid. if pid_raw pid = 1
                        then sv_kill_process_direct E pid (sv_cleanup_process_state (pid_raw pid) s)
                        else s) s pids)"

section \<open>Results of the platform\<close>

definition STORAGE_READ_OK :: u8 where "STORAGE_READ_OK = 0"
definition STORAGE_WRITE_OK :: u8 where "STORAGE_WRITE_OK = 1"
definition STORAGE_NOT_FOUND :: u8 where "STORAGE_NOT_FOUND = 2"
definition STORAGE_RESULT_ERROR :: u8 where "STORAGE_RESULT_ERROR = 3"
definition STORAGE_LIST_OK :: u8 where "STORAGE_LIST_OK = 4"
definition STORAGE_EXISTS_OK :: u8 where "STORAGE_EXISTS_OK = 5"
definition SV_MSG_STORAGE_RESULT :: u32 where "SV_MSG_STORAGE_RESULT = 0x80"
definition SV_MSG_KEYSTORE_RESULT :: u32 where "SV_MSG_KEYSTORE_RESULT = 0x81"
definition SV_MSG_NET_RESULT :: u32 where "SV_MSG_NET_RESULT = 0x9002"

definition result_payload :: "u32 \<Rightarrow> u8 \<Rightarrow> u8 list \<Rightarrow> u8 list" where
  "result_payload request_id result_type data =
     u32_to_le_bytes request_id @ [result_type] @ u32_to_le_bytes (of_nat (length data)) @ data"

definition sv_deliver_storage_result :: "js_env \<Rightarrow> u64 \<Rightarrow> u8 list \<Rightarrow> supervisor \<Rightarrow> supervisor" where
  "sv_deliver_storage_result E pid = sv_route_ipc_via_init E pid SERVICE_INPUT_SLOT SV_MSG_STORAGE_RESULT"

definition sv_deliver_keystore_result :: "js_env \<Rightarrow> u64 \<Rightarrow> u8 list \<Rightarrow> supervisor \<Rightarrow> supervisor" where
  "sv_deliver_keystore_result E pid = sv_route_ipc_via_init E pid SERVICE_INPUT_SLOT SV_MSG_KEYSTORE_RESULT"

definition sv_deliver_network_result :: "js_env \<Rightarrow> u64 \<Rightarrow> u8 list \<Rightarrow> supervisor \<Rightarrow> supervisor" where
  "sv_deliver_network_result E pid = sv_route_ipc_via_init E pid SERVICE_INPUT_SLOT SV_MSG_NET_RESULT"

text \<open>The common shape of the six storage callbacks, and of the six of the keystore.\<close>

definition sv_storage_answer :: "js_env \<Rightarrow> u32 \<Rightarrow> u8 \<Rightarrow> u8 list \<Rightarrow> supervisor \<Rightarrow> supervisor" where
  "sv_storage_answer E request_id result_type data s =
     (case do_take_storage_request_pid request_id (sv_hal s) of
        (None, h) \<Rightarrow> s\<lparr>sv_hal := h\<rparr>
      | (Some pid, h) \<Rightarrow>
          sv_deliver_storage_result E pid (result_payload request_id result_type data) (s\<lparr>sv_hal := h\<rparr>))"

definition sv_keystore_answer :: "js_env \<Rightarrow> u32 \<Rightarrow> u8 \<Rightarrow> u8 list \<Rightarrow> supervisor \<Rightarrow> supervisor" where
  "sv_keystore_answer E request_id result_type data s =
     (case do_take_keystore_request_pid request_id (sv_hal s) of
        (None, h) \<Rightarrow> s\<lparr>sv_hal := h\<rparr>
      | (Some pid, h) \<Rightarrow>
          sv_deliver_keystore_result E pid (result_payload request_id result_type data) (s\<lparr>sv_hal := h\<rparr>))"

definition notify_storage_read_complete :: "js_env \<Rightarrow> u32 \<Rightarrow> u8 list \<Rightarrow> supervisor \<Rightarrow> supervisor" where
  "notify_storage_read_complete E request_id data = sv_storage_answer E request_id STORAGE_READ_OK data"

definition notify_storage_not_found :: "js_env \<Rightarrow> u32 \<Rightarrow> supervisor \<Rightarrow> supervisor" where
  "notify_storage_not_found E request_id = sv_storage_answer E request_id STORAGE_NOT_FOUND []"

definition notify_storage_write_complete :: "js_env \<Rightarrow> u32 \<Rightarrow> supervisor \<Rightarrow> supervisor" where
  "notify_storage_write_complete E request_id = sv_storage_answer E request_id STORAGE_WRITE_OK []"

definition notify_storage_list_complete :: "js_env \<Rightarrow> u32 \<Rightarrow> string \<Rightarrow> supervisor \<Rightarrow> supervisor" where
  "notify_storage_list_complete E request_id keys_json =
     sv_storage_answer E request_id STORAGE_LIST_OK (str_bytes keys_json)"

definition notify_storage_exists_complete :: "js_env \<Rightarrow> u32 \<Rightarrow> bool \<Rightarrow> supervisor \<Rightarrow> supervisor" where
  "notify_storage_exists_complete E request_id ex =
     sv_storage_answer E request_id STORAGE_EXISTS_OK [if ex then 1 else 0]"

definition notify_storage_error :: "js_env \<Rightarrow> u32 \<Rightarrow> string \<Rightarrow> supervisor \<Rightarrow> supervisor" where
  "notify_storage_error E request_id err =
     sv_storage_answer E request_id STORAGE_RESULT_ERROR (str_bytes err)"

definition notify_keystore_read_complete :: "js_env \<Rightarrow> u32 \<Rightarrow> u8 list \<Rightarrow> supervisor \<Rightarrow> supervisor" where
  "notify_keystore_read_complete E request_id data = sv_keystore_answer E request_id STORAGE_READ_OK data"

definition notify_keystore_not_found :: "js_env \<Rightarrow> u32 \<Rightarrow> supervisor \<Rightarrow> supervisor" where
  "notify_keystore_not_found E request_id = sv_keystore_answer E request_id STORAGE_NOT_FOUND []"

definition notify_keystore_write_complete :: "js_env \<Rightarrow> u32 \<Rightarrow> supervisor \<Rightarrow> supervisor" where
  "notify_keystore_write_complete E request_id = sv_keystore_answer E request_id STORAGE_WRITE_OK []"

definition notify_keystore_list_complete :: "js_env \<Rightarrow> u32 \<Rightarrow> string \<Rightarrow> supervisor \<Rightarrow> supervisor" where
  "notify_keystore_list_complete E request_id keys_json =
     sv_keystore_answer E request_id STORAGE_LIST_OK (str_bytes keys_json)"

definition notify_keystore_exists_complete :: "js_env \<Rightarrow> u32 \<Rightarrow> bool \<Rightarrow> supervisor \<Rightarrow> supervisor" where
  "notify_keystore_exists_complete E request_id ex =
     sv_keystore_answer E request_id STORAGE_EXISTS_OK [if ex then 1 else 0]"

definition notify_keystore_error :: "js_env \<Rightarrow> u32 \<Rightarrow> string \<Rightarrow> supervisor \<Rightarrow> supervisor" where
  "notify_keystore_error E request_id err =
     sv_keystore_answer E request_id STORAGE_RESULT_ERROR (str_bytes err)"

text \<open>\<open>result_json\<close> is the text \<^verbatim>\<open>JSON.stringify\<close> gave, if it did not throw.\<close>

definition on_network_result :: "js_env \<Rightarrow> u32 \<Rightarrow> u64 \<Rightarrow> string option \<Rightarrow> supervisor \<Rightarrow> supervisor" where
  "on_network_result E request_id pid result_json s =
     (case do_take_network_request_pid request_id (sv_hal s) of
        (None, h) \<Rightarrow> s\<lparr>sv_hal := h\<rparr>
      | (Some expected_pid, h) \<Rightarrow>
          let s = s\<lparr>sv_hal := h\<rparr>
          in if expected_pid \<noteq> pid then s
             else
               let json = (case result_json of Some j \<Rightarrow> j
                           | None \<Rightarrow> ''{\"result\":{\"Err\":\"Internal error\"}}'')
               in sv_deliver_network_result E pid (result_payload request_id 0 (str_bytes json)) s)"

end
