(* ===== verification/Supervisor_Spawn.thy ===== *)
theory Supervisor_Spawn
  imports Supervisor
begin

text \<open>
  How the supervisor spawns a process: its endpoints, its first capabilities and its worker
  (\<^verbatim>\<open>supervisor/spawn.rs\<close> and \<^verbatim>\<open>supervisor/spawn/capabilities/*.rs\<close>), and the ping-pong test
  (\<^verbatim>\<open>pingpong.rs\<close>) that spawning drives.
\<close>

section \<open>Capabilities of a new process\<close>

definition write_only :: permissions where
  "write_only = \<lparr>perm_read = False, perm_write = True, perm_grant = False\<rparr>"

definition read_write :: permissions where
  "read_write = \<lparr>perm_read = True, perm_write = True, perm_grant = False\<rparr>"

text \<open>The endpoint named by the capability in a slot of a process, which all grants start from.\<close>

definition sv_endpoint_at :: "supervisor \<Rightarrow> process_id \<Rightarrow> u32 \<Rightarrow> endpoint_id option" where
  "sv_endpoint_at s pid slot =
     (case kc_get_cap_space (sv_kernel s) pid of
        None \<Rightarrow> None
      | Some cspace \<Rightarrow> map_option (\<lambda>c. EndpointId (cap_object_id c)) (cs_get cspace slot))"

definition grant_supervisor_capability_to_init :: "js_env \<Rightarrow> process_id \<Rightarrow> supervisor \<Rightarrow> supervisor" where
  "grant_supervisor_capability_to_init E init_pid s =
     (case sv_endpoint_at s init_pid 1 of
        None \<Rightarrow> s
      | Some endpoint_id \<Rightarrow>
          (case sv_grant_capability_to_endpoint E init_pid endpoint_id (ProcessId 0) write_only s of
             (Inr slot, s) \<Rightarrow> s\<lparr>sv_init_endpoint_slot := Some slot\<rparr>
           | (Inl _, s) \<Rightarrow> s))"

definition grant_supervisor_capability_to_ps :: "js_env \<Rightarrow> process_id \<Rightarrow> supervisor \<Rightarrow> supervisor" where
  "grant_supervisor_capability_to_ps E pid s =
     (case sv_endpoint_at s pid SERVICE_INPUT_SLOT of
        None \<Rightarrow> s
      | Some endpoint_id \<Rightarrow>
          (case sv_grant_capability_to_endpoint E pid endpoint_id (ProcessId 0) write_only s of
             (Inr slot, s) \<Rightarrow> s\<lparr>sv_ps_endpoint_slot := Some slot\<rparr>
           | (Inl _, s) \<Rightarrow> s))"

definition grant_terminal_capabilities :: "js_env \<Rightarrow> process_id \<Rightarrow> supervisor \<Rightarrow> supervisor" where
  "grant_terminal_capabilities E terminal_pid s =
     (case sv_endpoint_at s terminal_pid SERVICE_INPUT_SLOT of
        None \<Rightarrow> s
      | Some endpoint_id \<Rightarrow>
          let (_, s) = sv_grant_capability_to_endpoint E terminal_pid endpoint_id (ProcessId 1) write_only s
          in (case sv_grant_capability_to_endpoint E terminal_pid endpoint_id (ProcessId 0) write_only s of
                (Inr slot, s) \<Rightarrow>
                  s\<lparr>sv_terminal_endpoint_slots :=
                      bt_insert (pid_raw terminal_pid) slot (sv_terminal_endpoint_slots s)\<rparr>
              | (Inl _, s) \<Rightarrow> s))"

definition find_vfs_service_pid :: "supervisor \<Rightarrow> process_id option" where
  "find_vfs_service_pid s =
     map_option fst (find (\<lambda>(_, p). proc_name p = ''vfs'') (kc_list_processes (sv_kernel s)))"

definition find_identity_service_pid :: "supervisor \<Rightarrow> process_id option" where
  "find_identity_service_pid s =
     map_option fst (find (\<lambda>(_, p). proc_name p = ''identity'') (kc_list_processes (sv_kernel s)))"

definition find_keystore_service_pid :: "supervisor \<Rightarrow> process_id option" where
  "find_keystore_service_pid s =
     map_option fst (find (\<lambda>(_, p). proc_name p = ''keystore'') (kc_list_processes (sv_kernel s)))"

definition grant_vfs_capability_to_process :: "js_env \<Rightarrow> process_id \<Rightarrow> supervisor \<Rightarrow> supervisor" where
  "grant_vfs_capability_to_process E target_pid s =
     (case find_vfs_service_pid s of
        None \<Rightarrow> s
      | Some vfs_pid \<Rightarrow> snd (sv_grant_capability E vfs_pid SERVICE_INPUT_SLOT target_pid read_write s))"

definition notify_init_vfs_response_cap :: "js_env \<Rightarrow> u64 \<Rightarrow> u32 \<Rightarrow> supervisor \<Rightarrow> supervisor" where
  "notify_init_vfs_response_cap E process_pid cap_slot =
     sv_send_to_init E MSG_VFS_RESPONSE_CAP_GRANTED
       (u32_to_le_bytes (ucast process_pid) @ u32_to_le_bytes cap_slot)"

definition grant_init_vfs_response_capability :: "js_env \<Rightarrow> process_id \<Rightarrow> supervisor \<Rightarrow> supervisor" where
  "grant_init_vfs_response_capability E process_pid s =
     (case sv_endpoint_at s process_pid VFS_RESPONSE_SLOT of
        None \<Rightarrow> s
      | Some endpoint_id \<Rightarrow>
          (case sv_grant_capability_to_endpoint E process_pid endpoint_id (ProcessId 1) write_only s of
             (Inr slot, s) \<Rightarrow> notify_init_vfs_response_cap E (pid_raw process_pid) slot s
           | (Inl _, s) \<Rightarrow> s))"

definition create_vfs_response_endpoint_for_process :: "js_env \<Rightarrow> process_id \<Rightarrow> supervisor \<Rightarrow> supervisor" where
  "create_vfs_response_endpoint_for_process E pid s =
     (case sv_create_endpoint E pid s of
        (Inr _, s) \<Rightarrow> grant_init_vfs_response_capability E pid s
      | (Inl _, s) \<Rightarrow> s)"

definition grant_vfs_capabilities_to_existing_processes ::
  "js_env \<Rightarrow> process_id \<Rightarrow> supervisor \<Rightarrow> supervisor" where
  "grant_vfs_capabilities_to_existing_processes E vfs_pid s =
     (let processes = map fst (filter (\<lambda>(pid, p). pid_raw pid > 1 \<and> pid \<noteq> vfs_pid \<and> proc_name p \<noteq> ''vfs'')
                                 (kc_list_processes (sv_kernel s)))
      in foldl (\<lambda>s pid. create_vfs_response_endpoint_for_process E pid
                          (snd (sv_grant_capability E vfs_pid SERVICE_INPUT_SLOT pid read_write s))) s processes)"

definition grant_identity_capability_to_process ::
  "js_env \<Rightarrow> process_id \<Rightarrow> string \<Rightarrow> supervisor \<Rightarrow> supervisor" where
  "grant_identity_capability_to_process E target_pid target_name s =
     (if target_name = ''identity'' then s
      else (case find_identity_service_pid s of
              None \<Rightarrow> s
            | Some identity_pid \<Rightarrow>
                snd (sv_grant_capability E identity_pid SERVICE_INPUT_SLOT target_pid write_only s)))"

definition grant_identity_capabilities_to_existing_processes ::
  "js_env \<Rightarrow> process_id \<Rightarrow> supervisor \<Rightarrow> supervisor" where
  "grant_identity_capabilities_to_existing_processes E identity_pid s =
     (let processes = map fst (filter (\<lambda>(pid, p). pid_raw pid > 1 \<and> pid \<noteq> identity_pid
                                          \<and> proc_name p \<noteq> ''identity'' \<and> proc_name p \<noteq> ''vfs'')
                                 (kc_list_processes (sv_kernel s)))
      in foldl (\<lambda>s pid. snd (sv_grant_capability E identity_pid SERVICE_INPUT_SLOT pid write_only s))
           s processes)"

definition grant_keystore_capability_to_identity :: "js_env \<Rightarrow> process_id \<Rightarrow> supervisor \<Rightarrow> supervisor" where
  "grant_keystore_capability_to_identity E keystore_pid s =
     (case find_identity_service_pid s of
        None \<Rightarrow> s
      | Some identity_pid \<Rightarrow>
          snd (sv_grant_capability E keystore_pid SERVICE_INPUT_SLOT identity_pid write_only s))"

definition notify_init_service_cap_with_retry :: "js_env \<Rightarrow> u64 \<Rightarrow> u32 \<Rightarrow> bool \<Rightarrow> supervisor \<Rightarrow> supervisor" where
  "notify_init_service_cap_with_retry E service_pid cap_slot trigger_retry =
     sv_send_to_init E (if trigger_retry then MSG_SERVICE_CAP_GRANTED else MSG_SERVICE_CAP_PREREGISTER)
       (u32_to_le_bytes (ucast service_pid) @ u32_to_le_bytes cap_slot)"

definition grant_init_capability_to_service_inner ::
  "js_env \<Rightarrow> process_id \<Rightarrow> bool \<Rightarrow> supervisor \<Rightarrow> supervisor" where
  "grant_init_capability_to_service_inner E service_pid trigger_retry s =
     (case sv_endpoint_at s service_pid SERVICE_INPUT_SLOT of
        None \<Rightarrow> s
      | Some endpoint_id \<Rightarrow>
          (case sv_grant_capability_to_endpoint E service_pid endpoint_id (ProcessId 1) write_only s of
             (Inr slot, s) \<Rightarrow> notify_init_service_cap_with_retry E (pid_raw service_pid) slot trigger_retry s
           | (Inl _, s) \<Rightarrow> s))"

definition grant_init_capability_to_service :: "js_env \<Rightarrow> process_id \<Rightarrow> supervisor \<Rightarrow> supervisor" where
  "grant_init_capability_to_service E service_pid = grant_init_capability_to_service_inner E service_pid False"

definition regrant_init_capability_to_service :: "js_env \<Rightarrow> process_id \<Rightarrow> supervisor \<Rightarrow> supervisor" where
  "regrant_init_capability_to_service E service_pid = grant_init_capability_to_service_inner E service_pid True"

text \<open>\<^verbatim>\<open>setup_process_capabilities\<close>: the branch on the name, then the grants for the services.\<close>

definition setup_first_capabilities :: "js_env \<Rightarrow> process_id \<Rightarrow> string \<Rightarrow> supervisor \<Rightarrow> supervisor" where
  "setup_first_capabilities E pid name s =
     (if name = ''init'' then grant_supervisor_capability_to_init E pid (s\<lparr>sv_init_spawned := True\<rparr>)
      else if name = ''permission'' then grant_supervisor_capability_to_ps E pid s
      else if sv_init_spawned s
      then
        let (_, s) = sv_grant_capability E (ProcessId 1) 1 pid write_only s;
            s = grant_vfs_capability_to_process E pid s;
            s = (case sv_create_endpoint E pid s of
                   (Inr _, s) \<Rightarrow> grant_init_vfs_response_capability E pid s
                 | (Inl _, s) \<Rightarrow> s);
            s = grant_identity_capability_to_process E pid name s
        in if name = ''identity''
           then (case find_keystore_service_pid s of
                   Some keystore_pid \<Rightarrow> grant_keystore_capability_to_identity E keystore_pid s
                 | None \<Rightarrow> s)
           else s
      else s)"

definition setup_service_capabilities :: "js_env \<Rightarrow> process_id \<Rightarrow> string \<Rightarrow> supervisor \<Rightarrow> supervisor" where
  "setup_service_capabilities E pid name s =
     (if name = ''terminal'' then grant_terminal_capabilities E pid s
      else if name = ''vfs''
      then grant_init_capability_to_service E pid (grant_vfs_capabilities_to_existing_processes E pid s)
      else if name = ''identity''
      then grant_init_capability_to_service E pid (grant_identity_capabilities_to_existing_processes E pid s)
      else if name = ''time'' then grant_init_capability_to_service E pid s
      else if name = ''keystore''
      then grant_init_capability_to_service E pid (grant_keystore_capability_to_identity E pid s)
      else s)"

definition setup_process_capabilities :: "js_env \<Rightarrow> process_id \<Rightarrow> string \<Rightarrow> supervisor \<Rightarrow> supervisor" where
  "setup_process_capabilities E pid name s =
     setup_service_capabilities E pid name (setup_first_capabilities E pid name s)"

section \<open>Ping-pong test\<close>

definition CMD_PING :: u32 where "CMD_PING = 0x3001"
definition CMD_PONG_MODE :: u32 where "CMD_PONG_MODE = 0x3002"
definition CMD_EXIT :: u32 where "CMD_EXIT = 0x1005"

definition pp_route_ipc_via_init :: "js_env \<Rightarrow> u64 \<Rightarrow> u32 \<Rightarrow> u32 \<Rightarrow> u8 list \<Rightarrow> supervisor \<Rightarrow> supervisor" where
  "pp_route_ipc_via_init E target_pid endpoint_slot tag data s =
     (case sv_init_endpoint_slot s of
        None \<Rightarrow> s
      | Some init_slot \<Rightarrow>
          snd (sv_ipc_send E (ProcessId 0) init_slot MSG_SUPERVISOR_IPC_DELIVERY
                 (delivery_payload target_pid endpoint_slot tag data) s))"

definition pp_request_kill_via_init :: "js_env \<Rightarrow> u64 \<Rightarrow> supervisor \<Rightarrow> supervisor" where
  "pp_request_kill_via_init E target_pid s =
     (case sv_init_endpoint_slot s of
        None \<Rightarrow> s
      | Some init_slot \<Rightarrow>
          snd (sv_ipc_send E (ProcessId 0) init_slot MSG_SUPERVISOR_KILL_PROCESS
                 (u32_to_le_bytes (ucast target_pid)) s))"

definition progress_pingpong_test :: "js_env \<Rightarrow> supervisor \<Rightarrow> supervisor" where
  "progress_pingpong_test E s =
     (case sv_pingpong_test s of
        SettingUpCaps iterations pinger_pid ponger_pid \<Rightarrow>
          let (_, s) = sv_grant_capability E (ProcessId pinger_pid) 0 (ProcessId ponger_pid) write_only s;
              (_, s) = sv_grant_capability E (ProcessId ponger_pid) 0 (ProcessId pinger_pid) write_only s
          in s\<lparr>sv_pingpong_test := StartingTest iterations pinger_pid ponger_pid\<rparr>
      | StartingTest iterations pinger_pid ponger_pid \<Rightarrow>
          let s = pp_route_ipc_via_init E ponger_pid 0 CMD_PONG_MODE [] s;
              s = pp_route_ipc_via_init E pinger_pid 0 CMD_PING (u32_to_le_bytes iterations) s;
              start_time = sys_uptime_nanos (sv_system s) (je_now_nanos E)
          in s\<lparr>sv_pingpong_test := PpRunning iterations pinger_pid ponger_pid start_time\<rparr>
      | PpRunning iterations pinger_pid ponger_pid start_time \<Rightarrow>
          let elapsed = sys_uptime_nanos (sv_system s) (je_now_nanos E) - start_time
          in if elapsed div 1000000000 \<ge> 30 then s\<lparr>sv_pingpong_test := PpCleanup pinger_pid ponger_pid\<rparr>
             else s
      | PpCleanup pinger_pid ponger_pid \<Rightarrow>
          let s = pp_route_ipc_via_init E pinger_pid 0 CMD_EXIT [] s;
              s = pp_route_ipc_via_init E ponger_pid 0 CMD_EXIT [] s;
              s = pp_request_kill_via_init E pinger_pid s;
              s = pp_request_kill_via_init E ponger_pid s
          in s\<lparr>sv_pingpong_test := PpIdle\<rparr>
      | _ \<Rightarrow> s)"

fun pp_on_process_spawned :: "pingpong_state \<Rightarrow> string \<Rightarrow> u64 \<Rightarrow> pingpong_state \<times> bool" where
  "pp_on_process_spawned (WaitingForPinger iterations) name pid =
     (if name = ''pp_pinger'' then (WaitingForPonger iterations pid, True)
      else (WaitingForPinger iterations, False))"
| "pp_on_process_spawned (WaitingForPonger iterations pinger_pid) name pid =
     (if name = ''pp_ponger'' then (SettingUpCaps iterations pinger_pid pid, False)
      else (WaitingForPonger iterations pinger_pid, False))"
| "pp_on_process_spawned st name pid = (st, False)"

fun pp_check_complete :: "pingpong_state \<Rightarrow> u64 \<Rightarrow> pingpong_state option" where
  "pp_check_complete (PpRunning iterations pinger_pid ponger_pid start_time) pid =
     (if pid = pinger_pid then Some (PpCleanup pinger_pid ponger_pid) else None)"
| "pp_check_complete _ pid = None"

definition check_pingpong_complete :: "js_env \<Rightarrow> u64 \<Rightarrow> supervisor \<Rightarrow> supervisor" where
  "check_pingpong_complete E pid s =
     (case pp_check_complete (sv_pingpong_test s) pid of
        Some new_state \<Rightarrow> progress_pingpong_test E (s\<lparr>sv_pingpong_test := new_state\<rparr>)
      | None \<Rightarrow> s)"

section \<open>Spawning\<close>

text \<open>The three branches of \<^verbatim>\<open>setup_process_endpoints\<close> all create two endpoints.\<close>

definition setup_terminal_endpoints :: "js_env \<Rightarrow> process_id \<Rightarrow> supervisor \<Rightarrow> supervisor" where
  "setup_terminal_endpoints E pid s =
     (let (_, s) = sv_create_endpoint E pid s; (_, s) = sv_create_endpoint E pid s in s)"

definition setup_process_endpoints :: "js_env \<Rightarrow> process_id \<Rightarrow> string \<Rightarrow> supervisor \<Rightarrow> supervisor" where
  "setup_process_endpoints E pid name s =
     (if name = ''init''
      then (let (_, s) = sv_create_endpoint E pid s; (_, s) = sv_create_endpoint E pid s in s)
      else if name = ''terminal'' then setup_terminal_endpoints E pid s
      else (let (_, s) = sv_create_endpoint E pid s; (_, s) = sv_create_endpoint E pid s in s))"

definition register_process_for_spawn :: "js_env \<Rightarrow> string \<Rightarrow> supervisor \<Rightarrow> process_id \<times> supervisor" where
  "register_process_for_spawn E name s =
     (let (pid, s) = sv_sys E (\<lambda>now y. sys_register_process now y name) s
      in (pid, setup_process_endpoints E pid name s))"

definition spawn_worker_for_process ::
  "js_env \<Rightarrow> process_id \<Rightarrow> string \<Rightarrow> u8 list \<Rightarrow> supervisor \<Rightarrow> (hal_error + u64) \<times> supervisor" where
  "spawn_worker_for_process E pid name wasm_binary s =
     (let (r, h) = spawn_with_pid E (pid_raw pid) name wasm_binary (sv_hal s) in (r, s\<lparr>sv_hal := h\<rparr>))"

definition cleanup_failed_spawn :: "js_env \<Rightarrow> process_id \<Rightarrow> string \<Rightarrow> supervisor \<Rightarrow> supervisor" where
  "cleanup_failed_spawn E pid name s =
     (let s = sv_cleanup_process_state (pid_raw pid) s
      in if name = ''init'' \<or> \<not> sv_init_spawned s then sv_kill_process_direct E pid s
         else sv_kill_process_via_init E pid s)"

definition sv_on_process_spawned :: "js_env \<Rightarrow> string \<Rightarrow> u64 \<Rightarrow> supervisor \<Rightarrow> supervisor" where
  "sv_on_process_spawned E name pid s =
     (let (new_state, should_spawn_ponger) = pp_on_process_spawned (sv_pingpong_test s) name pid
      in if should_spawn_ponger
         then sv_request_spawn ''pingpong'' ''pp_ponger''
                ((sv_write_console (''  Pinger spawned as PID '' @ dec_text pid @ [CHR 0x0A]) s)
                   \<lparr>sv_pingpong_test := new_state\<rparr>)
         else (case new_state of
                 SettingUpCaps _ _ _ \<Rightarrow>
                   progress_pingpong_test E
                     ((sv_write_console (''  Ponger spawned as PID '' @ dec_text pid @ [CHR 0x0A]) s)
                        \<lparr>sv_pingpong_test := new_state\<rparr>)
               | _ \<Rightarrow> sv_write_console (''Spawned Worker '' @ [CHR 0x27] @ name @ [CHR 0x27] @ '' as PID '' @ dec_text pid @ [CHR 0x0A]) s))"

definition sv_track :: "u64 \<Rightarrow> (pending_spawn \<Rightarrow> pending_spawn) \<Rightarrow> supervisor \<Rightarrow> supervisor" where
  "sv_track request_id f s = s\<lparr>sv_spawn_tracker := tracker_update request_id f (sv_spawn_tracker s)\<rparr>"

definition complete_spawn :: "js_env \<Rightarrow> string \<Rightarrow> u8 list \<Rightarrow> supervisor \<Rightarrow> u64 \<times> supervisor" where
  "complete_spawn E name wasm_binary s =
     (let (request_id, t) = start_spawn name (je_wallclock_ms E) (sv_spawn_tracker s);
          s = sv_track request_id binary_received (s\<lparr>sv_spawn_tracker := t\<rparr>);
          (pid, s) = register_process_for_spawn E name s;
          s = sv_track request_id (pid_assigned (pid_raw pid)) s;
          s = setup_process_capabilities E pid name s;
          s = sv_track request_id (\<lambda>p. caps_granted (endpoint_created 0 p)) s
      in (case spawn_worker_for_process E pid name wasm_binary s of
            (Inr _, s) \<Rightarrow>
              let s = s\<lparr>sv_spawn_tracker := cleanup_completed (sv_spawn_tracker s)\<rparr>
              in (pid_raw pid, sv_on_process_spawned E name (pid_raw pid) s)
          | (Inl e, s) \<Rightarrow>
              let s = sv_write_console (''Error spawning '' @ name @ '': '' @ hal_error_debug e @ [CHR 0x0A]) s;
                  s = sv_track request_id (spawn_fail (''Worker spawn failed: '' @ hal_error_debug e)) s
              in (0, cleanup_failed_spawn E pid name s)))"

definition check_spawn_timeouts :: "js_env \<Rightarrow> supervisor \<Rightarrow> supervisor" where
  "check_spawn_timeouts E s =
     (let (timed_out, t) = timeout_spawns (je_wallclock_ms E) (sv_spawn_tracker s)
      in foldl (\<lambda>s p. case spawn_state_pid (sp_state p) of
                       Some pid \<Rightarrow> cleanup_failed_spawn E (ProcessId pid) (sp_proc_name p) s
                     | None \<Rightarrow> s) (s\<lparr>sv_spawn_tracker := t\<rparr>) timed_out)"

end
