(* ===== verification/Supervisor_Calls.thy ===== *)
theory Supervisor_Calls
  imports Supervisor_Spawn
begin

text \<open>
  The supervisor's side of the system calls: the messages processes write to the debug channel
  (\<^verbatim>\<open>supervisor/debug_dispatch.rs\<close>, \<^verbatim>\<open>ipc.rs\<close>, \<^verbatim>\<open>syscall/mod.rs\<close>), the dispatch of calls
  (\<^verbatim>\<open>syscall_dispatch.rs\<close>), the polling of the mailboxes, the events of workers (\<^verbatim>\<open>worker_events.rs\<close>) and
  the copying of the commit log to the database (\<^verbatim>\<open>axiom_sync.rs\<close>). \<open>sv_host\<close> is the supervisor as a
  process sees it through its mailbox.
\<close>

section \<open>Debug messages\<close>

definition handle_init_grant :: "js_env \<Rightarrow> string \<Rightarrow> supervisor \<Rightarrow> supervisor" where
  "handle_init_grant E msg s =
     (let parts = split_on (CHR '':'') (drop 11 msg)
      in if length parts \<ge> 3
         then (case (parse_num (parts ! 0) :: u64 option, parse_num (parts ! 1) :: u32 option,
                     parse_num (parts ! 2) :: u8 option) of
                 (Some pid, Some slot, Some p) \<Rightarrow>
                   let permissions = \<lparr>perm_read = (p AND 0x01 \<noteq> 0), perm_write = (p AND 0x02 \<noteq> 0),
                                      perm_grant = (p AND 0x04 \<noteq> 0)\<rparr>
                   in snd (sv_grant_capability E (ProcessId 1) slot (ProcessId pid) permissions s)
               | _ \<Rightarrow> s)
         else s)"

definition handle_init_revoke :: "js_env \<Rightarrow> string \<Rightarrow> supervisor \<Rightarrow> supervisor" where
  "handle_init_revoke E msg s =
     (let parts = split_on (CHR '':'') (drop 12 msg)
      in if length parts \<ge> 2
         then (case (parse_num (parts ! 0) :: u64 option, parse_num (parts ! 1) :: u32 option) of
                 (Some pid, Some slot) \<Rightarrow>
                   snd (sv_sys E (\<lambda>now y. sys_delete_capability now y (ProcessId pid) slot) s)
               | _ \<Rightarrow> s)
         else s)"

text \<open>The responses of services: \<^verbatim>\<open>{to_pid}:{tag_hex}:{hex_data}\<close>.\<close>

definition handle_debug_vfs_response :: "js_env \<Rightarrow> string \<Rightarrow> supervisor \<Rightarrow> supervisor option" where
  "handle_debug_vfs_response E rest s =
     (let parts = splitn 2 (CHR '':'') rest
      in if length parts \<noteq> 3 then Some s
         else (case parse_num (parts ! 0) :: u32 option of
                 None \<Rightarrow> Some s
               | Some to_pid \<Rightarrow>
                   (case from_str_radix 16 (parts ! 1) :: u32 option of
                      None \<Rightarrow> Some s
                    | Some tag \<Rightarrow>
                        (case hex_to_bytes (parts ! 2) of
                           None \<Rightarrow> None
                         | Some (Inl _) \<Rightarrow> Some s
                         | Some (Inr data) \<Rightarrow>
                             Some (sv_route_ipc_via_init E (ucast to_pid) SERVICE_INPUT_SLOT tag data s)))))"

definition handle_debug_keystore_response :: "js_env \<Rightarrow> string \<Rightarrow> supervisor \<Rightarrow> supervisor option" where
  "handle_debug_keystore_response E rest s =
     (let parts = splitn 2 (CHR '':'') rest
      in if length parts \<noteq> 3 then Some s
         else (case parse_num (parts ! 0) :: u32 option of
                 None \<Rightarrow> Some s
               | Some to_pid \<Rightarrow>
                   (case from_str_radix 16 (parts ! 1) :: u32 option of
                      None \<Rightarrow> Some s
                    | Some tag \<Rightarrow>
                        (case hex_to_bytes (parts ! 2) of
                           None \<Rightarrow> None
                         | Some (Inl _) \<Rightarrow> Some s
                         | Some (Inr data) \<Rightarrow>
                             Some (sv_route_ipc_via_init E (ucast to_pid) SERVICE_INPUT_SLOT tag data s)))))"

definition handle_debug_service_response :: "string \<Rightarrow> supervisor \<Rightarrow> supervisor option" where
  "handle_debug_service_response rest s =
     (let parts = splitn 2 (CHR '':'') rest
      in if length parts \<noteq> 3 then Some s
         else (case sv_ipc_response_callback s of
                 None \<Rightarrow> Some s
               | Some f \<Rightarrow>
                   (case hex_to_bytes (parts ! 2) of
                      None \<Rightarrow> None
                    | Some (Inl _) \<Rightarrow> Some s
                    | Some (Inr bytes) \<Rightarrow>
                        (case from_utf8 bytes of
                           None \<Rightarrow> Some s
                         | Some json \<Rightarrow> Some (sv_on_hal (js_ask (Invoke f [parts ! 1, json])) s)))))"

text \<open>The answers of Init to spawn, endpoint and capability requests are decoded and logged.\<close>

definition handle_init_spawn_response :: "string \<Rightarrow> supervisor \<Rightarrow> supervisor option" where
  "handle_init_spawn_response hex_data s = map_option (\<lambda>_. s) (hex_to_bytes hex_data)"

definition handle_init_endpoint_response :: "string \<Rightarrow> supervisor \<Rightarrow> supervisor option" where
  "handle_init_endpoint_response hex_data s = map_option (\<lambda>_. s) (hex_to_bytes hex_data)"

definition handle_init_cap_response :: "string \<Rightarrow> supervisor \<Rightarrow> supervisor option" where
  "handle_init_cap_response hex_data s = map_option (\<lambda>_. s) (hex_to_bytes hex_data)"

definition handle_ipc_delivery_failed :: "js_env \<Rightarrow> string \<Rightarrow> supervisor \<Rightarrow> supervisor" where
  "handle_ipc_delivery_failed E rest s =
     (let parts = split_on (CHR '':'') rest
      in if length parts < 3 then s
         else (case Option.bind (strip_prefix (parts ! 0) ''pid='') parse_num :: u32 option of
                 None \<Rightarrow> s
               | Some target_pid \<Rightarrow>
                   (case Option.bind (strip_prefix (parts ! 1) ''slot='') parse_num :: u32 option of
                      None \<Rightarrow> s
                    | Some slot \<Rightarrow>
                        (case kc_get_process (sv_kernel s) (ProcessId (ucast target_pid)) of
                           None \<Rightarrow> s
                         | Some p \<Rightarrow> regrant_init_capability_to_service E (ProcessId (ucast target_pid)) s))))"

definition handle_init_kill_ok :: "string \<Rightarrow> supervisor \<Rightarrow> supervisor" where
  "handle_init_kill_ok pid_str s =
     (case parse_num pid_str :: u64 option of
        None \<Rightarrow> s
      | Some target_pid \<Rightarrow>
          sv_cleanup_process_state target_pid (sv_on_hal (\<lambda>h. snd (do_kill_process target_pid h)) s))"

definition handle_init_kill_fail :: "string \<Rightarrow> supervisor \<Rightarrow> supervisor" where
  "handle_init_kill_fail rest s = s"

definition handle_debug_spawn :: "string \<Rightarrow> supervisor \<Rightarrow> supervisor" where
  "handle_debug_spawn service_name = sv_request_spawn service_name service_name"

definition handle_debug_console_output :: "js_env \<Rightarrow> process_id \<Rightarrow> string \<Rightarrow> supervisor \<Rightarrow> supervisor" where
  "handle_debug_console_output E pid msg s =
     (let s = sv_write_console (''[P'' @ dec_text (pid_raw pid) @ ''] '' @ msg @ [CHR 0x0A]) s
      in if contains_str msg ''========================================''
         then check_pingpong_complete E (pid_raw pid) s else s)"

definition has_prefix :: "string \<Rightarrow> string \<Rightarrow> bool" where
  "has_prefix s p \<longleftrightarrow> take (length p) s = p"

definition after_prefix :: "string \<Rightarrow> string \<Rightarrow> string" where
  "after_prefix s p = drop (length p) s"

definition dispatch_debug_message :: "js_env \<Rightarrow> process_id \<Rightarrow> string \<Rightarrow> supervisor \<Rightarrow> supervisor option" where
  "dispatch_debug_message E pid msg s =
     (if has_prefix msg ''INIT:SPAWN:''
      then Some (handle_debug_spawn (after_prefix msg ''INIT:SPAWN:'') s)
      else if has_prefix msg ''INIT:GRANT:''
      then Some (handle_init_grant E msg s)
      else if has_prefix msg ''INIT:REVOKE:''
      then Some (handle_init_revoke E msg s)
      else if has_prefix msg ''INIT:KILL_OK:''
      then Some (handle_init_kill_ok (after_prefix msg ''INIT:KILL_OK:'') s)
      else if has_prefix msg ''INIT:KILL_FAIL:''
      then Some (handle_init_kill_fail (after_prefix msg ''INIT:KILL_FAIL:'') s)
      else if has_prefix msg ''INIT:PERM_RESPONSE:''
      then Some s
      else if has_prefix msg ''INIT:PERM_LIST:''
      then Some s
      else if has_prefix msg ''INIT:''
      then Some s
      else if has_prefix msg ''SERVICE:RESPONSE:''
      then handle_debug_service_response (after_prefix msg ''SERVICE:RESPONSE:'') s
      else if has_prefix msg ''VFS:RESPONSE:''
      then handle_debug_vfs_response E (after_prefix msg ''VFS:RESPONSE:'') s
      else if has_prefix msg ''KEYSTORE:RESPONSE:''
      then handle_debug_keystore_response E (after_prefix msg ''KEYSTORE:RESPONSE:'') s
      else if has_prefix msg ''SPAWN:RESPONSE:''
      then handle_init_spawn_response (after_prefix msg ''SPAWN:RESPONSE:'') s
      else if has_prefix msg ''ENDPOINT:RESPONSE:''
      then handle_init_endpoint_response (after_prefix msg ''ENDPOINT:RESPONSE:'') s
      else if has_prefix msg ''CAP:RESPONSE:''
      then handle_init_cap_response (after_prefix msg ''CAP:RESPONSE:'') s
      else if has_prefix msg ''ERROR:IPC_DELIVERY_FAILED:no_capability:''
      then Some (handle_ipc_delivery_failed E (after_prefix msg ''ERROR:IPC_DELIVERY_FAILED:no_capability:'') s)
      else Some (handle_debug_console_output E pid msg s))"

section \<open>System calls\<close>

definition sv_SYS_DEBUG :: u32 where "sv_SYS_DEBUG = 0x01"
definition sv_SYS_CONSOLE_WRITE :: u32 where "sv_SYS_CONSOLE_WRITE = 0x07"
definition sv_SYS_EXIT :: u32 where "sv_SYS_EXIT = 0x11"

definition handle_sys_debug ::
  "js_env \<Rightarrow> process_id \<Rightarrow> u8 list \<Rightarrow> supervisor \<Rightarrow> (i32 \<times> supervisor) option" where
  "handle_sys_debug E pid data s =
     (let ((result, _), s) = sv_process_syscall E pid sv_SYS_DEBUG (0, 0, 0, 0) data s
      in map_option (\<lambda>s. (ucast result, sv_on_hal (write_syscall_data (pid_raw pid) []) s))
           (case from_utf8 data of
              Some msg \<Rightarrow> dispatch_debug_message E pid msg s
            | None \<Rightarrow> Some s))"

definition handle_sys_exit :: "js_env \<Rightarrow> process_id \<Rightarrow> u32 \<Rightarrow> supervisor \<Rightarrow> i32 \<times> supervisor" where
  "handle_sys_exit E pid exit_code s =
     (let ((result, _), s) = sv_process_syscall E pid sv_SYS_EXIT (exit_code, 0, 0, 0) [] s
      in (ucast result,
          if pid_raw pid = 1 then sv_kill_process_direct E pid s else sv_kill_process_via_init E pid s))"

definition handle_sys_console_write ::
  "js_env \<Rightarrow> process_id \<Rightarrow> u8 list \<Rightarrow> supervisor \<Rightarrow> (i32 \<times> supervisor) option" where
  "handle_sys_console_write E pid data s =
     (let ((result, _), s) = sv_process_syscall E pid sv_SYS_CONSOLE_WRITE (0, 0, 0, 0) data s
      in (case from_utf8 data of
            None \<Rightarrow> Some (ucast result, s)
          | Some text \<Rightarrow>
              if length text > 200 \<and> str_slice text 0 200 = None then None
              else Some (ucast result, sv_write_console_to_process (pid_raw pid) text s)))"

definition process_syscall_internal ::
  "js_env \<Rightarrow> process_id \<Rightarrow> u32 \<Rightarrow> u32 \<times> u32 \<times> u32 \<Rightarrow> u8 list \<Rightarrow> supervisor \<Rightarrow> (i32 \<times> supervisor) option" where
  "process_syscall_internal E pid num args data s =
     (if kc_get_process (sv_kernel s) pid = None then Some (- 1, s)
      else if num = sv_SYS_DEBUG then handle_sys_debug E pid data s
      else if num = sv_SYS_EXIT then Some (handle_sys_exit E pid (fst args) s)
      else if num = sv_SYS_CONSOLE_WRITE then handle_sys_console_write E pid data s
      else
        let (a0, a1, a2) = args;
            ((result, response_data), s) = sv_process_syscall E pid num (a0, a1, a2, 0) data s
        in Some (ucast result, sv_on_hal (write_syscall_data (pid_raw pid) response_data) s))"

fun process_syscalls ::
  "js_env \<Rightarrow> (pending_syscall \<times> u8 list) list \<Rightarrow> supervisor \<Rightarrow> supervisor option" where
  "process_syscalls E [] s = Some s"
| "process_syscalls E ((c, data) # rest) s =
     (case process_syscall_internal E (ProcessId (ps_pid c)) (ps_syscall_num c) (ps_args c) data s of
        None \<Rightarrow> None
      | Some (result, s) \<Rightarrow> process_syscalls E rest (sv_on_hal (complete_syscall (ps_pid c) result) s))"

definition sv_poll_syscalls :: "js_env \<Rightarrow> supervisor \<Rightarrow> (usize \<times> supervisor) option" where
  "sv_poll_syscalls E s =
     (let pending = wh_poll_syscalls (sv_hal s);
          calls = map (\<lambda>c. (c, read_syscall_data (ps_pid c) (sv_hal s))) pending
      in map_option (\<lambda>s. (length pending, check_spawn_timeouts E (progress_pingpong_test E s)))
           (process_syscalls E calls s))"

section \<open>Events of workers\<close>

definition MAX_MESSAGES_PER_BATCH :: usize where "MAX_MESSAGES_PER_BATCH = 5000"

definition sv_report_memory :: "u64 \<Rightarrow> usize \<Rightarrow> supervisor \<Rightarrow> supervisor" where
  "sv_report_memory pid memory_size s =
     s\<lparr>sv_hal := wh_update_process_memory pid memory_size (sv_hal s),
       sv_system := sys_update_process_memory (sv_system s) (ProcessId pid) memory_size\<rparr>"

definition handle_worker_event :: "js_env \<Rightarrow> worker_message \<Rightarrow> supervisor \<Rightarrow> supervisor" where
  "handle_worker_event E msg s =
     (case wm_type msg of
        WorkerReady memory_size \<Rightarrow> sv_report_memory (wm_pid msg) memory_size s
      | WorkerError _ \<Rightarrow> s
      | WorkerTerminated \<Rightarrow>
          if kc_get_process (sv_kernel s) (ProcessId (wm_pid msg)) \<noteq> None
          then
            let s = sv_cleanup_process_state (wm_pid msg) s
            in if wm_pid msg = 1 then sv_kill_process_direct E (ProcessId (wm_pid msg)) s
               else sv_kill_process_via_init E (ProcessId (wm_pid msg)) s
          else s
      | MemoryUpdate memory_size \<Rightarrow> sv_report_memory (wm_pid msg) memory_size s
      | WorkerYield \<Rightarrow> s)"

definition process_worker_messages :: "js_env \<Rightarrow> supervisor \<Rightarrow> usize \<times> supervisor" where
  "process_worker_messages E s =
     (let n = min (length (wh_incoming (sv_hal s))) MAX_MESSAGES_PER_BATCH;
          messages = take n (wh_incoming (sv_hal s));
          s = sv_on_hal (\<lambda>h. h\<lparr>wh_incoming := drop n (wh_incoming h)\<rparr>) s
      in (length messages, foldl (\<lambda>s msg. handle_worker_event E msg s) s messages))"

section \<open>The commit log in the database\<close>

text \<open>
  The database is outside the model: \<open>opened\<close> is whether it opened, \<open>last_seq\<close> the number it returned,
  \<open>persist\<close> what it answers to the commits it is given.
\<close>

definition do_axiom_init :: "bool \<Rightarrow> int option \<Rightarrow> u64 option" where
  "do_axiom_init opened last_seq =
     (if \<not> opened then None
      else Some (case last_seq of None \<Rightarrow> 0 | Some q \<Rightarrow> if q < 0 then 0 else word_of_int q + 1))"

definition sv_init_axiom_storage :: "bool \<Rightarrow> int option \<Rightarrow> supervisor \<Rightarrow> bool \<times> supervisor" where
  "sv_init_axiom_storage opened last_seq s =
     (if sv_axiom_storage_ready s then (True, s)
      else (case do_axiom_init opened last_seq of
              Some seq \<Rightarrow> (True, s\<lparr>sv_axiom_storage_ready := True, sv_last_persisted_axiom_seq := seq\<rparr>)
            | None \<Rightarrow> (False, s)))"

definition sv_commits_to_persist :: "supervisor \<Rightarrow> commit list" where
  "sv_commits_to_persist s =
     filter (\<lambda>c. cm_seq c \<ge> sv_last_persisted_axiom_seq s) (cl_commits (gw_commitlog (sys_axiom (sv_system s))))"

definition sv_sync_axiom_log :: "(commit list \<Rightarrow> u32 option) \<Rightarrow> supervisor \<Rightarrow> u32 \<times> supervisor" where
  "sv_sync_axiom_log persist s =
     (if \<not> sv_axiom_storage_ready s then (0, s)
      else
        let current_seq = cl_current_seq (gw_commitlog (sys_axiom (sv_system s))) + 1
        in if current_seq \<le> sv_last_persisted_axiom_seq s then (0, s)
           else if sv_commits_to_persist s = [] then (0, s)
           else (case persist (sv_commits_to_persist s) of
                   Some persisted \<Rightarrow> (persisted, s\<lparr>sv_last_persisted_axiom_seq := current_seq\<rparr>)
                 | None \<Rightarrow> (0, s)))"

definition sv_clear_axiom_storage :: "bool \<Rightarrow> supervisor \<Rightarrow> bool \<times> supervisor" where
  "sv_clear_axiom_storage cleared s =
     (if \<not> sv_axiom_storage_ready s then (False, s)
      else if cleared then (True, s\<lparr>sv_last_persisted_axiom_seq := 0\<rparr>)
      else (False, s))"

section \<open>The supervisor behind a mailbox\<close>

text \<open>
  What one call of a process looks like from its side of the mailbox: it leaves the call there and
  wakes up when the supervisor has completed it. A process whose worker is gone, or whose supervisor
  has panicked, never wakes up; here the call then changes nothing any more.
\<close>

definition put_call :: "u32 \<Rightarrow> u32 \<times> u32 \<times> u32 \<Rightarrow> u8 list \<Rightarrow> mailbox \<Rightarrow> mailbox" where
  "put_call num args data m =
     m\<lparr>mb_syscall_num := num, mb_args := args, mb_data := data @ drop (length data) (mb_data m),
       mb_data_len := of_nat (length data), mb_status := STATUS_PENDING\<rparr>"

definition sv_host :: "js_env \<Rightarrow> u64 \<Rightarrow> supervisor option host" where
  "sv_host E pid num args data st =
     (case st of
        None \<Rightarrow> (0, data, None)
      | Some s \<Rightarrow>
          let s = sv_on_hal (map_worker pid (\<lambda>w. w\<lparr>wk_mailbox := put_call num args data (wk_mailbox w)\<rparr>)) s
          in (case process_syscall_internal E (ProcessId pid) num args (read_syscall_data pid (sv_hal s)) s of
                None \<Rightarrow> (0, data, None)
              | Some (result, s) \<Rightarrow>
                  let s = sv_on_hal (complete_syscall pid result) s
                  in (case bt_get (wh_processes (sv_hal s)) pid of
                        None \<Rightarrow> (0, data, Some s)
                      | Some w \<Rightarrow> (mb_result (wk_mailbox w), mailbox_data (wk_mailbox w), Some s))))"

end
