(* ===== verification/Supervisor_Authority.thy ===== *)
theory Supervisor_Authority
  imports Supervisor_Calls
begin

text \<open>
  What a process can do to the system through the debug channel, and when the supervisor panics.
\<close>

section \<open>Messages as text\<close>

lemma split_on_word: "d \<notin> set xs \<Longrightarrow> split_on d xs = [xs]"
  by (induction xs) auto

lemma split_on_append: "d \<notin> set xs \<Longrightarrow> split_on d (xs @ d # ys) = xs # split_on d ys"
  by (induction xs) auto

lemma num_text_digits:
  "2 \<le> radix \<Longrightarrow> c \<in> set (num_text radix n) \<Longrightarrow> \<exists>d < radix. c = digit_char d"
proof (induction n rule: less_induct)
  case (less n)
  show ?case
  proof (cases "n < radix")
    case True
    with less.prems show ?thesis
      by (subst (asm) num_text.simps) auto
  next
    case False
    then have "c \<in> set (num_text radix (n div radix)) \<or> c = digit_char (n mod radix)"
      using less.prems by (subst (asm) num_text.simps) auto
    moreover have "n div radix < n" "n mod radix < radix"
      using less.prems False by auto
    ultimately show ?thesis
      using less.IH less.prems(1) by blast
  qed
qed

definition ascii :: "string \<Rightarrow> bool" where
  "ascii s \<longleftrightarrow> list_all (\<lambda>c. (of_char c :: nat) < 0x80) s"

lemma ascii_append [simp]: "ascii (xs @ ys) \<longleftrightarrow> ascii xs \<and> ascii ys"
  by (simp add: ascii_def)

lemma ascii_num_text [simp]: "2 \<le> radix \<Longrightarrow> radix \<le> 36 \<Longrightarrow> ascii (num_text radix n)"
  using digit_char_ascii by (fastforce simp: ascii_def list_all_iff dest: num_text_digits)

lemma colon_num_text [simp]: "2 \<le> radix \<Longrightarrow> radix \<le> 36 \<Longrightarrow> CHR '':'' \<notin> set (num_text radix n)"
proof
  assume "2 \<le> radix" "radix \<le> 36" "CHR '':'' \<in> set (num_text radix n)"
  then obtain d where "d < radix" and d: "CHR '':'' = digit_char d"
    using num_text_digits [of radix "CHR '':''" n] by blast
  then have "d < 36"
    using \<open>radix \<le> 36\<close> by simp
  then have "(of_char CHR '':'' :: nat) = (if d < 10 then 48 + d else 87 + d)"
    using d of_char_digit [OF \<open>d < 36\<close>] by (simp only:)
  then show False
    by (simp split: if_splits)
qed

lemma unat_of_char: "unat (of_char c :: u8) = of_char c"
proof -
  have "unat (of_nat (of_char c) :: u8) = of_char c"
    by (simp only: unat_of_nat) simp
  then show ?thesis
    by (simp only: of_nat_of_char)
qed

lemma from_utf8_ascii: "ascii s \<Longrightarrow> from_utf8 (str_bytes s) = Some s"
proof -
  assume "ascii s"
  then have "list_all (\<lambda>b. b < 0x80) (str_bytes s)"
    by (induction s) (auto simp: ascii_def str_bytes_def word_less_nat_alt unat_of_char)
  then show ?thesis
    by (intro from_utf8_str_bytes utf8_valid_ascii)
qed

section \<open>Calls that only log\<close>

lemma basic_call:
  assumes "num \<in> {0x01, 0x07}"
  shows "fst (fst (sv_process_syscall E pid num args data s)) = 0"
    "\<exists>y. snd (sv_process_syscall E pid num args data s) = s\<lparr>sv_system := y\<rparr>
       \<and> sys_kernel y = sv_kernel s \<and> sys_boot_time y = sys_boot_time (sv_system s)"
proof -
  let ?h = "hal_view E (sv_hal s)" and ?now = "je_now_nanos E"
  let ?r = "sys_process_syscall ?h ?now (sv_system s) pid num args data"
  have "execute_syscall_kernel_fn ?h k num pid args data ts = (0, [], [], k)" for k ts
    using assms by (auto simp: execute_syscall_kernel_fn_def execute_basic_syscall_def)
  moreover have "get_syscall_rich_result k pid num args 0 ts = (Ok 0, [], [], k)" for k ts
    using assms by (auto simp: get_syscall_rich_result_def default_rich_result_def)
  ultimately have r: "fst (fst ?r) = 0" "sys_kernel (snd ?r) = sv_kernel s"
    "sys_boot_time (snd ?r) = sys_boot_time (sv_system s)"
    by (simp_all add: sys_process_syscall_def sys_append_types_def Let_def case_prod_unfold)
  have "hal_after_call E (pid_raw pid) num data (sv_hal s) = sv_hal s"
    using assms by (auto simp: hal_after_call_def request_of_call_def)
  then show "fst (fst (sv_process_syscall E pid num args data s)) = 0"
    "\<exists>y. snd (sv_process_syscall E pid num args data s) = s\<lparr>sv_system := y\<rparr>
       \<and> sys_kernel y = sv_kernel s \<and> sys_boot_time y = sys_boot_time (sv_system s)"
    using r by (auto simp: sv_process_syscall_def case_prod_unfold Let_def)
qed

text \<open>A message on the debug channel is handled in a state that differs from the old one in its logs only.\<close>

lemma debug_call:
  assumes "kc_get_process (sv_kernel s) pid \<noteq> None" "from_utf8 data = Some msg"
  obtains y where "sys_kernel y = sv_kernel s" "sys_boot_time y = sys_boot_time (sv_system s)"
    "process_syscall_internal E pid sv_SYS_DEBUG args data s
     = map_option (\<lambda>s. (0, sv_on_hal (write_syscall_data (pid_raw pid) []) s))
         (dispatch_debug_message E pid msg (s\<lparr>sv_system := y\<rparr>))"
proof -
  have "sv_SYS_DEBUG \<in> {0x01, 0x07}"
    by (simp add: sv_SYS_DEBUG_def)
  from basic_call [OF this, of E pid "(0, 0, 0, 0)" data s] obtain y where
    "fst (fst (sv_process_syscall E pid sv_SYS_DEBUG (0, 0, 0, 0) data s)) = 0"
    "snd (sv_process_syscall E pid sv_SYS_DEBUG (0, 0, 0, 0) data s) = s\<lparr>sv_system := y\<rparr>"
    "sys_kernel y = sv_kernel s" "sys_boot_time y = sys_boot_time (sv_system s)"
    by blast
  moreover obtain p where "kc_get_process (sv_kernel s) pid = Some p"
    using assms(1) by blast
  ultimately show thesis
    using assms(2) by (intro that [of y]) (simp_all add: process_syscall_internal_def handle_sys_debug_def case_prod_unfold Let_def)
qed


lemma dispatch_init_messages:
  "dispatch_debug_message E pid (''INIT:GRANT:'' @ rest) s = Some (handle_init_grant E (''INIT:GRANT:'' @ rest) s)"
  "dispatch_debug_message E pid (''INIT:REVOKE:'' @ rest) s = Some (handle_init_revoke E (''INIT:REVOKE:'' @ rest) s)"
  "dispatch_debug_message E pid (''INIT:KILL_OK:'' @ rest) s = Some (handle_init_kill_ok rest s)"
  by (simp_all add: dispatch_debug_message_def has_prefix_def after_prefix_def)

lemma grant_message:
  "handle_init_grant E (''INIT:GRANT:'' @ dec_text target @ '':'' @ dec_text slot @ '':'' @ dec_text p) s
   = snd (sv_grant_capability E (ProcessId 1) slot (ProcessId target) (perms_from_byte p) s)"
  by (simp add: handle_init_grant_def split_on_append split_on_word perms_from_byte_def)

lemma revoke_message:
  "handle_init_revoke E (''INIT:REVOKE:'' @ dec_text target @ '':'' @ dec_text slot) s
   = snd (sv_sys E (\<lambda>now y. sys_delete_capability now y (ProcessId target) slot) s)"
  by (simp add: handle_init_revoke_def split_on_append split_on_word)

lemma sv_sys_kernel:
  "sv_kernel (snd (sv_sys E (\<lambda>now y. sys_routed now y f) s))
   = op_state (f (sv_kernel s) (sys_uptime_nanos (sv_system s) (je_now_nanos E)))"
  by (simp add: sv_sys_def sys_routed_def sys_record_commits_def sys_append_types_def op_state_def
      case_prod_unfold Let_def)

lemma on_hal_simps [simp]:
  "sv_system (sv_on_hal f s) = sv_system s" "sv_hal (sv_on_hal f s) = f (sv_hal s)"
  by (simp_all add: sv_on_hal_def)

text \<open>
  C13. The debug channel needs no authority. Any process can have the supervisor grant a capability of Init
  to any process, delete any capability of any process and stop the worker of any process, by writing
  the line that Init would write: the supervisor does not look at who wrote it, and no capability of
  the writer is checked.
\<close>

theorem debug_channel_needs_no_authority:
  fixes target :: u64 and slot :: u32 and p :: u8
  assumes "kc_get_process (sv_kernel s) pid \<noteq> None"
  shows "(\<exists>s'. process_syscall_internal E pid 0x01 args
             (str_bytes (''INIT:GRANT:'' @ dec_text target @ '':'' @ dec_text slot @ '':'' @ dec_text p)) s = Some (0, s')
           \<and> sv_kernel s' = op_state (kc_grant_capability (sv_kernel s) (ProcessId 1) slot (ProcessId target)
                               (perms_from_byte p) (sys_uptime_nanos (sv_system s) (je_now_nanos E))))
       \<and> (\<exists>s'. process_syscall_internal E pid 0x01 args
             (str_bytes (''INIT:REVOKE:'' @ dec_text target @ '':'' @ dec_text slot)) s = Some (0, s')
           \<and> sv_kernel s' = op_state (kc_delete_capability (sv_kernel s) (ProcessId target) slot
                               (sys_uptime_nanos (sv_system s) (je_now_nanos E))))
       \<and> (\<exists>s'. process_syscall_internal E pid 0x01 args
             (str_bytes (''INIT:KILL_OK:'' @ dec_text target)) s = Some (0, s')
           \<and> bt_get (wh_processes (sv_hal s')) target = None)"
proof -
  have up: "sys_uptime_nanos y now = sys_uptime_nanos (sv_system s) now"
    if "sys_boot_time y = sys_boot_time (sv_system s)" for y now
    using that by (simp add: sys_uptime_nanos_def)
  have call: "\<exists>y. sys_kernel y = sv_kernel s \<and> sys_boot_time y = sys_boot_time (sv_system s)
      \<and> process_syscall_internal E pid 0x01 args (str_bytes msg) s
         = map_option (\<lambda>s. (0, sv_on_hal (write_syscall_data (pid_raw pid) []) s))
             (dispatch_debug_message E pid msg (s\<lparr>sv_system := y\<rparr>))" if "ascii msg" for msg
    using debug_call [OF assms from_utf8_ascii [OF that], of E args] unfolding sv_SYS_DEBUG_def by blast
  have ascii: "ascii (''INIT:GRANT:'' @ dec_text target @ '':'' @ dec_text slot @ '':'' @ dec_text p)"
    "ascii (''INIT:REVOKE:'' @ dec_text target @ '':'' @ dec_text slot)"
    "ascii (''INIT:KILL_OK:'' @ dec_text target)"
    unfolding ascii_append by (simp_all add: ascii_def [of "_ # _"] ascii_def [of "[]"])
  let ?w = "write_syscall_data (pid_raw pid) []"
  obtain y1 where y1: "sys_kernel y1 = sv_kernel s" "sys_boot_time y1 = sys_boot_time (sv_system s)"
    and c1: "process_syscall_internal E pid 0x01 args
        (str_bytes (''INIT:GRANT:'' @ dec_text target @ '':'' @ dec_text slot @ '':'' @ dec_text p)) s
      = Some (0, sv_on_hal ?w (snd (sv_grant_capability E (ProcessId 1) slot (ProcessId target)
                                      (perms_from_byte p) (s\<lparr>sv_system := y1\<rparr>))))"
    using call [OF ascii(1)] unfolding dispatch_init_messages grant_message option.map by blast
  obtain y2 where y2: "sys_kernel y2 = sv_kernel s" "sys_boot_time y2 = sys_boot_time (sv_system s)"
    and c2: "process_syscall_internal E pid 0x01 args
        (str_bytes (''INIT:REVOKE:'' @ dec_text target @ '':'' @ dec_text slot)) s
      = Some (0, sv_on_hal ?w (snd (sv_sys E (\<lambda>now y. sys_delete_capability now y (ProcessId target) slot)
                                      (s\<lparr>sv_system := y2\<rparr>))))"
    using call [OF ascii(2)] unfolding dispatch_init_messages revoke_message option.map by blast
  obtain y3 where c3: "process_syscall_internal E pid 0x01 args (str_bytes (''INIT:KILL_OK:'' @ dec_text target)) s
      = Some (0, sv_on_hal ?w (handle_init_kill_ok (dec_text target) (s\<lparr>sv_system := y3\<rparr>)))"
    using call [OF ascii(3)] unfolding dispatch_init_messages option.map by blast
  have "bt_get (wh_processes (?w (sv_hal (handle_init_kill_ok (dec_text target) s')))) target = None" for s'
    by (simp add: handle_init_kill_ok_def sv_cleanup_process_state_def write_syscall_data_def map_worker_def
        do_kill_process_def js_ask_def Let_def split: option.split)
  with c3 have third: "\<exists>s'. process_syscall_internal E pid 0x01 args
             (str_bytes (''INIT:KILL_OK:'' @ dec_text target)) s = Some (0, s')
           \<and> bt_get (wh_processes (sv_hal s')) target = None"
    by (intro exI conjI) (assumption, simp only: on_hal_simps)
  have "sv_kernel (sv_on_hal ?w (snd (sv_grant_capability E (ProcessId 1) slot (ProcessId target)
          (perms_from_byte p) (s\<lparr>sv_system := y1\<rparr>))))
      = op_state (kc_grant_capability (sv_kernel s) (ProcessId 1) slot (ProcessId target) (perms_from_byte p)
          (sys_uptime_nanos (sv_system s) (je_now_nanos E)))"
    using y1 by (simp add: sv_grant_capability_def sys_grant_capability_def sv_sys_kernel up [OF y1(2)])
  moreover have "sv_kernel (sv_on_hal ?w (snd (sv_sys E (\<lambda>now y. sys_delete_capability now y (ProcessId target) slot)
          (s\<lparr>sv_system := y2\<rparr>))))
      = op_state (kc_delete_capability (sv_kernel s) (ProcessId target) slot
          (sys_uptime_nanos (sv_system s) (je_now_nanos E)))"
    using y2 by (simp add: sys_delete_capability_def sv_sys_kernel up [OF y2(2)])
  ultimately show ?thesis
    using third c1 c2 by blast
qed

definition example_supervisor :: supervisor where
  "example_supervisor = (sv_new example_js)\<lparr>sv_system := example_held\<rparr>"

lemma example_source: "kc_validate_grant_source (sys_kernel example_held) (ProcessId 1) 0 ts = Inr example_endpoint_cap"
  by (simp add: example_held_def example_endpoint_cap_def kc_validate_grant_source_def kc_check_def
      axiom_check_ax_def cs_insert_def cs_new_def cs_get_def perms_full_def perms_grant_only_def
      has_permissions_def is_expired_def is_subset_of_def)

lemma example_grant:
  "\<exists>cs c. bt_get (kc_cap_spaces (op_state (kc_grant_capability (sys_kernel example_held) (ProcessId 1) 0
            (ProcessId 2) (perms_from_byte 7) ts))) (ProcessId 2) = Some cs
     \<and> cs_get cs 0 = Some c \<and> cap_object_id c = 1 \<and> cap_permissions c = perms_full"
  by (simp add: kc_grant_capability_def example_source) 
    (simp add: example_held_def example_endpoint_cap_def example_core_def attenuate_permissions_def op_state_def
      kc_create_derived_cap_def kc_insert_cap_def kc_alloc_cap_id_def kc_map_cap_space_def cs_insert_def cs_new_def
      cs_get_def perms_full_def perms_from_byte_def Let_def)

text \<open>Process 2 has no capability, writes one line, and has the full endpoint capability of Init.\<close>

theorem debug_channel_needs_no_authority_witness:
  "\<exists>s' cs c. process_syscall_internal example_js (ProcessId 2) 0x01 (0, 0, 0)
       (str_bytes (''INIT:GRANT:'' @ dec_text (2 :: u64) @ '':'' @ dec_text (0 :: u32) @ '':'' @ dec_text (7 :: u8)))
       example_supervisor = Some (0, s')
     \<and> bt_get (kc_cap_spaces (sv_kernel s')) (ProcessId 2) = Some cs
     \<and> cs_get cs 0 = Some c \<and> cap_object_id c = 1 \<and> cap_permissions c = perms_full"
proof -
  have k: "sv_kernel example_supervisor = sys_kernel example_held"
    by (simp add: example_supervisor_def)
  have "kc_get_process (sv_kernel example_supervisor) (ProcessId 2) \<noteq> None"
    by (simp add: k example_held_def example_core_def kc_get_process_def)
  from conjunct1 [OF debug_channel_needs_no_authority [OF this, where target = 2 and slot = 0 and p = 7
      and E = example_js and args = "(0, 0, 0)"]]
  show ?thesis
    using example_grant unfolding k by metis
qed

end
