(* ===== verification/Supervisor_Polling.thy ===== *)
theory Supervisor_Polling
  imports Supervisor_Authority
begin

text \<open>
  Polling: a call that waits in a mailbox is completed by the next poll, and what can keep the
  supervisor from completing it.
\<close>

section \<open>Panics\<close>

lemma ascii_take [simp]: "ascii s \<Longrightarrow> ascii (take n s)"
  by (auto simp: ascii_def list_all_iff dest: in_set_takeD)

lemma ascii_drop [simp]: "ascii s \<Longrightarrow> ascii (drop n s)"
  by (auto simp: ascii_def list_all_iff dest: in_set_dropD)

lemma ascii_is_boundary: "ascii s \<Longrightarrow> i \<le> length s \<Longrightarrow> is_char_boundary s i"
  by (rule ascii_boundary) (auto simp: ascii_def list_all_iff)

lemma hex_pairs_ascii:
  "ascii hex \<Longrightarrow> even (length hex) \<Longrightarrow> even i \<Longrightarrow> hex_pairs hex i \<noteq> None"
proof (induction hex i rule: hex_pairs.induct)
  case (1 hex i)
  show ?case
  proof (cases "length hex \<le> i")
    case True
    then show ?thesis
      by (subst hex_pairs.simps) simp
  next
    case False
    moreover have "i + 1 \<noteq> length hex"
      using 1(3,4) by presburger
    ultimately have "i + 2 \<le> length hex"
      by simp
    then have slice: "str_slice hex i (i + 2) = Some (take 2 (drop i hex))"
      using 1(2) by (simp add: str_slice_def ascii_is_boundary)
    show ?thesis
      using 1 False slice by (subst hex_pairs.simps) (simp split: option.split)
  qed
qed

lemma hex_to_bytes_ascii: "ascii hex \<Longrightarrow> hex_to_bytes hex \<noteq> None"
  using hex_pairs_ascii [of hex 0] by (simp add: hex_to_bytes_def)

lemma splitn_ascii: "ascii s \<Longrightarrow> w \<in> set (splitn n d s) \<Longrightarrow> ascii w"
proof (induction n d s arbitrary: w rule: splitn.induct)
  case (2 n d c cs)
  have cs: "ascii cs" "ascii [c]"
    using 2(3) by (simp_all add: ascii_def)
  then have "ascii (c # v)" if "ascii v" for v
    using that by (simp add: ascii_def)
  with 2 cs show ?case
    by (auto simp: ascii_def split: if_splits list.splits)
qed (simp add: ascii_def)

lemma dispatch_ascii: "ascii msg \<Longrightarrow> dispatch_debug_message E pid msg s \<noteq> None"
proof -
  assume "ascii msg"
  then have rest: "ascii (after_prefix msg p)" for p
    by (simp add: after_prefix_def)
  have part: "hex_to_bytes (splitn 2 (CHR '':'') r ! 2) \<noteq> None"
    if "ascii r" "length (splitn 2 (CHR '':'') r) = 3" for r
  proof -
    have "splitn 2 (CHR '':'') r ! 2 \<in> set (splitn 2 (CHR '':'') r)"
      using that(2) by (intro nth_mem) simp
    from hex_to_bytes_ascii [OF splitn_ascii [OF that(1) this]] show ?thesis .
  qed
  have "handle_debug_vfs_response E r s \<noteq> None" "handle_debug_keystore_response E r s \<noteq> None"
    "handle_debug_service_response r s \<noteq> None" if "ascii r" for r
    using part [OF that]
    by (auto simp: handle_debug_vfs_response_def handle_debug_keystore_response_def
        handle_debug_service_response_def Let_def split: option.split sum.split)
  moreover have "handle_init_spawn_response r s \<noteq> None" "handle_init_endpoint_response r s \<noteq> None"
    "handle_init_cap_response r s \<noteq> None" if "ascii r" for r
    using hex_to_bytes_ascii [OF that] by (auto simp: handle_init_spawn_response_def
        handle_init_endpoint_response_def handle_init_cap_response_def)
  ultimately show ?thesis
    using rest by (simp add: dispatch_debug_message_def)
qed

lemma ascii_bytes_str: "list_all (\<lambda>b. b < 0x80) data \<Longrightarrow> ascii (bytes_str data)"
  by (induction data) (auto simp: ascii_def bytes_str_def word_less_nat_alt)

lemma ascii_call_returns:
  assumes "list_all (\<lambda>b. b < 0x80) data"
  shows "process_syscall_internal E pid num args data s \<noteq> None"
proof -
  have decoded: "ascii (bytes_str data)" "from_utf8 data = Some (bytes_str data)"
    using assms by (simp_all add: ascii_bytes_str from_utf8_def utf8_valid_ascii)
  have "handle_sys_debug E pid data s \<noteq> None"
    using dispatch_ascii [OF decoded(1)] by (simp add: handle_sys_debug_def decoded(2) case_prod_unfold Let_def)
  moreover have "handle_sys_console_write E pid data s \<noteq> None"
    using decoded by (simp add: handle_sys_console_write_def case_prod_unfold Let_def str_slice_def ascii_is_boundary)
  ultimately show ?thesis
    by (simp add: process_syscall_internal_def case_prod_unfold Let_def)
qed

section \<open>Workers while calls are handled\<close>

definition worker_view :: "worker \<Rightarrow> bool \<times> u64 \<times> i32" where
  "worker_view w = (wk_alive w, wk_worker_id w, mb_status (wk_mailbox w))"

text \<open>
  While the supervisor works, workers are added without a mailbox or disappear; nothing else happens to
  the status of a mailbox.
\<close>

definition quiet :: "wasm_hal \<Rightarrow> wasm_hal \<Rightarrow> bool" where
  "quiet h h' \<longleftrightarrow> (\<forall>q w'. bt_get (wh_processes h') q = Some w' \<longrightarrow>
     wk_worker_id w' = 0 \<or> (\<exists>w. bt_get (wh_processes h) q = Some w \<and> worker_view w = worker_view w'))"

lemma quiet_refl [simp]: "quiet h h"
  by (simp add: quiet_def)

lemma quiet_trans [trans]: "quiet h h' \<Longrightarrow> quiet h' h'' \<Longrightarrow> quiet h h''"
  unfolding quiet_def by (metis (no_types, lifting) prod.inject worker_view_def)

lemma quiet_same: "wh_processes h' = wh_processes h \<Longrightarrow> quiet h h'"
  by (simp add: quiet_def)

lemma quiet_kill: "quiet h (snd (do_kill_process pid h))"
  by (auto simp: quiet_def do_kill_process_def js_ask_def Let_def split: option.split)

lemma quiet_spawn: "quiet h (snd (spawn_with_pid E pid name binary h))"
  by (auto simp: quiet_def spawn_with_pid_def js_ask_def Let_def)

lemma quiet_write: "quiet h (write_syscall_data pid data h)"
  by (auto simp: quiet_def write_syscall_data_def map_worker_def mailbox_store_def worker_view_def Let_def
      split: option.split)

lemma processes_request:
  "wh_processes (snd (do_storage_async E pid r h)) = wh_processes h"
  "wh_processes (snd (do_keystore_async E pid r h)) = wh_processes h"
  "wh_processes (snd (do_network_fetch_async E pid d h)) = wh_processes h"
  by (cases r; simp add: platform_requests storage_tables js_starts Let_def split: option.split)+

lemma quiet_call: "quiet h (hal_after_call E pid num data h)"
proof -
  have "quiet h (hal_after_request E pid r h)" for r
    using quiet_trans [OF quiet_same quiet_spawn]
    by (cases "(E, pid, r, h)" rule: hal_after_request.cases)
      (auto intro: quiet_same simp: processes_request wasm_spawn_process_def Let_def)
  then show ?thesis
    by (simp add: hal_after_call_def)
qed

abbreviation sv_quiet :: "supervisor \<Rightarrow> supervisor \<Rightarrow> bool" where
  "sv_quiet s s' \<equiv> quiet (sv_hal s) (sv_hal s')"

lemma hal_sys [simp]: "sv_hal (snd (sv_sys E f s)) = sv_hal s"
  by (simp add: sv_sys_def case_prod_unfold Let_def)

lemma hal_routes [simp]:
  "sv_hal (snd (sv_ipc_send E p slot tag data s)) = sv_hal s"
  "sv_hal (snd (sv_grant_capability E p slot q perms s)) = sv_hal s"
  "sv_hal (snd (sv_grant_capability_to_endpoint E p eid q perms s)) = sv_hal s"
  "sv_hal (snd (sv_create_endpoint E p s)) = sv_hal s"
  "sv_hal (sv_send_to_init E tag data s) = sv_hal s"
  "sv_hal (sv_route_ipc_via_init E t slot tag data s) = sv_hal s"
  "sv_hal (sv_kill_process_via_init E p s) = sv_hal s"
  "sv_hal (pp_route_ipc_via_init E t slot tag data s) = sv_hal s"
  "sv_hal (pp_request_kill_via_init E t s) = sv_hal s"
  "sv_hal (sv_write_console text s) = sv_hal s"
  "sv_hal (sv_cleanup_process_state t s) = sv_hal s"
  by (simp_all add: sv_ipc_send_def sv_grant_capability_def sv_grant_capability_to_endpoint_def
      sv_create_endpoint_def sv_send_to_init_def sv_route_ipc_via_init_def sv_kill_process_via_init_def
      pp_route_ipc_via_init_def pp_request_kill_via_init_def sv_write_console_def
      sv_cleanup_process_state_def split: option.split)

lemma quiet_direct: "sv_quiet s (sv_kill_process_direct E p s)"
  using quiet_kill by (simp add: sv_kill_process_direct_def case_prod_unfold Let_def)

lemma quiet_ask: "quiet h (js_ask c h)"
  by (simp add: js_ask_def quiet_same)

lemma hal_pingpong [simp]:
  "sv_hal (progress_pingpong_test E s) = sv_hal s"
  "sv_hal (check_pingpong_complete E p s) = sv_hal s"
proof -
  show p: "sv_hal (progress_pingpong_test E s) = sv_hal s" for s
    by (simp add: progress_pingpong_test_def case_prod_unfold Let_def split: pingpong_state.split)
  show "sv_hal (check_pingpong_complete E p s) = sv_hal s"
    by (simp add: check_pingpong_complete_def p split: option.split)
qed

lemma quiet_failed_spawn: "sv_quiet s (cleanup_failed_spawn E p name s)"
  using quiet_direct [of "sv_cleanup_process_state (pid_raw p) s" E p]
  by (simp add: cleanup_failed_spawn_def Let_def)

lemma quiet_timeouts: "sv_quiet s (check_spawn_timeouts E s)"
proof -
  have step: "sv_quiet s (case spawn_state_pid (sp_state p) of
                Some pid \<Rightarrow> cleanup_failed_spawn E (ProcessId pid) (sp_proc_name p) s | None \<Rightarrow> s)" for p s
    using quiet_failed_spawn by (simp split: option.split)
  have "sv_quiet s (foldl (\<lambda>s p. case spawn_state_pid (sp_state p) of
                Some pid \<Rightarrow> cleanup_failed_spawn E (ProcessId pid) (sp_proc_name p) s | None \<Rightarrow> s) s ps)" for ps s
    by (induction ps arbitrary: s) (auto intro: quiet_trans [OF step])
  from this [of "s\<lparr>sv_spawn_tracker := snd (timeout_spawns (je_wallclock_ms E) (sv_spawn_tracker s))\<rparr>"
      "fst (timeout_spawns (je_wallclock_ms E) (sv_spawn_tracker s))"]
  show ?thesis
    by (simp add: check_spawn_timeouts_def case_prod_unfold Let_def)
qed

lemma hal_regrant [simp]: "sv_hal (regrant_init_capability_to_service E p s) = sv_hal s"
proof -
  have "sv_hal s' = sv_hal s" if "sv_grant_capability_to_endpoint E p e q perms s = (r, s')" for r s' e q perms
    using hal_routes(3) [of E p e q perms s] that by simp
  then show ?thesis
    by (auto simp: regrant_init_capability_to_service_def grant_init_capability_to_service_inner_def
        notify_init_service_cap_with_retry_def split: option.split prod.split sum.split)
qed

lemma quiet_dispatch:
  assumes "dispatch_debug_message E pid msg s = Some s'"
  shows "sv_quiet s s'"
proof -
  have "sv_quiet s (handle_debug_spawn n s)" for n
    using quiet_ask by (simp add: handle_debug_spawn_def sv_request_spawn_def sv_on_hal_def split: option.split)
  moreover have "sv_hal (handle_init_grant E m s) = sv_hal s" "sv_hal (handle_init_revoke E m s) = sv_hal s"
    "sv_hal (handle_ipc_delivery_failed E m s) = sv_hal s" "sv_hal (handle_init_kill_fail m s) = sv_hal s"
    "sv_hal (handle_debug_console_output E pid m s) = sv_hal s" for m
    by (simp_all add: handle_init_grant_def handle_init_revoke_def handle_ipc_delivery_failed_def
        handle_init_kill_fail_def handle_debug_console_output_def Let_def split: option.split)
  moreover have "sv_quiet s (handle_init_kill_ok m s)" for m
    using quiet_kill by (simp add: handle_init_kill_ok_def sv_on_hal_def split: option.split)
  moreover have "sv_quiet s t" if "handle_debug_service_response m s = Some t" for m t
    using that quiet_ask
    by (auto simp: handle_debug_service_response_def sv_on_hal_def Let_def split: if_splits option.splits sum.splits)
  moreover have "sv_hal t = sv_hal s" if "handle_debug_vfs_response E m s = Some t
      \<or> handle_debug_keystore_response E m s = Some t \<or> handle_init_spawn_response m s = Some t
      \<or> handle_init_endpoint_response m s = Some t \<or> handle_init_cap_response m s = Some t" for m t
    using that
    by (auto simp: handle_debug_vfs_response_def handle_debug_keystore_response_def handle_init_spawn_response_def
        handle_init_endpoint_response_def handle_init_cap_response_def Let_def
        split: if_splits option.splits sum.splits)
  ultimately show ?thesis
    using assms unfolding dispatch_debug_message_def
    by (auto split: if_splits) (metis quiet_refl)+
qed

lemma quiet_process_syscall: "sv_quiet s (snd (sv_process_syscall E pid num args data s))"
  using quiet_call by (simp add: sv_process_syscall_def case_prod_unfold Let_def)

lemma quiet_internal:
  assumes "process_syscall_internal E pid num args data s = Some (r, s')"
  shows "sv_quiet s s'"
proof -
  have call: "sv_quiet s t" if "sv_process_syscall E pid n a d s = (x, t)" for n a d x t
    using quiet_process_syscall [of s E pid n a d] that by simp
  have debug: "sv_quiet s t" if "handle_sys_debug E pid data s = Some (x, t)" for x t
  proof -
    obtain u v where u: "sv_process_syscall E pid sv_SYS_DEBUG (0, 0, 0, 0) data s = (v, u)"
      by (cases "sv_process_syscall E pid sv_SYS_DEBUG (0, 0, 0, 0) data s")
    have "\<exists>u'. sv_quiet u u' \<and> t = sv_on_hal (write_syscall_data (pid_raw pid) []) u'"
      using that by (auto simp: handle_sys_debug_def u case_prod_unfold Let_def
          intro: quiet_dispatch exI [of _ u] split: option.splits)
    then obtain u' where "sv_quiet u u'" "t = sv_on_hal (write_syscall_data (pid_raw pid) []) u'"
      by blast
    then show ?thesis
      using call [OF u] quiet_write quiet_trans by (metis on_hal_simps(2))
  qed
  have exit: "sv_quiet s (snd (handle_sys_exit E pid c s))" for c
    using quiet_trans [OF quiet_process_syscall quiet_direct] quiet_process_syscall
    by (simp add: handle_sys_exit_def case_prod_unfold Let_def)
  have console: "sv_quiet s t" if "handle_sys_console_write E pid data s = Some (x, t)" for x t
  proof -
    obtain u v where u: "sv_process_syscall E pid sv_SYS_CONSOLE_WRITE (0, 0, 0, 0) data s = (v, u)"
      by (cases "sv_process_syscall E pid sv_SYS_CONSOLE_WRITE (0, 0, 0, 0) data s")
    have "sv_quiet u (sv_write_console_to_process (pid_raw pid) m u)" for m
      using quiet_ask by (simp add: sv_write_console_to_process_def split: option.split)
    then show ?thesis
      using that call [OF u] quiet_trans
      by (auto simp: handle_sys_console_write_def u case_prod_unfold Let_def split: option.splits if_splits)
  qed
  have "sv_quiet s (sv_on_hal (write_syscall_data p d) (snd (sv_process_syscall E pid n a d' s)))" for p d n a d'
    using quiet_trans [OF quiet_process_syscall quiet_write] by simp
  then show ?thesis
    using assms debug exit console
    by (auto simp: process_syscall_internal_def case_prod_unfold Let_def split: if_splits)
      (metis snd_conv)
qed

section \<open>Every waiting call is completed\<close>

definition waits :: "wasm_hal \<Rightarrow> u64 \<Rightarrow> bool" where
  "waits h q \<longleftrightarrow> (\<exists>w. bt_get (wh_processes h) q = Some w \<and> wk_alive w \<and> wk_worker_id w \<noteq> 0
                       \<and> mb_status (wk_mailbox w) = STATUS_PENDING)"

definition woken :: "wasm_hal \<Rightarrow> u64 \<Rightarrow> bool" where
  "woken h q \<longleftrightarrow> (\<forall>w. bt_get (wh_processes h) q = Some w \<and> wk_worker_id w \<noteq> 0
                      \<longrightarrow> mb_status (wk_mailbox w) = STATUS_READY)"

lemma waits_quiet: "quiet h h' \<Longrightarrow> waits h' q \<Longrightarrow> waits h q"
  by (fastforce simp: quiet_def waits_def worker_view_def)

lemma woken_quiet: "quiet h h' \<Longrightarrow> woken h q \<Longrightarrow> woken h' q"
  by (fastforce simp: quiet_def woken_def worker_view_def)

lemma complete_wakes:
  "woken (complete_syscall p r h) p" "woken h q \<Longrightarrow> woken (complete_syscall p r h) q"
  by (auto simp: woken_def complete_syscall_def map_worker_def split: option.splits if_splits)

lemma woken_not_waits: "woken h q \<Longrightarrow> \<not> waits h q"
  by (auto simp: woken_def waits_def STATUS_READY_def STATUS_PENDING_def)

lemma complete_waits: "waits (complete_syscall p r h) q \<Longrightarrow> waits h q"
  by (auto simp: waits_def complete_syscall_def map_worker_def STATUS_READY_def STATUS_PENDING_def
      split: option.splits if_splits)

lemma process_syscalls_wakes:
  assumes "process_syscalls E calls s = Some s'"
  shows "\<forall>c \<in> set calls. woken (sv_hal s') (ps_pid (fst c))"
    "woken (sv_hal s) q \<Longrightarrow> woken (sv_hal s') q" "waits (sv_hal s') q \<Longrightarrow> waits (sv_hal s) q"
proof -
  have "(\<forall>c \<in> set calls. woken (sv_hal s') (ps_pid (fst c)))
      \<and> (\<forall>q. woken (sv_hal s) q \<longrightarrow> woken (sv_hal s') q) \<and> (\<forall>q. waits (sv_hal s') q \<longrightarrow> waits (sv_hal s) q)"
    using assms
  proof (induction calls arbitrary: s)
    case (Cons c calls)
    obtain call data where c: "c = (call, data)" by (cases c)
    from Cons.prems obtain r t where t: "process_syscall_internal E (ProcessId (ps_pid call)) (ps_syscall_num call)
        (ps_args call) data s = Some (r, t)"
      and rest: "process_syscalls E calls (sv_on_hal (complete_syscall (ps_pid call) r) t) = Some s'"
      by (auto simp: c split: option.splits)
    let ?u = "sv_on_hal (complete_syscall (ps_pid call) r) t"
    have "woken (sv_hal ?u) (ps_pid call)" "woken (sv_hal s) q \<Longrightarrow> woken (sv_hal ?u) q"
      "waits (sv_hal ?u) q \<Longrightarrow> waits (sv_hal s) q" for q
      using quiet_internal [OF t] by (auto intro: complete_wakes woken_quiet waits_quiet complete_waits)
    then show ?case
      using Cons.IH [OF rest] by (auto simp: c)
  qed simp
  then show "\<forall>c \<in> set calls. woken (sv_hal s') (ps_pid (fst c))"
    "woken (sv_hal s) q \<Longrightarrow> woken (sv_hal s') q" "waits (sv_hal s') q \<Longrightarrow> waits (sv_hal s) q"
    by blast+
qed

lemma process_syscalls_returns:
  "\<forall>(c, data) \<in> set calls. list_all (\<lambda>b. b < 0x80) data \<Longrightarrow> \<exists>s'. process_syscalls E calls s = Some s'"
proof (induction calls arbitrary: s)
  case (Cons c calls)
  obtain call data where c: "c = (call, data)" by (cases c)
  obtain r t where "process_syscall_internal E (ProcessId (ps_pid call)) (ps_syscall_num call)
      (ps_args call) data s = Some (r, t)"
    using ascii_call_returns [of data E "ProcessId (ps_pid call)"] Cons.prems c by (fastforce simp: not_None_eq)
  then show ?case
    using Cons by (simp add: c)
qed simp

lemma waits_polled: "waits h q \<Longrightarrow> \<exists>c \<in> set (wh_poll_syscalls h). ps_pid c = q"
  by (force simp: waits_def wh_poll_syscalls_def dest!: map_of_SomeD)


definition example_waiting :: supervisor where
  "example_waiting = example_supervisor\<lparr>sv_hal := wasm_hal_new\<lparr>wh_processes :=
     [(2, \<lparr>wk_name = ''app'', wk_alive = True, wk_memory_size = 65536, wk_worker_id = 9,
           wk_mailbox = placeholder_mailbox\<lparr>mb_status := STATUS_PENDING, mb_syscall_num := 3\<rparr>\<rparr>)]\<rparr>\<rparr>"


text \<open>
  C14. One line of text stops the supervisor. A console write whose text is valid panics exactly when the
  text is longer than 200 bytes and a character straddles byte 200: the line is cut there for the log.
  Any registered process can write such a text.
\<close>

theorem console_write_panics_iff:
  assumes "kc_get_process (sv_kernel s) pid \<noteq> None" "from_utf8 data = Some msg"
  shows "process_syscall_internal E pid 0x07 args data s = None
     \<longleftrightarrow> length msg > 200 \<and> \<not> is_char_boundary msg 200"
proof -
  obtain p where "kc_get_process (sv_kernel s) pid = Some p"
    using assms(1) by blast
  moreover have "is_char_boundary msg 0"
    by (simp add: is_char_boundary_def)
  ultimately show ?thesis
    using assms(2)
    by (simp add: process_syscall_internal_def handle_sys_console_write_def sv_SYS_DEBUG_def sv_SYS_EXIT_def
        sv_SYS_CONSOLE_WRITE_def case_prod_unfold Let_def str_slice_def)
qed

lemma utf8_valid_ascii_append: "list_all (\<lambda>b. b < 0x80) as \<Longrightarrow> utf8_valid (as @ bs) \<longleftrightarrow> utf8_valid bs"
proof (induction as)
  case (Cons a as)
  then show ?case
    by (subst utf8_valid.simps) (simp add: utf8_next_def)
qed simp

text \<open>199 times \<open>a\<close> and an \<open>e\<close> with an acute accent, twice.\<close>

theorem console_write_panics_iff_witness:
  "process_syscall_internal example_js (ProcessId 2) 0x07 (0, 0, 0)
     (replicate 199 0x61 @ [0xC3, 0xA9, 0xC3, 0xA9]) example_supervisor = None"
proof -
  let ?bs = "replicate 199 0x61 @ [0xC3, 0xA9, 0xC3, 0xA9] :: u8 list"
  have "kc_get_process (sv_kernel example_supervisor) (ProcessId 2) \<noteq> None"
    by (simp add: example_supervisor_def example_held_def example_core_def kc_get_process_def)
  moreover have "utf8_valid [0xC3, 0xA9, 0xC3, 0xA9]"
    by (simp add: utf8_valid.simps utf8_next_def utf8_cont_def)
  then have "utf8_valid ?bs"
    by (subst utf8_valid_ascii_append) (simp_all add: list_all_iff)
  then have "from_utf8 ?bs = Some (bytes_str ?bs)"
    by (simp only: from_utf8_def if_True)
  moreover have "length (bytes_str ?bs) = 203"
    by (simp only: bytes_str_def length_map length_append length_replicate) simp
  moreover have "(of_char (bytes_str ?bs ! 200) :: nat) = 0xA9"
    by (simp add: bytes_str_def nth_append)
  ultimately show ?thesis
    using console_write_panics_iff [of example_supervisor "ProcessId 2" ?bs "bytes_str ?bs" example_js "(0, 0, 0)"]
    by (simp only: is_char_boundary_def) simp
qed

end
