(* ===== verification/Spec2Isabelle.thy ===== *)
theory Spec2Isabelle
  imports Kernel_Traffic System_Replay Vfs_Runs Supervisor_Polling
begin

text \<open>
  Verification of Zero OS: the kernel, its logs, the system boundary, the file service, the process
  library, Init and the supervisor.

  \<^bold>\<open>The program.\<close> Zero OS is a capability-based operating system that runs its processes in browser
  workers. \<^verbatim>\<open>crates/zos-kernel\<close> holds the runtime kernel (\<^verbatim>\<open>KernelCore\<close>: processes, capability spaces,
  endpoints, messages) and around it the \<^verbatim>\<open>System\<close>, which dispatches calls by number and records each
  in the two logs of \<^verbatim>\<open>crates/zos-axiom\<close>: an audit log of calls and a hash-chained log of commits from
  which the state can be replayed. \<^verbatim>\<open>crates/zos-kernel-core\<close> is a second, pure kernel with an invariant
  checker. The file service of \<^verbatim>\<open>crates/zos-services/src/services/vfs\<close> serves requests of other
  processes by chains of asynchronous storage calls, over the types of \<^verbatim>\<open>crates/zos-vfs\<close>. A process makes
  its calls with the library \<^verbatim>\<open>crates/zos-process\<close>, which writes them to a mailbox shared with the browser
  page. There \<^verbatim>\<open>crates/zos-supervisor\<close> polls the mailboxes, hands each call to the \<^verbatim>\<open>System\<close>, acts on the debug
  lines of Init, and starts the asynchronous storage, keystore and network operations; their results
  travel back as messages through the first process, Init (\<^verbatim>\<open>crates/zos-init\<close>), which also keeps the
  registry of services and carries out what the supervisor asks for.

  \<^bold>\<open>Theories.\<close>
  \<^item> \<^theory_text>\<open>Prelude\<close>: machine integers, \<^verbatim>\<open>BTreeMap\<close> as an ordered association list (\<open>bt_*\<close>), byte codecs, and
    the locale \<open>guarded_machine\<close> (histories of steps that keep an invariant and a preorder).
  \<^item> \<^theory_text>\<open>Utf8\<close>: \<^verbatim>\<open>core::str::from_utf8\<close>.
  \<^item> \<^theory_text>\<open>Capability\<close>: \<^verbatim>\<open>zos-axiom/src/capability.rs\<close> and \<^verbatim>\<open>zos-kernel-core/src/capability.rs\<close>: permissions,
    capability spaces (\<open>cs_*\<close>) and both copies of \<^verbatim>\<open>axiom_check\<close>, with the locale \<open>capability_gate\<close>.
  \<^item> \<^theory_text>\<open>Kernel_State\<close>, \<^theory_text>\<open>Kernel_Step\<close>, \<^theory_text>\<open>Kernel_Invariants\<close>: the pure kernel, \<^verbatim>\<open>types.rs\<close>, \<^verbatim>\<open>state.rs\<close>
    (\<open>ks_*\<close>), \<^verbatim>\<open>step.rs\<close> (\<open>step_*\<close>) and \<^verbatim>\<open>invariants.rs\<close> (\<open>check_*\<close>). \<^theory_text>\<open>Kernel_Traffic\<close> holds the properties of
    whole histories: no amplification of rights, who may touch a queue, delivery in order, the
    checker's verdict.
  \<^item> \<^theory_text>\<open>Axiom_Log\<close>, \<^theory_text>\<open>Axiom_Gateway\<close>: \<^verbatim>\<open>syslog.rs\<close> (\<open>sl_*\<close>), \<^verbatim>\<open>commitlog.rs\<close> (\<open>cl_*\<close>), \<^verbatim>\<open>gateway.rs\<close> (\<open>gw_*\<close>),
    \<^verbatim>\<open>replay.rs\<close>: the hash chain, what it protects and what not, the audit trail; the locales
    \<open>bounded_log\<close>, \<open>numbered_log\<close> and \<open>replay_refinement\<close>.
  \<^item> \<^theory_text>\<open>Core_Kernel\<close>, \<^theory_text>\<open>Core_Syscall\<close>: \<^verbatim>\<open>zos-kernel/src/core/*.rs\<close> (\<open>kc_*\<close>, \<open>handle_*\<close>). \<^theory_text>\<open>Core_Authority\<close> (no
    amplification, who ends a process), \<^theory_text>\<open>Core_Transfer\<close> (capabilities in messages are conserved),
    \<^theory_text>\<open>Core_Replay\<close> (\<^verbatim>\<open>replay.rs\<close>, \<open>rk_*\<close>: replaying the commits reconstructs the state).
  \<^item> \<^theory_text>\<open>System\<close>: \<^verbatim>\<open>zos-kernel/src/system/{mod,lifecycle,metrics}.rs\<close> (\<open>sys_*\<close>, \<open>execute_*\<close>, \<open>format_*\<close>), with
    \<^theory_text>\<open>System_Authority\<close> and \<^theory_text>\<open>System_Replay\<close> for what a history of numbered calls can do to capabilities,
    processes and logs.
  \<^item> \<^theory_text>\<open>Vfs_Path\<close>, \<^theory_text>\<open>Vfs_Types\<close>: paths, inodes, permission checks. \<^theory_text>\<open>Vfs_Service\<close>, \<^theory_text>\<open>Vfs_Handlers\<close>: the state of
    the file service and every handler. \<^theory_text>\<open>Vfs_Machine\<close>: the protocol as inductive relations (\<open>first_call\<close>,
    \<open>next_call\<close>) which the handlers implement, the rank of a chain of calls, reachable states.
    \<^theory_text>\<open>Vfs_Runs\<close>: properties of all histories of the service.
  \<^item> \<^theory_text>\<open>Process_Lib\<close>: \<^verbatim>\<open>zos-process/src/syscalls/*.rs\<close> (\<open>zp_*\<close>), over a host that answers numbered calls. \<^theory_text>\<open>Text\<close>:
    the text operations of the standard library the debug protocol uses (prefixes, splitting, decimal
    and hexadecimal numbers, slices at character boundaries).
  \<^item> \<^theory_text>\<open>Init_Process\<close>: \<^verbatim>\<open>zos-init/src\<close> (\<open>init_*\<close>): registry, routes, pending deliveries, requests of the
    supervisor; only the supervisor is obeyed, and queued deliveries are sent in order.
  \<^item> \<^theory_text>\<open>Supervisor_Hal\<close>: \<^verbatim>\<open>zos-supervisor/src/hal\<close>, workers and mailboxes, and the tables of pending requests, with
    the locale \<open>request_table\<close> interpreted for each of the three: an answer reaches the process that asked.
  \<^item> \<^theory_text>\<open>Supervisor\<close>, \<^theory_text>\<open>Supervisor_Spawn\<close>, \<^theory_text>\<open>Supervisor_Calls\<close>: \<^verbatim>\<open>zos-supervisor/src/supervisor\<close> (\<open>sv_*\<close>, \<open>handle_*\<close>):
    routing through Init, kills, results of storage, keystore and network; spawning and its timeouts,
    the ping-pong test; debug lines, calls, polling, worker events and the persistence of commits.
    \<^theory_text>\<open>Supervisor_Authority\<close> shows what a debug line of any process does, \<^theory_text>\<open>Supervisor_Polling\<close> that a poll
    completes every waiting call and when a console write panics.

  \<^bold>\<open>Conventions.\<close> \<^verbatim>\<open>u8\<close>, \<^verbatim>\<open>u32\<close>, \<^verbatim>\<open>u64\<close> are words and wrap; \<^verbatim>\<open>i32\<close> and \<^verbatim>\<open>i64\<close> are words read by \<open>sint\<close> where the
  sign matters. \<^verbatim>\<open>usize\<close> is \<open>nat\<close>, except in \<open>result_data\<close>, where the 32-bit wrap of the deployed target
  matters. A \<^verbatim>\<open>String\<close> is the list of its UTF-8 bytes as characters. \<^verbatim>\<open>Result\<close> is a sum with the error on the
  left. A method that changes its object returns the new object. The platform is the record \<open>hal\<close> of
  functions, the surroundings of the file service the record \<open>vfs_env\<close>, and the answers of the browser to
  the supervisor the record \<open>js_env\<close>; theorems quantify over all three. What the supervisor asks of the
  browser is recorded in order as a trace. A panic of the supervisor is the value \<open>None\<close>.
  No definition needs fuel: every loop is over a list of the state or of the input.

  \<^bold>\<open>Not modelled.\<close> Log output; process metrics other than those the kernel reads, and the metrics views
  of the supervisor; the JSON encoding of inodes and requests (parameters of \<open>vfs_env\<close>); the browser side
  of storage, keystore and network (answers of \<open>js_env\<close>); the desktop and its background, applications
  and services other than the file service; the QEMU platform, which is device access; cryptography,
  which is library code; the user interface.
\<close>

end
